(* ===== verification/Vault_Prelude.thy ===== *)
theory Vault_Prelude
  imports Main "HOL-Library.Word" "HOL-Library.Monad_Syntax"
begin

text \<open>
  Shared ground of the development: the integer types of the Rust source as words, the
  checked and saturating operations of Rust's standard library on them, the \<open>?\<close>
  operator on results as \<open>bnd\<close>, and the arithmetic facts about floor division that the
  component theories use.  Lemmas that move a word equation to \<open>nat\<close> are collected in
  \<open>word_nat\<close>, the inversion rules for successful results in \<open>res_inv\<close>.
\<close>

named_theorems word_nat "equations between words, read as equations between natural numbers"
named_theorems res_inv "what a successful result says about the steps that produced it"

type_synonym u8 = "8 word"
type_synonym u16 = "16 word"
type_synonym u32 = "32 word"
type_synonym u64 = "64 word"
type_synonym u128 = "128 word"
type_synonym byte = "8 word"

text \<open>A Solana public key is 32 bytes; it is read as the 256-bit word with those
  little-endian bytes, so that every value of the type is a key.\<close>

type_synonym pubkey = "256 word"

section \<open>Rust's checked and saturating arithmetic\<close>

definition checked_add :: "'a::len word \<Rightarrow> 'a word \<Rightarrow> 'a word option" where
  "checked_add a b = (if unat a + unat b < 2 ^ LENGTH('a) then Some (a + b) else None)"

definition checked_sub :: "'a::len word \<Rightarrow> 'a word \<Rightarrow> 'a word option" where
  "checked_sub a b = (if b \<le> a then Some (a - b) else None)"

definition checked_mul :: "'a::len word \<Rightarrow> 'a word \<Rightarrow> 'a word option" where
  "checked_mul a b = (if unat a * unat b < 2 ^ LENGTH('a) then Some (a * b) else None)"

definition checked_div :: "'a::len word \<Rightarrow> 'a word \<Rightarrow> 'a word option" where
  "checked_div a b = (if b = 0 then None else Some (a div b))"

definition saturating_add :: "'a::len word \<Rightarrow> 'a word \<Rightarrow> 'a word" where
  "saturating_add a b = (if unat a + unat b < 2 ^ LENGTH('a) then a + b else - 1)"

definition saturating_sub :: "'a::len word \<Rightarrow> 'a word \<Rightarrow> 'a word" where
  "saturating_sub a b = (if b \<le> a then a - b else 0)"

definition unwrap_or :: "'a option \<Rightarrow> 'a \<Rightarrow> 'a" where
  "unwrap_or x d = (case x of None \<Rightarrow> d | Some v \<Rightarrow> v)"

lemma unwrap_or_simps [simp]:
  "unwrap_or None d = d"
  "unwrap_or (Some v) d = v"
  by (simp_all add: unwrap_or_def)

section \<open>Words as natural numbers\<close>

lemma unat_bound [simp]: "unat (a :: 'a::len word) < 2 ^ LENGTH('a)"
  by (rule unsigned_less)

lemma unat_eq_iff [word_nat]: "a = b \<longleftrightarrow> unat a = unat (b :: 'a::len word)"
  by (rule word_unat_eq_iff)

lemma unat_le_iff [word_nat]: "a \<le> b \<longleftrightarrow> unat a \<le> unat (b :: 'a::len word)"
  by (rule word_le_nat_alt)

lemma unat_less_iff [word_nat]: "a < b \<longleftrightarrow> unat a < unat (b :: 'a::len word)"
  by (rule word_less_nat_alt)

lemma unat_add_exact:
  "unat a + unat b < 2 ^ LENGTH('a) \<Longrightarrow> unat (a + b) = unat a + unat (b :: 'a::len word)"
  by (simp add: unat_word_ariths)

lemma unat_mult_exact:
  "unat a * unat b < 2 ^ LENGTH('a) \<Longrightarrow> unat (a * b) = unat a * unat (b :: 'a::len word)"
  by (simp add: unat_word_ariths)

lemma unat_diff_exact:
  "b \<le> a \<Longrightarrow> unat (a - b) = unat a - unat (b :: 'a::len word)"
  by (rule unat_sub)

lemma unat_word_of_nat_exact:
  "n < 2 ^ LENGTH('a) \<Longrightarrow> unat (word_of_nat n :: 'a::len word) = n"
  by (simp add: unat_of_nat)

lemma unat_surj: "(\<exists>w :: 'a::len word. unat w = n) \<longleftrightarrow> n < 2 ^ LENGTH('a)"
  using unat_bound unat_word_of_nat_exact by metis

lemma u64_of_nat: "n < 2 ^ 64 \<Longrightarrow> \<exists>w :: u64. unat w = n"
  by (rule exI [of _ "word_of_nat n"], rule unat_word_of_nat_exact) simp

lemma checked_add_Some [word_nat]:
  "checked_add a b = Some c \<longleftrightarrow> unat c = unat a + unat (b :: 'a::len word)"
proof
  assume "checked_add a b = Some c"
  then show "unat c = unat a + unat b"
    by (auto simp: checked_add_def unat_add_exact split: if_splits)
next
  assume eq: "unat c = unat a + unat b"
  then have fits: "unat a + unat b < 2 ^ LENGTH('a)"
    using unat_bound [of c] by simp
  then have "unat (a + b) = unat c"
    by (simp add: unat_add_exact eq)
  with fits show "checked_add a b = Some c"
    by (simp add: checked_add_def word_unat_eq_iff)
qed

lemma checked_add_None [word_nat]:
  "checked_add a b = None \<longleftrightarrow> 2 ^ LENGTH('a) \<le> unat a + unat (b :: 'a::len word)"
  by (auto simp: checked_add_def)

lemma checked_sub_Some [word_nat]:
  "checked_sub a b = Some c \<longleftrightarrow> unat a = unat c + unat (b :: 'a::len word)"
proof
  assume "checked_sub a b = Some c"
  then show "unat a = unat c + unat b"
    by (auto simp: checked_sub_def unat_diff_exact unat_le_iff split: if_splits)
next
  assume eq: "unat a = unat c + unat b"
  then have le: "b \<le> a"
    by (simp add: unat_le_iff)
  then have "unat (a - b) = unat c"
    by (simp add: unat_diff_exact eq)
  with le show "checked_sub a b = Some c"
    by (simp add: checked_sub_def word_unat_eq_iff)
qed

lemma checked_sub_None [word_nat]:
  "checked_sub a b = None \<longleftrightarrow> unat a < unat (b :: 'a::len word)"
  by (auto simp: checked_sub_def unat_le_iff)

lemma checked_mul_Some [word_nat]:
  "checked_mul a b = Some c \<longleftrightarrow> unat c = unat a * unat (b :: 'a::len word)"
proof
  assume "checked_mul a b = Some c"
  then show "unat c = unat a * unat b"
    by (auto simp: checked_mul_def unat_mult_exact split: if_splits)
next
  assume eq: "unat c = unat a * unat b"
  then have fits: "unat a * unat b < 2 ^ LENGTH('a)"
    using unat_bound [of c] by simp
  then have "unat (a * b) = unat c"
    by (simp add: unat_mult_exact eq)
  with fits show "checked_mul a b = Some c"
    by (simp add: checked_mul_def word_unat_eq_iff)
qed

lemma checked_mul_None [word_nat]:
  "checked_mul a b = None \<longleftrightarrow> 2 ^ LENGTH('a) \<le> unat a * unat (b :: 'a::len word)"
  by (auto simp: checked_mul_def)

lemma checked_div_Some [word_nat]:
  "checked_div a b = Some c \<longleftrightarrow> unat b \<noteq> 0 \<and> unat c = unat a div unat (b :: 'a::len word)"
  by (auto simp: checked_div_def word_unat_eq_iff unat_div)

lemma unat_saturating_sub [simp]:
  "unat (saturating_sub a b) = unat a - unat (b :: 'a::len word)"
  by (auto simp: saturating_sub_def unat_diff_exact unat_le_iff)

lemma unat_saturating_add:
  "unat (saturating_add a b) = min (2 ^ LENGTH('a) - 1) (unat a + unat (b :: 'a::len word))"
proof (cases "unat a + unat b < 2 ^ LENGTH('a)")
  case True
  then show ?thesis
    by (simp add: saturating_add_def unat_add_exact)
next
  case False
  have "unat (- 1 :: 'a word) = 2 ^ LENGTH('a) - 1"
    by (simp add: unsigned_minus_1_eq_mask mask_eq_exp_minus_1)
  with False show ?thesis
    by (simp add: saturating_add_def)
qed

lemma unat_saturating_add_exact:
  "unat a + unat b < 2 ^ LENGTH('a) \<Longrightarrow>
    unat (saturating_add a b) = unat a + unat (b :: 'a::len word)"
  by (simp add: saturating_add_def unat_add_exact)

lemma unat_max [simp]: "unat (max a b) = max (unat a) (unat (b :: 'a::len word))"
  by (simp add: max_def unat_le_iff)

lemma unat_min [simp]: "unat (min a b) = min (unat a) (unat (b :: 'a::len word))"
  by (simp add: min_def unat_le_iff)

section \<open>Floor division\<close>

text \<open>Products of two 64-bit (or two 32-bit) numbers fit the doubled width.\<close>

lemma mult_bound: "a < 2 ^ n \<Longrightarrow> b < 2 ^ n \<Longrightarrow> a * b < (2::nat) ^ (2 * n)"
proof -
  assume "a < 2 ^ n" and "b < 2 ^ n"
  then have "a * b < 2 ^ n * 2 ^ n"
    by (intro mult_strict_mono) auto
  then show ?thesis
    by (simp add: mult_2 power_add)
qed

lemma div_le_of_le_mult: "a \<le> q * b \<Longrightarrow> b \<noteq> 0 \<Longrightarrow> a div b \<le> (q::nat)"
  by (metis div_le_mono nonzero_mult_div_cancel_right)

lemma mult_div_le_of_le: "a \<le> b \<Longrightarrow> a * c div b \<le> (c::nat)"
proof (cases "b = 0")
  case False
  assume "a \<le> b"
  then have "a * c \<le> c * b"
    by (simp add: mult.commute)
  with False show ?thesis
    by (rule div_le_of_le_mult [rotated])
qed simp

lemma div_mult_le_self: "a div b * b \<le> (a::nat)"
  using div_mult_mod_eq [of a b] by linarith

section \<open>Results\<close>

text \<open>
  A fallible step returns \<open>Inl\<close> with the fault or \<open>Inr\<close> with its value; \<open>bnd\<close> is the
  \<open>?\<close> operator, which returns the fault of its first argument to the caller.
\<close>

definition bnd :: "'e + 'a \<Rightarrow> ('a \<Rightarrow> 'e + 'b) \<Rightarrow> 'e + 'b" where
  "bnd r f = (case r of Inl e \<Rightarrow> Inl e | Inr x \<Rightarrow> f x)"

definition ok_or :: "'a option \<Rightarrow> 'e \<Rightarrow> 'e + 'a" where
  "ok_or x e = (case x of None \<Rightarrow> Inl e | Some v \<Rightarrow> Inr v)"

lemma bnd_simps [simp]:
  "bnd (Inl e) f = Inl e"
  "bnd (Inr x) f = f x"
  by (simp_all add: bnd_def)

lemma ok_or_simps [simp]:
  "ok_or None e = Inl e"
  "ok_or (Some v) e = Inr v"
  by (simp_all add: ok_or_def)

lemma bnd_Inr [res_inv]: "bnd r f = Inr y \<longleftrightarrow> (\<exists>x. r = Inr x \<and> f x = Inr y)"
  by (cases r) auto

lemma ok_or_Inr [res_inv]: "ok_or x e = Inr v \<longleftrightarrow> x = Some v"
  by (cases x) auto

lemma if_Inl_Inr [res_inv]: "(if b then Inl e else r) = Inr y \<longleftrightarrow> \<not> b \<and> r = Inr y"
  by simp

lemma bnd_cong [fundef_cong]:
  "r = r' \<Longrightarrow> (\<And>x. r' = Inr x \<Longrightarrow> f x = g x) \<Longrightarrow> bnd r f = bnd r' g"
  by (cases r') auto

end
