(* ===== verification/Share_Math.thy ===== *)
theory Share_Math
  imports Vault_Prelude
begin

text \<open>
  The contract of pro-rata share arithmetic: what \<open>calc_lp_for_deposit\<close> and
  \<open>calc_collateral_for_withdraw\<close> promise to the rest of the program, at any integer width.
  The locale derives from the contract that a deposit followed by a withdrawal makes no
  profit, that neither operation lowers anybody's share value, and that a run of withdrawals
  never pays out more than the pool holds.  It is interpreted on the production functions in
  \<open>Lp_Math\<close> (u64 over u128) and on their verification mirror in \<open>Kani_Mirror\<close> (u32 over u64).
\<close>

section \<open>Floor arithmetic of shares\<close>

lemma div_le_div_cross:
  assumes "a * q \<le> b * p" and "0 < p" and "0 < (q::nat)"
  shows "a div p \<le> b div q"
proof -
  have "a div p * p * q \<le> a * q"
    by (simp add: div_mult_le_self)
  also have "\<dots> \<le> b * p"
    by (rule assms(1))
  finally have "a div p * q * p \<le> b * p"
    by (simp add: mult.commute mult.left_commute)
  then have "a div p * q \<le> b"
    using assms(2) by simp
  then show ?thesis
    using assms(3) by (simp add: less_eq_div_iff_mult_less_eq)
qed

lemma mint_price:
  assumes "l = d * s div (v::nat)"
  shows "v * (s + l) \<le> (v + d) * s"
proof -
  have "l * v \<le> d * s"
    unfolding assms by (rule div_mult_le_self)
  then show ?thesis
    by (simp add: algebra_simps)
qed

lemma redeem_le_value:
  assumes "c = l * v div s" and "l \<le> (s::nat)"
  shows "c \<le> v"
  unfolding assms(1) by (rule mult_div_le_of_le [OF assms(2)])

lemma redeem_price:
  assumes "c = l * v div s" and "l \<le> (s::nat)"
  shows "v * (s - l) \<le> (v - c) * s"
proof -
  have "c * s \<le> l * v"
    unfolding assms(1) by (rule div_mult_le_self)
  moreover have "c \<le> v"
    using assms by (rule redeem_le_value)
  ultimately show ?thesis
    using assms(2) by (simp add: diff_mult_distrib diff_mult_distrib2 mult.commute)
qed

lemma price_share_mono:
  assumes "v * s' \<le> v' * s" and "0 < s" and "0 < (s'::nat)"
  shows "h * v div s \<le> h * v' div s'"
proof (rule div_le_div_cross [OF _ assms(2,3)])
  have "h * (v * s') \<le> h * (v' * s)"
    by (rule mult_left_mono [OF assms(1)]) simp
  then show "h * v * s' \<le> h * v' * s"
    by (simp add: mult.assoc)
qed

section \<open>Widening and narrowing casts\<close>

text \<open>
  Rust's \<open>as\<close> between unsigned integers is \<open>ucast\<close>: it keeps the value when the target
  is wide enough and truncates otherwise.  A product of two narrow numbers fits a type of
  twice the width, so the pro-rata formula, computed there and narrowed again, is the floor
  quotient whenever that fits the narrow type, and is rejected otherwise.
\<close>

lemma unat_ucast_exact [word_nat]:
  "unat w < 2 ^ LENGTH('b) \<Longrightarrow> unat (ucast (w :: 'a::len word) :: 'b::len word) = unat w"
  by (simp add: unsigned_ucast_eq take_bit_nat_eq_self unsigned_take_bit_eq)

lemma unat_widen:
  assumes "LENGTH('n) \<le> LENGTH('w)"
  shows "unat (ucast (a :: 'n::len word) :: 'w::len word) = unat a"
proof (rule unat_ucast_exact)
  have "unat a < 2 ^ LENGTH('n)"
    by simp
  also have "\<dots> \<le> 2 ^ LENGTH('w)"
    using assms by simp
  finally show "unat a < 2 ^ LENGTH('w)" .
qed

lemma unat_all_ones: "unat (- 1 :: 'n::len word) = 2 ^ LENGTH('n) - 1"
  by (simp add: unsigned_minus_1_eq_mask mask_eq_exp_minus_1)

lemma product_fits:
  assumes "2 * LENGTH('n) \<le> LENGTH('w)"
  shows "unat (a :: 'n::len word) * unat (b :: 'n word) < 2 ^ LENGTH('w::len)"
proof -
  have "unat a * unat b < 2 ^ (2 * LENGTH('n))"
    by (rule mult_bound) simp_all
  also have "\<dots> \<le> 2 ^ LENGTH('w)"
    using assms by (rule power_increasing) simp
  finally show ?thesis .
qed

lemma unat_wide_product:
  assumes "2 * LENGTH('n) \<le> LENGTH('w)"
  shows "unat ((ucast (a :: 'n::len word) :: 'w::len word) * ucast (b :: 'n word)) = unat a * unat b"
  using assms product_fits [OF assms, of a b] by (subst unat_mult_exact) (simp_all add: unat_widen)

lemma narrow_quotient:
  assumes "LENGTH('n) \<le> LENGTH('w)" and "unat (q :: 'w::len word) = m"
  shows "(if ucast (- 1 :: 'n::len word) < q then None else Some (ucast q :: 'n word))
    = (if m < 2 ^ LENGTH('n) then Some (word_of_nat m) else None)"
proof (cases "m < 2 ^ LENGTH('n)")
  case True
  then have "unat (ucast q :: 'n word) = unat (word_of_nat m :: 'n word)"
    using assms(2) by (simp add: unat_ucast_exact unat_word_of_nat_exact)
  with True assms show ?thesis
    by (simp add: unat_less_iff unat_all_ones unat_widen word_unat_eq_iff)
next
  case False
  moreover have "(0::nat) < 2 ^ LENGTH('n)"
    by simp
  ultimately have "2 ^ LENGTH('n) - 1 < m"
    by linarith
  with False assms show ?thesis
    by (simp add: unat_less_iff unat_all_ones unat_widen)
qed

lemma pro_rata:
  assumes "2 * LENGTH('n) \<le> LENGTH('w)" and "c \<noteq> (0 :: 'n::len word)"
  shows "do {
      p \<leftarrow> checked_mul (ucast (a :: 'n word) :: 'w::len word) (ucast (b :: 'n word));
      q \<leftarrow> checked_div p (ucast c);
      (if ucast (- 1 :: 'n word) < q then None else Some (ucast q :: 'n word)) }
    = (if unat a * unat b div unat c < 2 ^ LENGTH('n)
       then Some (word_of_nat (unat a * unat b div unat c)) else None)"
proof -
  let ?p = "ucast a * ucast b :: 'w word" and ?c = "ucast c :: 'w word"
  have le: "LENGTH('n) \<le> LENGTH('w)"
    using assms(1) by simp
  have p: "unat ?p = unat a * unat b"
    using assms(1) by (rule unat_wide_product)
  have mul: "checked_mul (ucast a :: 'w word) (ucast b) = Some ?p"
    using product_fits [OF assms(1), of a b] by (simp add: checked_mul_def unat_widen le)
  have dvd: "checked_div ?p ?c = Some (?p div ?c)"
    using assms(2) by (simp add: checked_div_def unat_eq_iff unat_widen le)
  have q: "unat (?p div ?c) = unat a * unat b div unat c"
    by (simp add: unat_div p unat_widen le)
  show ?thesis
    by (simp only: mul dvd Option.bind.simps narrow_quotient [OF le q])
qed

section \<open>The contract\<close>

text \<open>
  Burning a list of share amounts one after the other, each at the price the previous one
  left: the supply and the value are updated as the withdraw handler updates them.
\<close>

fun redeem_run :: "('w::len word \<Rightarrow> 'w word \<Rightarrow> 'w word \<Rightarrow> 'w word option) \<Rightarrow>
    'w word \<Rightarrow> 'w word \<Rightarrow> 'w word list \<Rightarrow> nat option" where
  "redeem_run redeem s v [] = Some 0"
| "redeem_run redeem s v (l # ls) =
     (case redeem s v l of
        None \<Rightarrow> None
      | Some c \<Rightarrow> map_option (\<lambda>t. unat c + t) (redeem_run redeem (s - l) (v - c) ls))"

locale share_math =
  fixes mint :: "'w::len word \<Rightarrow> 'w word \<Rightarrow> 'w word \<Rightarrow> 'w word option"
    and redeem :: "'w word \<Rightarrow> 'w word \<Rightarrow> 'w word \<Rightarrow> 'w word option"
  assumes mint_first: "mint 0 0 d = Some d"
    and mint_orphaned: "v \<noteq> 0 \<Longrightarrow> mint 0 v d = None"
    and mint_valueless: "s \<noteq> 0 \<Longrightarrow> mint s 0 d = None"
    and mint_pro_rata: "s \<noteq> 0 \<Longrightarrow> v \<noteq> 0 \<Longrightarrow> mint s v d =
      (if unat d * unat s div unat v < 2 ^ LENGTH('w)
       then Some (word_of_nat (unat d * unat s div unat v)) else None)"
    and redeem_empty: "redeem 0 v l = None"
    and redeem_pro_rata: "s \<noteq> 0 \<Longrightarrow> redeem s v l =
      (if unat l * unat v div unat s < 2 ^ LENGTH('w)
       then Some (word_of_nat (unat l * unat v div unat s)) else None)"
begin

lemma mint_value:
  assumes "mint s v d = Some l" and "s \<noteq> 0"
  shows "v \<noteq> 0" and "unat l = unat d * unat s div unat v"
proof -
  show "v \<noteq> 0"
    using assms mint_valueless by fastforce
  with assms show "unat l = unat d * unat s div unat v"
    by (auto simp: mint_pro_rata unat_word_of_nat_exact split: if_splits)
qed

lemma redeem_value:
  assumes "redeem s v l = Some c"
  shows "s \<noteq> 0" and "unat c = unat l * unat v div unat s"
proof -
  show "s \<noteq> 0"
    using assms redeem_empty by fastforce
  with assms show "unat c = unat l * unat v div unat s"
    by (auto simp: redeem_pro_rata unat_word_of_nat_exact split: if_splits)
qed

lemma mint_first_only:
  assumes "mint 0 v d = Some l"
  shows "v = 0" and "l = d"
  using assms mint_orphaned [of v d] mint_first [of d] by (cases "v = 0"; simp)+

lemma redeem_defined:
  assumes "s \<noteq> 0" and "l \<le> s"
  shows "\<exists>c. redeem s v l = Some c \<and> unat c = unat l * unat v div unat s \<and> c \<le> v"
proof -
  have "unat l * unat v div unat s \<le> unat v"
    using assms(2) by (intro mult_div_le_of_le) (simp add: unat_le_iff)
  moreover from this have "unat l * unat v div unat s < 2 ^ LENGTH('w)"
    using unat_bound [of v] by linarith
  ultimately show ?thesis
    using assms(1) by (simp add: redeem_pro_rata unat_le_iff unat_word_of_nat_exact)
qed

text \<open>Minting never lowers the price of a share, and neither does burning.\<close>

lemma mint_price_mono:
  assumes "mint s v d = Some l"
  shows "unat v * (unat s + unat l) \<le> (unat v + unat d) * unat s"
proof (cases "s = 0")
  case True
  with assms mint_first_only(1) have "v = 0"
    by blast
  with True show ?thesis
    by simp
next
  case False
  with assms show ?thesis
    by (intro mint_price) (rule mint_value)
qed

lemma redeem_price_mono:
  assumes "redeem s v l = Some c" and "l \<le> s"
  shows "unat v * (unat s - unat l) \<le> (unat v - unat c) * unat s"
  using redeem_value(2) [OF assms(1)] assms(2) by (intro redeem_price) (simp_all add: unat_le_iff)

lemma round_trip_no_profit:
  assumes mint: "mint s v d = Some l"
    and new_s: "unat s' = unat s + unat l" and new_v: "unat v' = unat v + unat d"
    and redeem: "redeem s' v' l = Some c"
  shows "unat c \<le> unat d"
proof -
  have c: "unat c = unat l * unat v' div unat s'" and s': "s' \<noteq> 0"
    using redeem by (rule redeem_value)+
  have "unat l * unat v' \<le> unat d * unat s'"
  proof (cases "s = 0")
    case True
    with mint have "v = 0" and "l = d"
      using mint_first_only by blast+
    with True new_s new_v show ?thesis
      by simp
  next
    case False
    have "unat l * unat v \<le> unat d * unat s"
      using mint_value(2) [OF mint False] by (simp add: div_mult_le_self)
    then show ?thesis
      by (simp add: new_s new_v algebra_simps)
  qed
  then show ?thesis
    unfolding c using s' by (intro div_le_of_le_mult) (simp_all add: unat_eq_iff)
qed

lemma mint_no_dilution:
  assumes "mint s v d = Some l" and "s \<noteq> 0"
    and "unat s' = unat s + unat l" and "unat v' = unat v + unat d"
    and "redeem s v h = Some before" and "redeem s' v' h = Some after"
  shows "before \<le> after"
proof -
  have "unat v * unat s' \<le> unat v' * unat s"
    using mint_price_mono [OF assms(1)] by (simp add: assms(3,4))
  moreover have "0 < unat s" and "0 < unat s'"
    using assms(2,3) by (auto simp: unat_eq_iff)
  ultimately have "unat h * unat v div unat s \<le> unat h * unat v' div unat s'"
    by (rule price_share_mono)
  then show ?thesis
    by (simp add: unat_le_iff redeem_value(2) [OF assms(5)] redeem_value(2) [OF assms(6)])
qed

lemma redeem_no_dilution:
  assumes "redeem s v l = Some c" and "l < s"
    and "redeem s v h = Some before" and "redeem (s - l) (v - c) h = Some after"
  shows "before \<le> after"
proof -
  have le: "l \<le> s" and c: "c \<le> v"
    using assms(1,2) redeem_le_value [OF redeem_value(2) [OF assms(1)]]
    by (simp_all add: unat_le_iff unat_less_iff)
  have "unat v * unat (s - l) \<le> unat (v - c) * unat s"
    using redeem_price_mono [OF assms(1) le] by (simp add: unat_diff_exact le c)
  moreover have "0 < unat s" and "0 < unat (s - l)"
    using assms(2) by (simp_all add: unat_diff_exact le unat_less_iff)
  ultimately have "unat h * unat v div unat s \<le> unat h * unat (v - c) div unat (s - l)"
    by (rule price_share_mono)
  then show ?thesis
    by (simp add: unat_le_iff redeem_value(2) [OF assms(3)] redeem_value(2) [OF assms(4)])
qed

lemma mint_mono:
  assumes "mint s v d = Some l" and "mint s v d' = Some l'" and "d \<le> d'"
  shows "l \<le> l'"
proof (cases "s = 0")
  case True
  with assms mint_first_only(2) show ?thesis
    by blast
next
  case False
  have "unat d * unat s \<le> unat d' * unat s"
    using assms(3) by (simp add: unat_le_iff)
  then show ?thesis
    by (simp add: unat_le_iff mint_value(2) [OF assms(1) False] mint_value(2) [OF assms(2) False]
        div_le_mono)
qed

lemma redeem_run_conserves:
  assumes "sum_list (map unat ls) \<le> unat s" and "\<forall>l \<in> set ls. l \<noteq> 0"
  shows "\<exists>t. redeem_run redeem s v ls = Some t \<and> t \<le> unat v
    \<and> (ls \<noteq> [] \<and> sum_list (map unat ls) = unat s \<longrightarrow> t = unat v)"
  using assms
proof (induction ls arbitrary: s v)
  case Nil
  then show ?case
    by simp
next
  case (Cons l ls)
  have le: "l \<le> s" and rest: "sum_list (map unat ls) \<le> unat (s - l)"
    using Cons.prems(1) by (simp_all add: unat_le_iff unat_diff_exact)
  have "s \<noteq> 0"
    using Cons.prems le by (auto simp: unat_le_iff unat_eq_iff)
  then obtain c where c: "redeem s v l = Some c" "c \<le> v"
      and exact: "unat c = unat l * unat v div unat s"
    using redeem_defined [OF _ le] by blast
  obtain t where t: "redeem_run redeem (s - l) (v - c) ls = Some t" "t \<le> unat (v - c)"
      and full: "ls \<noteq> [] \<and> sum_list (map unat ls) = unat (s - l) \<longrightarrow> t = unat (v - c)"
    using Cons.IH [OF rest, of "v - c"] Cons.prems(2) by auto
  have value_split: "unat v = unat c + unat (v - c)"
    using c(2) by (simp add: unat_diff_exact unat_le_iff)
  have "unat c + t = unat v" if all: "unat l + sum_list (map unat ls) = unat s"
  proof (cases "ls = []")
    case True
    with all \<open>s \<noteq> 0\<close> have "unat c = unat v"
      by (simp add: exact unat_eq_iff)
    with t(2) value_split show ?thesis
      by simp
  next
    case False
    have "sum_list (map unat ls) = unat (s - l)"
      using all by (simp add: unat_diff_exact le)
    with False full value_split show ?thesis
      by linarith
  qed
  then have "unat c + t \<le> unat v
      \<and> (l # ls \<noteq> [] \<and> sum_list (map unat (l # ls)) = unat s \<longrightarrow> unat c + t = unat v)"
    using t(2) value_split by auto
  moreover have "redeem_run redeem s v (l # ls) = Some (unat c + t)"
    by (simp add: c(1) t(1))
  ultimately show ?case
    by blast
qed

end

end
