(* ===== verification/Lp_Math.thy ===== *)
theory Lp_Math
  imports Share_Math
begin

text \<open>
  The pure LP arithmetic of \<^verbatim>\<open>src/src/math.rs\<close>, at the widths of the source: u64 values with
  u128 intermediates.  Each function is followed by its exact value over the natural numbers,
  which shows that no intermediate product wraps; the share functions then interpret the
  contract \<open>share_math\<close>.
\<close>

abbreviation u64_MAX :: u64 where "u64_MAX \<equiv> - 1"

lemma unat_widen_64 [simp]: "unat (ucast (a :: u64) :: u128) = unat a"
  by (rule unat_widen) simp

lemma unat_widen_16 [simp]: "unat (ucast (a :: u16) :: u128) = unat a"
  by (rule unat_widen) simp

lemma wide_product:
  "unat ((ucast (a :: u64) :: u128) * ucast (b :: u64)) = unat a * unat b"
  by (rule unat_wide_product) simp

section \<open>LP tokens for a deposit, collateral for a burn\<close>

definition calc_lp_for_deposit :: "u64 \<Rightarrow> u64 \<Rightarrow> u64 \<Rightarrow> u64 option" where
  "calc_lp_for_deposit total_lp_supply total_pool_value deposit_amount =
     (if total_lp_supply = 0 \<and> total_pool_value = 0 then Some deposit_amount
      else if total_lp_supply = 0 then None
      else if total_pool_value = 0 then None
      else do {
        p \<leftarrow> checked_mul (ucast deposit_amount :: u128) (ucast total_lp_supply);
        lp \<leftarrow> checked_div p (ucast total_pool_value);
        (if ucast u64_MAX < lp then None else Some (ucast lp))
      })"

definition calc_collateral_for_withdraw :: "u64 \<Rightarrow> u64 \<Rightarrow> u64 \<Rightarrow> u64 option" where
  "calc_collateral_for_withdraw total_lp_supply total_pool_value lp_amount =
     (if total_lp_supply = 0 then None
      else do {
        p \<leftarrow> checked_mul (ucast lp_amount :: u128) (ucast total_pool_value);
        collateral \<leftarrow> checked_div p (ucast total_lp_supply);
        (if ucast u64_MAX < collateral then None else Some (ucast collateral))
      })"

interpretation lp_math: share_math calc_lp_for_deposit calc_collateral_for_withdraw
  by unfold_locales
    (auto simp: calc_lp_for_deposit_def calc_collateral_for_withdraw_def pro_rata)

text \<open>Evaluation of the share functions on numerals.\<close>

lemma u64_max_widened: "ucast u64_MAX = (18446744073709551615 :: u128)"
  by (simp add: unat_eq_iff unat_all_ones)

lemmas share_eval = calc_lp_for_deposit_def calc_collateral_for_withdraw_def checked_mul_def
  checked_div_def u64_max_widened

section \<open>Pool value and flushable amount\<close>

definition pool_value :: "u64 \<Rightarrow> u64 \<Rightarrow> u64 option" where
  "pool_value total_deposited total_withdrawn = checked_sub total_deposited total_withdrawn"

definition pool_value_with_fees :: "u64 \<Rightarrow> u64 \<Rightarrow> u64 \<Rightarrow> u64 option" where
  "pool_value_with_fees total_deposited total_withdrawn total_fees_earned = do {
     d \<leftarrow> checked_sub total_deposited total_withdrawn;
     checked_add d total_fees_earned
   }"

definition flush_available :: "u64 \<Rightarrow> u64 \<Rightarrow> u64 \<Rightarrow> u64 \<Rightarrow> u64" where
  "flush_available total_deposited total_returned total_withdrawn total_flushed =
     saturating_sub (saturating_sub (saturating_add total_deposited total_returned)
       total_withdrawn) total_flushed"

lemma pool_value_with_fees_Some:
  "pool_value_with_fees d w f = Some v \<longleftrightarrow>
    unat w \<le> unat d \<and> unat v = unat d - unat w + unat f"
proof
  assume "pool_value_with_fees d w f = Some v"
  then show "unat w \<le> unat d \<and> unat v = unat d - unat w + unat f"
    by (auto simp: pool_value_with_fees_def bind_eq_Some_conv checked_sub_Some checked_add_Some)
next
  assume "unat w \<le> unat d \<and> unat v = unat d - unat w + unat f"
  then show "pool_value_with_fees d w f = Some v"
    by (auto simp: pool_value_with_fees_def bind_eq_Some_conv checked_sub_Some checked_add_Some
        unat_diff_exact unat_le_iff intro!: exI [of _ "d - w"])
qed

section \<open>High-water mark\<close>

definition hwm_floor :: "u64 \<Rightarrow> u16 \<Rightarrow> u64 option" where
  "hwm_floor epoch_high_water_tvl hwm_floor_bps = do {
     p \<leftarrow> checked_mul (ucast epoch_high_water_tvl :: u128) (ucast hwm_floor_bps);
     floor \<leftarrow> checked_div p 10000;
     (if ucast u64_MAX < floor then None else Some (ucast floor))
   }"

definition hwm_withdrawal_allowed :: "u64 \<Rightarrow> u64 \<Rightarrow> u16 \<Rightarrow> bool" where
  "hwm_withdrawal_allowed post_withdrawal_tvl epoch_high_water_tvl hwm_floor_bps =
     (case hwm_floor epoch_high_water_tvl hwm_floor_bps of
        Some floor \<Rightarrow> floor \<le> post_withdrawal_tvl
      | None \<Rightarrow> False)"

lemma hwm_product: "unat (t :: u64) * unat (b :: u16) < 2 ^ 128"
proof -
  have "unat t < 2 ^ 64" and "unat b < 2 ^ 64"
    using unat_bound [of t] unat_bound [of b] by (simp_all add: less_trans [of _ "2 ^ 16"])
  then show ?thesis
    using mult_bound [of "unat t" 64 "unat b"] by simp
qed

lemma hwm_floor_exact:
  "hwm_floor t b = (if unat t * unat b div 10000 < 2 ^ 64
     then Some (word_of_nat (unat t * unat b div 10000)) else None)"
proof -
  have mul: "checked_mul (ucast t :: u128) (ucast b) = Some (ucast t * ucast b)"
    and prod: "unat (ucast t * ucast b :: u128) = unat t * unat b"
    using hwm_product [of t b] by (simp_all add: checked_mul_def unat_mult_exact)
  have "unat (ucast t * ucast b div 10000 :: u128) = unat t * unat b div 10000"
    by (simp add: unat_div prod)
  then have "(if ucast u64_MAX < (ucast t * ucast b div 10000 :: u128) then None
        else Some (ucast (ucast t * ucast b div 10000 :: u128) :: u64))
      = (if unat t * unat b div 10000 < 2 ^ LENGTH(64)
         then Some (word_of_nat (unat t * unat b div 10000)) else None)"
    by (intro narrow_quotient) simp_all
  with mul show ?thesis
    by (simp add: hwm_floor_def checked_div_def)
qed

lemma hwm_withdrawal_allowed_exact:
  "hwm_withdrawal_allowed p t b \<longleftrightarrow> unat t * unat b div 10000 \<le> unat p"
  using unat_bound [of p]
  by (auto simp: hwm_withdrawal_allowed_def hwm_floor_exact unat_le_iff unat_word_of_nat_exact)

section \<open>Properties\<close>

text \<open>The LP tokens for a deposit: the amount itself into an empty pool, otherwise the deposit's
  share of the supply, rounded down; \<open>None\<close> exactly when value is orphaned, when shares are
  worthless, or when the result exceeds u64.  The u128 product never wraps.\<close>
lemma lp_for_deposit_exact:
  "calc_lp_for_deposit s v d =
     (if s = 0 then (if v = 0 then Some d else None)
      else if v = 0 then None
      else if unat d * unat s div unat v < 2 ^ 64
      then Some (word_of_nat (unat d * unat s div unat v)) else None)"
  using lp_math.mint_first lp_math.mint_orphaned lp_math.mint_valueless lp_math.mint_pro_rata
  by auto

text \<open>Burning at most the supply never fails: it pays the exact proportional part of the pool
  value, rounded down, and never more than the pool is worth.\<close>
lemma collateral_defined:
  assumes "s \<noteq> 0" and "l \<le> s"
  shows "\<exists>c. calc_collateral_for_withdraw s v l = Some c
    \<and> unat c = unat l * unat v div unat s \<and> c \<le> v"
  using assms by (rule lp_math.redeem_defined)

lemma collateral_defined_example:
  "\<exists>c. calc_collateral_for_withdraw 3 100 2 = Some c \<and> unat c = 2 * 100 div 3 \<and> c \<le> 100"
  using collateral_defined [of 3 2 100] by simp

text \<open>No profit in a round trip: redeeming at once the LP tokens of a deposit returns at most
  what was deposited.\<close>
lemma deposit_withdraw_no_profit:
  assumes "calc_lp_for_deposit s v d = Some l"
    and "unat s + unat l < 2 ^ 64" and "unat v + unat d < 2 ^ 64"
    and "calc_collateral_for_withdraw (s + l) (v + d) l = Some c"
  shows "c \<le> d"
  using lp_math.round_trip_no_profit [OF assms(1) _ _ assms(4)] assms(2,3)
  by (simp add: unat_add_exact unat_le_iff)

lemma deposit_withdraw_no_profit_example:
  "calc_lp_for_deposit 1000 3000 500 = Some 166
    \<and> calc_collateral_for_withdraw (1000 + 166) (3000 + 500) 166 = Some 498 \<and> (498 :: u64) \<le> 500"
proof -
  have a: "calc_lp_for_deposit 1000 3000 500 = Some 166"
    and b: "calc_collateral_for_withdraw (1000 + 166) (3000 + 500) 166 = Some 498"
    by (simp_all add: share_eval)
  with deposit_withdraw_no_profit [OF a _ _ b] show ?thesis
    by simp
qed

text \<open>A deposit does not dilute: what any holding \<open>h\<close> can be redeemed for does not fall when
  somebody else deposits.\<close>
lemma deposit_no_dilution:
  assumes "calc_lp_for_deposit s v d = Some l" and "s \<noteq> 0"
    and "unat s + unat l < 2 ^ 64" and "unat v + unat d < 2 ^ 64"
    and "calc_collateral_for_withdraw s v h = Some before"
    and "calc_collateral_for_withdraw (s + l) (v + d) h = Some after"
  shows "before \<le> after"
  using lp_math.mint_no_dilution [OF assms(1,2) _ _ assms(5,6)] assms(3,4)
  by (simp add: unat_add_exact)

lemma deposit_no_dilution_example:
  "calc_collateral_for_withdraw 1000 3000 7 = Some 21
    \<and> calc_collateral_for_withdraw (1000 + 166) (3000 + 500) 7 = Some 21 \<and> (21 :: u64) \<le> 21"
proof -
  have a: "calc_lp_for_deposit 1000 3000 500 = Some 166"
    and b: "calc_collateral_for_withdraw 1000 3000 7 = Some 21"
    and c: "calc_collateral_for_withdraw (1000 + 166) (3000 + 500) 7 = Some 21"
    by (simp_all add: share_eval)
  with deposit_no_dilution [OF a _ _ _ b c] show ?thesis
    by simp
qed

text \<open>A withdrawal does not dilute the holders who stay.\<close>
lemma withdraw_no_dilution:
  assumes "calc_collateral_for_withdraw s v l = Some c" and "l < s"
    and "calc_collateral_for_withdraw s v h = Some before"
    and "calc_collateral_for_withdraw (s - l) (v - c) h = Some after"
  shows "before \<le> after"
  using assms by (rule lp_math.redeem_no_dilution)

lemma withdraw_no_dilution_example:
  "calc_collateral_for_withdraw 7 100 2 = Some 28
    \<and> calc_collateral_for_withdraw (7 - 3) (100 - 42) 2 = Some 29 \<and> (28 :: u64) \<le> 29"
proof -
  have a: "calc_collateral_for_withdraw 7 100 3 = Some 42"
    and b: "calc_collateral_for_withdraw 7 100 2 = Some 28"
    and c: "calc_collateral_for_withdraw (7 - 3) (100 - 42) 2 = Some 29"
    by (simp_all add: share_eval)
  with withdraw_no_dilution [OF a _ b c] show ?thesis
    by simp
qed

text \<open>C28. Conservation over any sequence of withdrawals: as long as no more than the supply is
  burnt, every one of them goes through, together they pay at most the pool's value, and when
  the whole supply is burnt they pay exactly that value.\<close>
theorem withdrawals_conserve:
  assumes "sum_list (map unat ls) \<le> unat s" and "\<forall>l \<in> set ls. l \<noteq> 0"
  shows "\<exists>t. redeem_run calc_collateral_for_withdraw s v ls = Some t \<and> t \<le> unat v
    \<and> (ls \<noteq> [] \<and> sum_list (map unat ls) = unat s \<longrightarrow> t = unat v)"
  using assms by (rule lp_math.redeem_run_conserves)

theorem withdrawals_conserve_witness:
  "\<exists>t. redeem_run calc_collateral_for_withdraw 7 100 [3, 2, 2] = Some t \<and> t = 100"
  using withdrawals_conserve [of "[3, 2, 2]" 7 100] by simp

text \<open>The high-water mark check is the exact floor comparison: a withdrawal that leaves
  \<open>post\<close> is allowed iff \<open>post\<close> is at least the mark times the floor in basis points, rounded
  down; in particular a floor of 10000 forbids every withdrawal below the mark.\<close>
lemma hwm_allowed_iff_floor:
  "(hwm_withdrawal_allowed post mark bps \<longleftrightarrow> unat mark * unat bps div 10000 \<le> unat post)
   \<and> (hwm_withdrawal_allowed post mark 10000 \<longleftrightarrow> mark \<le> post)"
  by (simp add: hwm_withdrawal_allowed_exact unat_le_iff)

text \<open>The flushable amount saturates: it is the inflow capped at u64 less everything that has
  left, and never negative; without overflow it is the exact balance of the four counters.\<close>
lemma flush_available_exact:
  "unat (flush_available d r w f) = min (2 ^ 64 - 1) (unat d + unat r) - unat w - unat f"
  by (simp add: flush_available_def unat_saturating_add)

end
