(* ===== verification/Kani_Mirror.thy ===== *)
theory Kani_Mirror
  imports Lp_Math
begin

text \<open>
  The u32 mirror of the LP arithmetic in \<^verbatim>\<open>src/kani-proofs/src/lib.rs\<close>, on which the bounded
  model checker runs.  Its share functions interpret the same contract \<open>share_math\<close> as the
  production functions, so what the harnesses check for small values holds for all of u32; its
  pool value with flushes differs from production in the order of its steps.  Every function has a type in
  which it could panic.
\<close>

section \<open>Rust with panics\<close>

text \<open>A computation stops early when an assumption of the checker fails or by a \<open>return\<close>, and it is
  violated by a panic or a failed assertion; otherwise it has a value.\<close>

datatype kani_stop = Assumed | Returned | Violated

type_synonym 'a kani = "kani_stop + 'a"

definition kani_unwrap :: "'a option \<Rightarrow> 'a kani" where
  "kani_unwrap x = (case x of None \<Rightarrow> Inl Violated | Some v \<Rightarrow> Inr v)"

text \<open>Rust's operators on integers: overflow panics.\<close>

definition plus_u :: "'n::len word \<Rightarrow> 'n word \<Rightarrow> 'n word kani" where
  "plus_u a b = kani_unwrap (checked_add a b)"

definition minus_u :: "'n::len word \<Rightarrow> 'n word \<Rightarrow> 'n word kani" where
  "minus_u a b = kani_unwrap (checked_sub a b)"

definition times_u :: "'n::len word \<Rightarrow> 'n word \<Rightarrow> 'n word kani" where
  "times_u a b = kani_unwrap (checked_mul a b)"

definition plus_i32 :: "u32 \<Rightarrow> u32 \<Rightarrow> u32 kani" where
  "plus_i32 a b =
     (if - (2 ^ 31) \<le> sint a + sint b \<and> sint a + sint b < 2 ^ 31 then Inr (a + b)
      else Inl Violated)"

section \<open>The mirror\<close>

text \<open>The functions are written in that type, since what the checker asks of them first is that no call
  panics.  They use \<open>checked_\<close> and \<open>saturating_\<close> methods, widening casts and a cast after a bound
  check, none of which can panic; the operators above would.  The block of \<open>?\<close> steps of a function is
  an option inside.\<close>

definition mirror_calc_lp_for_deposit :: "u32 \<Rightarrow> u32 \<Rightarrow> u32 \<Rightarrow> u32 option kani" where
  "mirror_calc_lp_for_deposit supply value deposit =
     (if supply = 0 \<and> value = 0 then Inr (Some deposit)
      else if supply = 0 \<or> value = 0 then Inr None
      else Inr (do {
        p \<leftarrow> checked_mul (ucast deposit :: u64) (ucast supply);
        lp \<leftarrow> checked_div p (ucast value);
        (if ucast (- 1 :: u32) < lp then None else Some (ucast lp))
      }))"

definition mirror_calc_collateral_for_withdraw :: "u32 \<Rightarrow> u32 \<Rightarrow> u32 \<Rightarrow> u32 option kani" where
  "mirror_calc_collateral_for_withdraw supply value lp =
     (if supply = 0 then Inr None
      else Inr (do {
        p \<leftarrow> checked_mul (ucast lp :: u64) (ucast value);
        col \<leftarrow> checked_div p (ucast supply);
        (if ucast (- 1 :: u32) < col then None else Some (ucast col))
      }))"

definition mirror_pool_value :: "u32 \<Rightarrow> u32 \<Rightarrow> u32 option kani" where
  "mirror_pool_value deposited withdrawn = Inr (checked_sub deposited withdrawn)"

definition mirror_pool_value_with_flush :: "u32 \<Rightarrow> u32 \<Rightarrow> u32 \<Rightarrow> u32 \<Rightarrow> u32 option kani" where
  "mirror_pool_value_with_flush deposited withdrawn flushed returned = Inr (do {
     a \<leftarrow> checked_sub deposited withdrawn;
     b \<leftarrow> checked_sub a flushed;
     checked_add b returned
   })"

definition mirror_flush_available :: "u32 \<Rightarrow> u32 \<Rightarrow> u32 \<Rightarrow> u32 kani" where
  "mirror_flush_available deposited withdrawn flushed =
     bnd (Inr (saturating_sub deposited withdrawn)) (\<lambda>held. Inr (saturating_sub held flushed))"

definition mirror_cooldown_elapsed :: "u32 \<Rightarrow> u32 \<Rightarrow> u32 \<Rightarrow> bool kani" where
  "mirror_cooldown_elapsed current_slot deposit_slot cooldown_slots =
     bnd (Inr (saturating_add deposit_slot cooldown_slots)) (\<lambda>deadline. Inr (deadline \<le> current_slot))"

definition mirror_exceeds_cap :: "u32 \<Rightarrow> u32 \<Rightarrow> u32 \<Rightarrow> bool kani" where
  "mirror_exceeds_cap total_deposited new_deposit cap =
     (if cap = 0 then Inr False
      else bnd (Inr (checked_add total_deposited new_deposit)) (\<lambda>sum.
        case sum of
          Some new_total \<Rightarrow> Inr (cap < new_total)
        | None \<Rightarrow> Inr True))"

section \<open>No call panics\<close>

text \<open>The value a call returns, and that it returns one.\<close>

definition mirror_lp :: "u32 \<Rightarrow> u32 \<Rightarrow> u32 \<Rightarrow> u32 option" where
  "mirror_lp s v d = projr (mirror_calc_lp_for_deposit s v d)"

definition mirror_collateral :: "u32 \<Rightarrow> u32 \<Rightarrow> u32 \<Rightarrow> u32 option" where
  "mirror_collateral s v l = projr (mirror_calc_collateral_for_withdraw s v l)"

definition mirror_value :: "u32 \<Rightarrow> u32 \<Rightarrow> u32 option" where
  "mirror_value d w = projr (mirror_pool_value d w)"

definition mirror_flush_value :: "u32 \<Rightarrow> u32 \<Rightarrow> u32 \<Rightarrow> u32 \<Rightarrow> u32 option" where
  "mirror_flush_value d w f r = projr (mirror_pool_value_with_flush d w f r)"

definition mirror_flushable :: "u32 \<Rightarrow> u32 \<Rightarrow> u32 \<Rightarrow> u32" where
  "mirror_flushable d w f = projr (mirror_flush_available d w f)"

definition mirror_elapsed :: "u32 \<Rightarrow> u32 \<Rightarrow> u32 \<Rightarrow> bool" where
  "mirror_elapsed c d s = projr (mirror_cooldown_elapsed c d s)"

definition mirror_over_cap :: "u32 \<Rightarrow> u32 \<Rightarrow> u32 \<Rightarrow> bool" where
  "mirror_over_cap t d cap = projr (mirror_exceeds_cap t d cap)"

lemmas value_defs = mirror_lp_def mirror_calc_lp_for_deposit_def mirror_collateral_def
  mirror_calc_collateral_for_withdraw_def mirror_value_def mirror_pool_value_def mirror_flush_value_def
  mirror_pool_value_with_flush_def mirror_flushable_def mirror_flush_available_def mirror_elapsed_def
  mirror_cooldown_elapsed_def

lemma mirror_returns:
  "mirror_calc_lp_for_deposit s v d = Inr (mirror_lp s v d)"
  "mirror_calc_collateral_for_withdraw s v l = Inr (mirror_collateral s v l)"
  "mirror_pool_value a b = Inr (mirror_value a b)"
  "mirror_pool_value_with_flush a b f r = Inr (mirror_flush_value a b f r)"
  "mirror_flush_available a b f = Inr (mirror_flushable a b f)"
  "mirror_cooldown_elapsed c e n = Inr (mirror_elapsed c e n)"
  "mirror_exceeds_cap t x cap = Inr (mirror_over_cap t x cap)"
  by (simp_all add: value_defs mirror_over_cap_def mirror_exceeds_cap_def split: option.split)

lemma mirror_flush_value_eq:
  "mirror_flush_value d w f r = do { a \<leftarrow> checked_sub d w; b \<leftarrow> checked_sub a f; checked_add b r }"
  by (simp add: value_defs)

interpretation mirror: share_math mirror_lp mirror_collateral
  by unfold_locales
    (auto simp: value_defs pro_rata)

lemma mirror_flush_value_Some:
  "mirror_flush_value d w f r = Some v \<longleftrightarrow>
    unat w + unat f \<le> unat d \<and> unat v = unat d - (unat w + unat f) + unat r"
proof
  assume "mirror_flush_value d w f r = Some v"
  then show "unat w + unat f \<le> unat d \<and> unat v = unat d - (unat w + unat f) + unat r"
    by (auto simp: mirror_flush_value_eq bind_eq_Some_conv checked_sub_Some checked_add_Some)
next
  assume val: "unat w + unat f \<le> unat d \<and> unat v = unat d - (unat w + unat f) + unat r"
  then have "w \<le> d" and "f \<le> d - w"
    by (auto simp: unat_le_iff unat_diff_exact)
  moreover from this have "checked_add (d - w - f) r = Some v"
    using val by (simp add: checked_add_Some unat_diff_exact)
  ultimately show "mirror_flush_value d w f r = Some v"
    by (simp add: mirror_flush_value_eq checked_sub_def)
qed

section \<open>Properties\<close>

text \<open>Widening a u32 to the production width.\<close>

lemma unat_widen_32 [simp]: "unat (ucast (a :: u32) :: u64) = unat a"
  by (rule unat_widen) simp

lemma widen_zero [simp]: "(ucast (a :: u32) :: u64) = 0 \<longleftrightarrow> a = 0"
  by (simp add: unat_eq_iff)

lemma mirror_lp_widens:
  "mirror_lp s v d = Some l \<longleftrightarrow> calc_lp_for_deposit (ucast s) (ucast v) (ucast d) = Some (ucast l)"
proof (cases "s = 0")
  case True
  have "l = d" if "ucast l = (ucast d :: u64)"
    using arg_cong [OF that, of unat] by (simp add: unat_eq_iff)
  with True show ?thesis
    using mirror.mint_first [of d] mirror.mint_first_only [of v d l] lp_math.mint_first [of "ucast d"]
      lp_math.mint_first_only [of "ucast v" "ucast d" "ucast l"] by auto
next
  case False
  show ?thesis
  proof
    assume m: "mirror_lp s v d = Some l"
    then have "v \<noteq> 0" and "unat l = unat d * unat s div unat v"
      using mirror.mint_value [OF m False] by simp_all
    moreover from this have "unat d * unat s div unat v < 2 ^ 64"
      using unat_bound [of l] by simp
    ultimately show "calc_lp_for_deposit (ucast s) (ucast v) (ucast d) = Some (ucast l)"
      using False by (simp add: lp_math.mint_pro_rata unat_eq_iff unat_word_of_nat_exact)
  next
    assume p: "calc_lp_for_deposit (ucast s) (ucast v) (ucast d) = Some (ucast l)"
    then have "v \<noteq> 0" and "unat l = unat d * unat s div unat v"
      using lp_math.mint_value [OF p] False by simp_all
    moreover from this have "unat d * unat s div unat v < 2 ^ 32"
      using unat_bound [of l] by simp
    ultimately show "mirror_lp s v d = Some l"
      using False by (simp add: mirror.mint_pro_rata unat_eq_iff unat_word_of_nat_exact)
  qed
qed

lemma mirror_collateral_widens:
  "mirror_collateral s v d = Some l \<longleftrightarrow> calc_collateral_for_withdraw (ucast s) (ucast v) (ucast d) = Some (ucast l)"
proof
  assume m: "mirror_collateral s v d = Some l"
  then have "s \<noteq> 0" and "unat l = unat d * unat v div unat s"
    using mirror.redeem_value [OF m] by simp_all
  moreover from this have "unat d * unat v div unat s < 2 ^ 64"
    using unat_bound [of l] by simp
  ultimately show "calc_collateral_for_withdraw (ucast s) (ucast v) (ucast d) = Some (ucast l)"
    by (simp add: lp_math.redeem_pro_rata unat_eq_iff unat_word_of_nat_exact)
next
  assume p: "calc_collateral_for_withdraw (ucast s) (ucast v) (ucast d) = Some (ucast l)"
  then have "s \<noteq> 0" and "unat l = unat d * unat v div unat s"
    using lp_math.redeem_value [OF p] by simp_all
  moreover from this have "unat d * unat v div unat s < 2 ^ 32"
    using unat_bound [of l] by simp
  ultimately show "mirror_collateral s v d = Some l"
    by (simp add: mirror.redeem_pro_rata unat_eq_iff unat_word_of_nat_exact)
qed

text \<open>C40. The mirror the model checker runs on is production at half the width: on u32 inputs a call of the mirror never
  panics, and both share functions, the pool value and the flushable amount (of a pool to which nothing has been
  returned) give a result exactly when production gives its widening; a production result beyond u32 is the only
  other thing that makes the mirror refuse.\<close>
theorem mirror_agrees:
  "(mirror_calc_lp_for_deposit s v d = Inr (Some l) \<longleftrightarrow>
      calc_lp_for_deposit (ucast s) (ucast v) (ucast d) = Some (ucast l))
   \<and> (mirror_calc_collateral_for_withdraw s v d = Inr (Some l) \<longleftrightarrow>
      calc_collateral_for_withdraw (ucast s) (ucast v) (ucast d) = Some (ucast l))
   \<and> (mirror_pool_value d w = Inr (Some l) \<longleftrightarrow> pool_value (ucast d) (ucast w) = Some (ucast l))
   \<and> (mirror_flush_available d w f = Inr l \<longleftrightarrow> flush_available (ucast d) 0 (ucast w) (ucast f) = ucast l)
   \<and> \<not> isl (mirror_calc_lp_for_deposit s v d) \<and> \<not> isl (mirror_calc_collateral_for_withdraw s v d)
   \<and> \<not> isl (mirror_pool_value d w) \<and> \<not> isl (mirror_flush_available d w f)"
proof -
  have "pool_value (ucast d) (ucast w) = Some (ucast l) \<longleftrightarrow> mirror_value d w = Some l"
    by (simp add: value_defs pool_value_def checked_sub_Some)
  moreover have "flush_available (ucast d) 0 (ucast w) (ucast f) = ucast l \<longleftrightarrow> mirror_flushable d w f = l"
    using unat_bound [of d] by (simp add: value_defs flush_available_def saturating_add_def unat_eq_iff)
  ultimately show ?thesis
    unfolding mirror_returns sum.inject mirror_lp_widens mirror_collateral_widens by simp
qed

text \<open>The mirror's pool value is stricter than production: it needs the deposits alone to cover
  withdrawals and flushes, so it refuses states in which returned insurance makes the pool
  whole; where it answers, the answer is deposits less outflows plus returns.\<close>
lemma mirror_value_stricter:
  "mirror_flush_value d w f r = Some v \<longleftrightarrow>
    unat w + unat f \<le> unat d \<and> unat v = unat d - (unat w + unat f) + unat r"
  by (rule mirror_flush_value_Some)

end
