(* ===== verification/Kani_Harness.thy ===== *)
theory Kani_Harness
  imports Kani_Mirror
begin

text \<open>
  The 43 proof harnesses of \<^verbatim>\<open>src/kani-proofs/src/lib.rs\<close>.  A harness is a function of its
  \<open>kani::any()\<close> values.  It ends early when an assumption fails or by \<open>return\<close>, it is violated
  by a failing assertion, an \<open>unwrap\<close> of \<open>None\<close>, an overflowing operator or a panic inside the mirror (the checker treats
  a panic as a violation), and otherwise it reaches its end.  The bounded model checker runs the
  harnesses up to its solver's limits; here each is shown to hold for every input, from the
  contract \<open>share_math\<close> of the mirror.
\<close>

named_theorems kani_wp "when a harness that starts with a given step is not violated"

definition verified :: "'a kani \<Rightarrow> bool" where
  "verified h \<longleftrightarrow> h \<noteq> Inl Violated"

definition kani_assume :: "bool \<Rightarrow> unit kani" where
  "kani_assume b = (if b then Inr () else Inl Assumed)"

definition kani_assert :: "bool \<Rightarrow> unit kani" where
  "kani_assert b = (if b then Inr () else Inl Violated)"

text \<open>\<open>match x { Some(v) => v, None => return }\<close>, and the variant with the guard \<open>v > 0\<close>.\<close>

definition or_return :: "'a option \<Rightarrow> 'a kani" where
  "or_return x = (case x of None \<Rightarrow> Inl Returned | Some v \<Rightarrow> Inr v)"

definition positive_or_return :: "'n::len word option \<Rightarrow> 'n word kani" where
  "positive_or_return x =
     (case x of None \<Rightarrow> Inl Returned | Some v \<Rightarrow> if 0 < v then Inr v else Inl Returned)"

declare mirror_returns [kani_wp]

lemma verified_Inr [simp, kani_wp]: "verified (Inr x)"
  by (simp add: verified_def)

lemma verified_assume [kani_wp]: "verified (bnd (kani_assume b) f) \<longleftrightarrow> (b \<longrightarrow> verified (f ()))"
  by (simp add: verified_def kani_assume_def)

lemma verified_assert [kani_wp]:
  "verified (bnd (kani_assert b) f) \<longleftrightarrow> b \<and> verified (f ())"
  "verified (kani_assert b) \<longleftrightarrow> b"
  by (simp_all add: verified_def kani_assert_def)

lemma verified_unwrap [kani_wp]:
  "verified (bnd (kani_unwrap x) f) \<longleftrightarrow> x \<noteq> None \<and> (\<forall>v. x = Some v \<longrightarrow> verified (f v))"
  by (cases x) (simp_all add: verified_def kani_unwrap_def)

lemma verified_or_return [kani_wp]:
  "verified (bnd (or_return x) f) \<longleftrightarrow> (\<forall>v. x = Some v \<longrightarrow> verified (f v))"
  by (cases x) (simp_all add: verified_def or_return_def)

lemma verified_positive [kani_wp]:
  "verified (bnd (positive_or_return x) f) \<longleftrightarrow> (\<forall>v. x = Some v \<longrightarrow> 0 < unat v \<longrightarrow> verified (f v))"
  by (cases x) (simp_all add: verified_def positive_or_return_def unat_less_iff)

lemma verified_plus [kani_wp]:
  "verified (bnd (plus_u a (b :: 'n::len word)) f) \<longleftrightarrow> unat a + unat b < 2 ^ LENGTH('n)
    \<and> (\<forall>c. unat c = unat a + unat b \<longrightarrow> verified (f c))"
  by (auto simp: plus_u_def verified_unwrap checked_add_Some checked_add_None)

lemma verified_minus [kani_wp]:
  "verified (bnd (minus_u a (b :: 'n::len word)) f) \<longleftrightarrow> unat b \<le> unat a
    \<and> (\<forall>c. unat c = unat a - unat b \<longrightarrow> verified (f c))"
  by (auto simp: minus_u_def verified_unwrap checked_sub_Some checked_sub_None)

lemma verified_times [kani_wp]:
  "verified (bnd (times_u a (b :: 'n::len word)) f) \<longleftrightarrow> unat a * unat b < 2 ^ LENGTH('n)
    \<and> (\<forall>c. unat c = unat a * unat b \<longrightarrow> verified (f c))"
  by (auto simp: times_u_def verified_unwrap checked_mul_Some checked_mul_None)

lemma verified_case [kani_wp]:
  "verified (case x of None \<Rightarrow> h | Some v \<Rightarrow> f v) \<longleftrightarrow>
    (x = None \<longrightarrow> verified h) \<and> (\<forall>v. x = Some v \<longrightarrow> verified (f v))"
  by (cases x) simp_all

lemma verified_if [kani_wp]:
  "verified (if b then h else h') \<longleftrightarrow> (b \<longrightarrow> verified h) \<and> (\<not> b \<longrightarrow> verified h')"
  "verified (bnd (if b then m else m') f) \<longleftrightarrow>
    (b \<longrightarrow> verified (bnd m f)) \<and> (\<not> b \<longrightarrow> verified (bnd m' f))"
  by simp_all

lemma verified_bnd_bnd [kani_wp]: "verified (bnd (bnd m f) g) \<longleftrightarrow> verified (bnd m (\<lambda>x. bnd (f x) g))"
  by (cases m) simp_all

section \<open>Conservation\<close>

definition proof_deposit_withdraw_no_inflation :: "u32 \<Rightarrow> u32 \<Rightarrow> u32 \<Rightarrow> unit kani" where
  "proof_deposit_withdraw_no_inflation supply pv deposit =
     bnd (kani_assume (0 < deposit \<and> deposit < 20)) (\<lambda>_.
     bnd (kani_assume (0 < supply \<and> supply < 20)) (\<lambda>_.
     bnd (kani_assume (0 < pv \<and> pv < 20)) (\<lambda>_.
     bnd (bnd (mirror_calc_lp_for_deposit supply pv deposit) positive_or_return) (\<lambda>lp.
     bnd (plus_u supply lp) (\<lambda>ns.
     bnd (plus_u pv deposit) (\<lambda>np.
     bnd (bnd (mirror_calc_collateral_for_withdraw ns np lp) or_return) (\<lambda>back.
     kani_assert (back \<le> deposit))))))))"

definition proof_first_depositor_exact :: "u32 \<Rightarrow> unit kani" where
  "proof_first_depositor_exact amount =
     bnd (kani_assume (0 < amount \<and> amount < 100)) (\<lambda>_.
     bnd (bnd (mirror_calc_lp_for_deposit 0 0 amount) kani_unwrap) (\<lambda>lp.
     bnd (kani_assert (lp = amount)) (\<lambda>_.
     bnd (bnd (mirror_calc_collateral_for_withdraw lp amount lp) kani_unwrap) (\<lambda>back.
     kani_assert (back = amount)))))"

definition proof_two_depositors_conservation :: "u32 \<Rightarrow> u32 \<Rightarrow> u32 \<Rightarrow> unit kani" where
  "proof_two_depositors_conservation a b appreciation =
     bnd (kani_assume (0 < a \<and> a < 20)) (\<lambda>_.
     bnd (kani_assume (0 < b \<and> b < 20)) (\<lambda>_.
     bnd (kani_assume (appreciation < 20)) (\<lambda>_.
     bnd (bnd (mirror_calc_lp_for_deposit 0 0 a) kani_unwrap) (\<lambda>a_lp.
     bnd (plus_u a appreciation) (\<lambda>pv_after_appreciation.
     bnd (bnd (mirror_calc_lp_for_deposit a_lp pv_after_appreciation b) positive_or_return) (\<lambda>b_lp.
     bnd (plus_u a_lp b_lp) (\<lambda>s2.
     bnd (plus_u pv_after_appreciation b) (\<lambda>pv2.
     bnd (bnd (mirror_calc_collateral_for_withdraw s2 pv2 a_lp) or_return) (\<lambda>a_back.
     bnd (minus_u s2 a_lp) (\<lambda>s3.
     bnd (minus_u pv2 a_back) (\<lambda>pv3.
     bnd (bnd (mirror_calc_collateral_for_withdraw s3 pv3 b_lp) or_return) (\<lambda>b_back.
     bnd (plus_u (ucast a_back :: u64) (ucast b_back)) (\<lambda>total_out.
     bnd (plus_u (ucast a :: u64) (ucast b)) (\<lambda>ab.
     bnd (plus_u ab (ucast appreciation)) (\<lambda>total_in.
     kani_assert (total_out \<le> total_in))))))))))))))))"

definition proof_no_dilution :: "u32 \<Rightarrow> u32 \<Rightarrow> u32 \<Rightarrow> u32 \<Rightarrow> unit kani" where
  "proof_no_dilution init_s init_pv a_dep b_dep =
     bnd (kani_assume (0 < init_s \<and> init_s < 15)) (\<lambda>_.
     bnd (kani_assume (0 < init_pv \<and> init_pv < 15)) (\<lambda>_.
     bnd (kani_assume (0 < a_dep \<and> a_dep < 15)) (\<lambda>_.
     bnd (kani_assume (0 < b_dep \<and> b_dep < 15)) (\<lambda>_.
     bnd (bnd (mirror_calc_lp_for_deposit init_s init_pv a_dep) positive_or_return) (\<lambda>a_lp.
     bnd (plus_u init_s a_lp) (\<lambda>s_after_a.
     bnd (plus_u init_pv a_dep) (\<lambda>pv_after_a.
     bnd (bnd (mirror_calc_collateral_for_withdraw s_after_a pv_after_a a_lp) or_return) (\<lambda>a_value_before.
     bnd (bnd (mirror_calc_lp_for_deposit s_after_a pv_after_a b_dep) positive_or_return) (\<lambda>b_lp.
     bnd (plus_u s_after_a b_lp) (\<lambda>s_after_b.
     bnd (plus_u pv_after_a b_dep) (\<lambda>pv_after_b.
     bnd (bnd (mirror_calc_collateral_for_withdraw s_after_b pv_after_b a_lp) or_return) (\<lambda>a_value_after.
     kani_assert (a_value_before \<le> a_value_after)))))))))))))"

definition proof_flush_full_return_conservation :: "u32 \<Rightarrow> u32 \<Rightarrow> u32 \<Rightarrow> unit kani" where
  "proof_flush_full_return_conservation dep wd flush =
     bnd (kani_assume (dep < 100 \<and> wd < 100 \<and> flush < 100)) (\<lambda>_.
     bnd (kani_assume (wd \<le> dep)) (\<lambda>_.
     bnd (minus_u dep wd) (\<lambda>room.
     bnd (kani_assume (flush \<le> room)) (\<lambda>_.
     bnd (bnd (mirror_pool_value dep wd) kani_unwrap) (\<lambda>pv_original.
     bnd (bnd (mirror_pool_value_with_flush dep wd flush 0) kani_unwrap) (\<lambda>pv_after_flush.
     bnd (minus_u pv_original flush) (\<lambda>expected.
     bnd (kani_assert (pv_after_flush = expected)) (\<lambda>_.
     bnd (bnd (mirror_pool_value_with_flush dep wd flush flush) kani_unwrap) (\<lambda>pv_after_return.
     kani_assert (pv_after_return = pv_original))))))))))"

section \<open>Arithmetic safety\<close>

definition proof_lp_deposit_no_panic :: "u32 \<Rightarrow> u32 \<Rightarrow> u32 \<Rightarrow> unit kani" where
  "proof_lp_deposit_no_panic s pv dep =
     bnd (kani_assume (s \<le> 0xFFFF)) (\<lambda>_.
     bnd (kani_assume (pv \<le> 0xFFFF)) (\<lambda>_.
     bnd (kani_assume (dep \<le> 0xFFFF)) (\<lambda>_.
     bnd (mirror_calc_lp_for_deposit s pv dep) (\<lambda>_. Inr ()))))"

definition proof_lp_deposit_overflow_guard :: "u32 \<Rightarrow> u32 \<Rightarrow> u32 \<Rightarrow> unit kani" where
  "proof_lp_deposit_overflow_guard supply pv deposit =
     bnd (kani_assume (supply \<le> 0xFF)) (\<lambda>_.
     bnd (kani_assume (pv \<le> 0xFF)) (\<lambda>_.
     bnd (kani_assume (deposit \<le> 0xFF)) (\<lambda>_.
     (bnd (mirror_calc_lp_for_deposit supply pv deposit) (\<lambda>res. case res of
        None \<Rightarrow> Inr ()
      | Some lp \<Rightarrow>
          bnd (kani_assert (lp \<le> - 1)) (\<lambda>_.
          if 0 < pv then
            bnd (times_u (ucast lp :: u64) (ucast pv)) (\<lambda>lhs.
            bnd (times_u (ucast deposit :: u64) (ucast supply)) (\<lambda>rhs.
            kani_assert (lhs \<le> rhs)))
          else Inr ()))))))"

definition proof_overflow_guard_fires_concrete :: "unit kani" where
  "proof_overflow_guard_fires_concrete =
     bnd (bnd (mirror_calc_lp_for_deposit 70000 1 70000) (\<lambda>res. kani_assert (res = None))) (\<lambda>_.
     bnd (bnd (mirror_calc_lp_for_deposit 2 1 100000) (\<lambda>res. kani_assert (res = Some 200000))) (\<lambda>_.
     bnd (bnd (mirror_calc_lp_for_deposit 1 1 1) (\<lambda>res. kani_assert (res = Some 1))) (\<lambda>_.
     bnd (mirror_calc_collateral_for_withdraw 1 70000 70000) (\<lambda>res. kani_assert (res = None)))))"

definition proof_collateral_withdraw_no_panic :: "u32 \<Rightarrow> u32 \<Rightarrow> u32 \<Rightarrow> unit kani" where
  "proof_collateral_withdraw_no_panic s pv lp =
     bnd (kani_assume (s \<le> 0xFFFF)) (\<lambda>_.
     bnd (kani_assume (pv \<le> 0xFFFF)) (\<lambda>_.
     bnd (kani_assume (lp \<le> 0xFFFF)) (\<lambda>_.
     bnd (mirror_calc_collateral_for_withdraw s pv lp) (\<lambda>_. Inr ()))))"

definition proof_pool_value_no_panic :: "u32 \<Rightarrow> u32 \<Rightarrow> unit kani" where
  "proof_pool_value_no_panic d w = bnd (mirror_pool_value d w) (\<lambda>_. Inr ())"

definition proof_flush_available_no_panic :: "u32 \<Rightarrow> u32 \<Rightarrow> u32 \<Rightarrow> unit kani" where
  "proof_flush_available_no_panic d w f = bnd (mirror_flush_available d w f) (\<lambda>_. Inr ())"

section \<open>Fairness\<close>

definition proof_lp_rounding_favors_pool :: "u32 \<Rightarrow> u32 \<Rightarrow> u32 \<Rightarrow> unit kani" where
  "proof_lp_rounding_favors_pool s pv dep =
     bnd (kani_assume (0 < s \<and> s < 100)) (\<lambda>_.
     bnd (kani_assume (0 < pv \<and> pv < 100)) (\<lambda>_.
     bnd (kani_assume (0 < dep \<and> dep < 100)) (\<lambda>_.
     (bnd (mirror_calc_lp_for_deposit s pv dep) (\<lambda>res. case res of
        None \<Rightarrow> Inr ()
      | Some lp \<Rightarrow>
          bnd (times_u (ucast lp :: u64) (ucast pv)) (\<lambda>lhs.
          bnd (times_u (ucast dep :: u64) (ucast s)) (\<lambda>rhs.
          kani_assert (lhs \<le> rhs))))))))"

definition proof_larger_deposit_more_lp :: "u32 \<Rightarrow> u32 \<Rightarrow> u32 \<Rightarrow> u32 \<Rightarrow> unit kani" where
  "proof_larger_deposit_more_lp s pv sm lg =
     bnd (kani_assume (0 < s \<and> s < 100)) (\<lambda>_.
     bnd (kani_assume (0 < pv \<and> pv < 100)) (\<lambda>_.
     bnd (kani_assume (0 < sm \<and> sm < 50)) (\<lambda>_.
     bnd (kani_assume (sm < lg \<and> lg < 100)) (\<lambda>_.
     (bnd (mirror_calc_lp_for_deposit s pv sm) (\<lambda>res. case res of
        None \<Rightarrow> Inr ()
      | Some ls \<Rightarrow>
          (bnd (mirror_calc_lp_for_deposit s pv lg) (\<lambda>res. case res of
             None \<Rightarrow> Inr ()
           | Some ll \<Rightarrow> kani_assert (ls \<le> ll)))))))))"

definition proof_larger_burn_more_collateral :: "u32 \<Rightarrow> u32 \<Rightarrow> u32 \<Rightarrow> u32 \<Rightarrow> unit kani" where
  "proof_larger_burn_more_collateral s pv sm lg =
     bnd (kani_assume (0 < s \<and> s < 100)) (\<lambda>_.
     bnd (kani_assume (0 < pv \<and> pv < 100)) (\<lambda>_.
     bnd (kani_assume (0 < sm \<and> sm < 50)) (\<lambda>_.
     bnd (kani_assume (sm < lg \<and> lg \<le> s)) (\<lambda>_.
     (bnd (mirror_calc_collateral_for_withdraw s pv sm) (\<lambda>res. case res of
        None \<Rightarrow> Inr ()
      | Some cs \<Rightarrow>
          (bnd (mirror_calc_collateral_for_withdraw s pv lg) (\<lambda>res. case res of
             None \<Rightarrow> Inr ()
           | Some cl \<Rightarrow> kani_assert (cs \<le> cl)))))))))"

definition proof_equal_deposits_equal_lp :: "u32 \<Rightarrow> unit kani" where
  "proof_equal_deposits_equal_lp amount =
     bnd (kani_assume (0 < amount \<and> amount < 50)) (\<lambda>_.
     bnd (bnd (mirror_calc_lp_for_deposit 0 0 amount) or_return) (\<lambda>lp1.
     bnd (kani_assert (lp1 = amount)) (\<lambda>_.
     bnd (bnd (mirror_calc_lp_for_deposit lp1 amount amount) or_return) (\<lambda>lp2.
     kani_assert (lp2 = lp1)))))"

section \<open>Withdrawal bounds\<close>

definition proof_full_burn_bounded :: "u32 \<Rightarrow> u32 \<Rightarrow> unit kani" where
  "proof_full_burn_bounded s pv =
     bnd (kani_assume (0 < s \<and> s < 100)) (\<lambda>_.
     bnd (kani_assume (pv < 100)) (\<lambda>_.
     (bnd (mirror_calc_collateral_for_withdraw s pv s) (\<lambda>res. case res of
        None \<Rightarrow> Inr ()
      | Some col \<Rightarrow> kani_assert (col \<le> pv)))))"

definition proof_partial_less_than_full :: "u32 \<Rightarrow> u32 \<Rightarrow> u32 \<Rightarrow> unit kani" where
  "proof_partial_less_than_full s pv p =
     bnd (kani_assume (1 < s \<and> s < 100)) (\<lambda>_.
     bnd (kani_assume (0 < pv \<and> pv < 100)) (\<lambda>_.
     bnd (kani_assume (0 < p \<and> p < s)) (\<lambda>_.
     (bnd (mirror_calc_collateral_for_withdraw s pv s) (\<lambda>res. case res of
        None \<Rightarrow> Inr ()
      | Some f \<Rightarrow>
          (bnd (mirror_calc_collateral_for_withdraw s pv p) (\<lambda>res. case res of
             None \<Rightarrow> Inr ()
           | Some pp \<Rightarrow> kani_assert (pp \<le> f))))))))"

section \<open>Flush bounds\<close>

definition proof_flush_preserves_value :: "u32 \<Rightarrow> u32 \<Rightarrow> u32 \<Rightarrow> u32 \<Rightarrow> u32 \<Rightarrow> unit kani" where
  "proof_flush_preserves_value dep wd flushed returned flush_amount =
     bnd (kani_assume (dep < 100 \<and> wd < 100 \<and> flushed < 100 \<and> returned < 100 \<and> flush_amount < 100)) (\<lambda>_.
     bnd (kani_assume (wd \<le> dep)) (\<lambda>_.
     bnd (minus_u dep wd) (\<lambda>held.
     bnd (kani_assume (flushed \<le> held)) (\<lambda>_.
     bnd (kani_assume (returned \<le> flushed)) (\<lambda>_.
     bnd (minus_u held flushed) (\<lambda>available.
     bnd (kani_assume (flush_amount \<le> available)) (\<lambda>_.
     bnd (bnd (mirror_pool_value_with_flush dep wd flushed returned) or_return) (\<lambda>pv_before.
     bnd (plus_u flushed flush_amount) (\<lambda>flushed_after.
     bnd (bnd (mirror_pool_value_with_flush dep wd flushed_after returned) or_return) (\<lambda>pv_after.
     bnd (minus_u pv_before flush_amount) (\<lambda>expected.
     kani_assert (expected = pv_after))))))))))))"

definition proof_flush_bounded :: "u32 \<Rightarrow> u32 \<Rightarrow> u32 \<Rightarrow> unit kani" where
  "proof_flush_bounded d w f =
     bnd (kani_assume (d < 100 \<and> w < 100 \<and> f < 100)) (\<lambda>_.
     bnd (mirror_flush_available d w f) (\<lambda>res. kani_assert (res \<le> d)))"

definition proof_flush_max_then_zero :: "u32 \<Rightarrow> u32 \<Rightarrow> u32 \<Rightarrow> unit kani" where
  "proof_flush_max_then_zero d w f =
     bnd (kani_assume (d < 100 \<and> w < 100 \<and> f < 100)) (\<lambda>_.
     bnd (kani_assume (w \<le> d)) (\<lambda>_.
     bnd (kani_assume (f \<le> saturating_sub d w)) (\<lambda>_.
     bnd (bnd (mirror_flush_available d w f) (plus_u f)) (\<lambda>all_flushed.
     bnd (mirror_flush_available d w all_flushed) (\<lambda>res. kani_assert (res = 0))))))"

section \<open>Pool value\<close>

definition proof_pool_value_correctness :: "u32 \<Rightarrow> u32 \<Rightarrow> unit kani" where
  "proof_pool_value_correctness d w =
     bnd (kani_assume (d < 100 \<and> w < 100)) (\<lambda>_.
     if d < w then bnd (mirror_pool_value d w) (\<lambda>res. kani_assert (res = None))
     else bnd (minus_u d w) (\<lambda>v. bnd (mirror_pool_value d w) (\<lambda>res. kani_assert (res = Some v))))"

definition proof_deposit_increases_value :: "u32 \<Rightarrow> u32 \<Rightarrow> u32 \<Rightarrow> unit kani" where
  "proof_deposit_increases_value d w extra =
     bnd (kani_assume (d < 100 \<and> w < 100 \<and> extra < 100)) (\<lambda>_.
     bnd (kani_assume (w \<le> d \<and> 0 < extra)) (\<lambda>_.
     bnd (bnd (mirror_pool_value d w) kani_unwrap) (\<lambda>old.
     (case checked_add d extra of
        None \<Rightarrow> Inr ()
      | Some new_d \<Rightarrow>
          bnd (bnd (mirror_pool_value new_d w) kani_unwrap) (\<lambda>new.
          kani_assert (old < new))))))"

definition proof_flush_return_conservation :: "u32 \<Rightarrow> u32 \<Rightarrow> u32 \<Rightarrow> u32 \<Rightarrow> unit kani" where
  "proof_flush_return_conservation d w f r =
     bnd (kani_assume (d < 100 \<and> w < 100 \<and> f < 100 \<and> r < 100)) (\<lambda>_.
     bnd (kani_assume (w \<le> d)) (\<lambda>_.
     bnd (minus_u d w) (\<lambda>held.
     bnd (kani_assume (f \<le> held)) (\<lambda>_.
     bnd (kani_assume (r \<le> f)) (\<lambda>_.
     (bnd (mirror_pool_value_with_flush d w f r) (\<lambda>res. case res of
        None \<Rightarrow> Inr ()
      | Some pv \<Rightarrow>
          bnd (kani_assert (pv \<le> held)) (\<lambda>_.
          bnd (if r = f then kani_assert (pv = held) else Inr ()) (\<lambda>_.
          if r < f then kani_assert (pv < held) else Inr ())))))))))"

definition proof_returns_increase_value :: "u32 \<Rightarrow> u32 \<Rightarrow> u32 \<Rightarrow> u32 \<Rightarrow> unit kani" where
  "proof_returns_increase_value d w f r =
     bnd (kani_assume (d < 50 \<and> w < 50 \<and> f < 50 \<and> r < 50)) (\<lambda>_.
     bnd (if w \<le> d then bnd (minus_u d w) (\<lambda>held. kani_assume (f \<le> held \<and> r < f))
          else kani_assume False) (\<lambda>_.
     bnd (plus_u r 1) (\<lambda>r1.
     (bnd (mirror_pool_value_with_flush d w f r) (\<lambda>res. case res of
        None \<Rightarrow> Inr ()
      | Some b \<Rightarrow>
          (bnd (mirror_pool_value_with_flush d w f r1) (\<lambda>res. case res of
             None \<Rightarrow> Inr ()
           | Some a \<Rightarrow> kani_assert (b < a))))))))"

section \<open>Zero inputs, cooldown and cap\<close>

definition proof_zero_deposit_zero_lp :: "u32 \<Rightarrow> u32 \<Rightarrow> unit kani" where
  "proof_zero_deposit_zero_lp s pv =
     bnd (kani_assume (s < 100 \<and> pv < 100)) (\<lambda>_.
     (bnd (mirror_calc_lp_for_deposit s pv 0) (\<lambda>res. case res of
        Some lp \<Rightarrow> kani_assert (lp = 0)
      | None \<Rightarrow> Inr ())))"

definition proof_zero_burn_zero_col :: "u32 \<Rightarrow> u32 \<Rightarrow> unit kani" where
  "proof_zero_burn_zero_col s pv =
     bnd (kani_assume (s < 100 \<and> pv < 100)) (\<lambda>_.
     (bnd (mirror_calc_collateral_for_withdraw s pv 0) (\<lambda>res. case res of
        Some col \<Rightarrow> kani_assert (col = 0)
      | None \<Rightarrow> Inr ())))"

definition proof_cooldown_no_panic :: "u32 \<Rightarrow> u32 \<Rightarrow> u32 \<Rightarrow> unit kani" where
  "proof_cooldown_no_panic c d s = bnd (mirror_cooldown_elapsed c d s) (\<lambda>_. Inr ())"

definition proof_cooldown_not_immediate :: "u32 \<Rightarrow> u32 \<Rightarrow> unit kani" where
  "proof_cooldown_not_immediate slot cd =
     bnd (kani_assume (0 < cd \<and> cd < 100)) (\<lambda>_.
     bnd (minus_u (- 1) 100) (\<lambda>lim.
     bnd (kani_assume (slot < lim)) (\<lambda>_.
     bnd (mirror_cooldown_elapsed slot slot cd) (\<lambda>res. kani_assert (\<not> res)))))"

definition proof_cooldown_exact_boundary :: "u32 \<Rightarrow> u32 \<Rightarrow> unit kani" where
  "proof_cooldown_exact_boundary dep_slot cd =
     bnd (kani_assume (cd < 100)) (\<lambda>_.
     bnd (minus_u (- 1) 100) (\<lambda>lim.
     bnd (kani_assume (dep_slot < lim)) (\<lambda>_.
     bnd (mirror_cooldown_elapsed (saturating_add dep_slot cd) dep_slot cd) (\<lambda>res. kani_assert res))))"

definition proof_cap_zero_uncapped :: "u32 \<Rightarrow> u32 \<Rightarrow> unit kani" where
  "proof_cap_zero_uncapped total_now dep = bnd (mirror_exceeds_cap total_now dep 0) (\<lambda>res. kani_assert (\<not> res))"

definition proof_cap_at_boundary :: "u32 \<Rightarrow> u32 \<Rightarrow> unit kani" where
  "proof_cap_at_boundary cap existing =
     bnd (kani_assume (0 < cap \<and> cap < 100)) (\<lambda>_.
     bnd (kani_assume (existing \<le> cap)) (\<lambda>_.
     bnd (minus_u cap existing) (\<lambda>dep.
     bnd (mirror_exceeds_cap existing dep cap) (\<lambda>res. kani_assert (\<not> res)))))"

definition proof_cap_above_boundary :: "u32 \<Rightarrow> u32 \<Rightarrow> unit kani" where
  "proof_cap_above_boundary cap existing =
     bnd (kani_assume (0 < cap \<and> cap < 100)) (\<lambda>_.
     bnd (kani_assume (existing < cap)) (\<lambda>_.
     bnd (minus_u cap existing) (\<lambda>room.
     bnd (plus_u room 1) (\<lambda>dep.
     bnd (mirror_exceeds_cap existing dep cap) (\<lambda>res. kani_assert res)))))"

section \<open>Orphaned value\<close>

definition proof_c9_orphaned_value_blocked :: "u32 \<Rightarrow> u32 \<Rightarrow> unit kani" where
  "proof_c9_orphaned_value_blocked pv dep =
     bnd (kani_assume (0 < pv \<and> pv < 100)) (\<lambda>_.
     bnd (kani_assume (0 < dep \<and> dep < 100)) (\<lambda>_.
     bnd (mirror_calc_lp_for_deposit 0 pv dep) (\<lambda>res. kani_assert (res = None))))"

definition proof_c9_valueless_lp_blocked :: "u32 \<Rightarrow> u32 \<Rightarrow> unit kani" where
  "proof_c9_valueless_lp_blocked supply dep =
     bnd (kani_assume (0 < supply \<and> supply < 100)) (\<lambda>_.
     bnd (kani_assume (0 < dep \<and> dep < 100)) (\<lambda>_.
     bnd (mirror_calc_lp_for_deposit supply 0 dep) (\<lambda>res. kani_assert (res = None))))"

definition proof_c9_true_first_depositor :: "u32 \<Rightarrow> unit kani" where
  "proof_c9_true_first_depositor dep =
     bnd (kani_assume (0 < dep \<and> dep < 100)) (\<lambda>_.
     bnd (mirror_calc_lp_for_deposit 0 0 dep) (\<lambda>res. kani_assert (res = Some dep)))"

section \<open>Flush mechanics and defence in depth\<close>

definition proof_flush_reduces_value_exactly :: "u32 \<Rightarrow> u32 \<Rightarrow> u32 \<Rightarrow> unit kani" where
  "proof_flush_reduces_value_exactly dep wd flush =
     bnd (kani_assume (dep < 100 \<and> wd < 100 \<and> flush < 100)) (\<lambda>_.
     bnd (kani_assume (wd \<le> dep)) (\<lambda>_.
     bnd (minus_u dep wd) (\<lambda>held.
     bnd (kani_assume (flush \<le> held)) (\<lambda>_.
     bnd (bnd (mirror_pool_value dep wd) kani_unwrap) (\<lambda>before.
     bnd (bnd (mirror_pool_value_with_flush dep wd flush 0) kani_unwrap) (\<lambda>after.
     bnd (minus_u before after) (\<lambda>lost.
     kani_assert (lost = flush))))))))"

definition proof_determinism_across_states :: "u32 \<Rightarrow> unit kani" where
  "proof_determinism_across_states amount =
     bnd (kani_assume (0 < amount \<and> amount < 50)) (\<lambda>_.
     bnd (bnd (mirror_calc_lp_for_deposit 0 0 amount) kani_unwrap) (\<lambda>lp1.
     bnd (bnd (mirror_calc_lp_for_deposit amount amount amount) kani_unwrap) (\<lambda>lp2.
     kani_assert (lp1 = lp2))))"

definition proof_pool_value_with_flush_no_panic :: "u32 \<Rightarrow> u32 \<Rightarrow> u32 \<Rightarrow> u32 \<Rightarrow> unit kani" where
  "proof_pool_value_with_flush_no_panic d w f r = bnd (mirror_pool_value_with_flush d w f r) (\<lambda>_. Inr ())"

definition proof_exceeds_cap_no_panic :: "u32 \<Rightarrow> u32 \<Rightarrow> u32 \<Rightarrow> unit kani" where
  "proof_exceeds_cap_no_panic t d c = bnd (mirror_exceeds_cap t d c) (\<lambda>_. Inr ())"

text \<open>The one harness with signed arithmetic: \<open>as i32\<close> and \<open>as u32\<close> keep the bits.\<close>

definition proof_roundtrip_under_pool_value_change ::
    "u32 \<Rightarrow> u32 \<Rightarrow> u32 \<Rightarrow> u32 \<Rightarrow> unit kani" where
  "proof_roundtrip_under_pool_value_change supply pv deposit pv_delta =
     bnd (kani_assume (0 < supply \<and> supply < 15)) (\<lambda>_.
     bnd (kani_assume (0 < pv \<and> pv < 15)) (\<lambda>_.
     bnd (kani_assume (0 < deposit \<and> deposit < 15)) (\<lambda>_.
     bnd (kani_assume (- 10 < sint pv_delta \<and> sint pv_delta < 10)) (\<lambda>_.
     bnd (bnd (mirror_calc_lp_for_deposit supply pv deposit) positive_or_return) (\<lambda>lp.
     bnd (plus_u supply lp) (\<lambda>new_supply.
     bnd (plus_i32 pv deposit) (\<lambda>grown.
     bnd (plus_i32 grown pv_delta) (\<lambda>new_pv.
     bnd (kani_assume (0 < sint new_pv)) (\<lambda>_.
     bnd (bnd (mirror_calc_collateral_for_withdraw new_supply new_pv lp) or_return) (\<lambda>back.
     if sint pv_delta \<le> 0 then kani_assert (back \<le> deposit) else Inr ()))))))))))"

definition proof_no_inflation_attack :: "u32 \<Rightarrow> u32 \<Rightarrow> u32 \<Rightarrow> unit kani" where
  "proof_no_inflation_attack attacker_deposit victim_deposit donation =
     bnd (kani_assume (0 < attacker_deposit \<and> attacker_deposit < 20)) (\<lambda>_.
     bnd (kani_assume (0 < victim_deposit \<and> victim_deposit < 20)) (\<lambda>_.
     bnd (kani_assume (donation < 20)) (\<lambda>_.
     bnd (bnd (mirror_calc_lp_for_deposit 0 0 attacker_deposit) kani_unwrap) (\<lambda>attacker_lp.
     bnd (plus_u attacker_deposit donation) (\<lambda>inflated_pv.
     (bnd (mirror_calc_lp_for_deposit attacker_lp inflated_pv victim_deposit) (\<lambda>res. case res of
        None \<Rightarrow> Inr ()
      | Some vlp \<Rightarrow>
          if 0 < vlp then
            bnd (plus_u attacker_lp vlp) (\<lambda>total_supply.
            bnd (plus_u inflated_pv victim_deposit) (\<lambda>total_pv.
            (bnd (mirror_calc_collateral_for_withdraw total_supply total_pv vlp) (\<lambda>res. case res of
               None \<Rightarrow> Inr ()
             | Some vb \<Rightarrow> kani_assert (0 < vb \<or> victim_deposit = 0)))))
          else Inr ())))))))"

definition proof_cooldown_boundary_iff :: "u32 \<Rightarrow> u32 \<Rightarrow> u32 \<Rightarrow> unit kani" where
  "proof_cooldown_boundary_iff deposit_slot cooldown check_slot =
     bnd (kani_assume (0 < cooldown \<and> cooldown < 1000)) (\<lambda>_.
     bnd (minus_u (- 1) 1000) (\<lambda>lim.
     bnd (kani_assume (deposit_slot < lim)) (\<lambda>_.
     bnd (plus_u deposit_slot cooldown) (\<lambda>deadline.
     if deadline \<le> check_slot
     then bnd (mirror_cooldown_elapsed check_slot deposit_slot cooldown) (\<lambda>res. kani_assert res)
     else bnd (mirror_cooldown_elapsed check_slot deposit_slot cooldown) (\<lambda>res. kani_assert (\<not> res))))))"

definition proof_flush_conservation_lp_value :: "u32 \<Rightarrow> u32 \<Rightarrow> u32 \<Rightarrow> u32 \<Rightarrow> unit kani" where
  "proof_flush_conservation_lp_value supply dep wd flush =
     bnd (kani_assume (0 < supply \<and> supply < 20)) (\<lambda>_.
     bnd (kani_assume (0 < dep \<and> dep < 20)) (\<lambda>_.
     bnd (kani_assume (wd < dep)) (\<lambda>_.
     bnd (minus_u dep wd) (\<lambda>held.
     bnd (kani_assume (0 < flush \<and> flush < held)) (\<lambda>_.
     bnd (bnd (mirror_pool_value_with_flush dep wd 0 0) kani_unwrap) (\<lambda>pv_before.
     bnd (bnd (mirror_pool_value_with_flush dep wd flush 0) kani_unwrap) (\<lambda>pv_after.
     (bnd (mirror_calc_collateral_for_withdraw supply pv_before supply) (\<lambda>res. case res of
        None \<Rightarrow> Inr ()
      | Some before \<Rightarrow>
          (bnd (mirror_calc_collateral_for_withdraw supply pv_after supply) (\<lambda>res. case res of
             None \<Rightarrow> Inr ()
           | Some after \<Rightarrow>
               bnd (minus_u before after) (\<lambda>lost. kani_assert (lost = flush)))))))))))))"

section \<open>The harnesses hold\<close>

text \<open>What the mirror's functions return, in the form the harnesses ask about.\<close>

lemma mirror_mint_nat:
  "mirror_lp s v d = Some l \<Longrightarrow> 0 < unat s \<Longrightarrow>
    0 < unat v \<and> unat l = unat d * unat s div unat v"
  using mirror.mint_value [of s v d l] by (auto simp: unat_eq_iff)

lemma mirror_redeem_nat:
  "mirror_collateral s v l = Some c \<Longrightarrow>
    0 < unat s \<and> unat c = unat l * unat v div unat s"
  using mirror.redeem_value [of s v l c] by (auto simp: unat_eq_iff)

lemma mirror_values [simp]:
  "mirror_value d w = Some v \<longleftrightarrow> unat d = unat v + unat w"
  "mirror_value d w = None \<longleftrightarrow> unat d < unat w"
  "unat (mirror_flushable d w f) = unat d - unat w - unat f"
  "mirror_elapsed c d s \<longleftrightarrow> min 4294967295 (unat d + unat s) \<le> unat c"
  "mirror_over_cap t d cap \<longleftrightarrow> unat cap \<noteq> 0 \<and> unat cap < unat t + unat d"
proof -
  show "mirror_over_cap t d cap \<longleftrightarrow> unat cap \<noteq> 0 \<and> unat cap < unat t + unat d"
    using unat_bound [of cap]
    by (auto simp: mirror_over_cap_def mirror_exceeds_cap_def word_nat split: option.splits)
qed (simp_all add: value_defs
    checked_sub_Some checked_sub_None unat_le_iff unat_saturating_add)

lemma mirror_flush_value_None [simp]:
  "mirror_flush_value d w f r = None \<longleftrightarrow>
    unat d < unat w + unat f \<or> 4294967296 \<le> unat d - (unat w + unat f) + unat r"
proof -
  have "mirror_flush_value d w f r = None \<longleftrightarrow>
      \<not> (\<exists>v. mirror_flush_value d w f r = Some v)"
    by simp
  also have "\<dots> \<longleftrightarrow> \<not> (unat w + unat f \<le> unat d
      \<and> (\<exists>v :: u32. unat v = unat d - (unat w + unat f) + unat r))"
    by (simp only: mirror_flush_value_Some) blast
  finally show ?thesis
    by (auto simp: unat_surj)
qed

lemma mul_div_bound: "a \<le> m \<Longrightarrow> b \<le> n \<Longrightarrow> a * b div c \<le> m * (n :: nat)"
  by (meson div_le_dividend le_trans mult_le_mono)

lemmas harness_simps = kani_wp unat_less_iff unat_le_iff unat_eq_iff
  mirror_flush_value_Some checked_add_Some unat_all_ones

lemma pool_value_harnesses:
  "verified (proof_flush_full_return_conservation a b c)"
  "verified (proof_pool_value_no_panic a b)"
  "verified (proof_flush_available_no_panic a b c)"
  "verified (proof_flush_preserves_value a b c d e)"
  "verified (proof_flush_bounded a b c)"
  "verified (proof_flush_max_then_zero a b c)"
  "verified (proof_pool_value_correctness a b)"
  "verified (proof_deposit_increases_value a b c)"
  "verified (proof_flush_return_conservation a b c d)"
  "verified (proof_flush_reduces_value_exactly a b c)"
  "verified (proof_pool_value_with_flush_no_panic a b c d)"
  unfolding proof_flush_full_return_conservation_def proof_pool_value_no_panic_def
    proof_flush_available_no_panic_def proof_flush_preserves_value_def proof_flush_bounded_def
    proof_flush_max_then_zero_def proof_pool_value_correctness_def proof_deposit_increases_value_def
    proof_flush_return_conservation_def proof_flush_reduces_value_exactly_def
    proof_pool_value_with_flush_no_panic_def
  by (simp_all add: harness_simps) auto

lemma returns_increase_harness: "verified (proof_returns_increase_value a b c d)"
  unfolding proof_returns_increase_value_def
  by (simp add: harness_simps)

lemma cooldown_cap_harnesses:
  "verified (proof_cooldown_no_panic a b c)"
  "verified (proof_cooldown_not_immediate a b)"
  "verified (proof_cooldown_exact_boundary a b)"
  "verified (proof_cooldown_boundary_iff a b c)"
  "verified (proof_cap_zero_uncapped a b)"
  "verified (proof_cap_at_boundary a b)"
  "verified (proof_cap_above_boundary a b)"
  "verified (proof_exceeds_cap_no_panic a b c)"
  unfolding proof_cooldown_no_panic_def proof_cooldown_not_immediate_def
    proof_cooldown_exact_boundary_def proof_cooldown_boundary_iff_def proof_cap_zero_uncapped_def
    proof_cap_at_boundary_def proof_cap_above_boundary_def proof_exceeds_cap_no_panic_def
  by (simp_all add: harness_simps unat_saturating_add) auto

lemma boundary_harnesses:
  "verified (proof_lp_deposit_no_panic a b c)"
  "verified (proof_collateral_withdraw_no_panic a b c)"
  "verified (proof_c9_orphaned_value_blocked a b)"
  "verified (proof_c9_valueless_lp_blocked a b)"
  "verified (proof_c9_true_first_depositor a)"
  "verified (proof_zero_deposit_zero_lp a b)"
  "verified (proof_zero_burn_zero_col a b)"
proof -
  show "verified (proof_zero_deposit_zero_lp a b)"
    using mirror.mint_value [of a b 0] mirror.mint_first_only [of b 0]
    by (cases "a = 0") (auto simp: proof_zero_deposit_zero_lp_def kani_wp unat_eq_0)
  show "verified (proof_zero_burn_zero_col a b)"
    using mirror_redeem_nat [of a b 0]
    by (auto simp: proof_zero_burn_zero_col_def harness_simps)
qed (auto simp: proof_lp_deposit_no_panic_def proof_collateral_withdraw_no_panic_def
    proof_c9_orphaned_value_blocked_def proof_c9_valueless_lp_blocked_def
    proof_c9_true_first_depositor_def kani_wp mirror.mint_orphaned
    mirror.mint_valueless mirror.mint_first)

lemma share_harnesses:
  "verified (proof_first_depositor_exact a)"
  "verified (proof_equal_deposits_equal_lp a)"
  "verified (proof_determinism_across_states a)"
  "verified (proof_full_burn_bounded a b)"
  "verified (proof_partial_less_than_full a b c)"
  "verified (proof_larger_deposit_more_lp a b c d)"
  "verified (proof_larger_burn_more_collateral a b c d)"
proof -
  have full: "mirror_lp a a a = Some a"
    "mirror_collateral a a a = Some a" if "a \<noteq> 0"
    using that unat_bound [of a] by (simp_all add: mirror.mint_pro_rata mirror.redeem_pro_rata unat_eq_iff)
  show "verified (proof_first_depositor_exact a)" "verified (proof_equal_deposits_equal_lp a)"
    "verified (proof_determinism_across_states a)"
    by (auto simp: proof_first_depositor_exact_def proof_equal_deposits_equal_lp_def
        proof_determinism_across_states_def kani_wp mirror.mint_first full)
  show "verified (proof_full_burn_bounded a b)"
    using mirror.redeem_defined [of a a b]
    by (auto simp: proof_full_burn_bounded_def kani_wp)
  show "verified (proof_partial_less_than_full a b c)"
    by (auto simp: proof_partial_less_than_full_def harness_simps dest!: mirror_redeem_nat
        intro!: mult_div_le_of_le)
  show "verified (proof_larger_deposit_more_lp a b c d)"
    using mirror.mint_mono [of a b c _ d]
    by (auto simp: proof_larger_deposit_more_lp_def kani_wp)
  show "verified (proof_larger_burn_more_collateral a b c d)"
    by (auto simp: proof_larger_burn_more_collateral_def harness_simps dest!: mirror_redeem_nat
        intro!: div_le_mono)
qed

lemma rounding_harnesses:
  "verified (proof_lp_rounding_favors_pool a b c)"
  "verified (proof_lp_deposit_overflow_guard a b c)"
  "verified proof_overflow_guard_fires_concrete"
proof -
  have wide: "unat d * unat s < 2 ^ 64" for d s :: u32
    using product_fits [where 'n = 32 and 'w = 64, of d s] by simp
  have rounds: "unat l * unat v \<le> unat d * unat s"
    if "mirror_lp s v d = Some l" "v \<noteq> 0" for s v d l
  proof -
    have "s \<noteq> 0"
      using that mirror.mint_orphaned [of v d] by auto
    then show ?thesis
      using mirror.mint_value(2) [OF that(1)] by (simp add: div_mult_le_self)
  qed
  show "verified (proof_lp_rounding_favors_pool a b c)" "verified (proof_lp_deposit_overflow_guard a b c)"
    using rounds [of a b c] wide
    by (simp_all add: proof_lp_rounding_favors_pool_def proof_lp_deposit_overflow_guard_def kani_wp
        word_le_nat_alt [of "_ :: u64"]) auto
  show "verified proof_overflow_guard_fires_concrete"
    by (simp add: proof_overflow_guard_fires_concrete_def kani_wp mirror.mint_pro_rata
        mirror.redeem_pro_rata)
qed

lemma no_inflation_harness: "verified (proof_deposit_withdraw_no_inflation a b c)"
proof -
  have "unat a + unat l < 4294967296"
    if "mirror_lp a b c = Some l" "a < 20" "c < 20" "0 < a" for l
    using mirror_mint_nat [OF that(1)] that(2-4) mul_div_bound [of "unat c" 19 "unat a" 19 "unat b"]
    by (simp add: unat_less_iff)
  moreover have "paid \<le> c" if "mirror_lp a b c = Some l"
    "unat s = unat a + unat l" "unat v = unat b + unat c"
    "mirror_collateral s v l = Some paid" for l s v paid
    using mirror.round_trip_no_profit [OF that] by (simp add: unat_le_iff)
  ultimately show ?thesis
    by (auto simp: proof_deposit_withdraw_no_inflation_def kani_wp unat_less_iff)
qed

text \<open>The products in the bounded harnesses stay far below the width.\<close>

lemma mirror_mint_small:
  assumes "mirror_lp s v d = Some l" and "0 < unat s" and "unat s \<le> m" and "unat d \<le> n"
  shows "unat l \<le> n * m"
  using mirror_mint_nat [OF assms(1,2)] mul_div_bound [OF assms(4,3)] by simp

lemma mirror_redeem_le:
  assumes "mirror_collateral s v l = Some c" and "unat l \<le> unat s"
  shows "unat c \<le> unat v"
  using mirror_redeem_nat [OF assms(1)] mult_div_le_of_le [OF assms(2)] by simp

lemma two_depositors_harness: "verified (proof_two_depositors_conservation a b c)"
  unfolding proof_two_depositors_conservation_def
proof (clarsimp simp: kani_wp mirror.mint_first unat_less_iff unat_le_iff, intro conjI allI impI, goal_cases)
  case (1 v l)
  then show ?case
    using mirror_mint_small [of a v b l 19 19] by simp
next
  case (2 v l s w x s3)
  then show ?case
    using mirror_redeem_le [of s w a x] by simp
next
  case (3 v l s w x s3 w3 y)
  then show ?case
    using unat_bound [of x] unat_bound [of y] by simp
next
  case (4 v l s w x s3 w3 y)
  then show ?case
    using mirror_redeem_le [of s w a x] mirror_redeem_le [of s3 w3 l y] by simp
qed

lemma no_dilution_harness: "verified (proof_no_dilution a b c d)"
  unfolding proof_no_dilution_def
proof (clarsimp simp: kani_wp mirror.mint_first unat_less_iff, intro conjI allI impI, goal_cases)
  case (1 l)
  then show ?case
    using mirror_mint_small [of a b c l 14 14] by simp
next
  case (2 l s v x m)
  then have "unat l \<le> 14 * 14"
    using mirror_mint_small [of a b c l 14 14] by simp
  with 2 show ?case
    using mirror_mint_small [of s v d m 210 14] by simp
next
  case (3 l s v x m s' v' y)
  then show ?case
    by (intro mirror.mint_no_dilution [of s v d m s' v' l x y]) auto
qed

lemma inflation_attack_harness: "verified (proof_no_inflation_attack a b c)"
  unfolding proof_no_inflation_attack_def
proof (clarsimp simp: kani_wp mirror.mint_first unat_less_iff, intro conjI allI impI, goal_cases)
  case (1 v l)
  then show ?case
    using mirror_mint_small [of a v b l 19 19] by simp
next
  case (2 v l s w x)
  then have "unat a \<le> unat v" "1 \<le> unat l" "1 \<le> unat b"
    by auto
  then have "unat a \<le> unat l * unat v" "unat l \<le> unat l * unat b"
    using mult_le_mono [of 1 "unat l" "unat a" "unat v"] by simp_all
  moreover have "unat l * unat w = unat l * unat v + unat l * unat b"
    using 2 by (simp add: distrib_left)
  ultimately have "unat s \<le> unat l * unat w"
    using 2 by linarith
  with 2 show ?case
    using mirror_redeem_nat [of s w l x] by (simp add: div_greater_zero_iff)
qed

lemma flush_claim_harness: "verified (proof_flush_conservation_lp_value a b c d)"
  unfolding proof_flush_conservation_lp_value_def
  by (clarsimp simp: harness_simps) (auto dest!: mirror_redeem_nat)

text \<open>Signed arithmetic, as long as it stays within 32 bits.\<close>

lemma uint_less_unat: "unat (a :: u32) < n \<Longrightarrow> uint a < int n"
  using of_nat_less_iff [of "unat a" n, where 'a = int] by simp

lemma sint_small: "unat (a :: u32) < 2 ^ 31 \<Longrightarrow> sint a = uint a"
proof -
  assume "unat a < 2 ^ 31"
  then have "uint a < 2 ^ 31" and "- (2 ^ 31) \<le> uint a"
    using uint_less_unat [of a "2 ^ 31"] uint_ge_0 [of a] order_trans [of "- (2 ^ 31)" 0 "uint a"]
    by simp_all
  then show ?thesis
    by (simp add: sint_uint signed_take_bit_int_eq_self_iff)
qed

lemma uint_of_sint: "0 \<le> sint (a :: u32) \<Longrightarrow> uint a = sint a"
  using sint_lt [of a] by (simp add: uint_sint take_bit_int_eq_self_iff)

lemma verified_plus_i32 [kani_wp]:
  "verified (bnd (plus_i32 a b) f) \<longleftrightarrow> - (2 ^ 31) \<le> sint a + sint b \<and> sint a + sint b < 2 ^ 31
    \<and> (\<forall>c. sint c = sint a + sint b \<longrightarrow> verified (f c))"
proof (cases "- (2 ^ 31) \<le> sint a + sint b \<and> sint a + sint b < 2 ^ 31")
  case True
  then have "sint (a + b) = sint a + sint b"
    by (simp add: sint_word_ariths signed_take_bit_int_eq_self_iff)
  then have "sint c = sint a + sint b \<longleftrightarrow> c = a + b" for c
    by (metis signed_word_eqI)
  with True show ?thesis
    by (simp add: plus_i32_def)
qed (auto simp: plus_i32_def verified_def)

text \<open>What was minted cannot be redeemed for more than was paid if the value has not grown.\<close>

lemma mirror_no_profit_after_loss:
  assumes "mirror_lp a b c = Some l" and "0 < unat a"
    and "unat s = unat a + unat l" and "unat v \<le> unat b + unat c"
    and "mirror_collateral s v l = Some x"
  shows "x \<le> c"
proof -
  have "unat l * unat b \<le> unat c * unat a"
    using mirror_mint_nat [OF assms(1,2)] by (simp add: div_mult_le_self)
  moreover have "unat l * unat v \<le> unat l * (unat b + unat c)"
    using assms(4) by simp
  ultimately have "unat l * unat v \<le> unat c * unat s"
    unfolding assms(3) by (simp add: algebra_simps)
  then show ?thesis
    using mirror_redeem_nat [OF assms(5)] div_le_of_le_mult by (simp add: unat_le_iff)
qed

lemma value_change_harness: "verified (proof_roundtrip_under_pool_value_change a b c d)"
  unfolding proof_roundtrip_under_pool_value_change_def
proof (clarsimp simp: kani_wp unat_less_iff sint_small)
  fix l
  assume small: "unat a < 15" "unat b < 15" "unat c < 15" "0 < unat a" "- 10 < sint d" "sint d < 10"
    and mint: "mirror_lp a b c = Some l"
  have "uint b < 15" "uint c < 15"
    using uint_less_unat [OF small(2)] uint_less_unat [OF small(3)] by simp_all
  then have range: "- 2147483648 \<le> uint b + uint c" "uint b + uint c < 2147483648"
    "- 2147483648 \<le> uint b + uint c + sint d" "uint b + uint c + sint d < 2147483648"
    using small(5,6) uint_ge_0 [of b] uint_ge_0 [of c] by linarith+
  have "x \<le> c" if "unat s = unat a + unat l" "sint v = uint b + uint c + sint d" "0 < sint v"
    "sint d \<le> 0" "mirror_collateral s v l = Some x" for s v x
  proof (rule mirror_no_profit_after_loss [OF mint small(4) that(1) _ that(5)])
    have "uint v \<le> uint b + uint c"
      using that(2-4) uint_of_sint [of v] by simp
    then show "unat v \<le> unat b + unat c"
      using of_nat_le_iff [of "unat v" "unat b + unat c", where 'a = int] by simp
  qed
  moreover have "unat a + unat l < 4294967296"
    using small mirror_mint_small [OF mint, of 14 14] by simp
  ultimately show "unat a + unat l < 4294967296 \<and> (\<forall>s. unat s = unat a + unat l \<longrightarrow>
      - 2147483648 \<le> uint b + uint c \<and> uint b + uint c < 2147483648
      \<and> ((\<exists>g :: u32. sint g = uint b + uint c) \<longrightarrow>
          - 2147483648 \<le> uint b + uint c + sint d \<and> uint b + uint c + sint d < 2147483648
          \<and> (\<forall>v. sint v = uint b + uint c + sint d \<longrightarrow> 0 < uint b + uint c + sint d \<longrightarrow>
              (\<forall>x. mirror_collateral s v l = Some x \<longrightarrow> sint d \<le> 0 \<longrightarrow> x \<le> c))))"
    using range by auto
qed

text \<open>No input of at most sixteen bits reaches the overflow guard: with a supply and a value the mirror
  always answers.  Only \<open>proof_overflow_guard_fires_concrete\<close> exercises the guard.\<close>
lemma u16_inputs_miss_the_guard:
  assumes "unat s \<le> 65535" and "unat d \<le> 65535" and "s \<noteq> 0" and "v \<noteq> 0"
  shows "mirror_lp s v d \<noteq> None"
proof -
  have "unat d * unat s div unat v \<le> unat d * unat s"
    by simp
  also have "\<dots> \<le> 65535 * 65535"
    using assms(1,2) by (intro mult_le_mono)
  finally show ?thesis
    using assms(3,4) by (simp add: mirror.mint_pro_rata)
qed

section \<open>Properties\<close>

text \<open>C39. Every proof harness of the verification crate holds for every choice of its symbolic
  inputs: under the bounds the harness assumes for itself, no call of the mirror panics, no assertion
  fails, no \<open>unwrap\<close> meets \<open>None\<close> and no arithmetic overflows.\<close>
theorem kani_harnesses_hold:
  "verified (proof_deposit_withdraw_no_inflation a b c) \<and> verified (proof_first_depositor_exact a)
   \<and> verified (proof_two_depositors_conservation a b c) \<and> verified (proof_no_dilution a b c d)
   \<and> verified (proof_flush_full_return_conservation a b c)
   \<and> verified (proof_lp_deposit_no_panic a b c) \<and> verified (proof_lp_deposit_overflow_guard a b c)
   \<and> verified proof_overflow_guard_fires_concrete \<and> verified (proof_collateral_withdraw_no_panic a b c)
   \<and> verified (proof_pool_value_no_panic a b) \<and> verified (proof_flush_available_no_panic a b c)
   \<and> verified (proof_lp_rounding_favors_pool a b c) \<and> verified (proof_larger_deposit_more_lp a b c d)
   \<and> verified (proof_larger_burn_more_collateral a b c d) \<and> verified (proof_equal_deposits_equal_lp a)
   \<and> verified (proof_full_burn_bounded a b) \<and> verified (proof_partial_less_than_full a b c)
   \<and> verified (proof_flush_preserves_value a b c d e) \<and> verified (proof_flush_bounded a b c)
   \<and> verified (proof_flush_max_then_zero a b c) \<and> verified (proof_pool_value_correctness a b)
   \<and> verified (proof_deposit_increases_value a b c) \<and> verified (proof_flush_return_conservation a b c d)
   \<and> verified (proof_returns_increase_value a b c d) \<and> verified (proof_zero_deposit_zero_lp a b)
   \<and> verified (proof_zero_burn_zero_col a b) \<and> verified (proof_cooldown_no_panic a b c)
   \<and> verified (proof_cooldown_not_immediate a b) \<and> verified (proof_cooldown_exact_boundary a b)
   \<and> verified (proof_cap_zero_uncapped a b) \<and> verified (proof_cap_at_boundary a b)
   \<and> verified (proof_cap_above_boundary a b) \<and> verified (proof_c9_orphaned_value_blocked a b)
   \<and> verified (proof_c9_valueless_lp_blocked a b) \<and> verified (proof_c9_true_first_depositor a)
   \<and> verified (proof_flush_reduces_value_exactly a b c) \<and> verified (proof_determinism_across_states a)
   \<and> verified (proof_pool_value_with_flush_no_panic a b c d) \<and> verified (proof_exceeds_cap_no_panic a b c)
   \<and> verified (proof_roundtrip_under_pool_value_change a b c d) \<and> verified (proof_no_inflation_attack a b c)
   \<and> verified (proof_cooldown_boundary_iff a b c) \<and> verified (proof_flush_conservation_lp_value a b c d)"
  by (intro conjI no_inflation_harness two_depositors_harness no_dilution_harness
      pool_value_harnesses returns_increase_harness cooldown_cap_harnesses boundary_harnesses
      share_harnesses rounding_harnesses inflation_attack_harness flush_claim_harness
      value_change_harness)

text \<open>The assumptions of the harnesses can be met: on these inputs they run to their last
  assertion.\<close>

lemmas harness_run = mirror_returns kani_assume_def kani_assert_def kani_unwrap_def or_return_def
  positive_or_return_def plus_u_def minus_u_def times_u_def plus_i32_def mirror.mint_pro_rata
  mirror.redeem_pro_rata mirror.mint_first checked_add_def checked_sub_def

lemma harnesses_reach_their_end:
  "proof_deposit_withdraw_no_inflation 7 9 5 = Inr ()"
  "proof_two_depositors_conservation 7 9 5 = Inr ()"
  "proof_no_dilution 7 9 5 6 = Inr ()"
  "proof_roundtrip_under_pool_value_change 7 9 5 (- 2) = Inr ()"
  "proof_no_inflation_attack 7 9 5 = Inr ()"
  "proof_flush_conservation_lp_value 7 9 2 3 = Inr ()"
  by (simp_all add: harness_run proof_deposit_withdraw_no_inflation_def
      proof_two_depositors_conservation_def proof_no_dilution_def
      proof_roundtrip_under_pool_value_change_def proof_no_inflation_attack_def
      proof_flush_conservation_lp_value_def mirror_flush_value_eq)

end
