(* ===== verification/Byte_Codec.thy ===== *)
theory Byte_Codec
  imports Vault_Prelude
begin

text \<open>
  Little-endian byte encodings: Rust's \<open>to_le_bytes\<close> and \<open>from_le_bytes\<close>, and the
  interface \<open>le_codec\<close> of a fixed-width encoding.  The locale proves once what reading and
  writing a field at an offset of a byte array does; it is interpreted for every width the
  program stores or sends (u8, u16, u64, u128, public keys).
\<close>

section \<open>Little-endian numbers\<close>

fun nat_of_le :: "byte list \<Rightarrow> nat" where
  "nat_of_le [] = 0"
| "nat_of_le (b # bs) = unat b + 256 * nat_of_le bs"

fun le_of_nat :: "nat \<Rightarrow> nat \<Rightarrow> byte list" where
  "le_of_nat 0 x = []"
| "le_of_nat (Suc n) x = word_of_nat (x mod 256) # le_of_nat n (x div 256)"

definition to_le_bytes :: "'a::len word \<Rightarrow> byte list" where
  "to_le_bytes w = le_of_nat (LENGTH('a) div 8) (unat w)"

definition from_le_bytes :: "byte list \<Rightarrow> 'a::len word" where
  "from_le_bytes bs = word_of_nat (nat_of_le bs)"

lemma length_le_of_nat [simp]: "length (le_of_nat n x) = n"
  by (induction n arbitrary: x) auto

lemma nat_of_le_of_nat: "nat_of_le (le_of_nat n x) = x mod 256 ^ n"
proof (induction n arbitrary: x)
  case (Suc n)
  have "unat (word_of_nat (x mod 256) :: byte) = x mod 256"
    by (rule unat_word_of_nat_exact) simp
  with Suc show ?case
    by (simp add: mod_mult2_eq)
qed simp

lemma nat_of_le_bound: "nat_of_le bs < 256 ^ length bs"
proof (induction bs)
  case (Cons b bs)
  have "unat b < 256"
    using unat_bound [of b] by simp
  with Cons show ?case
    by simp
qed simp

lemma le_of_nat_of_le: "le_of_nat (length bs) (nat_of_le bs) = bs"
proof (induction bs)
  case (Cons b bs)
  have "unat b < 256"
    using unat_bound [of b] by simp
  with Cons show ?case
    by (simp add: word_unat_eq_iff unat_of_nat)
qed simp

lemma length_to_le_bytes [simp]: "length (to_le_bytes (w :: 'a::len word)) = LENGTH('a) div 8"
  by (simp add: to_le_bytes_def)

lemma bytes_power: "8 dvd n \<Longrightarrow> (256::nat) ^ (n div 8) = 2 ^ n"
proof -
  assume "8 dvd n"
  then have "n = 8 * (n div 8)"
    by simp
  then have "(2::nat) ^ n = (2 ^ 8) ^ (n div 8)"
    by (metis power_mult)
  then show ?thesis
    by simp
qed

lemma from_to_le_bytes:
  assumes "8 dvd LENGTH('a)"
  shows "from_le_bytes (to_le_bytes w) = (w :: 'a::len word)"
proof -
  have "nat_of_le (to_le_bytes w) = unat w mod 2 ^ LENGTH('a)"
    by (simp add: to_le_bytes_def nat_of_le_of_nat bytes_power [OF assms])
  then show ?thesis
    by (simp add: from_le_bytes_def)
qed

lemma to_from_le_bytes:
  assumes "8 dvd LENGTH('a)" and "length bs = LENGTH('a) div 8"
  shows "to_le_bytes (from_le_bytes bs :: 'a::len word) = bs"
proof -
  have "nat_of_le bs < 2 ^ LENGTH('a)"
    using nat_of_le_bound [of bs] by (simp add: assms(2) bytes_power [OF assms(1)])
  then have "unat (from_le_bytes bs :: 'a word) = nat_of_le bs"
    unfolding from_le_bytes_def by (rule unat_word_of_nat_exact)
  then show ?thesis
    by (metis assms(2) to_le_bytes_def le_of_nat_of_le)
qed

text \<open>A number that fits the lower bytes is padded with zeroes.\<close>

lemma le_of_nat_zero: "le_of_nat m 0 = replicate m 0"
  by (induction m) simp_all

lemma le_of_nat_pad: "x < 256 ^ n \<Longrightarrow> le_of_nat (n + m) x = le_of_nat n x @ replicate m 0"
proof (induction n arbitrary: x)
  case (Suc n)
  then have "x div 256 < 256 ^ n"
    by (simp add: div_less_iff_less_mult mult.commute)
  with Suc.IH show ?case
    by simp
qed (simp add: le_of_nat_zero)

section \<open>Fixed-width fields of a byte array\<close>

text \<open>Rust's slice \<open>bs[lo..lo + n]\<close> and the assignment of a slice by \<open>copy_from_slice\<close>, both
  within the array's bounds.\<close>

definition subslice :: "nat \<Rightarrow> nat \<Rightarrow> byte list \<Rightarrow> byte list" where
  "subslice lo n bs = take n (drop lo bs)"

definition copy_into :: "nat \<Rightarrow> byte list \<Rightarrow> byte list \<Rightarrow> byte list" where
  "copy_into lo src bs = take lo bs @ src @ drop (lo + length src) bs"

lemma length_subslice [simp]: "lo + n \<le> length bs \<Longrightarrow> length (subslice lo n bs) = n"
  by (simp add: subslice_def)

lemma length_copy_into [simp]:
  "lo + length src \<le> length bs \<Longrightarrow> length (copy_into lo src bs) = length bs"
  by (simp add: copy_into_def)

lemma subslice_copy_into_same:
  "lo + length src \<le> length bs \<Longrightarrow> n = length src \<Longrightarrow> subslice lo n (copy_into lo src bs) = src"
  by (simp add: subslice_def copy_into_def)

lemma nth_copy_into:
  "lo + length src \<le> length bs \<Longrightarrow> i < length bs \<Longrightarrow>
    copy_into lo src bs ! i = (if lo \<le> i \<and> i < lo + length src then src ! (i - lo) else bs ! i)"
  by (auto simp: copy_into_def nth_append min_def)

lemma subslice_copy_into_disjoint:
  assumes "lo + length src \<le> length bs" and "i + n \<le> length bs"
    and "i + n \<le> lo \<or> lo + length src \<le> i"
  shows "subslice i n (copy_into lo src bs) = subslice i n bs"
proof (rule nth_equalityI)
  show "length (subslice i n (copy_into lo src bs)) = length (subslice i n bs)"
    using assms by simp
next
  fix j
  assume "j < length (subslice i n (copy_into lo src bs))"
  then have "j < n"
    using assms by simp
  with assms show "subslice i n (copy_into lo src bs) ! j = subslice i n bs ! j"
    by (auto simp: subslice_def nth_copy_into)
qed

lemma copy_into_subslice: "lo + n \<le> length bs \<Longrightarrow> copy_into lo (subslice lo n bs) bs = bs"
proof -
  assume "lo + n \<le> length bs"
  then have "take lo bs @ take n (drop lo bs) @ drop (lo + n) bs = bs"
    by (metis add.commute append_take_drop_id drop_drop)
  then show ?thesis
    using \<open>lo + n \<le> length bs\<close> by (simp add: copy_into_def subslice_def)
qed

locale le_codec =
  fixes enc :: "'v \<Rightarrow> byte list"
    and dec :: "byte list \<Rightarrow> 'v"
    and width :: nat
  assumes length_enc: "length (enc v) = width"
    and dec_enc: "dec (enc v) = v"
    and enc_dec: "length bs = width \<Longrightarrow> enc (dec bs) = bs"
begin

lemma dec_append: "dec (subslice 0 width (enc v @ rest)) = v"
  by (simp add: subslice_def length_enc dec_enc)

lemma dec_at:
  "lo = length pre \<Longrightarrow> dec (subslice lo width (pre @ enc v @ rest)) = v"
  by (simp add: subslice_def length_enc dec_enc)

lemma read_write:
  "lo + width \<le> length bs \<Longrightarrow> dec (subslice lo width (copy_into lo (enc v) bs)) = v"
  by (simp add: subslice_copy_into_same length_enc dec_enc)

lemma read_write_other:
  assumes "lo + width \<le> length bs" and "i + n \<le> length bs"
    and "i + n \<le> lo \<or> lo + width \<le> i"
  shows "subslice i n (copy_into lo (enc v) bs) = subslice i n bs"
  using assms by (simp add: subslice_copy_into_disjoint length_enc)

lemma length_write: "lo + width \<le> length bs \<Longrightarrow> length (copy_into lo (enc v) bs) = length bs"
  by (simp add: length_enc)

lemma write_read: "lo + width \<le> length bs \<Longrightarrow> copy_into lo (enc (dec (subslice lo width bs))) bs = bs"
  by (simp add: enc_dec copy_into_subslice)

lemma enc_inject: "enc a = enc b \<longleftrightarrow> a = b"
  by (metis dec_enc)

lemma dec_inject: "length as = width \<Longrightarrow> length bs = width \<Longrightarrow> dec as = dec bs \<longleftrightarrow> as = bs"
  by (metis enc_dec)

end

abbreviation le_u16 :: "u16 \<Rightarrow> byte list" where "le_u16 \<equiv> to_le_bytes"
abbreviation le_u64 :: "u64 \<Rightarrow> byte list" where "le_u64 \<equiv> to_le_bytes"
abbreviation le_u128 :: "u128 \<Rightarrow> byte list" where "le_u128 \<equiv> to_le_bytes"
abbreviation of_u16 :: "byte list \<Rightarrow> u16" where "of_u16 \<equiv> from_le_bytes"
abbreviation of_u64 :: "byte list \<Rightarrow> u64" where "of_u64 \<equiv> from_le_bytes"
abbreviation of_u128 :: "byte list \<Rightarrow> u128" where "of_u128 \<equiv> from_le_bytes"

text \<open>The bytes of a key, \<open>Pubkey::to_bytes\<close> and \<open>as_ref\<close>, and the key of 32 bytes,
  \<open>Pubkey::new_from_array\<close>.\<close>

abbreviation key_bytes :: "pubkey \<Rightarrow> byte list" where "key_bytes \<equiv> to_le_bytes"
abbreviation key_of :: "byte list \<Rightarrow> pubkey" where "key_of \<equiv> from_le_bytes"

interpretation codec8: le_codec "to_le_bytes :: u8 \<Rightarrow> byte list" from_le_bytes 1
  by unfold_locales (simp_all add: from_to_le_bytes to_from_le_bytes)

interpretation codec16: le_codec le_u16 of_u16 2
  by unfold_locales (simp_all add: from_to_le_bytes to_from_le_bytes)

interpretation codec64: le_codec le_u64 of_u64 8
  by unfold_locales (simp_all add: from_to_le_bytes to_from_le_bytes)

interpretation codec128: le_codec le_u128 of_u128 16
  by unfold_locales (simp_all add: from_to_le_bytes to_from_le_bytes)

interpretation codec_key: le_codec key_bytes key_of 32
  by unfold_locales (simp_all add: from_to_le_bytes to_from_le_bytes)

lemmas codec_read_write =
  codec16.read_write codec64.read_write codec128.read_write codec_key.read_write

end
