(* ===== verification/Pool_State.thy ===== *)
theory Pool_State
  imports Byte_Codec Lp_Math
begin

text \<open>
  The account state of \<^verbatim>\<open>src/src/state.rs\<close>: the records \<open>StakePool\<close> and \<open>StakeDeposit\<close>, the
  flags and counters kept in the pool's reserved bytes, the value of the pool and the
  high-water mark.  The multi-byte fields of the reserved area interpret \<open>reserved_field\<close>, and
  each pair of them \<open>reserved_pair\<close>, which gives that writing one leaves the others alone.
\<close>

unbundle bit_operations_syntax

section \<open>Records\<close>

definition STAKE_POOL_DISCRIMINATOR :: "byte list" where
  "STAKE_POOL_DISCRIMINATOR = [0x53, 0x50, 0x4F, 0x4F, 0x4C, 0x5F, 0x56, 0x31]"

definition STAKE_DEPOSIT_DISCRIMINATOR :: "byte list" where
  "STAKE_DEPOSIT_DISCRIMINATOR = [0x53, 0x44, 0x45, 0x50, 0x5F, 0x56, 0x31, 0x00]"

record stake_pool =
  is_initialized :: u8
  bump :: u8
  vault_authority_bump :: u8
  admin_transferred :: u8
  padding :: "byte list"
  slab :: pubkey
  admin :: pubkey
  collateral_mint :: pubkey
  lp_mint :: pubkey
  vault :: pubkey
  total_deposited :: u64
  total_lp_supply :: u64
  cooldown_slots :: u64
  deposit_cap :: u64
  total_flushed :: u64
  total_returned :: u64
  total_withdrawn :: u64
  percolator_program :: pubkey
  total_fees_earned :: u64
  last_fee_accrual_slot :: u64
  last_vault_snapshot :: u64
  pool_mode :: u8
  mode_padding :: "byte list"
  reserved :: "byte list"

record stake_deposit =
  dep_is_initialized :: u8
  dep_bump :: u8
  dep_padding :: "byte list"
  dep_pool :: pubkey
  dep_user :: pubkey
  last_deposit_slot :: u64
  lp_amount :: u64
  dep_reserved :: "byte list"

text \<open>The array lengths of the two structs.\<close>

definition wf_pool :: "stake_pool \<Rightarrow> bool" where
  "wf_pool p \<longleftrightarrow> length (padding p) = 4 \<and> length (mode_padding p) = 7 \<and> length (reserved p) = 64"

definition wf_deposit :: "stake_deposit \<Rightarrow> bool" where
  "wf_deposit d \<longleftrightarrow> length (dep_padding d) = 6 \<and> length (dep_reserved d) = 64"

section \<open>Keys of a pool\<close>

text \<open>The struct keeps keys as byte arrays; here they are keys already, and the layout
  (\<^verbatim>\<open>Byte_Codec\<close>) holds the arrays.  The getters convert back.\<close>

definition slab_pubkey :: "stake_pool \<Rightarrow> pubkey" where
  "slab_pubkey p = slab p"

definition admin_pubkey :: "stake_pool \<Rightarrow> pubkey" where
  "admin_pubkey p = admin p"

definition collateral_mint_pubkey :: "stake_pool \<Rightarrow> pubkey" where
  "collateral_mint_pubkey p = collateral_mint p"

definition lp_mint_pubkey :: "stake_pool \<Rightarrow> pubkey" where
  "lp_mint_pubkey p = lp_mint p"

definition vault_pubkey :: "stake_pool \<Rightarrow> pubkey" where
  "vault_pubkey p = vault p"

definition percolator_program_pubkey :: "stake_pool \<Rightarrow> pubkey" where
  "percolator_program_pubkey p = percolator_program p"

section \<open>Discriminators and version\<close>

definition CURRENT_VERSION :: u8 where
  "CURRENT_VERSION = 1"

definition set_deposit_discriminator :: "stake_deposit \<Rightarrow> stake_deposit" where
  "set_deposit_discriminator d =
     d\<lparr>dep_reserved := copy_into 0 STAKE_DEPOSIT_DISCRIMINATOR (dep_reserved d)\<rparr>"

definition validate_deposit_discriminator :: "stake_deposit \<Rightarrow> bool" where
  "validate_deposit_discriminator d =
     (let disc = subslice 0 8 (dep_reserved d)
      in disc = replicate 8 0 \<or> disc = STAKE_DEPOSIT_DISCRIMINATOR)"

definition set_discriminator :: "stake_pool \<Rightarrow> stake_pool" where
  "set_discriminator p =
     p\<lparr>reserved := (copy_into 0 STAKE_POOL_DISCRIMINATOR (reserved p))[8 := CURRENT_VERSION]\<rparr>"

definition version :: "stake_pool \<Rightarrow> u8" where
  "version p = reserved p ! 8"

definition validate_discriminator :: "stake_pool \<Rightarrow> bool" where
  "validate_discriminator p =
     (let disc = subslice 0 8 (reserved p)
      in disc = replicate 8 0 \<or> disc = STAKE_POOL_DISCRIMINATOR)"

section \<open>Flags and fields of the reserved bytes\<close>

definition is_resolved :: "stake_pool \<Rightarrow> bool" where
  "is_resolved p \<longleftrightarrow> reserved p ! 9 AND 0x01 \<noteq> 0"

definition set_resolved :: "stake_pool \<Rightarrow> stake_pool" where
  "set_resolved p = p\<lparr>reserved := (reserved p)[9 := reserved p ! 9 OR 0x01]\<rparr>"

definition hwm_enabled :: "stake_pool \<Rightarrow> bool" where
  "hwm_enabled p \<longleftrightarrow> reserved p ! 9 AND 0x02 \<noteq> 0"

definition set_hwm_enabled :: "bool \<Rightarrow> stake_pool \<Rightarrow> stake_pool" where
  "set_hwm_enabled enabled p =
     (if enabled then p\<lparr>reserved := (reserved p)[9 := reserved p ! 9 OR 0x02]\<rparr>
      else p\<lparr>reserved := (reserved p)[9 := reserved p ! 9 AND NOT 0x02]\<rparr>)"

definition hwm_floor_bps :: "stake_pool \<Rightarrow> u16" where
  "hwm_floor_bps p = from_le_bytes [reserved p ! 10, reserved p ! 11]"

definition set_hwm_floor_bps :: "u16 \<Rightarrow> stake_pool \<Rightarrow> stake_pool" where
  "set_hwm_floor_bps bps p =
     (let bytes = to_le_bytes bps
      in p\<lparr>reserved := (reserved p)[10 := bytes ! 0, 11 := bytes ! 1]\<rparr>)"

definition epoch_high_water_tvl :: "stake_pool \<Rightarrow> u64" where
  "epoch_high_water_tvl p = from_le_bytes (subslice 16 8 (reserved p))"

definition set_epoch_high_water_tvl :: "u64 \<Rightarrow> stake_pool \<Rightarrow> stake_pool" where
  "set_epoch_high_water_tvl tvl p = p\<lparr>reserved := copy_into 16 (to_le_bytes tvl) (reserved p)\<rparr>"

definition hwm_last_epoch :: "stake_pool \<Rightarrow> u64" where
  "hwm_last_epoch p = from_le_bytes (subslice 24 8 (reserved p))"

definition set_hwm_last_epoch :: "u64 \<Rightarrow> stake_pool \<Rightarrow> stake_pool" where
  "set_hwm_last_epoch epoch p = p\<lparr>reserved := copy_into 24 (to_le_bytes epoch) (reserved p)\<rparr>"

definition pre_supply_vault_offset :: "stake_pool \<Rightarrow> u64" where
  "pre_supply_vault_offset p = from_le_bytes (subslice 32 8 (reserved p))"

definition set_pre_supply_vault_offset :: "u64 \<Rightarrow> stake_pool \<Rightarrow> stake_pool" where
  "set_pre_supply_vault_offset amount p =
     p\<lparr>reserved := copy_into 32 (to_le_bytes amount) (reserved p)\<rparr>"

definition refresh_hwm :: "u64 \<Rightarrow> u64 \<Rightarrow> stake_pool \<Rightarrow> stake_pool \<times> u64" where
  "refresh_hwm current_epoch current_tvl p =
     (let p = (if current_epoch \<noteq> hwm_last_epoch p
               then set_hwm_last_epoch current_epoch (set_epoch_high_water_tvl current_tvl p)
               else if epoch_high_water_tvl p < current_tvl
               then set_epoch_high_water_tvl current_tvl p
               else p)
      in (p, epoch_high_water_tvl p))"

section \<open>Pool value\<close>

definition total_pool_value :: "stake_pool \<Rightarrow> u64 option" where
  "total_pool_value p = do {
     p1 \<leftarrow> checked_add (total_deposited p) (total_returned p);
     positives \<leftarrow> (if pool_mode p = 1 then checked_add p1 (total_fees_earned p) else Some p1);
     negatives \<leftarrow> checked_add (total_withdrawn p) (total_flushed p);
     checked_sub positives negatives
   }"

definition accrual_baseline :: "stake_pool \<Rightarrow> u64 option" where
  "accrual_baseline p = do {
     q \<leftarrow> checked_add (total_deposited p) (total_fees_earned p);
     checked_sub q (total_withdrawn p)
   }"

definition pool_calc_lp_for_deposit :: "stake_pool \<Rightarrow> u64 \<Rightarrow> u64 option" where
  "pool_calc_lp_for_deposit p amount =
     (let pv = unwrap_or (total_pool_value p) 0
      in calc_lp_for_deposit (total_lp_supply p) pv amount)"

definition pool_calc_collateral_for_withdraw :: "stake_pool \<Rightarrow> u64 \<Rightarrow> u64 option" where
  "pool_calc_collateral_for_withdraw p lp = do {
     pv \<leftarrow> total_pool_value p;
     calc_collateral_for_withdraw (total_lp_supply p) pv lp
   }"

section \<open>The reserved area as separate fields\<close>

locale reserved_field =
  fixes get :: "stake_pool \<Rightarrow> 'v"
    and put :: "'v \<Rightarrow> stake_pool \<Rightarrow> stake_pool"
    and lo :: nat and hi :: nat
  assumes put_reserved: "\<exists>r. put v p = p\<lparr>reserved := r\<rparr>"
    and length_put: "wf_pool p \<Longrightarrow> length (reserved (put v p)) = 64"
    and get_put: "wf_pool p \<Longrightarrow> get (put v p) = v"
    and put_outside: "wf_pool p \<Longrightarrow> i < 64 \<Longrightarrow> i < lo \<or> hi \<le> i \<Longrightarrow>
      reserved (put v p) ! i = reserved p ! i"
    and get_inside: "wf_pool p \<Longrightarrow> wf_pool q \<Longrightarrow>
      (\<And>i. lo \<le> i \<Longrightarrow> i < hi \<Longrightarrow> i < 64 \<Longrightarrow> reserved p ! i = reserved q ! i) \<Longrightarrow> get p = get q"
begin

lemma wf_put: "wf_pool p \<Longrightarrow> wf_pool (put v p)"
  using put_reserved [of v p] length_put [of p v] by (auto simp: wf_pool_def)

lemma put_frame:
  "is_initialized (put v p) = is_initialized p" "bump (put v p) = bump p"
  "vault_authority_bump (put v p) = vault_authority_bump p"
  "admin_transferred (put v p) = admin_transferred p" "padding (put v p) = padding p"
  "slab (put v p) = slab p" "admin (put v p) = admin p"
  "collateral_mint (put v p) = collateral_mint p" "lp_mint (put v p) = lp_mint p"
  "vault (put v p) = vault p" "total_deposited (put v p) = total_deposited p"
  "total_lp_supply (put v p) = total_lp_supply p" "cooldown_slots (put v p) = cooldown_slots p"
  "deposit_cap (put v p) = deposit_cap p" "total_flushed (put v p) = total_flushed p"
  "total_returned (put v p) = total_returned p" "total_withdrawn (put v p) = total_withdrawn p"
  "percolator_program (put v p) = percolator_program p"
  "total_fees_earned (put v p) = total_fees_earned p"
  "last_fee_accrual_slot (put v p) = last_fee_accrual_slot p"
  "last_vault_snapshot (put v p) = last_vault_snapshot p" "pool_mode (put v p) = pool_mode p"
  "mode_padding (put v p) = mode_padding p"
  using put_reserved [of v p] by auto

lemma put_value:
  "total_pool_value (put v p) = total_pool_value p"
  "accrual_baseline (put v p) = accrual_baseline p"
  by (simp_all add: total_pool_value_def accrual_baseline_def put_frame cong: if_cong)

lemma put_flags:
  assumes "wf_pool p" and "9 < lo"
  shows "is_resolved (put v p) = is_resolved p" and "hwm_enabled (put v p) = hwm_enabled p"
  using assms by (simp_all add: is_resolved_def hwm_enabled_def put_outside)

lemma put_discriminator:
  assumes "wf_pool p" and "9 < lo"
  shows "validate_discriminator (put v p) = validate_discriminator p"
proof -
  have "subslice 0 8 (reserved (put v p)) = subslice 0 8 (reserved p)"
    using assms length_put [of p v] put_outside [of p _ v]
    by (intro nth_equalityI) (auto simp: subslice_def wf_pool_def)
  then show ?thesis
    by (simp add: validate_discriminator_def)
qed

end

locale reserved_pair =
  A: reserved_field get put lo hi + B: reserved_field get' put' lo' hi'
  for get :: "stake_pool \<Rightarrow> 'v" and put lo hi
    and get' :: "stake_pool \<Rightarrow> 'w" and put' lo' hi' +
  assumes apart: "hi \<le> lo' \<or> hi' \<le> lo"
begin

lemma get_put_other:
  assumes "wf_pool p"
  shows "get (put' v p) = get p" and "get' (put w p) = get' p"
proof -
  show "get (put' v p) = get p"
    using assms apart by (intro A.get_inside B.wf_put) (auto simp: B.put_outside)
  show "get' (put w p) = get' p"
    using assms apart by (intro B.get_inside A.wf_put) (auto simp: A.put_outside)
qed

end

lemma subslice_cong:
  assumes "length r = 64" and "length r' = 64" and "lo + n \<le> 64"
    and "\<And>i. lo \<le> i \<Longrightarrow> i < lo + n \<Longrightarrow> i < 64 \<Longrightarrow> r ! i = r' ! i"
  shows "subslice lo n r = subslice lo n r'"
  using assms by (intro nth_equalityI) (auto simp: subslice_def)

text \<open>A u64 field stored by \<open>copy_from_slice\<close> at offset \<open>lo\<close>.\<close>

lemma reserved_field_u64:
  assumes "\<And>p. get p = of_u64 (subslice lo 8 (reserved p))"
    and "\<And>v p. put v p = p\<lparr>reserved := copy_into lo (le_u64 v) (reserved p)\<rparr>"
    and "lo + 8 \<le> 64"
  shows "reserved_field get put lo (lo + 8)"
proof
  fix v p
  show "\<exists>r. put v p = p\<lparr>reserved := r\<rparr>"
    using assms(2) by blast
next
  fix v p
  assume "wf_pool p"
  then show "length (reserved (put v p)) = 64" and "get (put v p) = v"
    using assms by (simp_all add: wf_pool_def codec64.read_write)
next
  fix v p i
  assume "wf_pool p" and "i < 64" and "i < lo \<or> lo + 8 \<le> i"
  then show "reserved (put v p) ! i = reserved p ! i"
    using assms by (auto simp: wf_pool_def nth_copy_into)
next
  fix p q
  assume "wf_pool p" and "wf_pool q"
    and "\<And>i. lo \<le> i \<Longrightarrow> i < lo + 8 \<Longrightarrow> i < 64 \<Longrightarrow> reserved p ! i = reserved q ! i"
  then have "subslice lo 8 (reserved p) = subslice lo 8 (reserved q)"
    using assms(3) by (intro subslice_cong) (auto simp: wf_pool_def)
  then show "get p = get q"
    by (simp add: assms(1))
qed

interpretation tvl_field: reserved_field epoch_high_water_tvl set_epoch_high_water_tvl 16 24
  using reserved_field_u64 [of epoch_high_water_tvl 16 set_epoch_high_water_tvl]
  by (simp add: epoch_high_water_tvl_def set_epoch_high_water_tvl_def)

interpretation epoch_field: reserved_field hwm_last_epoch set_hwm_last_epoch 24 32
  using reserved_field_u64 [of hwm_last_epoch 24 set_hwm_last_epoch]
  by (simp add: hwm_last_epoch_def set_hwm_last_epoch_def)

interpretation offset_field: reserved_field pre_supply_vault_offset set_pre_supply_vault_offset 32 40
  using reserved_field_u64 [of pre_supply_vault_offset 32 set_pre_supply_vault_offset]
  by (simp add: pre_supply_vault_offset_def set_pre_supply_vault_offset_def)

lemma two_bytes: "[to_le_bytes v ! 0, to_le_bytes v ! Suc 0] = to_le_bytes (v :: u16)"
  by (intro nth_equalityI) (auto simp: less_Suc_eq numeral_2_eq_2)

interpretation floor_field: reserved_field hwm_floor_bps set_hwm_floor_bps 10 12
proof
  fix v p
  show "\<exists>r. set_hwm_floor_bps v p = p\<lparr>reserved := r\<rparr>"
    by (auto simp: set_hwm_floor_bps_def Let_def)
next
  fix v p
  assume "wf_pool p"
  then show "length (reserved (set_hwm_floor_bps v p)) = 64"
    and "hwm_floor_bps (set_hwm_floor_bps v p) = v"
    by (simp_all add: set_hwm_floor_bps_def hwm_floor_bps_def wf_pool_def Let_def two_bytes
        codec16.dec_enc)
next
  fix v p and i :: nat
  assume "wf_pool p" and "i < 64" and "i < 10 \<or> 12 \<le> i"
  then show "reserved (set_hwm_floor_bps v p) ! i = reserved p ! i"
    by (auto simp: set_hwm_floor_bps_def Let_def)
next
  fix p q :: stake_pool
  assume "\<And>i. 10 \<le> i \<Longrightarrow> i < 12 \<Longrightarrow> i < 64 \<Longrightarrow> reserved p ! i = reserved q ! i"
  then have "reserved p ! 10 = reserved q ! 10" and "reserved p ! 11 = reserved q ! 11"
    by simp_all
  then show "hwm_floor_bps p = hwm_floor_bps q"
    by (simp add: hwm_floor_bps_def)
qed

interpretation tvl_epoch: reserved_pair
  epoch_high_water_tvl set_epoch_high_water_tvl 16 24 hwm_last_epoch set_hwm_last_epoch 24 32
  by unfold_locales simp

interpretation tvl_offset: reserved_pair
  epoch_high_water_tvl set_epoch_high_water_tvl 16 24
  pre_supply_vault_offset set_pre_supply_vault_offset 32 40
  by unfold_locales simp

interpretation epoch_offset: reserved_pair
  hwm_last_epoch set_hwm_last_epoch 24 32 pre_supply_vault_offset set_pre_supply_vault_offset 32 40
  by unfold_locales simp

interpretation floor_tvl: reserved_pair
  hwm_floor_bps set_hwm_floor_bps 10 12 epoch_high_water_tvl set_epoch_high_water_tvl 16 24
  by unfold_locales simp

interpretation floor_epoch: reserved_pair
  hwm_floor_bps set_hwm_floor_bps 10 12 hwm_last_epoch set_hwm_last_epoch 24 32
  by unfold_locales simp

interpretation floor_offset: reserved_pair
  hwm_floor_bps set_hwm_floor_bps 10 12 pre_supply_vault_offset set_pre_supply_vault_offset 32 40
  by unfold_locales simp

lemmas field_frames [simp] =
  tvl_field.put_frame epoch_field.put_frame offset_field.put_frame floor_field.put_frame

lemmas field_values [simp] =
  tvl_field.put_value epoch_field.put_value offset_field.put_value floor_field.put_value

lemmas field_wf [simp] =
  tvl_field.wf_put epoch_field.wf_put offset_field.wf_put floor_field.wf_put

lemmas field_get_put [simp] =
  tvl_field.get_put epoch_field.get_put offset_field.get_put floor_field.get_put
  tvl_epoch.get_put_other tvl_offset.get_put_other epoch_offset.get_put_other
  floor_tvl.get_put_other floor_epoch.get_put_other floor_offset.get_put_other

section \<open>Flags\<close>

lemma flag_bits:
  "(x OR 1) AND 1 \<noteq> (0 :: u8)" "(x OR 1) AND 2 = x AND 2"
  "(x OR 2) AND 2 \<noteq> (0 :: u8)" "(x OR 2) AND 1 = x AND 1"
  "(x AND NOT 2) AND 2 = (0 :: u8)" "(x AND NOT 2) AND 1 = x AND 1"
proof -
  have "1 AND 2 = (0 :: u8)" "2 AND 1 = (0 :: u8)" "NOT 2 AND 2 = (0 :: u8)" "NOT 2 AND 1 = (1 :: u8)"
    by simp_all
  then show "(x OR 1) AND 2 = x AND 2" "(x OR 2) AND 1 = x AND 1"
    "(x AND NOT 2) AND 2 = 0" "(x AND NOT 2) AND 1 = x AND 1"
    by (simp_all add: bit.conj_disj_distrib2 and.assoc)
  show "(x OR 1) AND 1 \<noteq> 0" "(x OR 2) AND 2 \<noteq> 0"
    by (simp_all add: or.commute)
qed

lemma set_resolved_flags [simp]:
  assumes "wf_pool p"
  shows "is_resolved (set_resolved p)" and "hwm_enabled (set_resolved p) = hwm_enabled p"
    and "wf_pool (set_resolved p)"
  using assms by (simp_all add: is_resolved_def hwm_enabled_def set_resolved_def wf_pool_def flag_bits)

lemma set_hwm_enabled_flags [simp]:
  assumes "wf_pool p"
  shows "hwm_enabled (set_hwm_enabled b p) = b" and "is_resolved (set_hwm_enabled b p) = is_resolved p"
    and "wf_pool (set_hwm_enabled b p)"
  using assms
  by (simp_all add: is_resolved_def hwm_enabled_def set_hwm_enabled_def wf_pool_def flag_bits
      flag_bits(5,6) [simplified])

section \<open>Exact values\<close>

definition assets_in :: "stake_pool \<Rightarrow> nat" where
  "assets_in p = unat (total_deposited p) + unat (total_returned p)
     + (if pool_mode p = 1 then unat (total_fees_earned p) else 0)"

definition assets_out :: "stake_pool \<Rightarrow> nat" where
  "assets_out p = unat (total_withdrawn p) + unat (total_flushed p)"

lemma total_pool_value_Some:
  "total_pool_value p = Some v \<longleftrightarrow> assets_in p < 2 ^ 64 \<and> assets_in p = assets_out p + unat v"
proof
  assume "total_pool_value p = Some v"
  then obtain p1 q n where steps: "checked_add (total_deposited p) (total_returned p) = Some p1"
      "(if pool_mode p = 1 then checked_add p1 (total_fees_earned p) else Some p1) = Some q"
      "checked_add (total_withdrawn p) (total_flushed p) = Some n" "checked_sub q n = Some v"
    by (auto simp: total_pool_value_def bind_eq_Some_conv)
  have "unat q = assets_in p" and n: "unat n = assets_out p" and v: "unat q = unat v + unat n"
    using steps by (auto simp: assets_in_def assets_out_def checked_add_Some checked_sub_Some
        split: if_splits)
  with v n unat_bound [of q] show "assets_in p < 2 ^ 64 \<and> assets_in p = assets_out p + unat v"
    by simp
next
  assume val: "assets_in p < 2 ^ 64 \<and> assets_in p = assets_out p + unat v"
  then have "assets_out p < 2 ^ 64"
    by auto
  with val obtain q n :: u64 where q': "unat q = assets_in p" and n': "unat n = assets_out p"
    using u64_of_nat by blast
  let ?p1 = "total_deposited p + total_returned p"
  have p1: "checked_add (total_deposited p) (total_returned p) = Some ?p1"
    and p1': "unat ?p1 = unat (total_deposited p) + unat (total_returned p)"
    using val by (simp_all add: checked_add_def assets_in_def unat_add_exact)
  have q: "(if pool_mode p = 1 then checked_add ?p1 (total_fees_earned p) else Some ?p1) = Some q"
    using q' p1' by (simp add: checked_add_Some assets_in_def unat_eq_iff split: if_splits)
  have n: "checked_add (total_withdrawn p) (total_flushed p) = Some n"
    using n' by (simp add: checked_add_Some assets_out_def)
  have "checked_sub q n = Some v"
    using val by (simp add: checked_sub_Some q' n')
  then show "total_pool_value p = Some v"
    by (simp add: total_pool_value_def p1 q n)
qed

lemma total_pool_value_None:
  "total_pool_value p = None \<longleftrightarrow> 2 ^ 64 \<le> assets_in p \<or> assets_in p < assets_out p"
proof -
  have "(\<exists>v. total_pool_value p = Some v) \<longleftrightarrow> assets_in p < 2 ^ 64 \<and> assets_out p \<le> assets_in p"
  proof
    assume "assets_in p < 2 ^ 64 \<and> assets_out p \<le> assets_in p"
    moreover from this have "unat (word_of_nat (assets_in p - assets_out p) :: u64)
        = assets_in p - assets_out p"
      by (intro unat_word_of_nat_exact) auto
    ultimately have "total_pool_value p = Some (word_of_nat (assets_in p - assets_out p))"
      by (simp add: total_pool_value_Some del: of_nat_diff)
    then show "\<exists>v. total_pool_value p = Some v" ..
  qed (auto simp: total_pool_value_Some)
  then show ?thesis
    by (cases "total_pool_value p") auto
qed

lemma accrual_baseline_Some:
  "accrual_baseline p = Some b \<longleftrightarrow>
    unat (total_deposited p) + unat (total_fees_earned p) < 2 ^ 64
    \<and> unat (total_deposited p) + unat (total_fees_earned p) = unat (total_withdrawn p) + unat b"
  (is "_ \<longleftrightarrow> ?s < _ \<and> _")
proof
  assume "accrual_baseline p = Some b"
  then obtain q where "checked_add (total_deposited p) (total_fees_earned p) = Some q"
      and "checked_sub q (total_withdrawn p) = Some b"
    by (auto simp: accrual_baseline_def bind_eq_Some_conv)
  then have "unat q = ?s" and "unat q = unat b + unat (total_withdrawn p)"
    by (simp_all add: checked_add_Some checked_sub_Some)
  with unat_bound [of q] show "?s < 2 ^ 64 \<and> ?s = unat (total_withdrawn p) + unat b"
    by simp
next
  assume "?s < 2 ^ 64 \<and> ?s = unat (total_withdrawn p) + unat b"
  then show "accrual_baseline p = Some b"
    by (simp add: accrual_baseline_def checked_add_def checked_sub_Some unat_add_exact)
qed

lemma refresh_hwm_value:
  assumes "wf_pool p" and "refresh_hwm e t p = (p', h)"
  shows "h = (if e = hwm_last_epoch p then max (epoch_high_water_tvl p) t else t)"
    and "epoch_high_water_tvl p' = h" and "hwm_last_epoch p' = e" and "wf_pool p'"
    and "\<exists>r. p' = p\<lparr>reserved := r\<rparr>"
    and "hwm_floor_bps p' = hwm_floor_bps p" and "hwm_enabled p' = hwm_enabled p"
    and "is_resolved p' = is_resolved p"
    and "pre_supply_vault_offset p' = pre_supply_vault_offset p"
    and "validate_discriminator p' = validate_discriminator p"
proof -
  have p': "p' = (if e \<noteq> hwm_last_epoch p then set_hwm_last_epoch e (set_epoch_high_water_tvl t p)
      else if epoch_high_water_tvl p < t then set_epoch_high_water_tvl t p else p)"
    and h: "h = epoch_high_water_tvl p'"
    using assms(2) by (auto simp add: refresh_hwm_def Let_def)
  show "h = (if e = hwm_last_epoch p then max (epoch_high_water_tvl p) t else t)"
    unfolding h p' using assms(1) by (auto simp: max_def)
  show "epoch_high_water_tvl p' = h"
    by (simp add: h)
  show "hwm_last_epoch p' = e" "wf_pool p'" "hwm_floor_bps p' = hwm_floor_bps p"
    "pre_supply_vault_offset p' = pre_supply_vault_offset p"
    unfolding p' using assms(1) by simp_all
  show "hwm_enabled p' = hwm_enabled p" "is_resolved p' = is_resolved p"
    "validate_discriminator p' = validate_discriminator p"
    unfolding p' using assms(1)
    by (simp_all add: tvl_field.put_flags epoch_field.put_flags tvl_field.put_discriminator
        epoch_field.put_discriminator)
  show "\<exists>r. p' = p\<lparr>reserved := r\<rparr>"
    unfolding p' by (auto simp: set_hwm_last_epoch_def set_epoch_high_water_tvl_def
        intro: exI [of _ "reserved p"])
qed

end
