(* ===== verification/Pool_Layout.thy ===== *)
theory Pool_Layout
  imports Pool_State
begin

text \<open>
  The byte layout of the two \<open>repr(C)\<close> structs of \<^verbatim>\<open>src/src/state.rs\<close>: \<open>bytemuck::from_bytes\<close>
  reads an account's bytes as a struct in place, so a handler that changes a field changes the
  bytes at the field's offset.  Offsets and sizes follow the declaration order (352 and 152
  bytes, no implicit padding).  The offset of every field is proved, that assigning a field rewrites its
  bytes in place, and both directions of the correspondence, so no byte of an account is lost by
  reading and writing it back.
\<close>

definition STAKE_POOL_SIZE :: nat where
  "STAKE_POOL_SIZE = 352"

definition STAKE_DEPOSIT_SIZE :: nat where
  "STAKE_DEPOSIT_SIZE = 152"

definition encode_pool :: "stake_pool \<Rightarrow> byte list" where
  "encode_pool p =
     [is_initialized p, bump p, vault_authority_bump p, admin_transferred p] @ padding p
     @ key_bytes (slab p) @ key_bytes (admin p) @ key_bytes (collateral_mint p)
     @ key_bytes (lp_mint p) @ key_bytes (vault p)
     @ le_u64 (total_deposited p) @ le_u64 (total_lp_supply p) @ le_u64 (cooldown_slots p)
     @ le_u64 (deposit_cap p) @ le_u64 (total_flushed p) @ le_u64 (total_returned p)
     @ le_u64 (total_withdrawn p) @ key_bytes (percolator_program p)
     @ le_u64 (total_fees_earned p) @ le_u64 (last_fee_accrual_slot p)
     @ le_u64 (last_vault_snapshot p) @ [pool_mode p] @ mode_padding p @ reserved p"

definition decode_pool :: "byte list \<Rightarrow> stake_pool" where
  "decode_pool bs = \<lparr>
     is_initialized = bs ! 0, bump = bs ! 1, vault_authority_bump = bs ! 2,
     admin_transferred = bs ! 3, padding = subslice 4 4 bs,
     slab = key_of (subslice 8 32 bs), admin = key_of (subslice 40 32 bs),
     collateral_mint = key_of (subslice 72 32 bs), lp_mint = key_of (subslice 104 32 bs),
     vault = key_of (subslice 136 32 bs),
     total_deposited = of_u64 (subslice 168 8 bs), total_lp_supply = of_u64 (subslice 176 8 bs),
     cooldown_slots = of_u64 (subslice 184 8 bs), deposit_cap = of_u64 (subslice 192 8 bs),
     total_flushed = of_u64 (subslice 200 8 bs), total_returned = of_u64 (subslice 208 8 bs),
     total_withdrawn = of_u64 (subslice 216 8 bs),
     percolator_program = key_of (subslice 224 32 bs),
     total_fees_earned = of_u64 (subslice 256 8 bs),
     last_fee_accrual_slot = of_u64 (subslice 264 8 bs),
     last_vault_snapshot = of_u64 (subslice 272 8 bs),
     pool_mode = bs ! 280, mode_padding = subslice 281 7 bs, reserved = subslice 288 64 bs\<rparr>"

definition encode_deposit :: "stake_deposit \<Rightarrow> byte list" where
  "encode_deposit d =
     [dep_is_initialized d, dep_bump d] @ dep_padding d @ key_bytes (dep_pool d)
     @ key_bytes (dep_user d) @ le_u64 (last_deposit_slot d) @ le_u64 (lp_amount d)
     @ dep_reserved d"

definition decode_deposit :: "byte list \<Rightarrow> stake_deposit" where
  "decode_deposit bs = \<lparr>
     dep_is_initialized = bs ! 0, dep_bump = bs ! 1, dep_padding = subslice 2 6 bs,
     dep_pool = key_of (subslice 8 32 bs), dep_user = key_of (subslice 40 32 bs),
     last_deposit_slot = of_u64 (subslice 72 8 bs), lp_amount = of_u64 (subslice 80 8 bs),
     dep_reserved = subslice 88 64 bs\<rparr>"

section \<open>Both directions\<close>

lemma length_encode_pool: "wf_pool p \<Longrightarrow> length (encode_pool p) = 352"
  by (simp add: encode_pool_def wf_pool_def)

lemma length_encode_deposit: "wf_deposit d \<Longrightarrow> length (encode_deposit d) = 152"
  by (simp add: encode_deposit_def wf_deposit_def)

lemma wf_decode_pool: "length bs = 352 \<Longrightarrow> wf_pool (decode_pool bs)"
  by (simp add: decode_pool_def wf_pool_def)

lemma wf_decode_deposit: "length bs = 152 \<Longrightarrow> wf_deposit (decode_deposit bs)"
  by (simp add: decode_deposit_def wf_deposit_def)

lemma decode_encode_pool: "wf_pool p \<Longrightarrow> decode_pool (encode_pool p) = p"
  by (simp add: decode_pool_def encode_pool_def wf_pool_def subslice_def codec64.dec_enc
      codec_key.dec_enc nth_Cons' nth_append)

lemma decode_encode_deposit: "wf_deposit d \<Longrightarrow> decode_deposit (encode_deposit d) = d"
  by (simp add: decode_deposit_def encode_deposit_def wf_deposit_def subslice_def codec64.dec_enc
      codec_key.dec_enc nth_Cons')

lemma join_subslice: "b = a + n \<Longrightarrow> a + n \<le> length bs \<Longrightarrow> subslice a n bs @ drop b bs = drop a bs"
  by (metis subslice_def append_take_drop_id drop_drop add.commute)

lemma join_nth: "j = Suc i \<Longrightarrow> i < length bs \<Longrightarrow> bs ! i # drop j bs = drop i bs"
  by (simp add: Cons_nth_drop_Suc)

lemma last_subslice: "length bs = a + n \<Longrightarrow> subslice a n bs = drop a bs"
  by (simp add: subslice_def)

lemma encode_decode_pool:
  assumes "length bs = 352"
  shows "encode_pool (decode_pool bs) = bs"
proof -
  have "encode_pool (decode_pool bs) = drop 0 bs"
    unfolding encode_pool_def decode_pool_def
    by (simp add: assms codec64.enc_dec codec_key.enc_dec last_subslice [of bs 288] join_subslice
        join_nth del: drop_0)
  then show ?thesis
    by simp
qed

lemma encode_decode_deposit:
  assumes "length bs = 152"
  shows "encode_deposit (decode_deposit bs) = bs"
proof -
  have "encode_deposit (decode_deposit bs) = drop 0 bs"
    unfolding encode_deposit_def decode_deposit_def
    by (simp add: assms codec64.enc_dec codec_key.enc_dec last_subslice [of bs 88] join_subslice
        join_nth del: drop_0)
  then show ?thesis
    by simp
qed

section \<open>Offsets\<close>

text \<open>Where each field lies, and that assigning it rewrites its bytes in place.\<close>

lemma pool_places:
  assumes "wf_pool p"
  shows "take 4 (encode_pool p) = [is_initialized p, bump p, vault_authority_bump p, admin_transferred p]"
   and "subslice 8 160 (encode_pool p) = key_bytes (slab p) @ key_bytes (admin p) @ key_bytes (collateral_mint p)
       @ key_bytes (lp_mint p) @ key_bytes (vault p)"
   and "subslice 224 32 (encode_pool p) = key_bytes (percolator_program p)"
   and "subslice 288 64 (encode_pool p) = reserved p"
  using assms by (simp_all add: encode_pool_def wf_pool_def subslice_def)

lemma pool_writes:
  assumes "wf_pool p"
  shows "encode_pool (p\<lparr>admin_transferred := b\<rparr>) = copy_into 3 [b] (encode_pool p)"
   and "encode_pool (p\<lparr>total_deposited := v\<rparr>) = copy_into 168 (le_u64 v) (encode_pool p)"
   and "encode_pool (p\<lparr>total_lp_supply := v\<rparr>) = copy_into 176 (le_u64 v) (encode_pool p)"
   and "encode_pool (p\<lparr>cooldown_slots := v\<rparr>) = copy_into 184 (le_u64 v) (encode_pool p)"
   and "encode_pool (p\<lparr>deposit_cap := v\<rparr>) = copy_into 192 (le_u64 v) (encode_pool p)"
   and "encode_pool (p\<lparr>total_flushed := v\<rparr>) = copy_into 200 (le_u64 v) (encode_pool p)"
   and "encode_pool (p\<lparr>total_returned := v\<rparr>) = copy_into 208 (le_u64 v) (encode_pool p)"
   and "encode_pool (p\<lparr>total_withdrawn := v\<rparr>) = copy_into 216 (le_u64 v) (encode_pool p)"
   and "encode_pool (p\<lparr>total_fees_earned := v\<rparr>) = copy_into 256 (le_u64 v) (encode_pool p)"
   and "encode_pool (p\<lparr>last_fee_accrual_slot := v\<rparr>) = copy_into 264 (le_u64 v) (encode_pool p)"
   and "encode_pool (p\<lparr>last_vault_snapshot := v\<rparr>) = copy_into 272 (le_u64 v) (encode_pool p)"
   and "encode_pool (p\<lparr>pool_mode := b\<rparr>) = copy_into 280 [b] (encode_pool p)"
  using assms by (simp_all add: encode_pool_def wf_pool_def copy_into_def)

lemma deposit_places:
  assumes "wf_deposit d"
  shows "take 2 (encode_deposit d) = [dep_is_initialized d, dep_bump d]"
   and "subslice 8 64 (encode_deposit d) = key_bytes (dep_pool d) @ key_bytes (dep_user d)"
   and "encode_deposit (d\<lparr>last_deposit_slot := v\<rparr>) = copy_into 72 (le_u64 v) (encode_deposit d)"
   and "encode_deposit (d\<lparr>lp_amount := v\<rparr>) = copy_into 80 (le_u64 v) (encode_deposit d)"
   and "subslice 88 64 (encode_deposit d) = dep_reserved d"
  using assms by (simp_all add: encode_deposit_def wf_deposit_def copy_into_def subslice_def)

section \<open>Zeroed accounts\<close>

definition zeroed_pool :: stake_pool where
  "zeroed_pool = \<lparr>is_initialized = 0, bump = 0, vault_authority_bump = 0, admin_transferred = 0,
     padding = replicate 4 0, slab = 0, admin = 0, collateral_mint = 0, lp_mint = 0, vault = 0,
     total_deposited = 0, total_lp_supply = 0, cooldown_slots = 0, deposit_cap = 0,
     total_flushed = 0, total_returned = 0, total_withdrawn = 0, percolator_program = 0,
     total_fees_earned = 0, last_fee_accrual_slot = 0, last_vault_snapshot = 0, pool_mode = 0,
     mode_padding = replicate 7 0, reserved = replicate 64 0\<rparr>"

definition zeroed_deposit :: stake_deposit where
  "zeroed_deposit = \<lparr>dep_is_initialized = 0, dep_bump = 0, dep_padding = replicate 6 0,
     dep_pool = 0, dep_user = 0, last_deposit_slot = 0, lp_amount = 0,
     dep_reserved = replicate 64 0\<rparr>"

lemma from_le_bytes_zero: "from_le_bytes (replicate n 0) = 0"
proof -
  have "nat_of_le (replicate n 0) = 0"
    by (induction n) auto
  then show ?thesis
    by (simp add: from_le_bytes_def)
qed

lemma subslice_replicate: "a + n \<le> m \<Longrightarrow> subslice a n (replicate m x) = replicate n x"
  by (simp add: subslice_def)

lemma decode_pool_zero: "decode_pool (replicate 352 0) = zeroed_pool"
  by (simp add: decode_pool_def zeroed_pool_def subslice_replicate from_le_bytes_zero)

lemma decode_deposit_zero: "decode_deposit (replicate 152 0) = zeroed_deposit"
  by (simp add: decode_deposit_def zeroed_deposit_def subslice_replicate from_le_bytes_zero)

lemma wf_zeroed [simp]: "wf_pool zeroed_pool" "wf_deposit zeroed_deposit"
  by (simp_all add: wf_pool_def wf_deposit_def zeroed_pool_def zeroed_deposit_def)

section \<open>Properties\<close>

text \<open>C32. Every field has its place: in the 352 bytes of a pool account and the 152 of a deposit record each field lies at
  the offset of the C layout (those the struct layout tests pin down), little-endian, and assigning a field
  rewrites exactly its own bytes in place.  Reading the bytes of an account as a struct and writing
  the struct back loses nothing.\<close>
theorem layout_in_place:
  assumes "wf_pool p" and "wf_deposit d" and "length bs = STAKE_POOL_SIZE" and "length cs = STAKE_DEPOSIT_SIZE"
  shows "length (encode_pool p) = 352 \<and> length (encode_deposit d) = 152
   \<and> take 4 (encode_pool p) = [is_initialized p, bump p, vault_authority_bump p, admin_transferred p]
   \<and> subslice 8 160 (encode_pool p) = key_bytes (slab p) @ key_bytes (admin p) @ key_bytes (collateral_mint p)
       @ key_bytes (lp_mint p) @ key_bytes (vault p)
   \<and> subslice 224 32 (encode_pool p) = key_bytes (percolator_program p)
   \<and> encode_pool (p\<lparr>admin_transferred := b\<rparr>) = copy_into 3 [b] (encode_pool p)
   \<and> encode_pool (p\<lparr>total_deposited := v\<rparr>) = copy_into 168 (le_u64 v) (encode_pool p)
   \<and> encode_pool (p\<lparr>total_lp_supply := v\<rparr>) = copy_into 176 (le_u64 v) (encode_pool p)
   \<and> encode_pool (p\<lparr>cooldown_slots := v\<rparr>) = copy_into 184 (le_u64 v) (encode_pool p)
   \<and> encode_pool (p\<lparr>deposit_cap := v\<rparr>) = copy_into 192 (le_u64 v) (encode_pool p)
   \<and> encode_pool (p\<lparr>total_flushed := v\<rparr>) = copy_into 200 (le_u64 v) (encode_pool p)
   \<and> encode_pool (p\<lparr>total_returned := v\<rparr>) = copy_into 208 (le_u64 v) (encode_pool p)
   \<and> encode_pool (p\<lparr>total_withdrawn := v\<rparr>) = copy_into 216 (le_u64 v) (encode_pool p)
   \<and> encode_pool (p\<lparr>total_fees_earned := v\<rparr>) = copy_into 256 (le_u64 v) (encode_pool p)
   \<and> encode_pool (p\<lparr>last_fee_accrual_slot := v\<rparr>) = copy_into 264 (le_u64 v) (encode_pool p)
   \<and> encode_pool (p\<lparr>last_vault_snapshot := v\<rparr>) = copy_into 272 (le_u64 v) (encode_pool p)
   \<and> encode_pool (p\<lparr>pool_mode := b\<rparr>) = copy_into 280 [b] (encode_pool p)
   \<and> subslice 288 64 (encode_pool p) = reserved p
   \<and> take 2 (encode_deposit d) = [dep_is_initialized d, dep_bump d]
   \<and> subslice 8 64 (encode_deposit d) = key_bytes (dep_pool d) @ key_bytes (dep_user d)
   \<and> encode_deposit (d\<lparr>last_deposit_slot := v\<rparr>) = copy_into 72 (le_u64 v) (encode_deposit d)
   \<and> encode_deposit (d\<lparr>lp_amount := v\<rparr>) = copy_into 80 (le_u64 v) (encode_deposit d)
   \<and> subslice 88 64 (encode_deposit d) = dep_reserved d
   \<and> decode_pool (encode_pool p) = p \<and> encode_pool (decode_pool bs) = bs
   \<and> decode_deposit (encode_deposit d) = d \<and> encode_deposit (decode_deposit cs) = cs"
  using assms unfolding STAKE_POOL_SIZE_def STAKE_DEPOSIT_SIZE_def
  by (intro conjI pool_places pool_writes deposit_places length_encode_pool length_encode_deposit
      decode_encode_pool decode_encode_deposit encode_decode_pool encode_decode_deposit)

lemma le_u64_bytes: "le_u64 x = le_of_nat (Suc (Suc (Suc (Suc (Suc (Suc (Suc (Suc 0)))))))) (unat x)"
proof -
  have "LENGTH(64) div 8 = Suc (Suc (Suc (Suc (Suc (Suc (Suc (Suc 0)))))))"
    by simp
  then show ?thesis
    unfolding to_le_bytes_def by (rule arg_cong)
qed

theorem layout_in_place_witness:
  "encode_pool (zeroed_pool\<lparr>total_withdrawn := 258\<rparr>)
     = replicate 216 0 @ [2, 1, 0, 0, 0, 0, 0, 0] @ replicate 128 0
   \<and> encode_deposit (zeroed_deposit\<lparr>lp_amount := 1\<rparr>) = replicate 80 0 @ [1, 0, 0, 0, 0, 0, 0, 0] @ replicate 64 0
   \<and> encode_pool (decode_pool (replicate 352 7)) = replicate 352 7"
proof -
  have zero: "encode_pool zeroed_pool = replicate 352 0" "encode_deposit zeroed_deposit = replicate 152 0"
    using encode_decode_pool [of "replicate 352 0"] encode_decode_deposit [of "replicate 152 0"]
    by (simp_all add: decode_pool_zero decode_deposit_zero)
  have bytes: "le_u64 258 = [2, 1, 0, 0, 0, 0, 0, 0]" "le_u64 1 = [1, 0, 0, 0, 0, 0, 0, 0]"
    by (simp_all add: le_u64_bytes)
  have sizes: "length (replicate 352 (7 :: byte)) = STAKE_POOL_SIZE" "length (replicate 152 (7 :: byte)) = STAKE_DEPOSIT_SIZE"
    by (simp_all add: STAKE_POOL_SIZE_def STAKE_DEPOSIT_SIZE_def)
  have "encode_pool (zeroed_pool\<lparr>total_withdrawn := 258\<rparr>) = copy_into 216 (le_u64 258) (replicate 352 0)"
    "encode_deposit (zeroed_deposit\<lparr>lp_amount := 1\<rparr>) = copy_into 80 (le_u64 1) (replicate 152 0)"
    "encode_pool (decode_pool (replicate 352 7)) = replicate 352 7"
    using layout_in_place [OF wf_zeroed sizes] unfolding zero by blast+
  then show ?thesis
    by (simp only: bytes) (simp add: copy_into_def)
qed

text \<open>The fields kept in the reserved bytes are independent: after writing all of them each reads
  back its own value, and neither the flags nor the discriminator nor any plain field has moved.\<close>
lemma reserved_fields_independent:
  assumes "wf_pool p"
    and "q = set_hwm_floor_bps bps (set_epoch_high_water_tvl mark (set_hwm_last_epoch epoch
      (set_pre_supply_vault_offset offset p)))"
  shows "hwm_floor_bps q = bps \<and> epoch_high_water_tvl q = mark \<and> hwm_last_epoch q = epoch
    \<and> pre_supply_vault_offset q = offset \<and> is_resolved q = is_resolved p
    \<and> hwm_enabled q = hwm_enabled p \<and> validate_discriminator q = validate_discriminator p
    \<and> total_pool_value q = total_pool_value p \<and> is_initialized q = is_initialized p \<and> wf_pool q"
  using assms by (simp add: tvl_field.put_flags epoch_field.put_flags offset_field.put_flags
      floor_field.put_flags tvl_field.put_discriminator epoch_field.put_discriminator
      offset_field.put_discriminator floor_field.put_discriminator)

lemma reserved_fields_independent_example:
  "hwm_floor_bps (set_hwm_floor_bps 8000 (set_epoch_high_water_tvl 77 (set_hwm_last_epoch 5
      (set_pre_supply_vault_offset 9 zeroed_pool)))) = 8000
   \<and> pre_supply_vault_offset (set_hwm_floor_bps 8000 (set_epoch_high_water_tvl 77
      (set_hwm_last_epoch 5 (set_pre_supply_vault_offset 9 zeroed_pool)))) = 9"
  using reserved_fields_independent [of zeroed_pool _ 8000 77 5 9, OF _ refl] by simp

text \<open>C36. The pool value is exact: it is the inflows less the outflows whenever the inflows fit u64
  and cover the outflows, and \<open>None\<close> in every other case; no intermediate sum makes it fail
  earlier.\<close>
theorem pool_value_exact:
  "(total_pool_value p = Some v \<longleftrightarrow>
      assets_in p < 2 ^ 64 \<and> assets_in p = assets_out p + unat v)
   \<and> (total_pool_value p = None \<longleftrightarrow> 2 ^ 64 \<le> assets_in p \<or> assets_in p < assets_out p)"
  using total_pool_value_Some total_pool_value_None by blast



end
