(* ===== verification/Stake_Error.thy ===== *)
theory Stake_Error
  imports Vault_Prelude
begin

text \<open>
  The error enum of \<^verbatim>\<open>src/src/error.rs\<close> with its \<open>repr(u32)\<close> discriminants, and its conversion
  into the runtime's error type.  \<open>fault\<close> has the variants of Solana's \<open>ProgramError\<close> that the
  program returns itself, one for any other error a callee reports, and \<open>Panicked\<close> for a Rust
  panic, which aborts the transaction as an error does.
\<close>

datatype fault =
    Custom u32
  | InvalidArgument
  | InvalidInstructionData
  | InvalidAccountData
  | InsufficientFunds
  | IncorrectProgramId
  | MissingRequiredSignature
  | UninitializedAccount
  | NotEnoughAccountKeys
  | AccountBorrowFailed
  | CalleeError u64
  | Panicked

datatype stake_error =
    AlreadyInitialized
  | NotInitialized
  | Unauthorized
  | CooldownNotElapsed
  | InsufficientLpTokens
  | ZeroAmount
  | Overflow
  | InvalidMint
  | MarketResolved
  | DepositCapExceeded
  | InvalidPda
  | AdminAlreadyTransferred
  | AdminNotTransferred
  | InsufficientVaultBalance
  | InvalidPercolatorProgram
  | CpiFailed
  | InvalidAccount
  | InvalidPoolMode
  | WithdrawalBelowHwmFloor

fun error_code :: "stake_error \<Rightarrow> u32" where
  "error_code AlreadyInitialized = 0"
| "error_code NotInitialized = 1"
| "error_code Unauthorized = 2"
| "error_code CooldownNotElapsed = 3"
| "error_code InsufficientLpTokens = 4"
| "error_code ZeroAmount = 5"
| "error_code Overflow = 6"
| "error_code InvalidMint = 7"
| "error_code MarketResolved = 8"
| "error_code DepositCapExceeded = 9"
| "error_code InvalidPda = 10"
| "error_code AdminAlreadyTransferred = 11"
| "error_code AdminNotTransferred = 12"
| "error_code InsufficientVaultBalance = 13"
| "error_code InvalidPercolatorProgram = 14"
| "error_code CpiFailed = 15"
| "error_code InvalidAccount = 16"
| "error_code InvalidPoolMode = 17"
| "error_code WithdrawalBelowHwmFloor = 18"

definition stake_err :: "stake_error \<Rightarrow> fault" where
  "stake_err e = Custom (error_code e)"

text \<open>The code read back: the position of the variant in the enum.\<close>

definition stake_errors :: "stake_error list" where
  "stake_errors = [AlreadyInitialized, NotInitialized, Unauthorized, CooldownNotElapsed,
     InsufficientLpTokens, ZeroAmount, Overflow, InvalidMint, MarketResolved, DepositCapExceeded,
     InvalidPda, AdminAlreadyTransferred, AdminNotTransferred, InsufficientVaultBalance,
     InvalidPercolatorProgram, CpiFailed, InvalidAccount, InvalidPoolMode, WithdrawalBelowHwmFloor]"

lemma error_code_position: "unat (error_code e) < 19 \<and> stake_errors ! unat (error_code e) = e"
  by (cases e) (simp_all add: stake_errors_def)

lemma error_code_inject [simp]: "error_code a = error_code b \<longleftrightarrow> a = b"
  using error_code_position [of a] error_code_position [of b] by metis

lemma stake_err_inject [simp]: "stake_err a = stake_err b \<longleftrightarrow> a = b"
  by (simp add: stake_err_def)

lemma stake_err_distinct [simp]:
  "stake_err e \<noteq> InvalidArgument" "stake_err e \<noteq> InvalidInstructionData"
  "stake_err e \<noteq> InvalidAccountData" "stake_err e \<noteq> InsufficientFunds"
  "stake_err e \<noteq> IncorrectProgramId" "stake_err e \<noteq> MissingRequiredSignature"
  "stake_err e \<noteq> UninitializedAccount" "stake_err e \<noteq> NotEnoughAccountKeys"
  "stake_err e \<noteq> AccountBorrowFailed" "stake_err e \<noteq> Panicked"
  by (simp_all add: stake_err_def)

section \<open>Properties\<close>

text \<open>Error codes identify errors: each variant's code is its position in the enum, so no two
  variants share one, and a program error never equals an error of the runtime.\<close>
lemma error_codes_distinct:
  "stake_errors ! unat (error_code e) = e \<and> (stake_err a = stake_err b \<longleftrightarrow> a = b)
    \<and> stake_err a \<noteq> MissingRequiredSignature \<and> stake_err a \<noteq> InvalidInstructionData"
  using error_code_position by simp

end
