(* ===== verification/Runtime.thy ===== *)
theory Runtime
  imports Pool_Layout Stake_Error
begin

text \<open>
  The program's view of the Solana runtime.  Accounts live in a store keyed by address; an
  \<open>AccountInfo\<close> names one of them and carries its signer and writable flags, so two infos with
  the same key alias the same account, and the data's \<open>RefCell\<close> is modelled by the list of
  keys whose data is mutably borrowed.  What lies outside the repository (the SDK's account
  iterator, address derivation, sysvars, and the programs reached by cross-program invocation)
  is the record \<open>sdk\<close>, a parameter of every handler; what the program relies on is stated as
  named laws of that record, each a documented guarantee of Solana.
\<close>

section \<open>Accounts and the store\<close>

record account =
  acc_lamports :: u64
  acc_owner :: pubkey
  acc_data :: "byte list"

record account_info =
  ai_key :: pubkey
  ai_is_signer :: bool
  ai_is_writable :: bool

record world =
  accts :: "pubkey \<Rightarrow> account"
  mut_borrowed :: "pubkey list"

record clock =
  clock_slot :: u64
  clock_epoch :: u64

definition info_account :: "world \<Rightarrow> account_info \<Rightarrow> account" where
  "info_account w ai = accts w (ai_key ai)"

definition info_owner :: "world \<Rightarrow> account_info \<Rightarrow> pubkey" where
  "info_owner w ai = acc_owner (info_account w ai)"

definition info_lamports :: "world \<Rightarrow> account_info \<Rightarrow> u64" where
  "info_lamports w ai = acc_lamports (info_account w ai)"

text \<open>\<open>data_is_empty\<close> borrows the data and panics while a mutable borrow is held.\<close>

definition data_is_empty :: "world \<Rightarrow> account_info \<Rightarrow> fault + bool" where
  "data_is_empty w ai =
     (if ai_key ai \<in> set (mut_borrowed w) then Inl Panicked
      else Inr (acc_data (info_account w ai) = []))"

definition try_borrow_data :: "world \<Rightarrow> account_info \<Rightarrow> fault + byte list" where
  "try_borrow_data w ai =
     (if ai_key ai \<in> set (mut_borrowed w) then Inl AccountBorrowFailed
      else Inr (acc_data (info_account w ai)))"

text \<open>A mutable borrow hands out the bytes and holds the cell until \<open>release\<close>.\<close>

definition try_borrow_mut_data :: "world \<Rightarrow> account_info \<Rightarrow> fault + (byte list \<times> world)" where
  "try_borrow_mut_data w ai =
     (if ai_key ai \<in> set (mut_borrowed w) then Inl AccountBorrowFailed
      else Inr (acc_data (info_account w ai), w\<lparr>mut_borrowed := ai_key ai # mut_borrowed w\<rparr>))"

definition release :: "account_info \<Rightarrow> world \<Rightarrow> world" where
  "release ai w = w\<lparr>mut_borrowed := remove1 (ai_key ai) (mut_borrowed w)\<rparr>"

text \<open>\<open>bytemuck::from_bytes(&data[..SIZE])\<close>: slicing a shorter account panics.  Account data is
  8-byte aligned by the loader, so the cast itself cannot fail.\<close>

definition as_pool :: "byte list \<Rightarrow> fault + stake_pool" where
  "as_pool bs =
     (if length bs < STAKE_POOL_SIZE then Inl Panicked
      else Inr (decode_pool (take STAKE_POOL_SIZE bs)))"

definition as_deposit :: "byte list \<Rightarrow> fault + stake_deposit" where
  "as_deposit bs =
     (if length bs < STAKE_DEPOSIT_SIZE then Inl Panicked
      else Inr (decode_deposit (take STAKE_DEPOSIT_SIZE bs)))"

text \<open>Writes through the mutable reference: the struct's bytes are replaced in place.\<close>

definition write_data :: "pubkey \<Rightarrow> byte list \<Rightarrow> world \<Rightarrow> world" where
  "write_data k bs w =
     w\<lparr>accts := (accts w)(k := (accts w k)\<lparr>acc_data := bs @ drop (length bs) (acc_data (accts w k))\<rparr>)\<rparr>"

definition write_pool :: "account_info \<Rightarrow> stake_pool \<Rightarrow> world \<Rightarrow> world" where
  "write_pool ai p w = write_data (ai_key ai) (encode_pool p) w"

definition write_deposit :: "account_info \<Rightarrow> stake_deposit \<Rightarrow> world \<Rightarrow> world" where
  "write_deposit ai d w = write_data (ai_key ai) (encode_deposit d) w"

section \<open>Cross-program invocations\<close>

record account_meta =
  meta_key :: pubkey
  meta_is_signer :: bool
  meta_is_writable :: bool

record instruction =
  ix_program_id :: pubkey
  ix_accounts :: "account_meta list"
  ix_data :: "byte list"

text \<open>
  What the program asks another program to do.  The arguments are those of the SDK's
  instruction builders, in their order; the wrapper's instructions are built by hand in
  \<^verbatim>\<open>src/src/cpi.rs\<close> and carry the raw instruction.
\<close>

datatype cpi_call =
    WrapperCall instruction
  | TokenTransfer pubkey pubkey pubkey pubkey u64
  | TokenMintTo pubkey pubkey pubkey pubkey u64
  | TokenBurn pubkey pubkey pubkey pubkey u64
  | TokenInitializeMint pubkey pubkey pubkey "pubkey option" u8
  | TokenInitializeAccount pubkey pubkey pubkey pubkey
  | SystemCreateAccount pubkey pubkey u64 u64 pubkey
  | SystemTransfer pubkey pubkey u64
  | SystemAllocate pubkey u64
  | SystemAssign pubkey pubkey

type_synonym seeds = "byte list list"

record sdk =
  next_account_info :: "account_info list \<Rightarrow> fault + (account_info \<times> account_info list)"
  find_program_address :: "seeds \<Rightarrow> pubkey \<Rightarrow> pubkey \<times> u8"
  invoke :: "world \<Rightarrow> cpi_call \<Rightarrow> account_info list \<Rightarrow> fault + world"
  invoke_signed :: "world \<Rightarrow> cpi_call \<Rightarrow> account_info list \<Rightarrow> seeds list \<Rightarrow> fault + world"
  rent_minimum_balance :: "nat \<Rightarrow> fault + u64"
  clock_from_account_info :: "world \<Rightarrow> account_info \<Rightarrow> fault + clock"
  token_account_amount :: "byte list \<Rightarrow> fault + u64"
  spl_token_id :: pubkey
  system_program_id :: pubkey

fun call_program :: "sdk \<Rightarrow> cpi_call \<Rightarrow> pubkey" where
  "call_program S (WrapperCall ix) = ix_program_id ix"
| "call_program S (TokenTransfer prog _ _ _ _) = prog"
| "call_program S (TokenMintTo prog _ _ _ _) = prog"
| "call_program S (TokenBurn prog _ _ _ _) = prog"
| "call_program S (TokenInitializeMint prog _ _ _ _) = prog"
| "call_program S (TokenInitializeAccount prog _ _ _) = prog"
| "call_program S (SystemCreateAccount _ _ _ _ _) = system_program_id S"
| "call_program S (SystemTransfer _ _ _) = system_program_id S"
| "call_program S (SystemAllocate _ _) = system_program_id S"
| "call_program S (SystemAssign _ _) = system_program_id S"

section \<open>Program-derived addresses\<close>

definition seed_of :: "string \<Rightarrow> byte list" where
  "seed_of s = map of_char s"

definition derive_pool_pda :: "sdk \<Rightarrow> pubkey \<Rightarrow> pubkey \<Rightarrow> pubkey \<times> u8" where
  "derive_pool_pda S program_id slab_key =
     find_program_address S [seed_of ''stake_pool'', key_bytes slab_key] program_id"

definition derive_vault_authority :: "sdk \<Rightarrow> pubkey \<Rightarrow> pubkey \<Rightarrow> pubkey \<times> u8" where
  "derive_vault_authority S program_id pool_key =
     find_program_address S [seed_of ''vault_auth'', key_bytes pool_key] program_id"

definition derive_deposit_pda :: "sdk \<Rightarrow> pubkey \<Rightarrow> pubkey \<Rightarrow> pubkey \<Rightarrow> pubkey \<times> u8" where
  "derive_deposit_pda S program_id pool_key user_key =
     find_program_address S [seed_of ''stake_deposit'', key_bytes pool_key, key_bytes user_key]
       program_id"

section \<open>Laws of the runtime\<close>

text \<open>\<open>next_account_info\<close> walks the account list and fails at its end.\<close>

definition iter_law :: "sdk \<Rightarrow> bool" where
  "iter_law S \<longleftrightarrow> next_account_info S [] = Inl NotEnoughAccountKeys
     \<and> (\<forall>a as. next_account_info S (a # as) = Inr (a, as))"

lemma iter_lawD:
  "iter_law S \<Longrightarrow> next_account_info S [] = Inl NotEnoughAccountKeys"
  "iter_law S \<Longrightarrow> next_account_info S (a # as) = Inr (a, as)"
  by (simp_all add: iter_law_def)

text \<open>
  Only the owner of an account may change its data or assign it to another program: an
  invocation of a program other than \<open>pid\<close> leaves the data and the owner of every account
  owned by \<open>pid\<close> as they are.  The caller's outstanding borrows are its own.
\<close>

definition cpi_effect_ok :: "pubkey \<Rightarrow> world \<Rightarrow> world \<Rightarrow> bool" where
  "cpi_effect_ok pid w w' \<longleftrightarrow> mut_borrowed w' = mut_borrowed w
     \<and> (\<forall>k. acc_owner (accts w k) = pid \<longrightarrow>
          acc_owner (accts w' k) = pid \<and> acc_data (accts w' k) = acc_data (accts w k))"

definition owner_law :: "sdk \<Rightarrow> pubkey \<Rightarrow> bool" where
  "owner_law S pid \<longleftrightarrow>
     (\<forall>w call infos w'. call_program S call \<noteq> pid \<longrightarrow>
        invoke S w call infos = Inr w' \<longrightarrow> cpi_effect_ok pid w w')
     \<and> (\<forall>w call infos sds w'. call_program S call \<noteq> pid \<longrightarrow>
        invoke_signed S w call infos sds = Inr w' \<longrightarrow> cpi_effect_ok pid w w')"

lemma cpi_effect_ok_refl [simp]: "cpi_effect_ok pid w w"
  by (simp add: cpi_effect_ok_def)

lemma cpi_effect_ok_trans:
  "cpi_effect_ok pid w w' \<Longrightarrow> cpi_effect_ok pid w' w'' \<Longrightarrow> cpi_effect_ok pid w w''"
  by (simp add: cpi_effect_ok_def)

lemma owner_law_invoke:
  "owner_law S pid \<Longrightarrow> invoke S w call infos = Inr w' \<Longrightarrow> call_program S call \<noteq> pid \<Longrightarrow>
    cpi_effect_ok pid w w'"
  by (auto simp: owner_law_def)

lemma owner_law_invoke_signed:
  "owner_law S pid \<Longrightarrow> invoke_signed S w call infos sds = Inr w' \<Longrightarrow> call_program S call \<noteq> pid \<Longrightarrow>
    cpi_effect_ok pid w w'"
  by (auto simp: owner_law_def)

section \<open>Reading back what was written\<close>

definition pool_at :: "world \<Rightarrow> pubkey \<Rightarrow> stake_pool" where
  "pool_at w k = decode_pool (take STAKE_POOL_SIZE (acc_data (accts w k)))"

definition deposit_at :: "world \<Rightarrow> pubkey \<Rightarrow> stake_deposit" where
  "deposit_at w k = decode_deposit (take STAKE_DEPOSIT_SIZE (acc_data (accts w k)))"

text \<open>An account that the program owns and that is large enough for a pool.\<close>

definition pool_account :: "pubkey \<Rightarrow> world \<Rightarrow> pubkey \<Rightarrow> bool" where
  "pool_account pid w k \<longleftrightarrow>
     acc_owner (accts w k) = pid \<and> STAKE_POOL_SIZE \<le> length (acc_data (accts w k))"

lemma as_pool_Inr [res_inv]:
  "as_pool bs = Inr p \<longleftrightarrow> STAKE_POOL_SIZE \<le> length bs \<and> p = decode_pool (take STAKE_POOL_SIZE bs)"
  by (auto simp: as_pool_def)

lemma as_deposit_Inr [res_inv]:
  "as_deposit bs = Inr d \<longleftrightarrow>
    STAKE_DEPOSIT_SIZE \<le> length bs \<and> d = decode_deposit (take STAKE_DEPOSIT_SIZE bs)"
  by (auto simp: as_deposit_def)

lemma try_borrow_data_Inr [res_inv]:
  "try_borrow_data w ai = Inr bs \<longleftrightarrow>
    ai_key ai \<notin> set (mut_borrowed w) \<and> bs = acc_data (accts w (ai_key ai))"
  by (auto simp: try_borrow_data_def info_account_def)

lemma try_borrow_mut_data_Inr [res_inv]:
  "try_borrow_mut_data w ai = Inr x \<longleftrightarrow> ai_key ai \<notin> set (mut_borrowed w)
    \<and> x = (acc_data (accts w (ai_key ai)), w\<lparr>mut_borrowed := ai_key ai # mut_borrowed w\<rparr>)"
  by (auto simp: try_borrow_mut_data_def info_account_def)

lemma data_is_empty_Inr [res_inv]:
  "data_is_empty w ai = Inr b \<longleftrightarrow>
    ai_key ai \<notin> set (mut_borrowed w) \<and> b = (acc_data (accts w (ai_key ai)) = [])"
  by (auto simp: data_is_empty_def info_account_def)

lemma wf_pool_at: "STAKE_POOL_SIZE \<le> length (acc_data (accts w k)) \<Longrightarrow> wf_pool (pool_at w k)"
  by (simp add: pool_at_def STAKE_POOL_SIZE_def wf_decode_pool)

lemma wf_deposit_at:
  "STAKE_DEPOSIT_SIZE \<le> length (acc_data (accts w k)) \<Longrightarrow> wf_deposit (deposit_at w k)"
  by (simp add: deposit_at_def STAKE_DEPOSIT_SIZE_def wf_decode_deposit)

lemma accts_release [simp]: "accts (release ai w) = accts w"
  by (simp add: release_def)

lemma accts_borrow [simp]: "accts (w\<lparr>mut_borrowed := x\<rparr>) = accts w"
  by simp

lemma write_data_other [simp]: "k \<noteq> k' \<Longrightarrow> accts (write_data k bs w) k' = accts w k'"
  by (simp add: write_data_def)

lemma write_data_owner [simp]: "acc_owner (accts (write_data k bs w) k') = acc_owner (accts w k')"
  by (simp add: write_data_def)

lemma write_data_borrowed [simp]: "mut_borrowed (write_data k bs w) = mut_borrowed w"
  by (simp add: write_data_def)

lemma pool_at_write_pool:
  assumes "wf_pool p"
  shows "pool_at (write_pool ai p w) (ai_key ai) = p"
  using assms by (simp add: pool_at_def write_pool_def write_data_def STAKE_POOL_SIZE_def
      length_encode_pool decode_encode_pool)

lemma pool_at_write_other:
  "ai_key ai \<noteq> k \<Longrightarrow> pool_at (write_pool ai p w) k = pool_at w k"
  "ai_key ai \<noteq> k \<Longrightarrow> pool_at (write_deposit ai d w) k = pool_at w k"
  by (simp_all add: pool_at_def write_pool_def write_deposit_def)

lemma deposit_at_write_deposit:
  assumes "wf_deposit d"
  shows "deposit_at (write_deposit ai d w) (ai_key ai) = d"
  using assms by (simp add: deposit_at_def write_deposit_def write_data_def STAKE_DEPOSIT_SIZE_def
      length_encode_deposit decode_encode_deposit)

lemma deposit_at_write_other:
  "ai_key ai \<noteq> k \<Longrightarrow> deposit_at (write_pool ai p w) k = deposit_at w k"
  "ai_key ai \<noteq> k \<Longrightarrow> deposit_at (write_deposit ai d w) k = deposit_at w k"
  by (simp_all add: deposit_at_def write_pool_def write_deposit_def)

lemma pool_at_release [simp]: "pool_at (release ai w) k = pool_at w k"
  by (simp add: pool_at_def)

lemma deposit_at_release [simp]: "deposit_at (release ai w) k = deposit_at w k"
  by (simp add: deposit_at_def)

lemma pool_account_release [simp]: "pool_account pid (release ai w) k = pool_account pid w k"
  by (simp add: pool_account_def)

lemma pool_account_write_pool:
  "wf_pool p \<Longrightarrow> pool_account pid w k \<Longrightarrow> pool_account pid (write_pool ai p w) k"
  by (auto simp: pool_account_def write_pool_def write_data_def length_encode_pool STAKE_POOL_SIZE_def)

lemma cpi_effect_pool:
  assumes "cpi_effect_ok pid w w'" and "pool_account pid w k"
  shows "pool_account pid w' k" and "pool_at w' k = pool_at w k"
  using assms by (simp_all add: cpi_effect_ok_def pool_account_def pool_at_def)

end
