(* ===== verification/Wrapper_Cpi.thy ===== *)
theory Wrapper_Cpi
  imports Runtime
begin

text \<open>
  The hand-built instructions of \<^verbatim>\<open>src/src/cpi.rs\<close> for the percolator wrapper program: tag and
  payload bytes, account metas in the wrapper's order, and the accounts and signer seeds handed
  to \<open>invoke_signed\<close>.
\<close>

definition TAG_TOP_UP_INSURANCE :: u8 where "TAG_TOP_UP_INSURANCE = 9"
definition TAG_RESOLVE_MARKET :: u8 where "TAG_RESOLVE_MARKET = 19"
definition TAG_UPDATE_AUTHORITY :: u8 where "TAG_UPDATE_AUTHORITY = 32"
definition TAG_UPDATE_ASSET_AUTHORITY :: u8 where "TAG_UPDATE_ASSET_AUTHORITY = 65"
definition TAG_WITHDRAW_INSURANCE :: u8 where "TAG_WITHDRAW_INSURANCE = 41"

definition ASSET_AUTH_INSURANCE :: u8 where "ASSET_AUTH_INSURANCE = 1"
definition ASSET_AUTH_ORACLE :: u8 where "ASSET_AUTH_ORACLE = 4"

definition meta_writable :: "pubkey \<Rightarrow> bool \<Rightarrow> account_meta" where
  "meta_writable k s = \<lparr>meta_key = k, meta_is_signer = s, meta_is_writable = True\<rparr>"

definition meta_readonly :: "pubkey \<Rightarrow> bool \<Rightarrow> account_meta" where
  "meta_readonly k s = \<lparr>meta_key = k, meta_is_signer = s, meta_is_writable = False\<rparr>"

definition push_u128_from_u64 :: "byte list \<Rightarrow> u64 \<Rightarrow> byte list" where
  "push_u128_from_u64 out amount = out @ le_u128 (ucast amount)"

definition cpi_top_up_insurance :: "sdk \<Rightarrow> world \<Rightarrow> account_info \<Rightarrow> account_info \<Rightarrow> account_info \<Rightarrow>
    account_info \<Rightarrow> account_info \<Rightarrow> account_info \<Rightarrow> u64 \<Rightarrow> seeds \<Rightarrow> fault + world" where
  "cpi_top_up_insurance S w percolator_ai signer slab_ai signer_ata wrapper_vault token_program
       amount signer_seeds =
     (let data = push_u128_from_u64 [TAG_TOP_UP_INSURANCE] amount;
          ix = \<lparr>ix_program_id = ai_key percolator_ai,
                ix_accounts = [meta_readonly (ai_key signer) True, meta_writable (ai_key slab_ai) False,
                  meta_writable (ai_key signer_ata) False, meta_writable (ai_key wrapper_vault) False,
                  meta_readonly (ai_key token_program) False],
                ix_data = data\<rparr>
      in invoke_signed S w (WrapperCall ix)
           [signer, slab_ai, signer_ata, wrapper_vault, token_program] [signer_seeds])"

definition cpi_update_authority :: "sdk \<Rightarrow> world \<Rightarrow> account_info \<Rightarrow> account_info \<Rightarrow> account_info \<Rightarrow>
    account_info \<Rightarrow> seeds \<Rightarrow> fault + world" where
  "cpi_update_authority S w percolator_ai current_admin new_authority slab_ai new_authority_seeds =
     (let data = TAG_UPDATE_AUTHORITY # key_bytes (ai_key new_authority);
          ix = \<lparr>ix_program_id = ai_key percolator_ai,
                ix_accounts = [meta_readonly (ai_key current_admin) True,
                  meta_readonly (ai_key new_authority) True, meta_writable (ai_key slab_ai) False],
                ix_data = data\<rparr>
      in invoke_signed S w (WrapperCall ix) [current_admin, new_authority, slab_ai]
           [new_authority_seeds])"

definition cpi_update_asset_authority :: "sdk \<Rightarrow> world \<Rightarrow> account_info \<Rightarrow> account_info \<Rightarrow>
    account_info \<Rightarrow> account_info \<Rightarrow> u16 \<Rightarrow> u8 \<Rightarrow> seeds list \<Rightarrow> fault + world" where
  "cpi_update_asset_authority S w percolator_ai current_authority new_authority slab_ai asset_index
       kind signer_seeds =
     (let data = [TAG_UPDATE_ASSET_AUTHORITY] @ le_u16 asset_index @ [kind]
                   @ key_bytes (ai_key new_authority);
          ix = \<lparr>ix_program_id = ai_key percolator_ai,
                ix_accounts = [meta_readonly (ai_key current_authority) True,
                  meta_readonly (ai_key new_authority) True, meta_writable (ai_key slab_ai) False],
                ix_data = data\<rparr>
      in invoke_signed S w (WrapperCall ix) [current_authority, new_authority, slab_ai]
           signer_seeds)"

definition cpi_set_risk_threshold :: "account_info \<Rightarrow> account_info \<Rightarrow> account_info \<Rightarrow> u128 \<Rightarrow> seeds \<Rightarrow>
    fault + world" where
  "cpi_set_risk_threshold percolator_ai admin_pda slab_ai new_threshold admin_seeds =
     Inl InvalidInstructionData"

definition cpi_set_maintenance_fee :: "account_info \<Rightarrow> account_info \<Rightarrow> account_info \<Rightarrow> u128 \<Rightarrow> seeds \<Rightarrow>
    fault + world" where
  "cpi_set_maintenance_fee percolator_ai admin_pda slab_ai new_fee admin_seeds =
     Inl InvalidInstructionData"

definition cpi_resolve_market :: "sdk \<Rightarrow> world \<Rightarrow> account_info \<Rightarrow> account_info \<Rightarrow> account_info \<Rightarrow>
    seeds \<Rightarrow> fault + world" where
  "cpi_resolve_market S w percolator_ai admin_pda slab_ai admin_seeds =
     (let data = [TAG_RESOLVE_MARKET];
          ix = \<lparr>ix_program_id = ai_key percolator_ai,
                ix_accounts = [meta_readonly (ai_key admin_pda) True,
                  meta_writable (ai_key slab_ai) False],
                ix_data = data\<rparr>
      in invoke_signed S w (WrapperCall ix) [admin_pda, slab_ai] [admin_seeds])"

definition cpi_withdraw_insurance :: "sdk \<Rightarrow> world \<Rightarrow> account_info \<Rightarrow> account_info \<Rightarrow> account_info \<Rightarrow>
    account_info \<Rightarrow> account_info \<Rightarrow> account_info \<Rightarrow> account_info \<Rightarrow> u64 \<Rightarrow> seeds \<Rightarrow> fault + world" where
  "cpi_withdraw_insurance S w percolator_ai authority slab_ai dest_token wrapper_vault
       wrapper_vault_authority token_program amount authority_seeds =
     (let data = push_u128_from_u64 [TAG_WITHDRAW_INSURANCE] amount;
          ix = \<lparr>ix_program_id = ai_key percolator_ai,
                ix_accounts = [meta_readonly (ai_key authority) True,
                  meta_writable (ai_key slab_ai) False, meta_writable (ai_key dest_token) False,
                  meta_writable (ai_key wrapper_vault) False,
                  meta_readonly (ai_key wrapper_vault_authority) False,
                  meta_readonly (ai_key token_program) False],
                ix_data = data\<rparr>
      in invoke_signed S w (WrapperCall ix)
           [authority, slab_ai, dest_token, wrapper_vault, wrapper_vault_authority, token_program]
           [authority_seeds])"

lemmas cpi_defs = cpi_top_up_insurance_def cpi_update_authority_def cpi_update_asset_authority_def
  cpi_resolve_market_def cpi_withdraw_insurance_def

lemma wrapper_cpi_effect:
  assumes "owner_law S pid" and "ai_key percolator_ai \<noteq> pid"
  shows "cpi_top_up_insurance S w percolator_ai a b c d e n sd = Inr w' \<Longrightarrow> cpi_effect_ok pid w w'"
    and "cpi_update_authority S w percolator_ai a b c sd = Inr w' \<Longrightarrow> cpi_effect_ok pid w w'"
    and "cpi_update_asset_authority S w percolator_ai a b c i k sds = Inr w' \<Longrightarrow> cpi_effect_ok pid w w'"
    and "cpi_resolve_market S w percolator_ai a b sd = Inr w' \<Longrightarrow> cpi_effect_ok pid w w'"
    and "cpi_withdraw_insurance S w percolator_ai a b c d e f n sd = Inr w' \<Longrightarrow> cpi_effect_ok pid w w'"
  unfolding cpi_defs Let_def
  by (erule owner_law_invoke_signed [OF assms(1)], simp add: assms(2))+

text \<open>The bytes of a widened amount and of the asset index 0.\<close>

lemma wide_le_bytes: "le_u128 (ucast (a :: u64)) = le_u64 a @ replicate 8 0"
proof -
  have "unat a < 256 ^ 8"
    using unat_bound [of a] by simp
  then have "le_of_nat (8 + 8) (unat a) = le_of_nat 8 (unat a) @ replicate 8 0"
    by (rule le_of_nat_pad)
  then show ?thesis
    by (simp add: to_le_bytes_def)
qed

section \<open>The wrapper's wire format\<close>

text \<open>An instruction spelled out: its accounts as (key, is a signer, is writable) and its bytes.\<close>

definition wire :: "account_info \<Rightarrow> (pubkey \<times> bool \<times> bool) list \<Rightarrow> byte list \<Rightarrow> cpi_call" where
  "wire prog metas data = WrapperCall \<lparr>ix_program_id = ai_key prog,
     ix_accounts = map (\<lambda>(k, s, wr). \<lparr>meta_key = k, meta_is_signer = s, meta_is_writable = wr\<rparr>) metas,
     ix_data = data\<rparr>"

lemma le_u16_bytes: "le_u16 i = [ucast i, ucast (drop_bit 8 i)]"
proof -
  have "unat (ucast i :: byte) = unat i mod 256" "unat (ucast (drop_bit 8 i) :: byte) = unat i div 256 mod 256"
    by (simp_all add: unsigned_ucast_eq unsigned_drop_bit_eq drop_bit_eq_div take_bit_eq_mod unat_div)
  then show ?thesis
    by (simp add: to_le_bytes_def numeral_2_eq_2 unat_eq_iff unat_of_nat)
qed

text \<open>C35. Every call into the wrapper is, byte by byte and account by account, the instruction the wrapper documents:
  tag 9, 41, 32, 65 or 19, an amount in sixteen little-endian bytes (the upper eight zero), an asset index in
  two, the kind, the address of the new authority; the accounts in the documented order with the key of the
  account that is passed, the first (and a new authority) as signer, the market and the token accounts writable and
  nothing else; sent to the given program, with those accounts and the given seeds.  The two retired calls send
  nothing and fail with \<open>InvalidInstructionData\<close>.\<close>
theorem wrapper_wire_format:
  "cpi_top_up_insurance S w prog auth market source vault_ai token amount sd
     = invoke_signed S w (wire prog
         [(ai_key auth, True, False), (ai_key market, False, True), (ai_key source, False, True),
          (ai_key vault_ai, False, True), (ai_key token, False, False)]
         (9 # le_u64 amount @ replicate 8 0))
       [auth, market, source, vault_ai, token] [sd]
   \<and> cpi_withdraw_insurance S w prog auth market dest vault_ai vault_pda token amount sd
     = invoke_signed S w (wire prog
         [(ai_key auth, True, False), (ai_key market, False, True), (ai_key dest, False, True),
          (ai_key vault_ai, False, True), (ai_key vault_pda, False, False), (ai_key token, False, False)]
         (41 # le_u64 amount @ replicate 8 0))
       [auth, market, dest, vault_ai, vault_pda, token] [sd]
   \<and> cpi_update_authority S w prog current new market sd
     = invoke_signed S w (wire prog
         [(ai_key current, True, False), (ai_key new, True, False), (ai_key market, False, True)]
         (32 # key_bytes (ai_key new)))
       [current, new, market] [sd]
   \<and> cpi_update_asset_authority S w prog current new market index kind sds
     = invoke_signed S w (wire prog
         [(ai_key current, True, False), (ai_key new, True, False), (ai_key market, False, True)]
         (65 # ucast index # ucast (drop_bit 8 index) # kind # key_bytes (ai_key new)))
       [current, new, market] sds
   \<and> cpi_resolve_market S w prog current market sd
     = invoke_signed S w (wire prog [(ai_key current, True, False), (ai_key market, False, True)] [19])
       [current, market] [sd]
   \<and> cpi_set_risk_threshold prog current market threshold sd = Inl InvalidInstructionData
   \<and> cpi_set_maintenance_fee prog current market fee sd = Inl InvalidInstructionData"
  unfolding cpi_defs Let_def wire_def
  by (simp add: push_u128_from_u64_def wide_le_bytes meta_readonly_def meta_writable_def
      TAG_TOP_UP_INSURANCE_def TAG_WITHDRAW_INSURANCE_def TAG_UPDATE_AUTHORITY_def
      TAG_UPDATE_ASSET_AUTHORITY_def TAG_RESOLVE_MARKET_def le_u16_bytes
      cpi_set_risk_threshold_def cpi_set_maintenance_fee_def)

end
