(* ===== verification/Cooldown.thy ===== *)
theory Cooldown
  imports Lp_Math
begin

text \<open>
  The stake-weighted deposit slot of \<^verbatim>\<open>src/src/math.rs\<close> (\<open>weighted_deposit_slot\<close>), from which the
  withdrawal cooldown counts.  The u128 computation is shown equal to the formula of the
  function's documentation over the natural numbers (\<open>weighted_slot_spec\<close>); the protection the
  freshness floor gives, and what repeated top-ups do to it, are proved over that formula.
\<close>

definition weighted_deposit_slot :: "u64 \<Rightarrow> u64 \<Rightarrow> u64 \<Rightarrow> u64 \<Rightarrow> u64 \<Rightarrow> u64" where
  "weighted_deposit_slot existing_lp existing_slot new_lp current_slot cooldown_slots =
     (let total_lp = (ucast existing_lp :: u128) + ucast new_lp in
      if total_lp = 0 then current_slot
      else
        let lo = min existing_slot current_slot;
            existing_span = (ucast (existing_slot - lo) :: u128);
            current_span = (ucast (current_slot - lo) :: u128);
            weighted_span = ucast existing_lp * existing_span + ucast new_lp * current_span;
            offset = weighted_span div total_lp;
            blended = saturating_add lo (ucast offset)
        in if 0 < new_lp then
             let aged_credit_u128 = ucast cooldown_slots * ucast existing_lp div total_lp;
                 aged_credit = ucast (min aged_credit_u128 (ucast u64_MAX));
                 floor = saturating_sub current_slot aged_credit
             in max blended floor
           else blended)"

definition weighted_slot_spec :: "nat \<Rightarrow> nat \<Rightarrow> nat \<Rightarrow> nat \<Rightarrow> nat \<Rightarrow> nat" where
  "weighted_slot_spec existing_lp existing_slot new_lp current_slot cooldown_slots =
     (let total_lp = existing_lp + new_lp;
          blended = (existing_lp * existing_slot + new_lp * current_slot) div total_lp;
          floor = current_slot - cooldown_slots * existing_lp div total_lp
      in if total_lp = 0 then current_slot
         else if new_lp = 0 then blended
         else max blended floor)"

section \<open>The implementation computes the documented formula\<close>

lemma unat_total_lp:
  "unat ((ucast (e :: u64) :: u128) + ucast (n :: u64)) = unat e + unat n"
proof -
  have "unat e + unat n < 2 ^ 128"
    using unat_bound [of e] unat_bound [of n] by simp
  then show ?thesis
    by (subst unat_add_exact) simp_all
qed

text \<open>At most one of the two spans above the lower slot is nonzero, so the weighted span is a
  single product and fits u128.\<close>

lemma unat_weighted_span:
  assumes "(a :: u64) = 0 \<or> (b :: u64) = 0"
  shows "unat ((ucast (e :: u64) :: u128) * ucast a + ucast (n :: u64) * ucast b)
    = unat e * unat a + unat n * unat b"
  using assms by (auto simp: wide_product)

lemma span_zero: "x - min x y = 0 \<or> y - min x (y :: 'a::len word) = 0"
  by (simp add: min_def)

lemma blended_anchor:
  assumes "0 < (t::nat)" and "t = e + n" and "lo \<le> s" and "lo \<le> c"
  shows "lo + (e * (s - lo) + n * (c - lo)) div t = (e * s + n * c) div t"
proof -
  obtain s' c' where "s = lo + s'" and "c = lo + c'"
    using assms(3,4) le_Suc_ex by blast
  then have "e * s + n * c = (e * (s - lo) + n * (c - lo)) + lo * t"
    using assms(2) by (simp add: algebra_simps)
  then show ?thesis
    using assms(1) by simp
qed

lemma blended_le_max:
  assumes "0 < e + (n::nat)"
  shows "(e * s + n * c) div (e + n) \<le> max s c"
proof (rule div_le_of_le_mult)
  have "e * s + n * c \<le> e * max s c + n * max s c"
    by (intro add_mono mult_left_mono) simp_all
  then show "e * s + n * c \<le> max s c * (e + n)"
    by (simp add: distrib_right mult.commute [of "max s c"])
qed (use assms in simp)

lemma min_le_blended:
  assumes "0 < e + (n::nat)"
  shows "min s c \<le> (e * s + n * c) div (e + n)"
proof -
  have "e * min s c + n * min s c \<le> e * s + n * c"
    by (intro add_mono mult_left_mono) simp_all
  then have "min s c * (e + n) \<le> e * s + n * c"
    by (simp add: distrib_right mult.commute [of "min s c"])
  then show ?thesis
    using assms by (simp add: less_eq_div_iff_mult_less_eq)
qed

lemma unat_blended:
  fixes e s n c :: u64
  assumes "0 < unat e + unat n"
  shows "unat (saturating_add (min s c)
      (ucast (((ucast e :: u128) * ucast (s - min s c) + ucast n * ucast (c - min s c))
        div (ucast e + ucast n))))
    = (unat e * unat s + unat n * unat c) div (unat e + unat n)"
    (is "unat (saturating_add ?lo (ucast ?q)) = ?b")
proof -
  let ?lo' = "min (unat s) (unat c)"
  have spans: "unat (s - ?lo) = unat s - ?lo'" "unat (c - ?lo) = unat c - ?lo'"
    by (simp_all add: unat_diff_exact)
  have q: "unat ?q = (unat e * (unat s - ?lo') + unat n * (unat c - ?lo')) div (unat e + unat n)"
    by (simp add: unat_div unat_total_lp unat_weighted_span [OF span_zero] spans)
  have anchor: "?lo' + unat ?q = ?b"
    unfolding q using assms by (intro blended_anchor) auto
  have "?b < 2 ^ 64"
    using blended_le_max [OF assms, of "unat s" "unat c"] unat_bound [of s] unat_bound [of c]
    by simp
  with anchor have "unat ?q < 2 ^ 64" and "?lo' + unat ?q < 2 ^ 64"
    by simp_all
  with anchor show ?thesis
    by (simp add: unat_saturating_add_exact unat_ucast_exact)
qed

lemma unat_aged_credit:
  fixes e n cd :: u64
  assumes "0 < unat e + unat n"
  shows "unat (ucast (min ((ucast cd :: u128) * ucast e div (ucast e + ucast n)) (ucast u64_MAX)) :: u64)
    = unat cd * unat e div (unat e + unat n)"
    (is "unat (ucast (min ?q _) :: u64) = ?k")
proof -
  have q: "unat ?q = ?k"
    by (simp add: unat_div wide_product unat_total_lp)
  have "unat e * unat cd div (unat e + unat n) \<le> unat cd"
    by (rule mult_div_le_of_le) simp
  then have "?k < 2 ^ 64"
    using unat_bound [of cd] by (simp add: mult.commute)
  then show ?thesis
    by (simp add: unat_ucast_exact q unat_all_ones)
qed

lemma weighted_deposit_slot_exact:
  "unat (weighted_deposit_slot e s n c cd)
    = weighted_slot_spec (unat e) (unat s) (unat n) (unat c) (unat cd)"
proof (cases "unat e + unat n = 0")
  case True
  then have "(ucast e :: u128) + ucast n = 0"
    by (simp add: unat_eq_iff unat_total_lp)
  with True show ?thesis
    by (simp add: weighted_deposit_slot_def weighted_slot_spec_def)
next
  case False
  then have pos: "0 < unat e + unat n" and nz: "(ucast e :: u128) + ucast n \<noteq> 0"
    by (simp_all add: unat_eq_iff unat_total_lp)
  have fresh: "0 < n \<longleftrightarrow> unat n \<noteq> 0"
    by (simp add: unat_less_iff)
  show ?thesis
    unfolding weighted_deposit_slot_def weighted_slot_spec_def Let_def if_not_P [OF nz]
      if_not_P [OF False]
    by (simp add: fresh unat_blended [OF pos] unat_aged_credit [OF pos])
qed

section \<open>Facts about the documented formula\<close>

lemma spec_first_deposit: "weighted_slot_spec 0 s n c cd = c"
  by (simp add: weighted_slot_spec_def)

lemma spec_no_new_lp: "0 < e \<Longrightarrow> weighted_slot_spec e s 0 c cd = s"
  by (simp add: weighted_slot_spec_def)

lemma spec_le_current:
  assumes "s \<le> c"
  shows "weighted_slot_spec e s n c cd \<le> c"
  using blended_le_max [of e n s c] assms by (auto simp: weighted_slot_spec_def Let_def)

lemma spec_ge_existing:
  assumes "s \<le> c" and "0 < e"
  shows "s \<le> weighted_slot_spec e s n c cd"
  using min_le_blended [of e n s c] assms by (auto simp: weighted_slot_spec_def Let_def max_def)

lemma spec_floor:
  assumes "0 < n"
  shows "c - cd * e div (e + n) \<le> weighted_slot_spec e s n c cd"
  using assms by (simp add: weighted_slot_spec_def Let_def)

lemma split_fraction: "cd * e div (e + n) + cd * n div (e + n) \<le> (cd::nat)"
proof (cases "e + n = 0")
  case False
  have "(cd * e div (e + n) + cd * n div (e + n)) * (e + n) \<le> cd * e + cd * n"
    unfolding distrib_right by (intro add_mono div_mult_le_self)
  also have "\<dots> = cd * (e + n)"
    by (simp add: distrib_left)
  finally show ?thesis
    using False by auto
qed simp

lemma spec_fresh_fraction_waits:
  assumes "0 < n"
  shows "c + cd * n div (e + n) \<le> weighted_slot_spec e s n c cd + cd"
  using spec_floor [OF assms, of c cd e s] split_fraction [of cd e n] by linarith

section \<open>Repeated top-ups in one slot\<close>

text \<open>
  The per-user record after depositing the LP amounts of a list one after the other at the
  same slot, as \<open>process_deposit\<close> updates it each time.
\<close>

fun top_ups :: "u64 \<Rightarrow> u64 \<Rightarrow> u64 \<times> u64 \<Rightarrow> u64 list \<Rightarrow> u64 \<times> u64" where
  "top_ups current_slot cooldown_slots (lp, last_slot) [] = (lp, last_slot)"
| "top_ups current_slot cooldown_slots (lp, last_slot) (n # ns) =
     top_ups current_slot cooldown_slots
       (lp + n, weighted_deposit_slot lp last_slot n current_slot cooldown_slots) ns"

text \<open>Every top-up is small against the position it joins, and nothing overflows.\<close>

fun small_top_ups :: "nat \<Rightarrow> nat \<Rightarrow> nat list \<Rightarrow> bool" where
  "small_top_ups cd lp [] = True"
| "small_top_ups cd lp (n # ns) \<longleftrightarrow>
     0 < n \<and> cd * n < lp + n \<and> lp + n < 2 ^ 64 \<and> small_top_ups cd (lp + n) ns"

lemma spec_small_top_up:
  assumes small: "cd * n < e + n" and n: "0 < n" and cd: "0 < cd" "cd \<le> c"
    and s: "s + cd \<le> c + 1"
  shows "weighted_slot_spec e s n c cd + cd = c + 1"
proof -
  let ?t = "e + n"
  have credit: "cd * e div ?t = cd - 1"
  proof (rule div_nat_eqI)
    have "cd * e + cd * n = cd * ?t"
      by (simp add: distrib_left)
    moreover have "(cd - 1) * ?t + ?t = cd * ?t"
      using cd by (cases cd) simp_all
    ultimately show "?t * (cd - 1) \<le> cd * e"
      using small by (simp add: mult.commute)
    show "cd * e < ?t * Suc (cd - 1)"
      using cd n by simp
  qed
  have "(e * s + n * c) div ?t \<le> c - (cd - 1)"
  proof -
    have "n * c = n * (c - (cd - 1)) + n * (cd - 1)"
      using cd by (simp flip: distrib_left)
    moreover have "e * s \<le> e * (c - (cd - 1))"
      using s cd by (intro mult_left_mono) linarith+
    moreover have "n * (cd - 1) < ?t"
      using small cd by (cases cd) (auto simp: algebra_simps)
    ultimately have "e * s + n * c < e * (c - (cd - 1)) + n * (c - (cd - 1)) + ?t"
      by linarith
    then have "e * s + n * c < (c - (cd - 1)) * ?t + ?t"
      by (simp only: distrib_right mult.commute)
    then have "(e * s + n * c) div ?t < c - (cd - 1) + 1"
      using n by (intro less_mult_imp_div_less) simp
    then show ?thesis
      by simp
  qed
  then have "weighted_slot_spec e s n c cd = c - (cd - 1)"
    using n by (simp add: weighted_slot_spec_def credit)
  with cd show ?thesis
    by simp
qed

lemma top_ups_unlock:
  assumes "small_top_ups (unat cd) (unat lp) (map unat ns)" and "ns \<noteq> []"
    and "0 < unat cd" and "unat cd \<le> unat c" and "unat s + unat cd \<le> unat c + 1"
  shows "unat (fst (top_ups c cd (lp, s) ns)) = unat lp + sum_list (map unat ns)
    \<and> unat (snd (top_ups c cd (lp, s) ns)) + unat cd = unat c + 1"
  using assms
proof (induction ns arbitrary: lp s)
  case (Cons n ns)
  let ?s = "weighted_deposit_slot lp s n c cd"
  have s: "unat ?s + unat cd = unat c + 1"
    using Cons.prems by (simp add: weighted_deposit_slot_exact spec_small_top_up)
  have lp: "unat (lp + n) = unat lp + unat n"
    using Cons.prems(1) by (simp add: unat_add_exact)
  show ?case
  proof (cases "ns = []")
    case True
    with s lp show ?thesis
      by simp
  next
    case False
    with Cons.IH [of "lp + n" ?s] Cons.prems s lp show ?thesis
      by simp
  qed
qed simp

section \<open>Properties\<close>

text \<open>C29. The slot bookkeeping computes the documented formula: for all u64 inputs the result of
  \<open>weighted_deposit_slot\<close> is the LP-weighted average of the two slots, raised to the current
  slot less the existing position's part of the cooldown; the u128 sums never wrap and neither
  narrowing loses bits.\<close>
theorem weighted_slot_formula:
  "unat (weighted_deposit_slot e s n c cd)
    = (if unat e + unat n = 0 then unat c
       else let blended = (unat e * unat s + unat n * unat c) div (unat e + unat n)
            in if unat n = 0 then blended
               else max blended (unat c - unat cd * unat e div (unat e + unat n)))"
  unfolding weighted_deposit_slot_exact weighted_slot_spec_def Let_def by simp

text \<open>C30. The fresh part of a position waits: after a top-up of \<open>n\<close> onto \<open>e\<close> at slot \<open>c\<close>, the
  unlock slot is at least \<open>c\<close> plus the fresh fraction of the cooldown, and a first deposit
  waits for all of it.\<close>
theorem fresh_deposit_waits:
  assumes "n \<noteq> 0"
  shows "unat c + unat cd * unat n div (unat e + unat n)
      \<le> unat (weighted_deposit_slot e s n c cd) + unat cd
    \<and> weighted_deposit_slot 0 s n c cd = c"
  using assms spec_fresh_fraction_waits [of "unat n" "unat c" "unat cd" "unat e" "unat s"]
  by (simp add: weighted_deposit_slot_exact unat_eq_iff spec_first_deposit)

theorem fresh_deposit_waits_witness:
  "500 + 100 * 3 div (1 + 3) \<le> unat (weighted_deposit_slot 1 200 3 500 100) + 100
   \<and> weighted_deposit_slot 0 200 3 500 100 = 500"
  using fresh_deposit_waits [of 3 500 100 1 200] by simp

text \<open>A top-up never puts the recorded slot into the future and never moves it back, and a
  call that adds nothing leaves it alone.\<close>
lemma weighted_slot_between:
  assumes "s \<le> c" and "e \<noteq> 0"
  shows "s \<le> weighted_deposit_slot e s n c cd \<and> weighted_deposit_slot e s n c cd \<le> c
    \<and> weighted_deposit_slot e s 0 c cd = s"
  using assms spec_le_current [of "unat s" "unat c"] spec_ge_existing [of "unat s" "unat c" "unat e"]
    spec_no_new_lp [of "unat e"]
  by (simp add: unat_le_iff unat_eq_iff weighted_deposit_slot_exact)

lemma weighted_slot_between_example:
  "(200 :: u64) \<le> weighted_deposit_slot 9 200 1 500 100
    \<and> weighted_deposit_slot 9 200 1 500 100 \<le> 500 \<and> weighted_deposit_slot 9 200 0 500 100 = 200"
  using weighted_slot_between [of 200 500 9 1 100] by simp

text \<open>C31. Rounding lets a position grow without waiting: top-ups in one slot that are each small
  against the position they join (cooldown times the amount below the new total) leave the
  unlock at the next slot, however much they add up to.\<close>
theorem split_top_ups_skip_cooldown:
  assumes "small_top_ups (unat cd) (unat lp) (map unat ns)" and "ns \<noteq> []"
    and "0 < unat cd" and "unat cd \<le> unat c" and "unat s + unat cd \<le> unat c + 1"
  shows "unat (fst (top_ups c cd (lp, s) ns)) = unat lp + sum_list (map unat ns)
    \<and> unat (snd (top_ups c cd (lp, s) ns)) + unat cd = unat c + 1"
  using assms by (rule top_ups_unlock)

theorem split_top_ups_skip_cooldown_witness:
  "unat (fst (top_ups 1000 10 (100, 0) [11, 12, 13, 15, 16, 18, 20, 22, 25])) = 252
    \<and> unat (snd (top_ups 1000 10 (100, 0) [11, 12, 13, 15, 16, 18, 20, 22, 25])) + 10 = 1001"
  using split_top_ups_skip_cooldown [of 10 100 "[11, 12, 13, 15, 16, 18, 20, 22, 25]" 1000 0] by simp

end
