(* ===== verification/Processor_Core.thy ===== *)
theory Processor_Core
  imports Wrapper_Cpi Cooldown
begin

text \<open>
  The checks and the account creation that the handlers of \<^verbatim>\<open>src/src/processor.rs\<close> share, and
  the inversion lemmas that turn a successful run of each into the conditions it checked.
\<close>

definition verify_token_program :: "sdk \<Rightarrow> account_info \<Rightarrow> fault + unit" where
  "verify_token_program S token_program =
     (if ai_key token_program \<noteq> spl_token_id S then Inl IncorrectProgramId else Inr ())"

definition create_or_adopt_pda :: "sdk \<Rightarrow> world \<Rightarrow> account_info \<Rightarrow> account_info \<Rightarrow> account_info \<Rightarrow>
    pubkey \<Rightarrow> nat \<Rightarrow> seeds \<Rightarrow> fault + world" where
  "create_or_adopt_pda S w target payer system_program new_owner space signer_seeds =
     bnd (rent_minimum_balance S space) (\<lambda>need.
     if info_lamports w target = 0 then
       invoke_signed S w
         (SystemCreateAccount (ai_key payer) (ai_key target) need (of_nat space) new_owner)
         [payer, target, system_program] [signer_seeds]
     else
       (let have_lamports = info_lamports w target
        in bnd (if have_lamports < need
                then invoke S w
                       (SystemTransfer (ai_key payer) (ai_key target) (need - have_lamports))
                       [payer, target, system_program]
                else Inr w) (\<lambda>w.
           bnd (invoke_signed S w (SystemAllocate (ai_key target) (of_nat space))
                  [target, system_program] [signer_seeds]) (\<lambda>w.
           invoke_signed S w (SystemAssign (ai_key target) new_owner)
             [target, system_program] [signer_seeds]))))"

definition validate_admin_cpi :: "sdk \<Rightarrow> pubkey \<Rightarrow> world \<Rightarrow> account_info \<Rightarrow> account_info \<Rightarrow>
    account_info \<Rightarrow> account_info \<Rightarrow> fault + u8" where
  "validate_admin_cpi S program_id w pool_ai admin_ai slab_ai percolator_ai =
     (if \<not> ai_is_signer admin_ai then Inl MissingRequiredSignature
      else
        bnd (try_borrow_data w pool_ai) (\<lambda>pool_data.
        bnd (as_pool pool_data) (\<lambda>p.
        if is_initialized p \<noteq> 1 then Inl (stake_err NotInitialized)
        else if admin p \<noteq> ai_key admin_ai then Inl (stake_err Unauthorized)
        else if admin_transferred p \<noteq> 1 then Inl (stake_err AdminNotTransferred)
        else if slab p \<noteq> ai_key slab_ai then Inl (stake_err InvalidPda)
        else if percolator_program p \<noteq> ai_key percolator_ai
        then Inl (stake_err InvalidPercolatorProgram)
        else
          (let (expected_pool, pool_bump) = derive_pool_pda S program_id (ai_key slab_ai)
           in if ai_key pool_ai \<noteq> expected_pool then Inl (stake_err InvalidPda)
              else Inr pool_bump))))"

definition validate_flush_pool_mode :: "stake_pool \<Rightarrow> fault + unit" where
  "validate_flush_pool_mode p =
     (if pool_mode p \<noteq> 0 then Inl (stake_err InvalidPoolMode) else Inr ())"

definition validate_withdraw_insurance_pool_mode :: "stake_pool \<Rightarrow> fault + unit" where
  "validate_withdraw_insurance_pool_mode p =
     (if pool_mode p \<noteq> 0 then Inl (stake_err InvalidPoolMode) else Inr ())"

definition validate_return_vault :: "stake_pool \<Rightarrow> pubkey \<Rightarrow> fault + unit" where
  "validate_return_vault p stake_vault_key =
     (if vault p \<noteq> stake_vault_key then Inl (stake_err InvalidPda) else Inr ())"

definition validate_vault_insurance_authority ::
  "sdk \<Rightarrow> pubkey \<Rightarrow> pubkey \<Rightarrow> pubkey \<Rightarrow> pubkey \<Rightarrow> fault + u8" where
  "validate_vault_insurance_authority S program_id pool_key authority_key requested_authority =
     (if authority_key \<noteq> requested_authority then Inl (stake_err InvalidAccount)
      else
        (let (expected_vault_auth, vault_auth_bump) = derive_vault_authority S program_id pool_key
         in if authority_key \<noteq> expected_vault_auth then Inl MissingRequiredSignature
            else Inr vault_auth_bump))"

text \<open>Signer seeds of the pool, of the vault authority and of a deposit record.\<close>

definition pool_seeds :: "pubkey \<Rightarrow> u8 \<Rightarrow> seeds" where
  "pool_seeds slab_key b = [seed_of ''stake_pool'', key_bytes slab_key, [b]]"

definition vault_auth_seeds :: "pubkey \<Rightarrow> u8 \<Rightarrow> seeds" where
  "vault_auth_seeds pool_key b = [seed_of ''vault_auth'', key_bytes pool_key, [b]]"

definition deposit_seeds :: "pubkey \<Rightarrow> pubkey \<Rightarrow> u8 \<Rightarrow> seeds" where
  "deposit_seeds pool_key user_key b =
     [seed_of ''stake_deposit'', key_bytes pool_key, key_bytes user_key, [b]]"

section \<open>What a successful check establishes\<close>

lemma verify_token_program_Inr [res_inv]:
  "verify_token_program S ai = Inr u \<longleftrightarrow> ai_key ai = spl_token_id S"
  by (simp add: verify_token_program_def)

lemma validate_flush_pool_mode_Inr [res_inv]:
  "validate_flush_pool_mode p = Inr u \<longleftrightarrow> pool_mode p = 0"
  by (simp add: validate_flush_pool_mode_def)

lemma validate_withdraw_insurance_pool_mode_Inr [res_inv]:
  "validate_withdraw_insurance_pool_mode p = Inr u \<longleftrightarrow> pool_mode p = 0"
  by (simp add: validate_withdraw_insurance_pool_mode_def)

lemma validate_return_vault_Inr [res_inv]:
  "validate_return_vault p k = Inr u \<longleftrightarrow> vault p = k"
  by (simp add: validate_return_vault_def)

lemma validate_vault_insurance_authority_Inr [res_inv]:
  "validate_vault_insurance_authority S pid pool_key k r = Inr b \<longleftrightarrow>
    k = r \<and> derive_vault_authority S pid pool_key = (k, b)"
  by (auto simp: validate_vault_insurance_authority_def split: prod.splits)

lemma validate_admin_cpi_Inr [res_inv]:
  "validate_admin_cpi S pid w pool_ai admin_ai slab_ai percolator_ai = Inr b \<longleftrightarrow>
    ai_is_signer admin_ai \<and> ai_key pool_ai \<notin> set (mut_borrowed w)
    \<and> STAKE_POOL_SIZE \<le> length (acc_data (accts w (ai_key pool_ai)))
    \<and> is_initialized (pool_at w (ai_key pool_ai)) = 1
    \<and> admin (pool_at w (ai_key pool_ai)) = ai_key admin_ai
    \<and> admin_transferred (pool_at w (ai_key pool_ai)) = 1
    \<and> slab (pool_at w (ai_key pool_ai)) = ai_key slab_ai
    \<and> percolator_program (pool_at w (ai_key pool_ai)) = ai_key percolator_ai
    \<and> derive_pool_pda S pid (ai_key slab_ai) = (ai_key pool_ai, b)"
  by (auto simp: validate_admin_cpi_def res_inv pool_at_def split: prod.splits)

text \<open>The accounts a handler takes from the list it is given.\<close>

lemma next_account_info_Inr:
  "iter_law S \<Longrightarrow> next_account_info S it = Inr x \<longleftrightarrow> it = fst x # snd x"
  by (cases it; cases x) (auto simp: iter_law_def)

lemma create_or_adopt_pda_effect:
  assumes "owner_law S pid" and "system_program_id S \<noteq> pid"
    and "create_or_adopt_pda S w target payer sys new_owner n sd = Inr w'"
  shows "cpi_effect_ok pid w w'"
proof -
  have inv: "cpi_effect_ok pid u u'" if "invoke S u c i = Inr u'" "call_program S c = system_program_id S"
    for u u' c i using that assms owner_law_invoke by metis
  have sgn: "cpi_effect_ok pid u u'"
    if "invoke_signed S u c i s = Inr u'" "call_program S c = system_program_id S"
    for u u' c i s using that assms owner_law_invoke_signed by metis
  have one: "call_program S (SystemCreateAccount a b c d e) = system_program_id S"
    "call_program S (SystemTransfer a b c) = system_program_id S"
    "call_program S (SystemAllocate a d) = system_program_id S"
    "call_program S (SystemAssign a b) = system_program_id S" for a b c d e
    by simp_all
  show ?thesis
    using assms(3) unfolding create_or_adopt_pda_def Let_def
    by (auto simp only: bnd_Inr sum.inject split: if_splits
        intro: sgn [OF _ one(1)] cpi_effect_ok_trans [OF inv [OF _ one(2)]]
          cpi_effect_ok_trans [OF sgn [OF _ one(3)] sgn [OF _ one(4)]])
qed

end
