(* ===== verification/Processor_User.thy ===== *)
theory Processor_User
  imports Processor_Core
begin

text \<open>
  The handlers that anyone may call: \<open>InitPool\<close>, \<open>Deposit\<close>, \<open>Withdraw\<close>, \<open>AccrueFees\<close> and
  \<open>InitTradingPool\<close> of \<^verbatim>\<open>src/src/processor.rs\<close>.  A handler takes the account list and the store
  and returns the store it leaves, or the error with which the runtime rolls everything back.
  The pool is read under a mutable borrow; every write through that borrow is a \<open>write_pool\<close>
  at the place where the source has its last assignment before the next call, so a callee sees
  the bytes the code has written so far.
\<close>

section \<open>InitPool\<close>

text \<open>The fields \<open>InitPool\<close> assigns; the others keep the bytes of the new account.\<close>

definition init_pool_fields :: "u8 \<Rightarrow> u8 \<Rightarrow> pubkey \<Rightarrow> pubkey \<Rightarrow> pubkey \<Rightarrow> pubkey \<Rightarrow> pubkey \<Rightarrow> pubkey \<Rightarrow>
    u64 \<Rightarrow> u64 \<Rightarrow> stake_pool \<Rightarrow> stake_pool" where
  "init_pool_fields pool_bump vault_auth_bump slab_key admin_key collateral_key lp_mint_key vault_key
       percolator_key cooldown cap p =
     set_discriminator (p\<lparr>
       is_initialized := 1,
       bump := pool_bump,
       vault_authority_bump := vault_auth_bump,
       admin_transferred := 1,
       slab := slab_key,
       admin := admin_key,
       collateral_mint := collateral_key,
       lp_mint := lp_mint_key,
       vault := vault_key,
       total_deposited := 0,
       total_lp_supply := 0,
       cooldown_slots := cooldown,
       deposit_cap := cap,
       total_flushed := 0,
       total_returned := 0,
       total_withdrawn := 0,
       percolator_program := percolator_key\<rparr>)"

definition process_init_pool :: "sdk \<Rightarrow> pubkey \<Rightarrow> account_info list \<Rightarrow> u64 \<Rightarrow> u64 \<Rightarrow> world \<Rightarrow>
    fault + world" where
  "process_init_pool S program_id accounts cooldown cap w =
     bnd (next_account_info S accounts) (\<lambda>(admin_ai, it).
     bnd (next_account_info S it) (\<lambda>(slab_ai, it).
     bnd (next_account_info S it) (\<lambda>(pool_ai, it).
     bnd (next_account_info S it) (\<lambda>(lp_mint_ai, it).
     bnd (next_account_info S it) (\<lambda>(vault_ai, it).
     bnd (next_account_info S it) (\<lambda>(vault_auth_ai, it).
     bnd (next_account_info S it) (\<lambda>(collateral_mint_ai, it).
     bnd (next_account_info S it) (\<lambda>(percolator_ai, it).
     bnd (next_account_info S it) (\<lambda>(token_program, it).
     bnd (next_account_info S it) (\<lambda>(system_program, it).
     bnd (next_account_info S it) (\<lambda>(rent_sysvar, it).
     if \<not> ai_is_signer admin_ai then Inl MissingRequiredSignature
     else let (expected_pool, pool_bump) = derive_pool_pda S program_id (ai_key slab_ai) in
     if ai_key pool_ai \<noteq> expected_pool then Inl (stake_err InvalidPda)
     else bnd (data_is_empty w pool_ai) (\<lambda>empty.
     if \<not> empty then Inl (stake_err AlreadyInitialized)
     else let (expected_vault_auth, vault_auth_bump) =
       derive_vault_authority S program_id expected_pool in
     if ai_key vault_auth_ai \<noteq> expected_vault_auth then Inl (stake_err InvalidPda)
     else bnd (verify_token_program S token_program) (\<lambda>_.
     if info_owner w slab_ai \<noteq> ai_key percolator_ai
     then Inl (stake_err InvalidPercolatorProgram)
     else if \<not> ai_is_writable slab_ai then Inl InvalidArgument
     else bnd (create_or_adopt_pda S w pool_ai admin_ai system_program program_id STAKE_POOL_SIZE
            (pool_seeds (ai_key slab_ai) pool_bump)) (\<lambda>w.
     bnd (cpi_update_authority S w percolator_ai admin_ai pool_ai slab_ai
            (pool_seeds (ai_key slab_ai) pool_bump)) (\<lambda>w.
     bnd (invoke_signed S w
            (TokenInitializeMint (ai_key token_program) (ai_key lp_mint_ai) (ai_key vault_auth_ai)
               None 6)
            [lp_mint_ai, rent_sysvar]
            [vault_auth_seeds (ai_key pool_ai) vault_auth_bump]) (\<lambda>w.
     bnd (invoke_signed S w
            (TokenInitializeAccount (ai_key token_program) (ai_key vault_ai)
               (ai_key collateral_mint_ai) (ai_key vault_auth_ai))
            [vault_ai, collateral_mint_ai, vault_auth_ai, rent_sysvar]
            [vault_auth_seeds (ai_key pool_ai) vault_auth_bump]) (\<lambda>w.
     bnd (try_borrow_mut_data w pool_ai) (\<lambda>(pool_data, w).
     bnd (as_pool pool_data) (\<lambda>p.
     Inr (release pool_ai (write_pool pool_ai
       (init_pool_fields pool_bump vault_auth_bump (ai_key slab_ai) (ai_key admin_ai)
          (ai_key collateral_mint_ai) (ai_key lp_mint_ai) (ai_key vault_ai) (ai_key percolator_ai)
          cooldown cap p) w)))))))))))))))))))))"

section \<open>Deposit\<close>

text \<open>The record of a depositor after a deposit that minted \<open>lp_to_mint\<close>.\<close>

definition deposit_fields :: "u8 \<Rightarrow> pubkey \<Rightarrow> pubkey \<Rightarrow> u64 \<Rightarrow> u64 \<Rightarrow> u64 \<Rightarrow> stake_deposit \<Rightarrow>
    fault + stake_deposit" where
  "deposit_fields deposit_bump pool_key user_key lp_to_mint slot cooldown d =
     (let d = (if dep_is_initialized d \<noteq> 1 then set_deposit_discriminator d else d);
          d = d\<lparr>dep_is_initialized := 1, dep_bump := deposit_bump, dep_pool := pool_key,
                dep_user := user_key\<rparr>;
          existing_lp = lp_amount d;
          existing_slot = last_deposit_slot d;
          d = d\<lparr>last_deposit_slot :=
                 weighted_deposit_slot existing_lp existing_slot lp_to_mint slot cooldown\<rparr>
      in bnd (ok_or (checked_add existing_lp lp_to_mint) (stake_err Overflow)) (\<lambda>new_lp.
         Inr (d\<lparr>lp_amount := new_lp\<rparr>)))"

definition process_deposit :: "sdk \<Rightarrow> pubkey \<Rightarrow> account_info list \<Rightarrow> u64 \<Rightarrow> world \<Rightarrow> fault + world" where
  "process_deposit S program_id accounts amount w =
     (if amount = 0 then Inl (stake_err ZeroAmount) else
     bnd (next_account_info S accounts) (\<lambda>(user_ai, it).
     bnd (next_account_info S it) (\<lambda>(pool_ai, it).
     bnd (next_account_info S it) (\<lambda>(user_ata, it).
     bnd (next_account_info S it) (\<lambda>(vault_ai, it).
     bnd (next_account_info S it) (\<lambda>(lp_mint_ai, it).
     bnd (next_account_info S it) (\<lambda>(user_lp_ata, it).
     bnd (next_account_info S it) (\<lambda>(vault_auth_ai, it).
     bnd (next_account_info S it) (\<lambda>(deposit_ai, it).
     bnd (next_account_info S it) (\<lambda>(token_program, it).
     bnd (next_account_info S it) (\<lambda>(clock_sysvar, it).
     bnd (next_account_info S it) (\<lambda>(system_program, it).
     if \<not> ai_is_signer user_ai then Inl MissingRequiredSignature
     else bnd (try_borrow_mut_data w pool_ai) (\<lambda>(pool_data, w).
     bnd (as_pool pool_data) (\<lambda>p.
     if is_initialized p \<noteq> 1 then Inl (stake_err NotInitialized)
     else if \<not> validate_discriminator p then Inl (stake_err InvalidAccount)
     else if lp_mint p \<noteq> ai_key lp_mint_ai then Inl (stake_err InvalidMint)
     else if vault p \<noteq> ai_key vault_ai then Inl (stake_err InvalidPda)
     else if admin_transferred p \<noteq> 1 then Inl (stake_err AdminNotTransferred)
     else if is_resolved p then Inl (stake_err MarketResolved)
     else let (expected_vault_auth, _) = derive_vault_authority S program_id (ai_key pool_ai) in
     if ai_key vault_auth_ai \<noteq> expected_vault_auth then Inl (stake_err InvalidAccount)
     else bnd (if 0 < deposit_cap p then
                 let current_value = unwrap_or (total_pool_value p) 0
                 in bnd (ok_or (checked_add current_value amount) (stake_err Overflow)) (\<lambda>new_value.
                    if deposit_cap p < new_value then Inl (stake_err DepositCapExceeded) else Inr ())
               else Inr ()) (\<lambda>_.
     bnd (verify_token_program S token_program) (\<lambda>_.
     bnd (ok_or (pool_calc_lp_for_deposit p amount) (stake_err Overflow)) (\<lambda>lp_to_mint.
     if lp_to_mint = 0 then Inl (stake_err ZeroAmount)
     else bnd (invoke S w
            (TokenTransfer (ai_key token_program) (ai_key user_ata) (ai_key vault_ai)
               (ai_key user_ai) amount)
            [user_ata, vault_ai, user_ai, token_program]) (\<lambda>w.
     let (_, vault_auth_bump) = derive_vault_authority S program_id (ai_key pool_ai) in
     bnd (invoke_signed S w
            (TokenMintTo (ai_key token_program) (ai_key lp_mint_ai) (ai_key user_lp_ata)
               (ai_key vault_auth_ai) lp_to_mint)
            [lp_mint_ai, user_lp_ata, vault_auth_ai, token_program]
            [vault_auth_seeds (ai_key pool_ai) vault_auth_bump]) (\<lambda>w.
     bnd (ok_or (checked_add (total_deposited p) amount) (stake_err Overflow)) (\<lambda>new_deposited.
     bnd (ok_or (checked_add (total_lp_supply p) lp_to_mint) (stake_err Overflow)) (\<lambda>new_supply.
     let p = p\<lparr>total_deposited := new_deposited, total_lp_supply := new_supply\<rparr>;
         w = write_pool pool_ai p w in
     bnd (clock_from_account_info S w clock_sysvar) (\<lambda>clk.
     let p = (if hwm_enabled p
              then fst (refresh_hwm (clock_epoch clk) (unwrap_or (total_pool_value p) 0) p)
              else p);
         w = write_pool pool_ai p w;
         (expected_deposit_pda, deposit_bump) =
           derive_deposit_pda S program_id (ai_key pool_ai) (ai_key user_ai) in
     if ai_key deposit_ai \<noteq> expected_deposit_pda then Inl (stake_err InvalidPda)
     else bnd (data_is_empty w deposit_ai) (\<lambda>empty.
     if \<not> empty \<and> info_owner w deposit_ai \<noteq> program_id then Inl (stake_err InvalidAccount)
     else bnd (if empty
               then create_or_adopt_pda S w deposit_ai user_ai system_program program_id
                      STAKE_DEPOSIT_SIZE
                      (deposit_seeds (ai_key pool_ai) (ai_key user_ai) deposit_bump)
               else Inr w) (\<lambda>w.
     bnd (try_borrow_mut_data w deposit_ai) (\<lambda>(deposit_data, w).
     bnd (as_deposit deposit_data) (\<lambda>d.
     bnd (deposit_fields deposit_bump (ai_key pool_ai) (ai_key user_ai) lp_to_mint (clock_slot clk)
            (cooldown_slots p) d) (\<lambda>d.
     Inr (release pool_ai (release deposit_ai (write_deposit deposit_ai d w)))
     )))))))))))))))))))))))))))"

section \<open>Withdraw\<close>

definition process_withdraw :: "sdk \<Rightarrow> pubkey \<Rightarrow> account_info list \<Rightarrow> u64 \<Rightarrow> world \<Rightarrow> fault + world" where
  "process_withdraw S program_id accounts lp w =
     (if lp = 0 then Inl (stake_err ZeroAmount) else
     bnd (next_account_info S accounts) (\<lambda>(user_ai, it).
     bnd (next_account_info S it) (\<lambda>(pool_ai, it).
     bnd (next_account_info S it) (\<lambda>(user_lp_ata, it).
     bnd (next_account_info S it) (\<lambda>(lp_mint_ai, it).
     bnd (next_account_info S it) (\<lambda>(vault_ai, it).
     bnd (next_account_info S it) (\<lambda>(user_ata, it).
     bnd (next_account_info S it) (\<lambda>(vault_auth_ai, it).
     bnd (next_account_info S it) (\<lambda>(deposit_ai, it).
     bnd (next_account_info S it) (\<lambda>(token_program, it).
     bnd (next_account_info S it) (\<lambda>(clock_sysvar, it).
     if \<not> ai_is_signer user_ai then Inl MissingRequiredSignature
     else bnd (try_borrow_mut_data w pool_ai) (\<lambda>(pool_data, w).
     bnd (as_pool pool_data) (\<lambda>p.
     if is_initialized p \<noteq> 1 then Inl (stake_err NotInitialized)
     else if \<not> validate_discriminator p then Inl (stake_err InvalidAccount)
     else if lp_mint p \<noteq> ai_key lp_mint_ai then Inl (stake_err InvalidMint)
     else if vault p \<noteq> ai_key vault_ai then Inl (stake_err InvalidPda)
     else bnd (verify_token_program S token_program) (\<lambda>_.
     let (expected_vault_auth, _) = derive_vault_authority S program_id (ai_key pool_ai) in
     if ai_key vault_auth_ai \<noteq> expected_vault_auth then Inl (stake_err InvalidAccount)
     else let (expected_deposit_pda, _) =
       derive_deposit_pda S program_id (ai_key pool_ai) (ai_key user_ai) in
     if ai_key deposit_ai \<noteq> expected_deposit_pda then Inl (stake_err InvalidPda)
     else if info_owner w deposit_ai \<noteq> program_id then Inl (stake_err InvalidAccount)
     else bnd (clock_from_account_info S w clock_sysvar) (\<lambda>clk.
     bnd (try_borrow_data w deposit_ai) (\<lambda>deposit_data.
     bnd (as_deposit deposit_data) (\<lambda>d.
     if dep_is_initialized d \<noteq> 1 \<or> dep_user d \<noteq> ai_key user_ai \<or> dep_pool d \<noteq> ai_key pool_ai
     then Inl (stake_err Unauthorized)
     else if clock_slot clk < saturating_add (last_deposit_slot d) (cooldown_slots p)
     then Inl (stake_err CooldownNotElapsed)
     else if lp_amount d < lp then Inl (stake_err InsufficientLpTokens)
     else bnd (ok_or (pool_calc_collateral_for_withdraw p lp) (stake_err Overflow)) (\<lambda>collateral.
     if collateral = 0 then Inl (stake_err ZeroAmount)
     else bnd (if hwm_enabled p then
                 let current_tvl = unwrap_or (total_pool_value p) 0;
                     (p, hwm) = refresh_hwm (clock_epoch clk) current_tvl p
                 in bnd (ok_or (checked_sub current_tvl collateral) (stake_err Overflow)) (\<lambda>post_tvl.
                    if \<not> hwm_withdrawal_allowed post_tvl hwm (hwm_floor_bps p)
                    then Inl (stake_err WithdrawalBelowHwmFloor) else Inr p)
               else Inr p) (\<lambda>p.
     let w = write_pool pool_ai p w in
     bnd (invoke S w
            (TokenBurn (ai_key token_program) (ai_key user_lp_ata) (ai_key lp_mint_ai)
               (ai_key user_ai) lp)
            [user_lp_ata, lp_mint_ai, user_ai, token_program]) (\<lambda>w.
     let (_, vault_auth_bump) = derive_vault_authority S program_id (ai_key pool_ai) in
     bnd (invoke_signed S w
            (TokenTransfer (ai_key token_program) (ai_key vault_ai) (ai_key user_ata)
               (ai_key vault_auth_ai) collateral)
            [vault_ai, user_ata, vault_auth_ai, token_program]
            [vault_auth_seeds (ai_key pool_ai) vault_auth_bump]) (\<lambda>w.
     bnd (ok_or (checked_add (total_withdrawn p) collateral) (stake_err Overflow)) (\<lambda>new_withdrawn.
     bnd (ok_or (checked_sub (total_lp_supply p) lp) (stake_err Overflow)) (\<lambda>new_supply.
     let w = write_pool pool_ai (p\<lparr>total_withdrawn := new_withdrawn,
                                   total_lp_supply := new_supply\<rparr>) w in
     bnd (try_borrow_mut_data w deposit_ai) (\<lambda>(deposit_data, w).
     bnd (as_deposit deposit_data) (\<lambda>d.
     bnd (ok_or (checked_sub (lp_amount d) lp) (stake_err InsufficientLpTokens)) (\<lambda>new_lp.
     Inr (release pool_ai (release deposit_ai (write_deposit deposit_ai (d\<lparr>lp_amount := new_lp\<rparr>) w)))
     ))))))))))))))))))))))))))"

section \<open>AccrueFees\<close>

definition process_accrue_fees :: "sdk \<Rightarrow> pubkey \<Rightarrow> account_info list \<Rightarrow> world \<Rightarrow> fault + world" where
  "process_accrue_fees S program_id accounts w =
     bnd (next_account_info S accounts) (\<lambda>(caller, it).
     if \<not> ai_is_signer caller then Inl MissingRequiredSignature
     else bnd (next_account_info S it) (\<lambda>(pool_ai, it).
     bnd (next_account_info S it) (\<lambda>(vault_ai, it).
     bnd (next_account_info S it) (\<lambda>(clock_ai, it).
     bnd (try_borrow_mut_data w pool_ai) (\<lambda>(pool_data, w).
     bnd (as_pool pool_data) (\<lambda>p.
     if is_initialized p \<noteq> 1 then Inl UninitializedAccount
     else if pool_mode p \<noteq> 1 then Inl (stake_err InvalidPoolMode)
     else bnd (try_borrow_data w vault_ai) (\<lambda>vault_data.
     bnd (token_account_amount S vault_data) (\<lambda>current_balance.
     if ai_key vault_ai \<noteq> vault p then Inl InvalidAccountData
     else bnd (clock_from_account_info S w clock_ai) (\<lambda>clk.
     if total_lp_supply p = 0 then
       let p = (set_pre_supply_vault_offset current_balance p)\<lparr>
                 last_fee_accrual_slot := clock_slot clk, last_vault_snapshot := current_balance\<rparr>
       in Inr (release pool_ai (write_pool pool_ai p w))
     else
       bnd (ok_or (case accrual_baseline p of None \<Rightarrow> None
                   | Some baseline \<Rightarrow> checked_add baseline (pre_supply_vault_offset p))
              (stake_err Overflow)) (\<lambda>value.
       bnd (if value < current_balance then
              let fee_delta = current_balance - value
              in bnd (ok_or (checked_add (total_fees_earned p) fee_delta) (stake_err Overflow))
                   (\<lambda>new_fees. Inr (p\<lparr>total_fees_earned := new_fees\<rparr>))
            else Inr p) (\<lambda>p.
       let p = p\<lparr>last_fee_accrual_slot := clock_slot clk, last_vault_snapshot := current_balance\<rparr>
       in Inr (release pool_ai (write_pool pool_ai p w)))))))))))))"

section \<open>InitTradingPool\<close>

definition process_init_trading_pool :: "sdk \<Rightarrow> pubkey \<Rightarrow> account_info list \<Rightarrow> u64 \<Rightarrow> u64 \<Rightarrow> world \<Rightarrow>
    fault + world" where
  "process_init_trading_pool S program_id accounts cooldown cap w =
     bnd (process_init_pool S program_id accounts cooldown cap w) (\<lambda>w.
     if length accounts \<le> 2 then Inl Panicked
     else let pool_ai = accounts ! 2 in
     bnd (try_borrow_mut_data w pool_ai) (\<lambda>(pool_data, w).
     bnd (as_pool pool_data) (\<lambda>p.
     Inr (release pool_ai (write_pool pool_ai (p\<lparr>pool_mode := 1\<rparr>) w)))))"

end
