(* ===== verification/Stake_Instruction.thy ===== *)
theory Stake_Instruction
  imports Byte_Codec Stake_Error
begin

text \<open>
  The instruction enum of \<^verbatim>\<open>src/src/instruction.rs\<close> and its parser \<open>unpack\<close>.  The wire format
  is also written out as an encoder (\<open>pack\<close>), against which the parser is proved correct: it
  recovers every instruction, and it accepts exactly the byte strings that are long enough for
  their tag.
\<close>

datatype stake_instruction =
    InitPool u64 u64
  | Deposit u64
  | Withdraw u64
  | FlushToInsurance u64
  | UpdateConfig "u64 option" "u64 option"
  | TransferAdmin
  | AdminSetOracleAuthority pubkey
  | AdminSetRiskThreshold u128
  | AdminSetMaintenanceFee u128
  | AdminResolveMarket
  | AdminWithdrawInsurance u64
  | AdminSetInsurancePolicy pubkey u64 u16 u64
  | AccrueFees
  | InitTradingPool u64 u64
  | AdminSetHwmConfig bool u16

definition unpack :: "byte list \<Rightarrow> fault + stake_instruction" where
  "unpack data = (case data of
     [] \<Rightarrow> Inl InvalidInstructionData
   | tag # rest \<Rightarrow>
       if tag = 0 then
         if length rest < 16 then Inl InvalidInstructionData
         else Inr (InitPool (of_u64 (subslice 0 8 rest)) (of_u64 (subslice 8 8 rest)))
       else if tag = 1 then
         if length rest < 8 then Inl InvalidInstructionData
         else Inr (Deposit (of_u64 (subslice 0 8 rest)))
       else if tag = 2 then
         if length rest < 8 then Inl InvalidInstructionData
         else Inr (Withdraw (of_u64 (subslice 0 8 rest)))
       else if tag = 3 then
         if length rest < 8 then Inl InvalidInstructionData
         else Inr (FlushToInsurance (of_u64 (subslice 0 8 rest)))
       else if tag = 4 then
         if length rest < 18 then Inl InvalidInstructionData
         else
           let has_cooldown = rest ! 0 \<noteq> 0;
               cooldown = of_u64 (subslice 1 8 rest);
               has_cap = rest ! 9 \<noteq> 0;
               cap = of_u64 (subslice 10 8 rest)
           in Inr (UpdateConfig (if has_cooldown then Some cooldown else None)
                (if has_cap then Some cap else None))
       else if tag = 5 then Inr TransferAdmin
       else if tag = 6 then
         if length rest < 32 then Inl InvalidInstructionData
         else Inr (AdminSetOracleAuthority (key_of (subslice 0 32 rest)))
       else if tag = 7 then
         if length rest < 16 then Inl InvalidInstructionData
         else Inr (AdminSetRiskThreshold (of_u128 (subslice 0 16 rest)))
       else if tag = 8 then
         if length rest < 16 then Inl InvalidInstructionData
         else Inr (AdminSetMaintenanceFee (of_u128 (subslice 0 16 rest)))
       else if tag = 9 then Inr AdminResolveMarket
       else if tag = 10 then
         if length rest < 8 then Inl InvalidInstructionData
         else Inr (AdminWithdrawInsurance (of_u64 (subslice 0 8 rest)))
       else if tag = 11 then
         if length rest < 50 then Inl InvalidInstructionData
         else Inr (AdminSetInsurancePolicy (key_of (subslice 0 32 rest))
                (of_u64 (subslice 32 8 rest)) (of_u16 (subslice 40 2 rest))
                (of_u64 (subslice 42 8 rest)))
       else if tag = 12 then Inr AccrueFees
       else if tag = 13 then
         if length rest < 16 then Inl InvalidInstructionData
         else Inr (InitTradingPool (of_u64 (subslice 0 8 rest)) (of_u64 (subslice 8 8 rest)))
       else if tag = 14 then
         if length rest < 3 then Inl InvalidInstructionData
         else Inr (AdminSetHwmConfig (rest ! 0 \<noteq> 0) (of_u16 (subslice 1 2 rest)))
       else Inl InvalidInstructionData)"

section \<open>The wire format\<close>

definition pack_option :: "u64 option \<Rightarrow> byte list" where
  "pack_option x = (case x of None \<Rightarrow> 0 # replicate 8 0 | Some v \<Rightarrow> 1 # le_u64 v)"

fun pack :: "stake_instruction \<Rightarrow> byte list" where
  "pack (InitPool cooldown cap) = 0 # le_u64 cooldown @ le_u64 cap"
| "pack (Deposit amount) = 1 # le_u64 amount"
| "pack (Withdraw lp) = 2 # le_u64 lp"
| "pack (FlushToInsurance amount) = 3 # le_u64 amount"
| "pack (UpdateConfig cooldown cap) = 4 # pack_option cooldown @ pack_option cap"
| "pack TransferAdmin = [5]"
| "pack (AdminSetOracleAuthority k) = 6 # key_bytes k"
| "pack (AdminSetRiskThreshold t) = 7 # le_u128 t"
| "pack (AdminSetMaintenanceFee f) = 8 # le_u128 f"
| "pack AdminResolveMarket = [9]"
| "pack (AdminWithdrawInsurance amount) = 10 # le_u64 amount"
| "pack (AdminSetInsurancePolicy k base bps cooldown) =
     11 # key_bytes k @ le_u64 base @ le_u16 bps @ le_u64 cooldown"
| "pack AccrueFees = [12]"
| "pack (InitTradingPool cooldown cap) = 13 # le_u64 cooldown @ le_u64 cap"
| "pack (AdminSetHwmConfig enabled bps) = 14 # (if enabled then 1 else 0) # le_u16 bps"

text \<open>The payload each tag needs.\<close>

definition payload_len :: "u8 \<Rightarrow> nat option" where
  "payload_len tag =
     (if unat tag < 15
      then Some ([16, 8, 8, 8, 18, 0, 32, 16, 16, 0, 8, 50, 0, 16, 3] ! unat tag) else None)"

lemma unpack_pack: "unpack (pack i @ extra) = Inr i"
  by (cases i)
    (auto simp: unpack_def pack_option_def subslice_def codec16.dec_enc codec64.dec_enc
      codec128.dec_enc codec_key.dec_enc nth_append split: option.splits)

lemma tag_cases:
  assumes "unat (tag :: u8) < 15"
  obtains "tag = 0" | "tag = 1" | "tag = 2" | "tag = 3" | "tag = 4" | "tag = 5" | "tag = 6"
    | "tag = 7" | "tag = 8" | "tag = 9" | "tag = 10" | "tag = 11" | "tag = 12" | "tag = 13"
    | "tag = 14"
proof -
  have "tag = word_of_nat (unat tag)"
    by simp
  moreover have "unat tag \<in> {0, 1, 2, 3, 4, 5, 6, 7, 8, 9, 10, 11, 12, 13, 14}"
    using assms by simp presburger
  ultimately show ?thesis
    using that by (elim insertE emptyE) simp_all
qed

lemma unpack_accepts:
  "(\<exists>i. unpack (tag # rest) = Inr i) \<longleftrightarrow> (\<exists>n. payload_len tag = Some n \<and> n \<le> length rest)"
proof (cases "unat tag < 15")
  case True
  then show ?thesis
    by (rule tag_cases) (simp_all add: unpack_def payload_len_def Let_def not_less)
next
  case False
  then have "\<And>n. n < 15 \<Longrightarrow> unat tag \<noteq> n"
    by simp
  then show ?thesis
    using False by (simp add: unpack_def payload_len_def unat_eq_iff)
qed

lemma unpack_error: "unpack data = Inl e \<Longrightarrow> e = InvalidInstructionData"
  by (auto simp: unpack_def Let_def split: list.splits if_splits)

section \<open>Properties\<close>

text \<open>C33. Every instruction survives its wire format: parsing the bytes of an instruction, with
  anything after them, gives that instruction.\<close>
theorem instruction_round_trip: "unpack (pack i @ trailing) = Inr i"
  by (rule unpack_pack)

text \<open>C34. The parser is total and strict: it accepts exactly the byte strings whose tag is known and
  whose payload is long enough for it, and everything else, the empty string included, is
  \<open>InvalidInstructionData\<close>.\<close>
theorem unpack_total:
  "unpack data = Inl InvalidInstructionData \<longleftrightarrow>
    (case data of [] \<Rightarrow> True
     | tag # rest \<Rightarrow> (case payload_len tag of None \<Rightarrow> True | Some n \<Rightarrow> length rest < n))"
proof (cases data)
  case (Cons tag rest)
  have "unpack data = Inl InvalidInstructionData \<longleftrightarrow> (\<nexists>i. unpack data = Inr i)"
    using unpack_error [of data] by (cases "unpack data") auto
  then show ?thesis
    unfolding Cons unpack_accepts by (auto split: option.splits)
qed (simp add: unpack_def)

end
