(* ===== verification/Processor_Admin.thy ===== *)
theory Processor_Admin
  imports Processor_User Stake_Instruction
begin

text \<open>
  The administrative handlers of \<^verbatim>\<open>src/src/processor.rs\<close>, in the order of their instruction tags,
  and the dispatch \<open>process\<close> that the entrypoint calls.
\<close>

section \<open>FlushToInsurance\<close>

definition process_flush_to_insurance :: "sdk \<Rightarrow> pubkey \<Rightarrow> account_info list \<Rightarrow> u64 \<Rightarrow> world \<Rightarrow>
    fault + world" where
  "process_flush_to_insurance S program_id accounts amount w =
     (if amount = 0 then Inl (stake_err ZeroAmount) else
     bnd (next_account_info S accounts) (\<lambda>(caller, it).
     bnd (next_account_info S it) (\<lambda>(pool_ai, it).
     bnd (next_account_info S it) (\<lambda>(vault_ai, it).
     bnd (next_account_info S it) (\<lambda>(vault_auth_ai, it).
     bnd (next_account_info S it) (\<lambda>(slab_ai, it).
     bnd (next_account_info S it) (\<lambda>(wrapper_vault, it).
     bnd (next_account_info S it) (\<lambda>(percolator_ai, it).
     bnd (next_account_info S it) (\<lambda>(token_program, it).
     if \<not> ai_is_signer caller then Inl MissingRequiredSignature
     else bnd (try_borrow_mut_data w pool_ai) (\<lambda>(pool_data, w).
     bnd (as_pool pool_data) (\<lambda>p.
     if is_initialized p \<noteq> 1 then Inl (stake_err NotInitialized)
     else bnd (validate_flush_pool_mode p) (\<lambda>_.
     if admin p \<noteq> ai_key caller then Inl (stake_err Unauthorized)
     else if slab p \<noteq> ai_key slab_ai then Inl (stake_err InvalidPda)
     else if vault p \<noteq> ai_key vault_ai then Inl (stake_err InvalidPda)
     else if percolator_program p \<noteq> ai_key percolator_ai
     then Inl (stake_err InvalidPercolatorProgram)
     else bnd (verify_token_program S token_program) (\<lambda>_.
     bnd (ok_or (case checked_add (total_deposited p) (total_returned p) of None \<Rightarrow> None
                 | Some v \<Rightarrow> (case checked_sub v (total_withdrawn p) of None \<Rightarrow> None
                     | Some v \<Rightarrow> checked_sub v (total_flushed p)))
            (stake_err Overflow)) (\<lambda>available.
     if available < amount then Inl InsufficientFunds
     else let (expected_vault_auth, vault_auth_bump) =
       derive_vault_authority S program_id (ai_key pool_ai) in
     if ai_key vault_auth_ai \<noteq> expected_vault_auth then Inl (stake_err InvalidPda)
     else bnd (cpi_top_up_insurance S w percolator_ai vault_auth_ai slab_ai vault_ai wrapper_vault
            token_program amount (vault_auth_seeds (ai_key pool_ai) vault_auth_bump)) (\<lambda>w.
     bnd (ok_or (checked_add (total_flushed p) amount) (stake_err Overflow)) (\<lambda>new_flushed.
     Inr (release pool_ai (write_pool pool_ai (p\<lparr>total_flushed := new_flushed\<rparr>) w))
     ))))))))))))))))"

section \<open>UpdateConfig\<close>

definition process_update_config :: "sdk \<Rightarrow> pubkey \<Rightarrow> account_info list \<Rightarrow> u64 option \<Rightarrow> u64 option \<Rightarrow>
    world \<Rightarrow> fault + world" where
  "process_update_config S program_id accounts new_cooldown_slots new_deposit_cap w =
     bnd (next_account_info S accounts) (\<lambda>(admin_ai, it).
     bnd (next_account_info S it) (\<lambda>(pool_ai, it).
     if \<not> ai_is_signer admin_ai then Inl MissingRequiredSignature
     else bnd (try_borrow_mut_data w pool_ai) (\<lambda>(pool_data, w).
     bnd (as_pool pool_data) (\<lambda>p.
     if is_initialized p \<noteq> 1 then Inl (stake_err NotInitialized)
     else if admin p \<noteq> ai_key admin_ai then Inl (stake_err Unauthorized)
     else
       let p = (case new_cooldown_slots of None \<Rightarrow> p | Some cooldown \<Rightarrow> p\<lparr>cooldown_slots := cooldown\<rparr>);
           p = (case new_deposit_cap of None \<Rightarrow> p | Some cap \<Rightarrow> p\<lparr>deposit_cap := cap\<rparr>)
       in Inr (release pool_ai (write_pool pool_ai p w))))))"

section \<open>TransferAdmin\<close>

definition process_transfer_admin :: "sdk \<Rightarrow> pubkey \<Rightarrow> account_info list \<Rightarrow> world \<Rightarrow> fault + world" where
  "process_transfer_admin S program_id accounts w =
     bnd (next_account_info S accounts) (\<lambda>(current_admin, it).
     bnd (next_account_info S it) (\<lambda>(pool_ai, it).
     bnd (next_account_info S it) (\<lambda>(slab_ai, it).
     bnd (next_account_info S it) (\<lambda>(percolator_ai, it).
     if \<not> ai_is_signer current_admin then Inl MissingRequiredSignature
     else let (expected_pool, pool_bump) = derive_pool_pda S program_id (ai_key slab_ai) in
     if ai_key pool_ai \<noteq> expected_pool then Inl (stake_err InvalidPda)
     else bnd (try_borrow_data w pool_ai) (\<lambda>pool_data.
     bnd (as_pool pool_data) (\<lambda>p.
     if is_initialized p \<noteq> 1 then Inl (stake_err NotInitialized)
     else if admin p \<noteq> ai_key current_admin then Inl (stake_err Unauthorized)
     else if admin_transferred p = 1 then Inl (stake_err AdminAlreadyTransferred)
     else if slab p \<noteq> ai_key slab_ai then Inl (stake_err InvalidPda)
     else if percolator_program p \<noteq> ai_key percolator_ai
     then Inl (stake_err InvalidPercolatorProgram)
     else bnd (cpi_update_authority S w percolator_ai current_admin pool_ai slab_ai
            (pool_seeds (ai_key slab_ai) pool_bump)) (\<lambda>w.
     bnd (try_borrow_mut_data w pool_ai) (\<lambda>(pool_data, w).
     bnd (as_pool pool_data) (\<lambda>p.
     Inr (release pool_ai (write_pool pool_ai (p\<lparr>admin_transferred := 1\<rparr>) w)))))))))))"

section \<open>Forwarded administration\<close>

definition process_admin_set_oracle_authority :: "sdk \<Rightarrow> pubkey \<Rightarrow> account_info list \<Rightarrow> pubkey \<Rightarrow>
    world \<Rightarrow> fault + world" where
  "process_admin_set_oracle_authority S program_id accounts new_authority w =
     bnd (next_account_info S accounts) (\<lambda>(admin_ai, it).
     bnd (next_account_info S it) (\<lambda>(pool_ai, it).
     bnd (next_account_info S it) (\<lambda>(slab_ai, it).
     bnd (next_account_info S it) (\<lambda>(percolator_ai, it).
     bnd (next_account_info S it) (\<lambda>(new_authority_ai, it).
     if ai_key new_authority_ai \<noteq> new_authority then Inl (stake_err InvalidAccount)
     else if \<not> ai_is_signer new_authority_ai then Inl MissingRequiredSignature
     else bnd (validate_admin_cpi S program_id w pool_ai admin_ai slab_ai percolator_ai) (\<lambda>pool_bump.
     cpi_update_asset_authority S w percolator_ai pool_ai new_authority_ai slab_ai 0
       ASSET_AUTH_ORACLE [pool_seeds (ai_key slab_ai) pool_bump]))))))"

definition process_admin_set_risk_threshold :: "sdk \<Rightarrow> pubkey \<Rightarrow> account_info list \<Rightarrow> u128 \<Rightarrow> world \<Rightarrow>
    fault + world" where
  "process_admin_set_risk_threshold S program_id accounts new_threshold w =
     bnd (next_account_info S accounts) (\<lambda>(admin_ai, it).
     bnd (next_account_info S it) (\<lambda>(pool_ai, it).
     bnd (next_account_info S it) (\<lambda>(slab_ai, it).
     bnd (next_account_info S it) (\<lambda>(percolator_ai, it).
     bnd (validate_admin_cpi S program_id w pool_ai admin_ai slab_ai percolator_ai) (\<lambda>pool_bump.
     cpi_set_risk_threshold percolator_ai pool_ai slab_ai new_threshold
       (pool_seeds (ai_key slab_ai) pool_bump))))))"

definition process_admin_set_maintenance_fee :: "sdk \<Rightarrow> pubkey \<Rightarrow> account_info list \<Rightarrow> u128 \<Rightarrow> world \<Rightarrow>
    fault + world" where
  "process_admin_set_maintenance_fee S program_id accounts new_fee w =
     bnd (next_account_info S accounts) (\<lambda>(admin_ai, it).
     bnd (next_account_info S it) (\<lambda>(pool_ai, it).
     bnd (next_account_info S it) (\<lambda>(slab_ai, it).
     bnd (next_account_info S it) (\<lambda>(percolator_ai, it).
     bnd (validate_admin_cpi S program_id w pool_ai admin_ai slab_ai percolator_ai) (\<lambda>pool_bump.
     cpi_set_maintenance_fee percolator_ai pool_ai slab_ai new_fee
       (pool_seeds (ai_key slab_ai) pool_bump))))))"

definition process_admin_resolve_market :: "sdk \<Rightarrow> pubkey \<Rightarrow> account_info list \<Rightarrow> world \<Rightarrow> fault + world"
where
  "process_admin_resolve_market S program_id accounts w =
     bnd (next_account_info S accounts) (\<lambda>(admin_ai, it).
     bnd (next_account_info S it) (\<lambda>(pool_ai, it).
     bnd (next_account_info S it) (\<lambda>(slab_ai, it).
     bnd (next_account_info S it) (\<lambda>(percolator_ai, it).
     bnd (validate_admin_cpi S program_id w pool_ai admin_ai slab_ai percolator_ai) (\<lambda>pool_bump.
     bnd (cpi_resolve_market S w percolator_ai pool_ai slab_ai
            (pool_seeds (ai_key slab_ai) pool_bump)) (\<lambda>w.
     bnd (try_borrow_mut_data w pool_ai) (\<lambda>(pool_data, w).
     bnd (as_pool pool_data) (\<lambda>p.
     Inr (release pool_ai (write_pool pool_ai (set_resolved p) w))))))))))"

section \<open>AdminWithdrawInsurance and AdminSetInsurancePolicy\<close>

definition process_admin_withdraw_insurance :: "sdk \<Rightarrow> pubkey \<Rightarrow> account_info list \<Rightarrow> u64 \<Rightarrow> world \<Rightarrow>
    fault + world" where
  "process_admin_withdraw_insurance S program_id accounts amount w =
     bnd (next_account_info S accounts) (\<lambda>(admin_ai, it).
     bnd (next_account_info S it) (\<lambda>(pool_ai, it).
     bnd (next_account_info S it) (\<lambda>(slab_ai, it).
     bnd (next_account_info S it) (\<lambda>(vault_auth_ai, it).
     bnd (next_account_info S it) (\<lambda>(stake_vault, it).
     bnd (next_account_info S it) (\<lambda>(wrapper_vault, it).
     bnd (next_account_info S it) (\<lambda>(wrapper_vault_pda, it).
     bnd (next_account_info S it) (\<lambda>(percolator_ai, it).
     bnd (next_account_info S it) (\<lambda>(token_program, it).
     bnd (next_account_info S it) (\<lambda>(_, it).
     bnd (validate_admin_cpi S program_id w pool_ai admin_ai slab_ai percolator_ai) (\<lambda>_.
     bnd (try_borrow_data w pool_ai) (\<lambda>pool_data.
     bnd (as_pool pool_data) (\<lambda>p.
     bnd (validate_withdraw_insurance_pool_mode p) (\<lambda>_.
     bnd (validate_return_vault p (ai_key stake_vault)) (\<lambda>_.
     bnd (verify_token_program S token_program) (\<lambda>_.
     let (expected_vault_auth, vault_auth_bump) =
       find_program_address S [seed_of ''vault_auth'', key_bytes (ai_key pool_ai)] program_id in
     if ai_key vault_auth_ai \<noteq> expected_vault_auth then Inl InvalidArgument
     else bnd (cpi_withdraw_insurance S w percolator_ai vault_auth_ai slab_ai stake_vault
            wrapper_vault wrapper_vault_pda token_program amount
            (vault_auth_seeds (ai_key pool_ai) vault_auth_bump)) (\<lambda>w.
     bnd (try_borrow_mut_data w pool_ai) (\<lambda>(pool_data, w).
     bnd (as_pool pool_data) (\<lambda>p.
     bnd (ok_or (checked_add (total_returned p) amount) (stake_err Overflow)) (\<lambda>new_returned.
     Inr (release pool_ai (write_pool pool_ai (p\<lparr>total_returned := new_returned\<rparr>) w))
     ))))))))))))))))))))"

definition process_admin_set_insurance_policy :: "sdk \<Rightarrow> pubkey \<Rightarrow> account_info list \<Rightarrow> pubkey \<Rightarrow> u64 \<Rightarrow>
    u16 \<Rightarrow> u64 \<Rightarrow> world \<Rightarrow> fault + world" where
  "process_admin_set_insurance_policy S program_id accounts authority min_withdraw_base
       max_withdraw_bps cooldown w =
     bnd (next_account_info S accounts) (\<lambda>(admin_ai, it).
     bnd (next_account_info S it) (\<lambda>(pool_ai, it).
     bnd (next_account_info S it) (\<lambda>(slab_ai, it).
     bnd (next_account_info S it) (\<lambda>(percolator_ai, it).
     bnd (next_account_info S it) (\<lambda>(authority_ai, it).
     bnd (validate_vault_insurance_authority S program_id (ai_key pool_ai) (ai_key authority_ai)
            authority) (\<lambda>vault_auth_bump.
     if min_withdraw_base \<noteq> 0 \<or> max_withdraw_bps \<noteq> 0 \<or> cooldown \<noteq> 0
     then Inl InvalidInstructionData
     else bnd (validate_admin_cpi S program_id w pool_ai admin_ai slab_ai percolator_ai) (\<lambda>pool_bump.
     cpi_update_asset_authority S w percolator_ai pool_ai authority_ai slab_ai 0
       ASSET_AUTH_INSURANCE
       [pool_seeds (ai_key slab_ai) pool_bump,
        vault_auth_seeds (ai_key pool_ai) vault_auth_bump])))))))"

section \<open>AdminSetHwmConfig\<close>

definition process_admin_set_hwm_config :: "sdk \<Rightarrow> pubkey \<Rightarrow> account_info list \<Rightarrow> bool \<Rightarrow> u16 \<Rightarrow>
    world \<Rightarrow> fault + world" where
  "process_admin_set_hwm_config S program_id accounts enabled floor_bps w =
     bnd (next_account_info S accounts) (\<lambda>(admin_ai, it).
     bnd (next_account_info S it) (\<lambda>(pool_ai, it).
     if \<not> ai_is_signer admin_ai then Inl MissingRequiredSignature
     else bnd (try_borrow_mut_data w pool_ai) (\<lambda>(pool_data, w).
     bnd (as_pool pool_data) (\<lambda>p.
     if is_initialized p \<noteq> 1 then Inl (stake_err NotInitialized)
     else if \<not> validate_discriminator p then Inl (stake_err InvalidAccount)
     else if admin p \<noteq> ai_key admin_ai then Inl (stake_err Unauthorized)
     else let p = set_hwm_enabled enabled p in
     bnd (if enabled then
            if floor_bps = 0 \<or> 10000 < floor_bps then Inl InvalidInstructionData
            else Inr (set_hwm_floor_bps floor_bps p)
          else Inr p) (\<lambda>p.
     Inr (release pool_ai (write_pool pool_ai p w)))))))"

section \<open>Dispatch\<close>

definition dispatch :: "sdk \<Rightarrow> pubkey \<Rightarrow> account_info list \<Rightarrow> stake_instruction \<Rightarrow> world \<Rightarrow> fault + world"
where
  "dispatch S program_id accounts instr w =
     (case instr of
        InitPool cooldown cap \<Rightarrow> process_init_pool S program_id accounts cooldown cap w
      | Deposit amount \<Rightarrow> process_deposit S program_id accounts amount w
      | Withdraw lp \<Rightarrow> process_withdraw S program_id accounts lp w
      | FlushToInsurance amount \<Rightarrow> process_flush_to_insurance S program_id accounts amount w
      | UpdateConfig cooldown cap \<Rightarrow> process_update_config S program_id accounts cooldown cap w
      | TransferAdmin \<Rightarrow> process_transfer_admin S program_id accounts w
      | AdminSetOracleAuthority auth \<Rightarrow>
          process_admin_set_oracle_authority S program_id accounts auth w
      | AdminSetRiskThreshold threshold \<Rightarrow>
          process_admin_set_risk_threshold S program_id accounts threshold w
      | AdminSetMaintenanceFee fee \<Rightarrow> process_admin_set_maintenance_fee S program_id accounts fee w
      | AdminResolveMarket \<Rightarrow> process_admin_resolve_market S program_id accounts w
      | AdminWithdrawInsurance amount \<Rightarrow>
          process_admin_withdraw_insurance S program_id accounts amount w
      | AdminSetInsurancePolicy auth min_base max_bps cooldown \<Rightarrow>
          process_admin_set_insurance_policy S program_id accounts auth min_base max_bps cooldown w
      | AccrueFees \<Rightarrow> process_accrue_fees S program_id accounts w
      | InitTradingPool cooldown cap \<Rightarrow>
          process_init_trading_pool S program_id accounts cooldown cap w
      | AdminSetHwmConfig enabled floor_bps \<Rightarrow>
          process_admin_set_hwm_config S program_id accounts enabled floor_bps w)"

definition process :: "sdk \<Rightarrow> pubkey \<Rightarrow> account_info list \<Rightarrow> byte list \<Rightarrow> world \<Rightarrow> fault + world" where
  "process S program_id accounts instruction_data w =
     bnd (unpack instruction_data) (\<lambda>instr. dispatch S program_id accounts instr w)"

text \<open>The entrypoint hands its arguments on.\<close>

definition process_instruction :: "sdk \<Rightarrow> pubkey \<Rightarrow> account_info list \<Rightarrow> byte list \<Rightarrow> world \<Rightarrow>
    fault + world" where
  "process_instruction S program_id accounts instruction_data w =
     process S program_id accounts instruction_data w"

end
