(* ===== verification/Pool_Machine.thy ===== *)
theory Pool_Machine
  imports Pool_State
begin

text \<open>
  What the instructions do to the pool record, as a transition system: one rule of
  \<open>pool_step\<close> per state-changing instruction, with the conditions under which its handler
  reaches the write.  The handlers are proved to refine it in \<open>Handler_Effects\<close>; here are the
  invariants of every reachable pool, by rule induction.
\<close>

section \<open>Events and steps\<close>

datatype pool_event =
    DepositEv u64 u64 u64
  | WithdrawEv u64 u64 u64
  | FlushEv u64
  | ConfigEv "u64 option" "u64 option"
  | TransferEv
  | ResolveEv
  | ReturnEv u64
  | AccrueEv u64 u64
  | HwmEv bool u16

definition tvl :: "stake_pool \<Rightarrow> u64" where
  "tvl p = unwrap_or (total_pool_value p) 0"

definition touch_hwm :: "u64 \<Rightarrow> stake_pool \<Rightarrow> stake_pool" where
  "touch_hwm epoch p = (if hwm_enabled p then fst (refresh_hwm epoch (tvl p) p) else p)"

definition hwm_permits :: "u64 \<Rightarrow> stake_pool \<Rightarrow> u64 \<Rightarrow> bool" where
  "hwm_permits epoch p c \<longleftrightarrow> hwm_enabled p \<longrightarrow> c \<le> tvl p
     \<and> hwm_withdrawal_allowed (tvl p - c) (snd (refresh_hwm epoch (tvl p) p)) (hwm_floor_bps p)"

definition within_cap :: "stake_pool \<Rightarrow> u64 \<Rightarrow> bool" where
  "within_cap p a \<longleftrightarrow> deposit_cap p = 0 \<or> unat (tvl p) + unat a \<le> unat (deposit_cap p)"

definition set_config :: "u64 option \<Rightarrow> u64 option \<Rightarrow> stake_pool \<Rightarrow> stake_pool" where
  "set_config cooldown cap p =
     p\<lparr>cooldown_slots := unwrap_or cooldown (cooldown_slots p),
       deposit_cap := unwrap_or cap (deposit_cap p)\<rparr>"

inductive pool_step :: "stake_pool \<Rightarrow> pool_event \<Rightarrow> stake_pool \<Rightarrow> bool" where
  deposit: "is_initialized p = 1 \<Longrightarrow> admin_transferred p = 1 \<Longrightarrow> \<not> is_resolved p \<Longrightarrow> a \<noteq> 0 \<Longrightarrow>
    within_cap p a \<Longrightarrow> pool_calc_lp_for_deposit p a = Some lp \<Longrightarrow> lp \<noteq> 0 \<Longrightarrow>
    checked_add (total_deposited p) a = Some d \<Longrightarrow> checked_add (total_lp_supply p) lp = Some s \<Longrightarrow>
    pool_step p (DepositEv a lp e) (touch_hwm e (p\<lparr>total_deposited := d, total_lp_supply := s\<rparr>))"
| withdraw: "is_initialized p = 1 \<Longrightarrow> lp \<noteq> 0 \<Longrightarrow>
    pool_calc_collateral_for_withdraw p lp = Some c \<Longrightarrow> c \<noteq> 0 \<Longrightarrow> hwm_permits e p c \<Longrightarrow>
    checked_add (total_withdrawn p) c = Some t \<Longrightarrow> checked_sub (total_lp_supply p) lp = Some s \<Longrightarrow>
    pool_step p (WithdrawEv lp c e) ((touch_hwm e p)\<lparr>total_withdrawn := t, total_lp_supply := s\<rparr>)"
| flush: "is_initialized p = 1 \<Longrightarrow> pool_mode p = 0 \<Longrightarrow> a \<noteq> 0 \<Longrightarrow>
    unat (total_withdrawn p) + unat (total_flushed p) + unat a
      \<le> unat (total_deposited p) + unat (total_returned p) \<Longrightarrow>
    checked_add (total_flushed p) a = Some f \<Longrightarrow>
    pool_step p (FlushEv a) (p\<lparr>total_flushed := f\<rparr>)"
| config: "is_initialized p = 1 \<Longrightarrow> pool_step p (ConfigEv x y) (set_config x y p)"
| transfer: "is_initialized p = 1 \<Longrightarrow> admin_transferred p \<noteq> 1 \<Longrightarrow>
    pool_step p TransferEv (p\<lparr>admin_transferred := 1\<rparr>)"
| resolve: "is_initialized p = 1 \<Longrightarrow> admin_transferred p = 1 \<Longrightarrow>
    pool_step p ResolveEv (set_resolved p)"
| return: "is_initialized p = 1 \<Longrightarrow> admin_transferred p = 1 \<Longrightarrow> pool_mode p = 0 \<Longrightarrow>
    checked_add (total_returned p) a = Some r \<Longrightarrow>
    pool_step p (ReturnEv a) (p\<lparr>total_returned := r\<rparr>)"
| accrue_empty: "is_initialized p = 1 \<Longrightarrow> pool_mode p = 1 \<Longrightarrow> total_lp_supply p = 0 \<Longrightarrow>
    pool_step p (AccrueEv b t) ((set_pre_supply_vault_offset b p)\<lparr>
      last_fee_accrual_slot := t, last_vault_snapshot := b\<rparr>)"
| accrue: "is_initialized p = 1 \<Longrightarrow> pool_mode p = 1 \<Longrightarrow> total_lp_supply p \<noteq> 0 \<Longrightarrow>
    accrual_baseline p = Some v \<Longrightarrow> checked_add v (pre_supply_vault_offset p) = Some x \<Longrightarrow>
    checked_add (total_fees_earned p) (saturating_sub b x) = Some f \<Longrightarrow>
    pool_step p (AccrueEv b t) (p\<lparr>total_fees_earned := f, last_fee_accrual_slot := t,
      last_vault_snapshot := b\<rparr>)"
| hwm: "is_initialized p = 1 \<Longrightarrow> enabled \<longrightarrow> bps \<noteq> 0 \<and> bps \<le> 10000 \<Longrightarrow>
    pool_step p (HwmEv enabled bps)
      (if enabled then set_hwm_floor_bps bps (set_hwm_enabled enabled p)
       else set_hwm_enabled enabled p)"

text \<open>What a step of a given kind required and did.\<close>

inductive_cases deposit_stepE: "pool_step p (DepositEv a lp e) p'"
inductive_cases withdraw_stepE: "pool_step p (WithdrawEv lp c e) p'"
inductive_cases flush_stepE: "pool_step p (FlushEv a) p'"
inductive_cases return_stepE: "pool_step p (ReturnEv a) p'"
inductive_cases accrue_stepE: "pool_step p (AccrueEv b t) p'"

text \<open>A pool as \<open>InitPool\<close> and \<open>InitTradingPool\<close> leave it.\<close>

definition fresh_pool :: "stake_pool \<Rightarrow> bool" where
  "fresh_pool p \<longleftrightarrow> wf_pool p \<and> is_initialized p = 1 \<and> admin_transferred p = 1
     \<and> pool_mode p \<le> 1 \<and> \<not> is_resolved p \<and> \<not> hwm_enabled p
     \<and> total_deposited p = 0 \<and> total_lp_supply p = 0 \<and> total_flushed p = 0
     \<and> total_returned p = 0 \<and> total_withdrawn p = 0 \<and> total_fees_earned p = 0
     \<and> validate_discriminator p"

inductive reachable :: "stake_pool \<Rightarrow> bool" where
  init: "fresh_pool p \<Longrightarrow> reachable p"
| step: "reachable p \<Longrightarrow> pool_step p ev p' \<Longrightarrow> reachable p'"

inductive pool_steps :: "stake_pool \<Rightarrow> pool_event list \<Rightarrow> stake_pool \<Rightarrow> bool" where
  stop: "pool_steps p [] p"
| more: "pool_step p ev q \<Longrightarrow> pool_steps q evs r \<Longrightarrow> pool_steps p (ev # evs) r"

section \<open>Frame of the high-water mark\<close>

lemma set_resolved_frame:
  "\<exists>r. set_resolved p = p\<lparr>reserved := r\<rparr>" "\<exists>r. set_hwm_enabled b p = p\<lparr>reserved := r\<rparr>"
  by (auto simp: set_resolved_def set_hwm_enabled_def)

lemma touch_hwm_frame: "\<exists>r. touch_hwm e p = p\<lparr>reserved := r\<rparr>"
  by (auto simp: touch_hwm_def refresh_hwm_def Let_def set_epoch_high_water_tvl_def
      set_hwm_last_epoch_def intro: exI [of _ "reserved p"])

text \<open>An update confined to the reserved bytes leaves the rest of the record.\<close>

definition same_fields :: "stake_pool \<Rightarrow> stake_pool \<Rightarrow> bool" where
  "same_fields p q \<longleftrightarrow> q\<lparr>reserved := reserved p\<rparr> = p"

lemma same_fields_reserved: "\<exists>r. q = p\<lparr>reserved := r\<rparr> \<Longrightarrow> same_fields p q"
  by (auto simp: same_fields_def)

lemma same_fields_touch [simp]: "same_fields p (touch_hwm e p)"
  by (rule same_fields_reserved [OF touch_hwm_frame])

lemma same_fieldsD:
  assumes "same_fields p q"
  shows "is_initialized q = is_initialized p" "bump q = bump p"
    "vault_authority_bump q = vault_authority_bump p" "admin_transferred q = admin_transferred p"
    "padding q = padding p" "slab q = slab p" "admin q = admin p"
    "collateral_mint q = collateral_mint p" "lp_mint q = lp_mint p" "vault q = vault p"
    "total_deposited q = total_deposited p" "total_lp_supply q = total_lp_supply p"
    "cooldown_slots q = cooldown_slots p" "deposit_cap q = deposit_cap p"
    "total_flushed q = total_flushed p" "total_returned q = total_returned p"
    "total_withdrawn q = total_withdrawn p" "percolator_program q = percolator_program p"
    "total_fees_earned q = total_fees_earned p" "pool_mode q = pool_mode p"
    "mode_padding q = mode_padding p"
  using assms by (cases p; cases q; simp add: same_fields_def)+

lemmas touch_hwm_fields [simp] = same_fieldsD [OF same_fields_touch]

lemma flag_fields [simp]:
  "same_fields p (set_resolved p)" "same_fields p (set_hwm_enabled b p)"
  by (rule same_fields_reserved [OF set_resolved_frame(1)]
      same_fields_reserved [OF set_resolved_frame(2)])+

lemmas set_resolved_fields [simp] = same_fieldsD [OF flag_fields(1)]
lemmas set_hwm_enabled_fields [simp] = same_fieldsD [OF flag_fields(2)]


lemma touch_hwm_reserved:
  assumes "wf_pool p"
  shows "wf_pool (touch_hwm e p)" "hwm_enabled (touch_hwm e p) = hwm_enabled p"
    "is_resolved (touch_hwm e p) = is_resolved p"
    "hwm_floor_bps (touch_hwm e p) = hwm_floor_bps p"
    "pre_supply_vault_offset (touch_hwm e p) = pre_supply_vault_offset p"
    "validate_discriminator (touch_hwm e p) = validate_discriminator p"
  using refresh_hwm_value [OF assms surjective_pairing, of e "tvl p"] assms
  by (simp_all add: touch_hwm_def)

text \<open>Updates of the plain fields leave everything kept in the reserved bytes.\<close>

lemma plain_update_reserved:
  assumes "reserved q = reserved p"
  shows "is_resolved q = is_resolved p" "hwm_enabled q = hwm_enabled p"
    "hwm_floor_bps q = hwm_floor_bps p" "epoch_high_water_tvl q = epoch_high_water_tvl p"
    "hwm_last_epoch q = hwm_last_epoch p" "pre_supply_vault_offset q = pre_supply_vault_offset p"
    "validate_discriminator q = validate_discriminator p"
  using assms by (simp_all add: is_resolved_def hwm_enabled_def hwm_floor_bps_def
      epoch_high_water_tvl_def hwm_last_epoch_def pre_supply_vault_offset_def
      validate_discriminator_def)

lemmas plain_updates [simp] =
  plain_update_reserved [where q = "p\<lparr>admin_transferred := x\<rparr>" and p = p for p x, simplified]
  plain_update_reserved [where q = "p\<lparr>total_deposited := x\<rparr>" and p = p for p x, simplified]
  plain_update_reserved [where q = "p\<lparr>total_lp_supply := x\<rparr>" and p = p for p x, simplified]
  plain_update_reserved [where q = "p\<lparr>cooldown_slots := x\<rparr>" and p = p for p x, simplified]
  plain_update_reserved [where q = "p\<lparr>deposit_cap := x\<rparr>" and p = p for p x, simplified]
  plain_update_reserved [where q = "p\<lparr>total_flushed := x\<rparr>" and p = p for p x, simplified]
  plain_update_reserved [where q = "p\<lparr>total_returned := x\<rparr>" and p = p for p x, simplified]
  plain_update_reserved [where q = "p\<lparr>total_withdrawn := x\<rparr>" and p = p for p x, simplified]
  plain_update_reserved [where q = "p\<lparr>total_fees_earned := x\<rparr>" and p = p for p x, simplified]
  plain_update_reserved [where q = "p\<lparr>last_fee_accrual_slot := x\<rparr>" and p = p for p x, simplified]
  plain_update_reserved [where q = "p\<lparr>last_vault_snapshot := x\<rparr>" and p = p for p x, simplified]
  plain_update_reserved [where q = "p\<lparr>pool_mode := x\<rparr>" and p = p for p x, simplified]

section \<open>Well-formedness and the fields no instruction changes\<close>

lemma step_wf: "pool_step p ev p' \<Longrightarrow> wf_pool p \<Longrightarrow> wf_pool p'"
proof (induction rule: pool_step.induct)
  case (deposit p a lp d s e)
  then have "wf_pool (p\<lparr>total_deposited := d, total_lp_supply := s\<rparr>)"
    by (simp add: wf_pool_def)
  then show ?case
    by (rule touch_hwm_reserved)
next
  case (withdraw p lp c e t s)
  then show ?case
    using touch_hwm_reserved(1) [of p e] by (simp add: wf_pool_def)
next
  case (accrue_empty p b t)
  then show ?case
    using offset_field.wf_put [of p b] by (simp add: wf_pool_def)
qed (simp_all add: wf_pool_def set_config_def set_resolved_def set_hwm_enabled_def
    set_hwm_floor_bps_def Let_def)

definition identity :: "stake_pool \<Rightarrow> u8 \<times> u8 \<times> u8 \<times> u8 \<times> pubkey list" where
  "identity p = (is_initialized p, bump p, vault_authority_bump p, pool_mode p,
     [slab p, admin p, collateral_mint p, lp_mint p, vault p, percolator_program p])"

lemma step_identity: "pool_step p ev p' \<Longrightarrow> identity p' = identity p"
  by (induction rule: pool_step.induct) (simp_all add: identity_def set_config_def)

lemma step_initialized: "pool_step p ev p' \<Longrightarrow> is_initialized p = 1 \<and> is_initialized p' = 1"
  by (induction rule: pool_step.induct) (simp_all add: set_config_def)

text \<open>The lifetime counters only grow, and neither flag is ever cleared.\<close>

definition counters_le :: "stake_pool \<Rightarrow> stake_pool \<Rightarrow> bool" where
  "counters_le p q \<longleftrightarrow> total_deposited p \<le> total_deposited q \<and> total_withdrawn p \<le> total_withdrawn q
     \<and> total_flushed p \<le> total_flushed q \<and> total_returned p \<le> total_returned q
     \<and> total_fees_earned p \<le> total_fees_earned q
     \<and> (admin_transferred p = 1 \<longrightarrow> admin_transferred q = 1)
     \<and> (is_resolved p \<longrightarrow> is_resolved q)"

lemma counters_le_refl [simp]: "counters_le p p"
  by (simp add: counters_le_def)

lemma counters_le_trans: "counters_le p q \<Longrightarrow> counters_le q r \<Longrightarrow> counters_le p r"
  by (auto simp: counters_le_def)

lemma step_counters: "pool_step p ev p' \<Longrightarrow> wf_pool p \<Longrightarrow> counters_le p p'"
proof (induction rule: pool_step.induct)
  case (deposit p a lp d s e)
  then have "wf_pool (p\<lparr>total_deposited := d, total_lp_supply := s\<rparr>)"
    by (simp add: wf_pool_def)
  with deposit show ?case
    by (simp add: counters_le_def touch_hwm_reserved checked_add_Some unat_le_iff)
next
  case (withdraw p lp c e t s)
  then show ?case
    by (simp add: counters_le_def touch_hwm_reserved checked_add_Some unat_le_iff)
next
  case (accrue_empty p b t)
  then show ?case
    by (simp add: counters_le_def offset_field.put_flags)
next
  case (hwm p enabled bps)
  then show ?case
    by (simp add: counters_le_def floor_field.put_flags)
qed (simp_all add: counters_le_def checked_add_Some unat_le_iff set_config_def)


section \<open>Accounting\<close>

text \<open>Shares and value of a pool over the natural numbers.\<close>

definition shares :: "stake_pool \<Rightarrow> nat" where
  "shares p = unat (total_lp_supply p)"

definition worth :: "stake_pool \<Rightarrow> nat" where
  "worth p = assets_in p - assets_out p"

definition solvent :: "stake_pool \<Rightarrow> bool" where
  "solvent p \<longleftrightarrow> assets_out p \<le> assets_in p"

lemma assets_same_fields:
  assumes "same_fields p q"
  shows "assets_in q = assets_in p" and "assets_out q = assets_out p" and "shares q = shares p"
    and "total_pool_value q = total_pool_value p"
  using assms by (simp_all add: assets_in_def assets_out_def shares_def total_pool_value_def
      same_fieldsD [OF assms] cong: if_cong)

lemmas assets_reserved [simp] = assets_same_fields [OF same_fields_touch]
  assets_same_fields [OF flag_fields(1)] assets_same_fields [OF flag_fields(2)]

lemma assets_put [simp]:
  "assets_in (set_pre_supply_vault_offset v p) = assets_in p"
  "assets_out (set_pre_supply_vault_offset v p) = assets_out p"
  "assets_in (set_hwm_floor_bps b p) = assets_in p"
  "assets_out (set_hwm_floor_bps b p) = assets_out p"
  by (simp_all add: assets_in_def assets_out_def)

lemma assets_update:
  "assets_in (p\<lparr>total_lp_supply := s\<rparr>) = assets_in p"
  "assets_out (p\<lparr>total_lp_supply := s\<rparr>) = assets_out p"
  "assets_in (p\<lparr>total_withdrawn := t\<rparr>) = assets_in p"
  "assets_out (p\<lparr>total_deposited := d\<rparr>) = assets_out p"
  by (simp_all add: assets_in_def assets_out_def)

lemma value_worth: "total_pool_value p = Some v \<Longrightarrow> unat v = worth p \<and> solvent p"
  by (simp add: total_pool_value_Some worth_def solvent_def)

text \<open>What the two share calculations of the pool give in terms of its worth.\<close>

lemma deposit_shares:
  assumes "pool_calc_lp_for_deposit p a = Some lp" and "shares p \<noteq> 0"
  shows "worth p \<noteq> 0" and "unat lp = unat a * shares p div worth p" and "solvent p"
proof -
  have supply_pos: "total_lp_supply p \<noteq> 0"
    using assms(2) by (auto simp: shares_def)
  have mint: "calc_lp_for_deposit (total_lp_supply p) (unwrap_or (total_pool_value p) 0) a = Some lp"
    using assms(1) by (simp add: pool_calc_lp_for_deposit_def Let_def)
  have pos: "unwrap_or (total_pool_value p) 0 \<noteq> 0"
    and lp: "unat lp = unat a * unat (total_lp_supply p) div unat (unwrap_or (total_pool_value p) 0)"
    using lp_math.mint_value [OF mint supply_pos] by simp_all
  then obtain v where v: "total_pool_value p = Some v"
    by (cases "total_pool_value p") (auto simp: unwrap_or_def)
  then show "worth p \<noteq> 0" and "unat lp = unat a * shares p div worth p" and "solvent p"
    using pos lp value_worth [OF v] by (auto simp: unwrap_or_def shares_def unat_eq_iff)
qed

lemma deposit_first:
  assumes "pool_calc_lp_for_deposit p a = Some lp" and "shares p = 0"
  shows "lp = a" and "assets_in p < 2 ^ 64 \<Longrightarrow> worth p = 0"
proof -
  have zero: "total_lp_supply p = 0"
    using assms(2) by (simp add: shares_def unat_eq_iff)
  have mint: "calc_lp_for_deposit 0 (unwrap_or (total_pool_value p) 0) a = Some lp"
    using assms(1) zero by (simp add: pool_calc_lp_for_deposit_def Let_def)
  show "lp = a"
    using lp_math.mint_first_only(2) [OF mint] .
  show "worth p = 0" if "assets_in p < 2 ^ 64"
    using lp_math.mint_first_only(1) [OF mint] that
    by (cases "total_pool_value p")
      (auto simp: unwrap_or_def total_pool_value_None total_pool_value_Some worth_def)
qed

lemma withdraw_collateral:
  assumes "pool_calc_collateral_for_withdraw p lp = Some c"
  shows "shares p \<noteq> 0" and "unat c = unat lp * worth p div shares p" and "solvent p"
proof -
  obtain v where v: "total_pool_value p = Some v"
      and c: "calc_collateral_for_withdraw (total_lp_supply p) v lp = Some c"
    using assms by (auto simp: pool_calc_collateral_for_withdraw_def bind_eq_Some_conv)
  show "shares p \<noteq> 0" and "unat c = unat lp * worth p div shares p" and "solvent p"
    using lp_math.redeem_value [OF c] value_worth [OF v] by (auto simp: shares_def unat_eq_iff)
qed

lemma collateral_bounds:
  assumes "unat c = unat lp * worth p div shares p" and "unat lp \<le> shares p"
  shows "unat c \<le> worth p" and "unat lp = shares p \<Longrightarrow> shares p \<noteq> 0 \<Longrightarrow> unat c = worth p"
    and "unat lp < shares p \<Longrightarrow> worth p \<noteq> 0 \<Longrightarrow> unat c < worth p"
proof -
  show "unat c \<le> worth p"
    unfolding assms(1) using assms(2) by (rule mult_div_le_of_le)
  show "unat lp = shares p \<Longrightarrow> shares p \<noteq> 0 \<Longrightarrow> unat c = worth p"
    using assms(1) by simp
  assume less: "unat lp < shares p" and pos: "worth p \<noteq> 0"
  then have "unat lp * worth p < worth p * shares p"
    by (simp add: mult.commute)
  then show "unat c < worth p"
    unfolding assms(1) using less by (subst div_less_iff_less_mult) simp_all
qed

section \<open>The share ledger\<close>

text \<open>
  The abstract contract of the vault: a pair of its worth and its outstanding shares.  A
  deposit mints shares in proportion to the worth, a withdrawal pays the proportional part of
  the worth, rounded down; flushing and returning move worth, fees only add to it.
\<close>

fun ledger_step :: "pool_event \<Rightarrow> nat \<times> nat \<Rightarrow> nat \<times> nat \<Rightarrow> bool" where
  "ledger_step (DepositEv a lp _) (v, n) (v', n') \<longleftrightarrow>
     v' = v + unat a \<and> n' = n + unat lp
     \<and> unat lp = (if n = 0 then unat a else unat a * n div v) \<and> (n \<noteq> 0 \<longrightarrow> v \<noteq> 0)"
| "ledger_step (WithdrawEv lp c _) (v, n) (v', n') \<longleftrightarrow>
     unat lp \<le> n \<and> n \<noteq> 0 \<and> n' = n - unat lp \<and> unat c = unat lp * v div n \<and> v' = v - unat c"
| "ledger_step (FlushEv a) (v, n) (v', n') \<longleftrightarrow> unat a \<le> v \<and> v' = v - unat a \<and> n' = n"
| "ledger_step (ReturnEv a) (v, n) (v', n') \<longleftrightarrow> v' = v + unat a \<and> n' = n"
| "ledger_step (AccrueEv b _) (v, n) (v', n') \<longleftrightarrow> v \<le> v' \<and> (n = 0 \<longrightarrow> v' = v) \<and> n' = n"
| "ledger_step _ (v, n) (v', n') \<longleftrightarrow> v' = v \<and> n' = n"

definition ledger :: "stake_pool \<Rightarrow> nat \<times> nat" where
  "ledger p = (worth p, shares p)"

lemma assets_out_withdraw:
  "unat t = unat (total_withdrawn p) + x \<Longrightarrow> assets_out (p\<lparr>total_withdrawn := t\<rparr>) = assets_out p + x"
  by (simp add: assets_out_def)

lemma assets_in_deposit:
  "unat d = unat (total_deposited p) + x \<Longrightarrow> assets_in (p\<lparr>total_deposited := d\<rparr>) = assets_in p + x"
  by (simp add: assets_in_def)

lemma shares_update [simp]:
  "shares (p\<lparr>total_lp_supply := s\<rparr>) = unat s"
  "shares (p\<lparr>total_withdrawn := t\<rparr>) = shares p"
  "shares (p\<lparr>total_deposited := t\<rparr>) = shares p"
  by (simp_all add: shares_def)

lemma step_ledger:
  assumes "pool_step p ev p'" and "solvent p"
  shows "solvent p' \<and> ledger_step ev (ledger p) (ledger p')"
  using assms
proof (induction rule: pool_step.induct)
  case (deposit p a lp d s e)
  have "unat d = unat (total_deposited p) + unat a" and "unat s = shares p + unat lp"
    using deposit by (simp_all add: checked_add_Some shares_def)
  moreover have "unat lp = (if shares p = 0 then unat a else unat a * shares p div worth p)"
    "shares p \<noteq> 0 \<longrightarrow> worth p \<noteq> 0"
    using deposit_first(1) deposit_shares deposit.hyps by auto
  ultimately show ?case
    using deposit.prems
    by (simp add: ledger_def solvent_def worth_def assets_update assets_in_deposit)
next
  case (withdraw p lp c e t s)
  have t: "unat t = unat (total_withdrawn (touch_hwm e p)) + unat c" and le: "unat lp \<le> shares p"
    and s: "unat s = shares p - unat lp"
    using withdraw by (simp_all add: checked_add_Some checked_sub_Some shares_def)
  have c: "unat c = unat lp * worth p div shares p" and n: "shares p \<noteq> 0"
    using withdraw_collateral withdraw.hyps by blast+
  then have "unat c \<le> worth p"
    using collateral_bounds(1) le by blast
  then show ?case
    using withdraw.prems le s c n
    by (simp add: ledger_def solvent_def worth_def assets_update assets_out_withdraw [OF t])
next
  case (accrue p v x b f t)
  then have "shares p \<noteq> 0"
    by (simp add: shares_def unat_eq_iff)
  with accrue show ?case
    by (auto simp: ledger_def solvent_def worth_def shares_def assets_in_def assets_out_def
        checked_add_Some)
qed (auto simp: ledger_def solvent_def worth_def shares_def assets_in_def assets_out_def
    checked_add_Some set_config_def)

lemma solvent_fresh: "fresh_pool p \<Longrightarrow> solvent p"
  by (simp add: fresh_pool_def solvent_def assets_out_def)

lemma reachable_invariant:
  assumes "reachable p" and "\<And>p. fresh_pool p \<Longrightarrow> P p"
    and "\<And>p ev p'. wf_pool p \<Longrightarrow> solvent p \<Longrightarrow> P p \<Longrightarrow> pool_step p ev p' \<Longrightarrow> P p'"
  shows "P p \<and> wf_pool p \<and> solvent p"
  using assms(1)
proof induction
  case (init p)
  then show ?case
    using assms(2) solvent_fresh by (auto simp: fresh_pool_def)
next
  case (step p ev p')
  then show ?case
    using assms(3) step_wf step_ledger by blast
qed

lemma steps_invariant:
  assumes "pool_steps p evs q" and "P p" and "\<And>p ev p'. P p \<Longrightarrow> pool_step p ev p' \<Longrightarrow> P p'"
  shows "P q"
  using assms(1,2) by induction (auto intro: assms(3))

section \<open>Trading pools\<close>

text \<open>
  A trading pool never flushes or takes back insurance, and its worth is zero exactly when no
  shares are outstanding, so its next deposit is never refused for lack of a price.
\<close>

definition trading_ok :: "stake_pool \<Rightarrow> bool" where
  "trading_ok p \<longleftrightarrow> (pool_mode p = 1 \<longrightarrow> total_flushed p = 0 \<and> total_returned p = 0
     \<and> (shares p = 0 \<longleftrightarrow> worth p = 0))"

lemma ledger_zero:
  assumes "ledger_step ev (v, n) (v', n')" and "n = 0 \<longleftrightarrow> v = 0"
    and "\<And>a. ev \<noteq> FlushEv a" and "\<And>a. ev \<noteq> ReturnEv a"
    and "\<And>a lp e. ev = DepositEv a lp e \<Longrightarrow> a \<noteq> 0 \<and> lp \<noteq> 0"
    and "\<And>lp c e. ev = WithdrawEv lp c e \<Longrightarrow> c \<noteq> 0"
  shows "n' = 0 \<longleftrightarrow> v' = 0"
proof (cases ev)
  case (DepositEv a lp e)
  then show ?thesis
    using assms(1) assms(5) [OF DepositEv] by (simp add: unat_eq_iff)
next
  case (WithdrawEv lp c e)
  then have step: "unat lp \<le> n" "n \<noteq> 0" "n' = n - unat lp" "unat c = unat lp * v div n"
      "v' = v - unat c"
    using assms(1) by simp_all
  show ?thesis
  proof (cases "unat lp = n")
    case True
    with step show ?thesis
      by simp
  next
    case False
    have "v \<noteq> 0"
      using assms(2) step(2) by simp
    then have "unat lp * v < v * n"
      using False step(1) by (simp add: mult.commute)
    then have "unat c < v"
      unfolding step(4) using step(2) by (subst div_less_iff_less_mult) simp_all
    then show ?thesis
      using step False by simp
  qed
next
  case (AccrueEv b t)
  then show ?thesis
    using assms(1,2) by auto
qed (use assms in auto)

lemma step_trading_ok:
  assumes "pool_step p ev p'" and "solvent p" and "trading_ok p"
  shows "trading_ok p'"
proof (cases "pool_mode p = 1")
  case True
  have mode: "pool_mode p' = pool_mode p"
    using step_identity [OF assms(1)] by (simp add: identity_def)
  have kept: "total_flushed p' = total_flushed p" "total_returned p' = total_returned p"
    using assms(1) True by (cases rule: pool_step.cases; simp add: set_config_def)+
  have "shares p' = 0 \<longleftrightarrow> worth p' = 0"
  proof (rule ledger_zero)
    show "ledger_step ev (worth p, shares p) (worth p', shares p')"
      using step_ledger [OF assms(1,2)] by (simp add: ledger_def)
    show "shares p = 0 \<longleftrightarrow> worth p = 0"
      using assms(3) True by (simp add: trading_ok_def)
  qed (use assms(1) True in \<open>auto elim: deposit_stepE withdraw_stepE flush_stepE return_stepE\<close>)
  then show ?thesis
    using assms(3) True mode kept by (simp add: trading_ok_def)
next
  case False
  then show ?thesis
    using step_identity [OF assms(1)] by (simp add: identity_def trading_ok_def)
qed

lemma fresh_trading_ok: "fresh_pool p \<Longrightarrow> trading_ok p"
  by (simp add: fresh_pool_def trading_ok_def shares_def worth_def assets_in_def assets_out_def)

lemma reachable_trading_ok: "reachable p \<Longrightarrow> trading_ok p \<and> wf_pool p \<and> solvent p"
  by (erule reachable_invariant) (fact fresh_trading_ok, rule step_trading_ok)

text \<open>The price of a share never falls, flushing apart.\<close>

lemma ledger_price:
  assumes "ledger_step ev (v, n) (v', n')" and "\<And>a. ev \<noteq> FlushEv a" and "n = 0 \<longrightarrow> v = 0"
  shows "v * n' \<le> v' * n"
proof (cases ev)
  case (DepositEv a lp e)
  then show ?thesis
    using assms(1,3) mint_price [of "unat lp" "unat a" n v] by (cases "n = 0") simp_all
next
  case (WithdrawEv lp c e)
  then show ?thesis
    using assms(1) redeem_price [of "unat c" "unat lp" v n] by simp
qed (use assms in auto)

section \<open>The type of a pool account\<close>

text \<open>What every handler may take for granted about a pool it has written.\<close>

definition pool_typed :: "stake_pool \<Rightarrow> bool" where
  "pool_typed p \<longleftrightarrow> wf_pool p \<and> is_initialized p = 1 \<and> validate_discriminator p \<and> admin_transferred p = 1
     \<and> pool_mode p \<le> 1 \<and> (hwm_enabled p \<longrightarrow> hwm_floor_bps p \<noteq> 0 \<and> hwm_floor_bps p \<le> 10000)"

lemma set_flag_discriminator:
  "validate_discriminator (p\<lparr>reserved := (reserved p)[9 := v]\<rparr>) = validate_discriminator p"
  by (simp add: validate_discriminator_def subslice_def)

lemma set_flag_floor:
  "wf_pool p \<Longrightarrow> hwm_floor_bps (p\<lparr>reserved := (reserved p)[9 := v]\<rparr>) = hwm_floor_bps p"
  by (simp add: hwm_floor_bps_def wf_pool_def)

lemma fresh_typed: "fresh_pool p \<Longrightarrow> pool_typed p"
  by (simp add: fresh_pool_def pool_typed_def)

lemma step_typed:
  assumes "pool_step p ev q" and "pool_typed p"
  shows "pool_typed q"
proof -
  have wf: "wf_pool p" "wf_pool q"
    using assms step_wf [OF assms(1)] by (simp_all add: pool_typed_def)
  have kept: "is_initialized q = 1 \<and> admin_transferred q = 1 \<and> pool_mode q = pool_mode p"
    using assms by (cases rule: pool_step.cases) (auto simp: pool_typed_def set_config_def)
  have "validate_discriminator q \<and> (hwm_enabled q \<longrightarrow> hwm_floor_bps q \<noteq> 0 \<and> hwm_floor_bps q \<le> 10000)"
    using assms(1)
  proof (cases rule: pool_step.cases)
    case (deposit a lp d s e)
    then have "wf_pool (p\<lparr>total_deposited := d, total_lp_supply := s\<rparr>)"
      using wf(1) by (simp add: wf_pool_def)
    then show ?thesis
      using deposit assms(2) by (simp add: pool_typed_def touch_hwm_reserved)
  next
    case (hwm enabled bps)
    let ?p = "set_hwm_enabled enabled p"
    have p: "wf_pool ?p" "validate_discriminator ?p" "hwm_enabled ?p = enabled"
      using assms(2) wf(1) by (simp_all add: pool_typed_def) (simp add: set_hwm_enabled_def set_flag_discriminator)
    show ?thesis
      using hwm(2,4) p by (cases enabled) (simp_all add: floor_field.put_discriminator floor_field.put_flags)
  next
    case resolve
    have "validate_discriminator (set_resolved p) = validate_discriminator p"
      "hwm_floor_bps (set_resolved p) = hwm_floor_bps p"
      using wf(1) by (simp_all add: set_resolved_def set_flag_discriminator set_flag_floor)
    then show ?thesis
      using resolve assms(2) wf(1) by (simp add: pool_typed_def)
  qed (use assms(2) wf(1) in \<open>simp_all add: pool_typed_def touch_hwm_reserved set_config_def offset_field.put_discriminator offset_field.put_flags\<close>)
  with kept wf(2) assms(2) show ?thesis
    by (simp add: pool_typed_def)
qed

end
