(* ===== verification/Handler_Effects.thy ===== *)
theory Handler_Effects
  imports Processor_Admin Pool_Machine
begin

text \<open>
  The handlers against the transition system: every successful call does to the pool record of
  any account one step of \<open>pool_step\<close>, or nothing.
\<close>

section \<open>A pool record in the store\<close>

definition holds_pool :: "pubkey \<Rightarrow> world \<Rightarrow> pubkey \<Rightarrow> stake_pool \<Rightarrow> bool" where
  "holds_pool pid w k p \<longleftrightarrow> pool_account pid w k \<and> pool_at w k = p"

lemma holds_pool_borrow [simp]:
  "holds_pool pid (w\<lparr>mut_borrowed := x\<rparr>) k p = holds_pool pid w k p"
  "holds_pool pid (release ai w) k p = holds_pool pid w k p"
  by (simp_all add: holds_pool_def pool_account_def pool_at_def)

lemma holds_pool_cpi: "cpi_effect_ok pid w w' \<Longrightarrow> holds_pool pid w k p \<Longrightarrow> holds_pool pid w' k p"
  using cpi_effect_pool by (auto simp: holds_pool_def)

lemma holds_pool_wf: "holds_pool pid w k p \<Longrightarrow> wf_pool p"
  using wf_pool_at by (auto simp: holds_pool_def pool_account_def)

lemma holds_pool_write:
  "holds_pool pid w k p \<Longrightarrow> (ai_key ai = k \<Longrightarrow> wf_pool q) \<Longrightarrow>
    holds_pool pid (write_pool ai q w) k (if ai_key ai = k then q else p)"
  by (auto simp: holds_pool_def pool_at_write_pool pool_at_write_other pool_account_write_pool)
    (simp add: pool_account_def write_pool_def)

lemma holds_pool_write_deposit:
  "holds_pool pid w k p \<Longrightarrow> ai_key ai \<noteq> k \<Longrightarrow> holds_pool pid (write_deposit ai d w) k p"
  by (simp add: holds_pool_def pool_at_write_other)
    (simp add: pool_account_def write_deposit_def)

section \<open>Runs\<close>

lemmas pool_at_fold = pool_at_def [symmetric] deposit_at_def [symmetric]

definition owned_by :: "pubkey \<Rightarrow> world \<Rightarrow> account_info \<Rightarrow> bool" where
  "owned_by k w ai \<longleftrightarrow> acc_owner (accts w (ai_key ai)) = k"

lemma info_owner_eq: "info_owner w ai = k \<longleftrightarrow> owned_by k w ai"
  by (simp add: owned_by_def info_owner_def info_account_def)

lemma borrow_reads [simp]:
  "owned_by k (w\<lparr>mut_borrowed := x\<rparr>) ai = owned_by k w ai"
  "deposit_at (w\<lparr>mut_borrowed := x\<rparr>) k' = deposit_at w k'"
  by (simp_all add: owned_by_def deposit_at_def)

lemma set_config_cases:
  "(case d of None \<Rightarrow> case c of None \<Rightarrow> p | Some x \<Rightarrow> p\<lparr>cooldown_slots := x\<rparr>
    | Some y \<Rightarrow> (case c of None \<Rightarrow> p | Some x \<Rightarrow> p\<lparr>cooldown_slots := x\<rparr>)\<lparr>deposit_cap := y\<rparr>)
   = set_config c d p"
  by (cases c; cases d) (simp_all add: set_config_def unwrap_or_def)

lemma update_config_run:
  assumes "iter_law S" and "process_update_config S pid accounts c d w = Inr w'"
  obtains admin_ai pool_ai rest where
    "accounts = admin_ai # pool_ai # rest" "ai_is_signer admin_ai"
    "is_initialized (pool_at w (ai_key pool_ai)) = 1"
    "admin (pool_at w (ai_key pool_ai)) = ai_key admin_ai"
    "ai_key pool_ai \<notin> set (mut_borrowed w)"
    "w' = release pool_ai (write_pool pool_ai (set_config c d (pool_at w (ai_key pool_ai)))
       (w\<lparr>mut_borrowed := ai_key pool_ai # mut_borrowed w\<rparr>))"
    "STAKE_POOL_SIZE \<le> length (acc_data (accts w (ai_key pool_ai)))"
  using assms(2) unfolding process_update_config_def Let_def set_config_cases
  by (clarsimp simp: res_inv next_account_info_Inr [OF assms(1)] pool_at_fold)

lemma cap_check_Inr [res_inv]:
  "(if 0 < deposit_cap p then
      bnd (ok_or (checked_add (tvl p) a) (stake_err Overflow)) (\<lambda>v.
        if deposit_cap p < v then Inl (stake_err DepositCapExceeded) else Inr ())
    else Inr ()) = Inr u \<longleftrightarrow> within_cap p a"
proof (cases "0 < deposit_cap p")
  case True
  have "(\<exists>v. checked_add (tvl p) a = Some v \<and> \<not> deposit_cap p < v)
      \<longleftrightarrow> unat (tvl p) + unat a \<le> unat (deposit_cap p)"
  proof
    assume le: "unat (tvl p) + unat a \<le> unat (deposit_cap p)"
    then have "unat (tvl p) + unat a < 2 ^ 64"
      using unat_bound [of "deposit_cap p"] by simp
    then obtain v :: u64 where "unat v = unat (tvl p) + unat a"
      using u64_of_nat by blast
    with le show "\<exists>v. checked_add (tvl p) a = Some v \<and> \<not> deposit_cap p < v"
      by (auto simp: checked_add_Some unat_less_iff)
  qed (auto simp: checked_add_Some unat_less_iff)
  with True show ?thesis
    by (auto simp: within_cap_def bnd_Inr ok_or_Inr)
qed (simp add: within_cap_def unat_eq_iff unat_less_iff)

lemmas run_fold = tvl_def [symmetric] touch_hwm_def [symmetric]

lemma deposit_run:
  assumes "iter_law S" and "process_deposit S pid accounts amount w = Inr w'"
  obtains user_ai pool_ai user_ata vault_ai lp_mint_ai user_lp_ata vault_auth_ai deposit_ai
    token_program clock_sysvar system_program rest p dk lp new_deposited new_supply clk
    p1 w1 w2 w3 w4 d
  where
    "accounts = user_ai # pool_ai # user_ata # vault_ai # lp_mint_ai # user_lp_ata # vault_auth_ai
       # deposit_ai # token_program # clock_sysvar # system_program # rest"
    "p = pool_at w (ai_key pool_ai)"
    "dk = fst (derive_deposit_pda S pid (ai_key pool_ai) (ai_key user_ai))"
    "amount \<noteq> 0" "ai_is_signer user_ai" "ai_key pool_ai \<notin> set (mut_borrowed w)"
    "is_initialized p = 1" "lp_mint p = ai_key lp_mint_ai" "vault p = ai_key vault_ai"
    "admin_transferred p = 1" "\<not> is_resolved p" "within_cap p amount"
    "ai_key vault_auth_ai = fst (derive_vault_authority S pid (ai_key pool_ai))"
    "ai_key token_program = spl_token_id S"
    "pool_calc_lp_for_deposit p amount = Some lp" "lp \<noteq> 0"
    "invoke S (w\<lparr>mut_borrowed := ai_key pool_ai # mut_borrowed w\<rparr>)
       (TokenTransfer (spl_token_id S) (ai_key user_ata) (ai_key vault_ai) (ai_key user_ai) amount)
       [user_ata, vault_ai, user_ai, token_program] = Inr w1"
    "invoke_signed S w1
       (TokenMintTo (spl_token_id S) (ai_key lp_mint_ai) (ai_key user_lp_ata)
          (fst (derive_vault_authority S pid (ai_key pool_ai))) lp)
       [lp_mint_ai, user_lp_ata, vault_auth_ai, token_program]
       [vault_auth_seeds (ai_key pool_ai) (snd (derive_vault_authority S pid (ai_key pool_ai)))]
     = Inr w2"
    "checked_add (total_deposited p) amount = Some new_deposited"
    "checked_add (total_lp_supply p) lp = Some new_supply"
    "p1 = p\<lparr>total_deposited := new_deposited, total_lp_supply := new_supply\<rparr>"
    "clock_from_account_info S (write_pool pool_ai p1 w2) clock_sysvar = Inr clk"
    "w3 = write_pool pool_ai (touch_hwm (clock_epoch clk) p1) (write_pool pool_ai p1 w2)"
    "ai_key deposit_ai = dk" "dk \<notin> set (mut_borrowed w3)"
    "acc_data (accts w3 dk) = [] \<or> owned_by pid w3 deposit_ai"
    "(if acc_data (accts w3 dk) = []
      then create_or_adopt_pda S w3 deposit_ai user_ai system_program pid STAKE_DEPOSIT_SIZE
        (deposit_seeds (ai_key pool_ai) (ai_key user_ai)
          (snd (derive_deposit_pda S pid (ai_key pool_ai) (ai_key user_ai))))
      else Inr w3) = Inr w4"
    "dk \<notin> set (mut_borrowed w4)" "STAKE_DEPOSIT_SIZE \<le> length (acc_data (accts w4 dk))"
    "deposit_fields (snd (derive_deposit_pda S pid (ai_key pool_ai) (ai_key user_ai)))
       (ai_key pool_ai) (ai_key user_ai) lp (clock_slot clk) (cooldown_slots p)
       (deposit_at w4 dk) = Inr d"
    "w' = release pool_ai (release deposit_ai (write_deposit deposit_ai d
       (w4\<lparr>mut_borrowed := dk # mut_borrowed w4\<rparr>)))"
    "STAKE_POOL_SIZE \<le> length (acc_data (accts w (ai_key pool_ai)))"
    "validate_discriminator p"
proof -
  from assms(2) show thesis
    unfolding process_deposit_def Let_def run_fold
    by (clarsimp simp: res_inv next_account_info_Inr [OF assms(1)] pool_at_fold case_prod_unfold
        info_owner_eq cong: if_cong) (rule that; (assumption | rule refl)?; simp)
qed

lemma hwm_check_Inr [res_inv]:
  "(if hwm_enabled p then
      bnd (ok_or (checked_sub (tvl p) c) (stake_err Overflow)) (\<lambda>post.
        if \<not> hwm_withdrawal_allowed post (snd (refresh_hwm e (tvl p) p))
             (hwm_floor_bps (fst (refresh_hwm e (tvl p) p)))
        then Inl (stake_err WithdrawalBelowHwmFloor) else Inr (fst (refresh_hwm e (tvl p) p)))
    else Inr p) = Inr q \<longleftrightarrow>
   q = touch_hwm e p \<and> (hwm_enabled p \<longrightarrow> c \<le> tvl p \<and> hwm_withdrawal_allowed (tvl p - c)
     (snd (refresh_hwm e (tvl p) p)) (hwm_floor_bps (fst (refresh_hwm e (tvl p) p))))"
  by (auto simp: bnd_Inr ok_or_Inr touch_hwm_def checked_sub_def)

lemma hwm_permits_iff:
  "wf_pool p \<Longrightarrow> hwm_permits e p c \<longleftrightarrow> (hwm_enabled p \<longrightarrow> c \<le> tvl p \<and> hwm_withdrawal_allowed (tvl p - c)
     (snd (refresh_hwm e (tvl p) p)) (hwm_floor_bps (fst (refresh_hwm e (tvl p) p))))"
  using refresh_hwm_value(6) [OF _ surjective_pairing, of p e "tvl p"] by (simp add: hwm_permits_def)

lemma withdraw_run:
  assumes "iter_law S" and "process_withdraw S pid accounts lp w = Inr w'"
  obtains user_ai pool_ai user_lp_ata lp_mint_ai vault_ai user_ata vault_auth_ai deposit_ai
    token_program clock_sysvar rest p p1 dk d c clk new_withdrawn new_supply w1 w2 w3 new_lp
  where
    "accounts = user_ai # pool_ai # user_lp_ata # lp_mint_ai # vault_ai # user_ata # vault_auth_ai
       # deposit_ai # token_program # clock_sysvar # rest"
    "p = pool_at w (ai_key pool_ai)"
    "dk = fst (derive_deposit_pda S pid (ai_key pool_ai) (ai_key user_ai))"
    "d = deposit_at w dk"
    "lp \<noteq> 0" "ai_is_signer user_ai" "ai_key pool_ai \<notin> set (mut_borrowed w)"
    "STAKE_POOL_SIZE \<le> length (acc_data (accts w (ai_key pool_ai)))"
    "is_initialized p = 1" "lp_mint p = ai_key lp_mint_ai" "vault p = ai_key vault_ai"
    "ai_key token_program = spl_token_id S"
    "ai_key vault_auth_ai = fst (derive_vault_authority S pid (ai_key pool_ai))"
    "ai_key deposit_ai = dk" "owned_by pid w deposit_ai"
    "clock_from_account_info S (w\<lparr>mut_borrowed := ai_key pool_ai # mut_borrowed w\<rparr>) clock_sysvar
       = Inr clk"
    "dk \<noteq> ai_key pool_ai" "dk \<notin> set (mut_borrowed w)"
    "STAKE_DEPOSIT_SIZE \<le> length (acc_data (accts w dk))"
    "dep_is_initialized d = 1" "dep_user d = ai_key user_ai" "dep_pool d = ai_key pool_ai"
    "\<not> clock_slot clk < saturating_add (last_deposit_slot d) (cooldown_slots p)"
    "\<not> lp_amount d < lp"
    "pool_calc_collateral_for_withdraw p lp = Some c" "c \<noteq> 0"
    "hwm_permits (clock_epoch clk) p c" "p1 = touch_hwm (clock_epoch clk) p"
    "invoke S (write_pool pool_ai p1 (w\<lparr>mut_borrowed := ai_key pool_ai # mut_borrowed w\<rparr>))
       (TokenBurn (spl_token_id S) (ai_key user_lp_ata) (ai_key lp_mint_ai) (ai_key user_ai) lp)
       [user_lp_ata, lp_mint_ai, user_ai, token_program] = Inr w1"
    "invoke_signed S w1
       (TokenTransfer (spl_token_id S) (ai_key vault_ai) (ai_key user_ata)
          (fst (derive_vault_authority S pid (ai_key pool_ai))) c)
       [vault_ai, user_ata, vault_auth_ai, token_program]
       [vault_auth_seeds (ai_key pool_ai) (snd (derive_vault_authority S pid (ai_key pool_ai)))]
     = Inr w2"
    "checked_add (total_withdrawn p) c = Some new_withdrawn"
    "checked_sub (total_lp_supply p) lp = Some new_supply"
    "w3 = write_pool pool_ai (p1\<lparr>total_withdrawn := new_withdrawn, total_lp_supply := new_supply\<rparr>) w2"
    "dk \<notin> set (mut_borrowed w3)"
    "STAKE_DEPOSIT_SIZE \<le> length (acc_data (accts w3 dk))"
    "checked_sub (lp_amount (deposit_at w3 dk)) lp = Some new_lp"
    "w' = release pool_ai (release deposit_ai (write_deposit deposit_ai
       ((deposit_at w3 dk)\<lparr>lp_amount := new_lp\<rparr>)
       (w3\<lparr>mut_borrowed := dk # mut_borrowed w3\<rparr>)))"
    "validate_discriminator p"
proof -
  have wf: "STAKE_POOL_SIZE \<le> length (acc_data (accts w k)) \<Longrightarrow> wf_pool (pool_at w k)" for k
    by (rule wf_pool_at)
  from assms(2) show thesis
    unfolding process_withdraw_def Let_def run_fold
    by (clarsimp simp: res_inv next_account_info_Inr [OF assms(1)] pool_at_fold case_prod_unfold
        info_owner_eq hwm_permits_iff [OF wf, symmetric]
        cong: if_cong) (rule that; (assumption | rule refl)?; simp)
qed


text \<open>The three checked steps of the flush ceiling, and the fee booking of the crank.\<close>

lemma flush_ceiling_Some:
  "(case checked_add d r of None \<Rightarrow> None | Some v \<Rightarrow>
     (case checked_sub v t of None \<Rightarrow> None | Some v \<Rightarrow> checked_sub v f)) = Some x \<longleftrightarrow>
    unat d + unat r < 2 ^ 64 \<and> unat d + unat r = unat t + unat f + unat (x :: u64)"
  (is "?ceil = _ \<longleftrightarrow> ?sum < _ \<and> _")
proof
  assume "?ceil = Some x"
  then obtain u v where "checked_add d r = Some u" "checked_sub u t = Some v"
      "checked_sub v f = Some x"
    by (auto split: option.splits)
  then show "?sum < 2 ^ 64 \<and> ?sum = unat t + unat f + unat x"
    using unat_bound [of u] by (simp add: checked_add_Some checked_sub_Some)
next
  assume val: "?sum < 2 ^ 64 \<and> ?sum = unat t + unat f + unat x"
  then have "unat f + unat x < 2 ^ 64"
    by auto
  with val obtain u v :: u64 where "unat u = ?sum" "unat v = unat f + unat x"
    using u64_of_nat by blast
  then have "checked_add d r = Some u" "checked_sub u t = Some v" "checked_sub v f = Some x"
    using val by (simp_all add: checked_add_Some checked_sub_Some)
  then show "?ceil = Some x"
    by simp
qed

lemma accrual_baseline_offset_Some:
  "(case accrual_baseline p of None \<Rightarrow> None | Some b \<Rightarrow> checked_add b o') = Some x \<longleftrightarrow>
    (\<exists>b. accrual_baseline p = Some b \<and> checked_add b o' = Some x)"
  by (cases "accrual_baseline p") auto

lemma fee_booking_Inr:
  "(if x < b then bnd (ok_or (checked_add (total_fees_earned p) (b - x)) e)
        (\<lambda>f. Inr (p\<lparr>total_fees_earned := f\<rparr>))
    else Inr p) = Inr q \<longleftrightarrow>
   (\<exists>f. checked_add (total_fees_earned p) (saturating_sub b x) = Some f
      \<and> q = p\<lparr>total_fees_earned := f\<rparr>)"
proof (cases "x < b")
  case True
  then have "saturating_sub b x = b - x"
    by (auto simp: saturating_sub_def unat_le_iff unat_less_iff)
  with True show ?thesis
    by (auto simp: bnd_Inr ok_or_Inr)
next
  case False
  then have "saturating_sub b x = 0"
    by (simp add: unat_eq_iff unat_less_iff)
  moreover have "checked_add (total_fees_earned p) 0 = Some f \<longleftrightarrow> f = total_fees_earned p" for f
    by (auto simp: checked_add_Some unat_eq_iff)
  ultimately show ?thesis
    using False by auto
qed

lemmas [res_inv] = flush_ceiling_Some accrual_baseline_offset_Some fee_booking_Inr

lemma flush_run:
  assumes "iter_law S" and "process_flush_to_insurance S pid accounts amount w = Inr w'"
  obtains caller pool_ai vault_ai vault_auth_ai slab_ai wrapper_vault percolator_ai token_program
    rest p available new_flushed w1
  where
    "accounts = caller # pool_ai # vault_ai # vault_auth_ai # slab_ai # wrapper_vault
       # percolator_ai # token_program # rest"
    "p = pool_at w (ai_key pool_ai)"
    "amount \<noteq> 0" "ai_is_signer caller" "ai_key pool_ai \<notin> set (mut_borrowed w)"
    "is_initialized p = 1" "pool_mode p = 0" "admin p = ai_key caller" "slab p = ai_key slab_ai"
    "vault p = ai_key vault_ai" "percolator_program p = ai_key percolator_ai"
    "ai_key token_program = spl_token_id S"
    "unat (total_deposited p) + unat (total_returned p)
       = unat (total_withdrawn p) + unat (total_flushed p) + unat available"
    "\<not> available < amount"
    "ai_key vault_auth_ai = fst (derive_vault_authority S pid (ai_key pool_ai))"
    "cpi_top_up_insurance S (w\<lparr>mut_borrowed := ai_key pool_ai # mut_borrowed w\<rparr>) percolator_ai
       vault_auth_ai slab_ai vault_ai wrapper_vault token_program amount
       (vault_auth_seeds (ai_key pool_ai) (snd (derive_vault_authority S pid (ai_key pool_ai))))
     = Inr w1"
    "checked_add (total_flushed p) amount = Some new_flushed"
    "w' = release pool_ai (write_pool pool_ai (p\<lparr>total_flushed := new_flushed\<rparr>) w1)"
    "STAKE_POOL_SIZE \<le> length (acc_data (accts w (ai_key pool_ai)))"
proof -
  from assms(2) show thesis
    unfolding process_flush_to_insurance_def Let_def
    by (clarsimp simp: res_inv next_account_info_Inr [OF assms(1)] pool_at_fold case_prod_unfold
        cong: if_cong) (rule that; (assumption | rule refl)?; simp)
qed

lemma accrue_write:
  assumes "(if total_lp_supply p = 0
      then Inr (release ai (write_pool ai ((set_pre_supply_vault_offset b p)
        \<lparr>last_fee_accrual_slot := t, last_vault_snapshot := b\<rparr>) w))
      else bnd (ok_or (case accrual_baseline p of None \<Rightarrow> None
                       | Some v \<Rightarrow> checked_add v (pre_supply_vault_offset p)) e) (\<lambda>x.
           bnd (if x < b then bnd (ok_or (checked_add (total_fees_earned p) (b - x)) e)
                  (\<lambda>f. Inr (p\<lparr>total_fees_earned := f\<rparr>)) else Inr p) (\<lambda>q.
           Inr (release ai (write_pool ai
             (q\<lparr>last_fee_accrual_slot := t, last_vault_snapshot := b\<rparr>) w))))) = Inr w'"
    and "is_initialized p = 1" and "pool_mode p = 1"
  shows "\<exists>q. pool_step p (AccrueEv b t) q \<and> w' = release ai (write_pool ai q w)"
proof (cases "total_lp_supply p = 0")
  case True
  with assms show ?thesis
    by (auto intro: pool_step.accrue_empty)
next
  case False
  with assms(1) obtain v x f where "accrual_baseline p = Some v"
      "checked_add v (pre_supply_vault_offset p) = Some x"
      "checked_add (total_fees_earned p) (saturating_sub b x) = Some f"
      "w' = release ai (write_pool ai (p\<lparr>total_fees_earned := f, last_fee_accrual_slot := t,
         last_vault_snapshot := b\<rparr>) w)"
    by (auto simp: res_inv)
  with False assms(2,3) show ?thesis
    by (blast intro: pool_step.accrue)
qed

lemma accrue_run:
  assumes "iter_law S" and "process_accrue_fees S pid accounts w = Inr w'"
  obtains caller pool_ai vault_ai clock_ai rest p q balance clk where
    "accounts = caller # pool_ai # vault_ai # clock_ai # rest"
    "p = pool_at w (ai_key pool_ai)" "ai_is_signer caller"
    "ai_key pool_ai \<notin> set (mut_borrowed w)"
    "is_initialized p = 1" "pool_mode p = 1" "vault p = ai_key vault_ai"
    "ai_key vault_ai \<noteq> ai_key pool_ai"
    "token_account_amount S (acc_data (accts w (ai_key vault_ai))) = Inr balance"
    "clock_from_account_info S (w\<lparr>mut_borrowed := ai_key pool_ai # mut_borrowed w\<rparr>) clock_ai
       = Inr clk"
    "pool_step p (AccrueEv balance (clock_slot clk)) q"
    "w' = release pool_ai (write_pool pool_ai q (w\<lparr>mut_borrowed := ai_key pool_ai # mut_borrowed w\<rparr>))"
    "STAKE_POOL_SIZE \<le> length (acc_data (accts w (ai_key pool_ai)))"
proof -
  from assms(2) show thesis
    unfolding process_accrue_fees_def Let_def
    by (clarsimp simp: bnd_Inr if_Inl_Inr try_borrow_mut_data_Inr try_borrow_data_Inr as_pool_Inr
        next_account_info_Inr [OF assms(1)] pool_at_fold case_prod_unfold
        cong: if_cong option.case_cong)
      (drule (2) accrue_write, clarify, rule that; (assumption | rule refl)?; simp)
qed


lemma hwm_config_run:
  assumes "iter_law S" and "process_admin_set_hwm_config S pid accounts enabled bps w = Inr w'"
  obtains admin_ai pool_ai rest p where
    "accounts = admin_ai # pool_ai # rest" "p = pool_at w (ai_key pool_ai)"
    "ai_is_signer admin_ai" "ai_key pool_ai \<notin> set (mut_borrowed w)"
    "is_initialized p = 1" "validate_discriminator p" "admin p = ai_key admin_ai"
    "enabled \<Longrightarrow> bps \<noteq> 0 \<and> bps \<le> 10000"
    "w' = release pool_ai (write_pool pool_ai
       (if enabled then set_hwm_floor_bps bps (set_hwm_enabled enabled p)
        else set_hwm_enabled enabled p)
       (w\<lparr>mut_borrowed := ai_key pool_ai # mut_borrowed w\<rparr>))"
    "STAKE_POOL_SIZE \<le> length (acc_data (accts w (ai_key pool_ai)))"
proof (cases enabled)
  case True
  with assms(2) show thesis
    unfolding process_admin_set_hwm_config_def Let_def
    by (clarsimp simp: res_inv next_account_info_Inr [OF assms(1)] pool_at_fold case_prod_unfold)
      (rule that; (assumption | rule refl)?; simp add: not_less)
next
  case False
  with assms(2) show thesis
    unfolding process_admin_set_hwm_config_def Let_def
    by (clarsimp simp: res_inv next_account_info_Inr [OF assms(1)] pool_at_fold case_prod_unfold)
      (rule that; (assumption | rule refl)?; simp)
qed

lemma resolve_run:
  assumes "iter_law S" and "process_admin_resolve_market S pid accounts w = Inr w'"
  obtains admin_ai pool_ai slab_ai percolator_ai rest p b w1 where
    "accounts = admin_ai # pool_ai # slab_ai # percolator_ai # rest"
    "p = pool_at w (ai_key pool_ai)"
    "validate_admin_cpi S pid w pool_ai admin_ai slab_ai percolator_ai = Inr b"
    "cpi_resolve_market S w percolator_ai pool_ai slab_ai (pool_seeds (ai_key slab_ai) b) = Inr w1"
    "ai_key pool_ai \<notin> set (mut_borrowed w1)"
    "STAKE_POOL_SIZE \<le> length (acc_data (accts w1 (ai_key pool_ai)))"
    "w' = release pool_ai (write_pool pool_ai (set_resolved (pool_at w1 (ai_key pool_ai)))
       (w1\<lparr>mut_borrowed := ai_key pool_ai # mut_borrowed w1\<rparr>))"
proof -
  from assms(2) show thesis
    unfolding process_admin_resolve_market_def
    by (clarsimp simp: bnd_Inr try_borrow_mut_data_Inr as_pool_Inr next_account_info_Inr [OF assms(1)]
        pool_at_fold case_prod_unfold) (rule that; (assumption | rule refl)?; simp)
qed

lemma transfer_admin_run:
  assumes "iter_law S" and "process_transfer_admin S pid accounts w = Inr w'"
  obtains admin_ai pool_ai slab_ai percolator_ai rest p w1 where
    "accounts = admin_ai # pool_ai # slab_ai # percolator_ai # rest"
    "p = pool_at w (ai_key pool_ai)" "ai_is_signer admin_ai"
    "ai_key pool_ai = fst (derive_pool_pda S pid (ai_key slab_ai))"
    "is_initialized p = 1" "admin p = ai_key admin_ai" "admin_transferred p \<noteq> 1"
    "slab p = ai_key slab_ai" "percolator_program p = ai_key percolator_ai"
    "cpi_update_authority S w percolator_ai admin_ai pool_ai slab_ai
       (pool_seeds (ai_key slab_ai) (snd (derive_pool_pda S pid (ai_key slab_ai)))) = Inr w1"
    "ai_key pool_ai \<notin> set (mut_borrowed w1)"
    "STAKE_POOL_SIZE \<le> length (acc_data (accts w1 (ai_key pool_ai)))"
    "w' = release pool_ai (write_pool pool_ai ((pool_at w1 (ai_key pool_ai))\<lparr>admin_transferred := 1\<rparr>)
       (w1\<lparr>mut_borrowed := ai_key pool_ai # mut_borrowed w1\<rparr>))"
    "STAKE_POOL_SIZE \<le> length (acc_data (accts w (ai_key pool_ai)))"
proof -
  from assms(2) show thesis
    unfolding process_transfer_admin_def Let_def
    by (clarsimp simp: res_inv next_account_info_Inr [OF assms(1)] pool_at_fold case_prod_unfold)
      (rule that; (assumption | rule refl)?; simp)
qed

lemma withdraw_insurance_run:
  assumes "iter_law S" and "process_admin_withdraw_insurance S pid accounts amount w = Inr w'"
  obtains admin_ai pool_ai slab_ai vault_auth_ai stake_vault wrapper_vault wrapper_vault_pda
    percolator_ai token_program clock_ai rest p b w1 new_returned
  where
    "accounts = admin_ai # pool_ai # slab_ai # vault_auth_ai # stake_vault # wrapper_vault
       # wrapper_vault_pda # percolator_ai # token_program # clock_ai # rest"
    "p = pool_at w (ai_key pool_ai)"
    "validate_admin_cpi S pid w pool_ai admin_ai slab_ai percolator_ai = Inr b"
    "pool_mode p = 0" "vault p = ai_key stake_vault" "ai_key token_program = spl_token_id S"
    "ai_key vault_auth_ai = fst (derive_vault_authority S pid (ai_key pool_ai))"
    "cpi_withdraw_insurance S w percolator_ai vault_auth_ai slab_ai stake_vault wrapper_vault
       wrapper_vault_pda token_program amount
       (vault_auth_seeds (ai_key pool_ai) (snd (derive_vault_authority S pid (ai_key pool_ai))))
     = Inr w1"
    "ai_key pool_ai \<notin> set (mut_borrowed w1)"
    "STAKE_POOL_SIZE \<le> length (acc_data (accts w1 (ai_key pool_ai)))"
    "checked_add (total_returned (pool_at w1 (ai_key pool_ai))) amount = Some new_returned"
    "w' = release pool_ai (write_pool pool_ai ((pool_at w1 (ai_key pool_ai))
       \<lparr>total_returned := new_returned\<rparr>)
       (w1\<lparr>mut_borrowed := ai_key pool_ai # mut_borrowed w1\<rparr>))"
proof -
  from assms(2) show thesis
    unfolding process_admin_withdraw_insurance_def Let_def derive_vault_authority_def [symmetric]
    by (clarsimp simp: bnd_Inr if_Inl_Inr ok_or_Inr try_borrow_mut_data_Inr try_borrow_data_Inr
        as_pool_Inr verify_token_program_Inr validate_return_vault_Inr
        validate_withdraw_insurance_pool_mode_Inr
        next_account_info_Inr [OF assms(1)] pool_at_fold case_prod_unfold)
      (rule that; (assumption | rule refl)?; simp)
qed


lemma init_pool_run:
  assumes "iter_law S" and "process_init_pool S pid accounts cooldown cap w = Inr w'"
  obtains admin_ai slab_ai pool_ai lp_mint_ai vault_ai vault_auth_ai collateral_mint_ai
    percolator_ai token_program system_program rent_sysvar rest w1 w2 w3 w4
  where
    "accounts = admin_ai # slab_ai # pool_ai # lp_mint_ai # vault_ai # vault_auth_ai
       # collateral_mint_ai # percolator_ai # token_program # system_program # rent_sysvar # rest"
    "ai_is_signer admin_ai" "ai_key pool_ai = fst (derive_pool_pda S pid (ai_key slab_ai))"
    "acc_data (accts w (ai_key pool_ai)) = []"
    "ai_key vault_auth_ai = fst (derive_vault_authority S pid (ai_key pool_ai))"
    "ai_key token_program = spl_token_id S" "owned_by (ai_key percolator_ai) w slab_ai"
    "ai_is_writable slab_ai"
    "create_or_adopt_pda S w pool_ai admin_ai system_program pid STAKE_POOL_SIZE
       (pool_seeds (ai_key slab_ai) (snd (derive_pool_pda S pid (ai_key slab_ai)))) = Inr w1"
    "cpi_update_authority S w1 percolator_ai admin_ai pool_ai slab_ai
       (pool_seeds (ai_key slab_ai) (snd (derive_pool_pda S pid (ai_key slab_ai)))) = Inr w2"
    "invoke_signed S w2
       (TokenInitializeMint (spl_token_id S) (ai_key lp_mint_ai) (ai_key vault_auth_ai) None 6)
       [lp_mint_ai, rent_sysvar]
       [vault_auth_seeds (ai_key pool_ai) (snd (derive_vault_authority S pid (ai_key pool_ai)))]
     = Inr w3"
    "invoke_signed S w3
       (TokenInitializeAccount (spl_token_id S) (ai_key vault_ai) (ai_key collateral_mint_ai)
          (ai_key vault_auth_ai))
       [vault_ai, collateral_mint_ai, vault_auth_ai, rent_sysvar]
       [vault_auth_seeds (ai_key pool_ai) (snd (derive_vault_authority S pid (ai_key pool_ai)))]
     = Inr w4"
    "STAKE_POOL_SIZE \<le> length (acc_data (accts w4 (ai_key pool_ai)))"
    "w' = release pool_ai (write_pool pool_ai
       (init_pool_fields (snd (derive_pool_pda S pid (ai_key slab_ai)))
          (snd (derive_vault_authority S pid (ai_key pool_ai))) (ai_key slab_ai) (ai_key admin_ai)
          (ai_key collateral_mint_ai) (ai_key lp_mint_ai) (ai_key vault_ai) (ai_key percolator_ai)
          cooldown cap (pool_at w4 (ai_key pool_ai)))
       (w4\<lparr>mut_borrowed := ai_key pool_ai # mut_borrowed w4\<rparr>))"
proof -
  from assms(2) show thesis
    unfolding process_init_pool_def Let_def
    by (clarsimp simp: res_inv next_account_info_Inr [OF assms(1)] pool_at_fold case_prod_unfold
        info_owner_eq) (rule that; (assumption | rule refl)?; simp)
qed

lemma init_trading_run:
  assumes "process_init_trading_pool S pid accounts cooldown cap w = Inr w'"
  obtains w1 where "process_init_pool S pid accounts cooldown cap w = Inr w1"
    "w' = release (accounts ! 2) (write_pool (accounts ! 2)
        ((pool_at w1 (ai_key (accounts ! 2)))\<lparr>pool_mode := 1\<rparr>)
        (w1\<lparr>mut_borrowed := ai_key (accounts ! 2) # mut_borrowed w1\<rparr>))"
  using assms unfolding process_init_trading_pool_def Let_def
  by (auto simp: bnd_Inr if_Inl_Inr try_borrow_mut_data_Inr as_pool_Inr pool_at_fold)

lemma oracle_run:
  assumes "iter_law S" and "process_admin_set_oracle_authority S pid accounts authority w = Inr w'"
  obtains admin_ai pool_ai slab_ai percolator_ai authority_ai rest b where
    "accounts = admin_ai # pool_ai # slab_ai # percolator_ai # authority_ai # rest"
    "ai_key authority_ai = authority" "ai_is_signer authority_ai"
    "validate_admin_cpi S pid w pool_ai admin_ai slab_ai percolator_ai = Inr b"
    "cpi_update_asset_authority S w percolator_ai pool_ai authority_ai slab_ai 0 ASSET_AUTH_ORACLE
       [pool_seeds (ai_key slab_ai) b] = Inr w'"
proof -
  from assms(2) show thesis
    unfolding process_admin_set_oracle_authority_def
    by (clarsimp simp: bnd_Inr if_Inl_Inr next_account_info_Inr [OF assms(1)] case_prod_unfold)
      (rule that; (assumption | rule refl)?; simp)
qed

lemma policy_run:
  assumes "iter_law S"
    and "process_admin_set_insurance_policy S pid accounts authority base bps cooldown w = Inr w'"
  obtains admin_ai pool_ai slab_ai percolator_ai authority_ai rest b vb where
    "accounts = admin_ai # pool_ai # slab_ai # percolator_ai # authority_ai # rest"
    "ai_key authority_ai = authority"
    "derive_vault_authority S pid (ai_key pool_ai) = (authority, vb)"
    "base = 0" "bps = 0" "cooldown = 0"
    "validate_admin_cpi S pid w pool_ai admin_ai slab_ai percolator_ai = Inr b"
    "cpi_update_asset_authority S w percolator_ai pool_ai authority_ai slab_ai 0 ASSET_AUTH_INSURANCE
       [pool_seeds (ai_key slab_ai) b, vault_auth_seeds (ai_key pool_ai) vb] = Inr w'"
proof -
  from assms(2) show thesis
    unfolding process_admin_set_insurance_policy_def
    by (clarsimp simp: bnd_Inr if_Inl_Inr validate_vault_insurance_authority_Inr
        next_account_info_Inr [OF assms(1)] case_prod_unfold)
      (rule that; (assumption | rule refl)?; simp)
qed

end
