(* ===== verification/Refinement.thy ===== *)
theory Refinement
  imports Handler_Effects
begin

text \<open>
  Every instruction refines the pool machine.  The contract of a handler towards the pools of
  the program is the locale \<open>pool_handler\<close>; each handler of the processor interprets it, so does
  the dispatch, and what the contract gives (invariants of the record, fields that never change,
  counters that never fall) then holds of any sequence of transactions.
\<close>

section \<open>Assumptions on the environment\<close>

definition runtime_laws :: "sdk \<Rightarrow> pubkey \<Rightarrow> bool" where
  "runtime_laws S pid \<longleftrightarrow> iter_law S \<and> owner_law S pid
     \<and> spl_token_id S \<noteq> pid \<and> system_program_id S \<noteq> pid"

text \<open>Address derivation gives no deposit record the address \<open>k\<close>.\<close>

definition no_deposit_at :: "sdk \<Rightarrow> pubkey \<Rightarrow> pubkey \<Rightarrow> bool" where
  "no_deposit_at S pid k \<longleftrightarrow> (\<forall>pool_key user_key. fst (derive_deposit_pda S pid pool_key user_key) \<noteq> k)"

text \<open>The program is not handed its own account, without which it cannot call itself.\<close>

definition no_self_call :: "pubkey \<Rightarrow> account_info list \<Rightarrow> bool" where
  "no_self_call pid accounts \<longleftrightarrow> (\<forall>a \<in> set accounts. ai_key a \<noteq> pid)"

section \<open>The contract of a handler\<close>

text \<open>The instruction each step of the machine belongs to.\<close>

fun instruction_of :: "pool_event \<Rightarrow> stake_instruction" where
  "instruction_of (DepositEv amount lp e) = Deposit amount"
| "instruction_of (WithdrawEv lp c e) = Withdraw lp"
| "instruction_of (FlushEv amount) = FlushToInsurance amount"
| "instruction_of (ConfigEv cooldown cap) = UpdateConfig cooldown cap"
| "instruction_of TransferEv = TransferAdmin"
| "instruction_of ResolveEv = AdminResolveMarket"
| "instruction_of (ReturnEv amount) = AdminWithdrawInsurance amount"
| "instruction_of (AccrueEv b t) = AccrueFees"
| "instruction_of (HwmEv enabled bps) = AdminSetHwmConfig enabled bps"

text \<open>A pool is left alone or makes one of the steps that are allowed.\<close>

definition pool_moves :: "(pool_event \<Rightarrow> bool) \<Rightarrow> stake_pool \<Rightarrow> stake_pool \<Rightarrow> bool" where
  "pool_moves A p q \<longleftrightarrow> q = p \<or> (\<exists>ev. A ev \<and> pool_step p ev q)"

lemma pool_moves_any: "pool_moves A p q \<Longrightarrow> q = p \<or> (\<exists>ev. pool_step p ev q)"
  by (auto simp: pool_moves_def)

locale pool_handler =
  fixes run :: "sdk \<Rightarrow> pubkey \<Rightarrow> account_info list \<Rightarrow> world \<Rightarrow> fault + world"
    and does :: "pool_event \<Rightarrow> bool"
  assumes refines: "runtime_laws S pid \<Longrightarrow> no_deposit_at S pid k \<Longrightarrow> no_self_call pid accounts \<Longrightarrow>
      run S pid accounts w = Inr w' \<Longrightarrow> holds_pool pid w k p \<Longrightarrow>
      \<exists>q. holds_pool pid w' k q \<and> pool_moves (\<lambda>ev. ai_key (accounts ! 1) = k \<and> does ev) p q"
begin

lemma keeps_invariant:
  assumes "runtime_laws S pid" and "no_deposit_at S pid k" and "no_self_call pid accounts"
    and "run S pid accounts w = Inr w'" and "pool_account pid w k" and "I (pool_at w k)"
    and "\<And>p ev q. wf_pool p \<Longrightarrow> I p \<Longrightarrow> pool_step p ev q \<Longrightarrow> I q"
  shows "pool_account pid w' k \<and> I (pool_at w' k)"
proof -
  have held: "holds_pool pid w k (pool_at w k)"
    using assms(5) by (simp add: holds_pool_def)
  obtain q where "holds_pool pid w' k q" and "q = pool_at w k \<or> (\<exists>ev. pool_step (pool_at w k) ev q)"
    using refines [OF assms(1-4) held] pool_moves_any by blast
  then show ?thesis
    using assms(6,7) holds_pool_wf [OF held] by (auto simp: holds_pool_def)
qed

lemma keeps_identity:
  assumes "runtime_laws S pid" and "no_deposit_at S pid k" and "no_self_call pid accounts"
    and "run S pid accounts w = Inr w'" and "pool_account pid w k"
  shows "identity (pool_at w' k) = identity (pool_at w k) \<and> counters_le (pool_at w k) (pool_at w' k)"
proof -
  have "identity (pool_at w' k) = identity (pool_at w k)"
    by (rule conjunct2 [OF keeps_invariant [OF assms, where I = "\<lambda>q. identity q = identity (pool_at w k)"]])
      (auto dest: step_identity)
  moreover have "counters_le (pool_at w k) (pool_at w' k)"
    by (rule conjunct2 [OF keeps_invariant [OF assms, where I = "counters_le (pool_at w k)"]])
      (simp_all add: counters_le_refl, metis step_counters counters_le_trans)
  ultimately show ?thesis ..
qed

end

section \<open>The handlers keep the contract\<close>

lemma no_self_callD: "no_self_call pid accounts \<Longrightarrow> a \<in> set accounts \<Longrightarrow> ai_key a \<noteq> pid"
  by (simp add: no_self_call_def)

lemma runtime_lawsD:
  assumes "runtime_laws S pid"
  shows "iter_law S" "owner_law S pid" "spl_token_id S \<noteq> pid" "system_program_id S \<noteq> pid"
  using assms by (simp_all add: runtime_laws_def)

lemma token_call_holds:
  assumes "runtime_laws S pid" and "call_program S c = spl_token_id S" and "holds_pool pid w k p"
  shows "invoke S w c infos = Inr w' \<Longrightarrow> holds_pool pid w' k p"
    and "invoke_signed S w c infos sds = Inr w' \<Longrightarrow> holds_pool pid w' k p"
  using assms owner_law_invoke owner_law_invoke_signed holds_pool_cpi runtime_lawsD by metis+

text \<open>The last steps of every handler: write the pool under the borrow and release it.\<close>

lemma write_moves:
  assumes "holds_pool pid w k p" and "ai_key ai = k \<Longrightarrow> pool_step p ev q \<and> A ev"
    and "w' = release ai (write_pool ai q w)"
  shows "\<exists>q'. holds_pool pid w' k q' \<and> pool_moves A p q'"
proof (cases "ai_key ai = k")
  case True
  with assms have "holds_pool pid (write_pool ai q w) k q"
    using holds_pool_write [of pid w k p ai q] step_wf holds_pool_wf by auto
  then show ?thesis
    using assms True by (auto simp: pool_moves_def)
next
  case False
  with assms have "holds_pool pid (write_pool ai q w) k p"
    using holds_pool_write [of pid w k p ai q] by auto
  then show ?thesis
    using assms by (auto simp: pool_moves_def)
qed

lemma write_twice_moves:
  assumes "holds_pool pid w k p" and "ai_key ai = k \<Longrightarrow> wf_pool p1 \<and> pool_step p ev q \<and> A ev"
  shows "\<exists>q'. holds_pool pid (write_pool ai q (write_pool ai p1 w)) k q' \<and> pool_moves A p q'"
proof (cases "ai_key ai = k")
  case True
  then have "holds_pool pid (write_pool ai p1 w) k p1"
    using holds_pool_write [of pid w k p ai p1] assms by auto
  moreover have "wf_pool q"
    using True assms step_wf holds_pool_wf by blast
  ultimately have "holds_pool pid (write_pool ai q (write_pool ai p1 w)) k q"
    using True holds_pool_write [of pid "write_pool ai p1 w" k p1 ai q] by auto
  then show ?thesis
    using True assms by (auto simp: pool_moves_def)
next
  case False
  then have "holds_pool pid (write_pool ai p1 w) k p"
    using holds_pool_write [of pid w k p ai p1] assms by auto
  then have "holds_pool pid (write_pool ai q (write_pool ai p1 w)) k p"
    using False holds_pool_write [of pid "write_pool ai p1 w" k p ai q] by auto
  then show ?thesis
    by (auto simp: pool_moves_def)
qed

lemma holds_pool_at: "holds_pool pid w k p \<Longrightarrow> pool_at w k = p"
  by (simp add: holds_pool_def)

interpretation config_h: pool_handler "\<lambda>S pid accounts. process_update_config S pid accounts c d"
  "\<lambda>ev. instruction_of ev = UpdateConfig c d" for c d
proof
  fix S pid k accounts w w' p
  assume laws: "runtime_laws S pid" and held: "holds_pool pid w k p"
    and run: "process_update_config S pid accounts c d w = Inr w'"
  from runtime_lawsD(1) [OF laws] run show "\<exists>q. holds_pool pid w' k q \<and> pool_moves (\<lambda>ev. ai_key (accounts ! 1) = k \<and> instruction_of ev = UpdateConfig c d) p q"
  proof (rule update_config_run)
    fix admin_ai pool_ai rest
    assume "accounts = admin_ai # pool_ai # rest" "is_initialized (pool_at w (ai_key pool_ai)) = 1"
      and w': "w' = release pool_ai (write_pool pool_ai (set_config c d (pool_at w (ai_key pool_ai)))
        (w\<lparr>mut_borrowed := ai_key pool_ai # mut_borrowed w\<rparr>))"
    then show ?thesis
      using held holds_pool_at [OF held] pool_step.config
      by (intro write_moves [where ev = "ConfigEv c d", OF _ _ w']) auto
  qed
qed

interpretation hwm_h: pool_handler
  "\<lambda>S pid accounts. process_admin_set_hwm_config S pid accounts enabled bps"
  "\<lambda>ev. instruction_of ev = AdminSetHwmConfig enabled bps" for enabled bps
proof
  fix S pid k accounts w w' p
  assume laws: "runtime_laws S pid" and held: "holds_pool pid w k p"
    and run: "process_admin_set_hwm_config S pid accounts enabled bps w = Inr w'"
  from runtime_lawsD(1) [OF laws] run show "\<exists>q. holds_pool pid w' k q \<and> pool_moves (\<lambda>ev. ai_key (accounts ! 1) = k \<and> instruction_of ev = AdminSetHwmConfig enabled bps) p q"
  proof (rule hwm_config_run)
    fix admin_ai pool_ai rest p0
    assume "accounts = admin_ai # pool_ai # rest" "p0 = pool_at w (ai_key pool_ai)" "is_initialized p0 = 1"
      "enabled \<Longrightarrow> bps \<noteq> 0 \<and> bps \<le> 10000"
      and w': "w' = release pool_ai (write_pool pool_ai
        (if enabled then set_hwm_floor_bps bps (set_hwm_enabled enabled p0)
         else set_hwm_enabled enabled p0) (w\<lparr>mut_borrowed := ai_key pool_ai # mut_borrowed w\<rparr>))"
    then show ?thesis
      using held holds_pool_at [OF held] pool_step.hwm [of p enabled bps]
      by (intro write_moves [where ev = "HwmEv enabled bps", OF _ _ w']) auto
  qed
qed

interpretation accrue_h: pool_handler process_accrue_fees "\<lambda>ev. instruction_of ev = AccrueFees"
proof
  fix S pid k accounts w w' p
  assume laws: "runtime_laws S pid" and held: "holds_pool pid w k p"
    and run: "process_accrue_fees S pid accounts w = Inr w'"
  from runtime_lawsD(1) [OF laws] run show "\<exists>q. holds_pool pid w' k q \<and> pool_moves (\<lambda>ev. ai_key (accounts ! 1) = k \<and> instruction_of ev = AccrueFees) p q"
  proof (rule accrue_run)
    fix caller pool_ai vault_ai clock_ai rest p0 q balance clk
    assume "accounts = caller # pool_ai # vault_ai # clock_ai # rest" "p0 = pool_at w (ai_key pool_ai)" "pool_step p0 (AccrueEv balance (clock_slot clk)) q"
      and w': "w' = release pool_ai (write_pool pool_ai q
        (w\<lparr>mut_borrowed := ai_key pool_ai # mut_borrowed w\<rparr>))"
    then show ?thesis
      using held holds_pool_at [OF held]
      by (intro write_moves [where ev = "AccrueEv balance (clock_slot clk)", OF _ _ w']) auto
  qed
qed

interpretation flush_h: pool_handler
  "\<lambda>S pid accounts. process_flush_to_insurance S pid accounts amount"
  "\<lambda>ev. instruction_of ev = FlushToInsurance amount" for amount
proof
  fix S pid k accounts w w' p
  assume laws: "runtime_laws S pid" and self: "no_self_call pid accounts"
    and held: "holds_pool pid w k p"
    and run: "process_flush_to_insurance S pid accounts amount w = Inr w'"
  from runtime_lawsD(1) [OF laws] run show "\<exists>q. holds_pool pid w' k q \<and> pool_moves (\<lambda>ev. ai_key (accounts ! 1) = k \<and> instruction_of ev = FlushToInsurance amount) p q"
  proof (rule flush_run, goal_cases)
    case (1 caller pool_ai vault_ai vault_auth_ai slab_ai wrapper_vault percolator_ai token_program rest
      p0 available new_flushed w1)
    note acc = 1(1) and p0 = 1(2,3,6,7,13,14,17) and cpi = 1(16) and w' = 1(18)
    have "ai_key percolator_ai \<noteq> pid"
      using self acc by (simp add: no_self_call_def)
    then have "holds_pool pid w1 k p"
      using wrapper_cpi_effect(1) [OF runtime_lawsD(2) [OF laws] _ cpi] holds_pool_cpi held by simp
    moreover have "pool_step p0 (FlushEv amount) (p0\<lparr>total_flushed := new_flushed\<rparr>)"
      using p0 by (intro pool_step.flush) (auto simp: unat_less_iff)
    ultimately show ?thesis
      using p0(1) acc holds_pool_at [OF held]
      by (intro write_moves [where ev = "FlushEv amount", OF _ _ w']) auto
  qed
qed

interpretation resolve_h: pool_handler process_admin_resolve_market "\<lambda>ev. instruction_of ev = AdminResolveMarket"
proof
  fix S pid k accounts w w' p
  assume laws: "runtime_laws S pid" and self: "no_self_call pid accounts"
    and held: "holds_pool pid w k p"
    and run: "process_admin_resolve_market S pid accounts w = Inr w'"
  from runtime_lawsD(1) [OF laws] run show "\<exists>q. holds_pool pid w' k q \<and> pool_moves (\<lambda>ev. ai_key (accounts ! 1) = k \<and> instruction_of ev = AdminResolveMarket) p q"
  proof (rule resolve_run, goal_cases)
    case (1 admin_ai pool_ai slab_ai percolator_ai rest p0 b w1)
    note acc = 1(1) and val = 1(3) and cpi = 1(4) and w' = 1(7)
    have "ai_key percolator_ai \<noteq> pid"
      using self acc by (simp add: no_self_call_def)
    then have held1: "holds_pool pid w1 k p"
      using wrapper_cpi_effect(4) [OF runtime_lawsD(2) [OF laws] _ cpi] holds_pool_cpi held by simp
    moreover have "pool_step p ResolveEv (set_resolved p)" if "ai_key pool_ai = k"
      using val holds_pool_at [OF held] that
      by (intro pool_step.resolve) (auto simp: validate_admin_cpi_Inr)
    ultimately show ?thesis
      using acc holds_pool_at [OF held1] by (intro write_moves [where ev = ResolveEv, OF _ _ w']) auto
  qed
qed

interpretation transfer_h: pool_handler process_transfer_admin "\<lambda>ev. instruction_of ev = TransferAdmin"
proof
  fix S pid k accounts w w' p
  assume laws: "runtime_laws S pid" and self: "no_self_call pid accounts"
    and held: "holds_pool pid w k p"
    and run: "process_transfer_admin S pid accounts w = Inr w'"
  from runtime_lawsD(1) [OF laws] run show "\<exists>q. holds_pool pid w' k q \<and> pool_moves (\<lambda>ev. ai_key (accounts ! 1) = k \<and> instruction_of ev = TransferAdmin) p q"
  proof (rule transfer_admin_run, goal_cases)
    case (1 admin_ai pool_ai slab_ai percolator_ai rest p0 w1)
    note acc = 1(1) and p0 = 1(2,5,7) and cpi = 1(10) and w' = 1(13)
    have "ai_key percolator_ai \<noteq> pid"
      using self acc by (simp add: no_self_call_def)
    then have held1: "holds_pool pid w1 k p"
      using wrapper_cpi_effect(2) [OF runtime_lawsD(2) [OF laws] _ cpi] holds_pool_cpi held by simp
    then show ?thesis
      using p0 acc holds_pool_at [OF held] holds_pool_at [OF held1] pool_step.transfer [of p]
      by (intro write_moves [where ev = TransferEv, OF _ _ w']) auto
  qed
qed

interpretation return_h: pool_handler
  "\<lambda>S pid accounts. process_admin_withdraw_insurance S pid accounts amount"
  "\<lambda>ev. instruction_of ev = AdminWithdrawInsurance amount" for amount
proof
  fix S pid k accounts w w' p
  assume laws: "runtime_laws S pid" and self: "no_self_call pid accounts"
    and held: "holds_pool pid w k p"
    and run: "process_admin_withdraw_insurance S pid accounts amount w = Inr w'"
  from runtime_lawsD(1) [OF laws] run show "\<exists>q. holds_pool pid w' k q \<and> pool_moves (\<lambda>ev. ai_key (accounts ! 1) = k \<and> instruction_of ev = AdminWithdrawInsurance amount) p q"
  proof (rule withdraw_insurance_run, goal_cases)
    case (1 admin_ai pool_ai slab_ai vault_auth_ai stake_vault wrapper_vault wrapper_vault_pda percolator_ai
      token_program clock_ai rest p0 b w1 new_returned)
    note acc = 1(1) and p0 = 1(2,4) and val = 1(3) and cpi = 1(8) and add = 1(11) and w' = 1(12)
    have "ai_key percolator_ai \<noteq> pid"
      using self acc by (simp add: no_self_call_def)
    then have held1: "holds_pool pid w1 k p"
      using wrapper_cpi_effect(5) [OF runtime_lawsD(2) [OF laws] _ cpi] holds_pool_cpi held by simp
    moreover have "pool_step p (ReturnEv amount) (p\<lparr>total_returned := new_returned\<rparr>)"
      if "ai_key pool_ai = k"
      using val p0 add that holds_pool_at [OF held] holds_pool_at [OF held1]
      by (intro pool_step.return) (auto simp: validate_admin_cpi_Inr)
    ultimately show ?thesis
      using acc holds_pool_at [OF held1] by (intro write_moves [where ev = "ReturnEv amount", OF _ _ w']) auto
  qed
qed


lemma holds_pool_deposit:
  "no_deposit_at S pid k \<Longrightarrow> holds_pool pid w k p \<Longrightarrow>
    ai_key ai = fst (derive_deposit_pda S pid pool_key user_key) \<Longrightarrow>
    holds_pool pid (write_deposit ai d w) k p"
  by (rule holds_pool_write_deposit) (auto simp: no_deposit_at_def)

interpretation deposit_h: pool_handler
  "\<lambda>S pid accounts. process_deposit S pid accounts amount"
  "\<lambda>ev. instruction_of ev = Deposit amount" for amount
proof
  fix S pid k accounts w w' p
  assume laws: "runtime_laws S pid" and apart: "no_deposit_at S pid k"
    and held: "holds_pool pid w k p" and run: "process_deposit S pid accounts amount w = Inr w'"
  from runtime_lawsD(1) [OF laws] run show "\<exists>q. holds_pool pid w' k q \<and> pool_moves (\<lambda>ev. ai_key (accounts ! 1) = k \<and> instruction_of ev = Deposit amount) p q"
  proof (rule deposit_run, goal_cases)
    case (1 user_ai pool_ai user_ata vault_ai lp_mint_ai user_lp_ata vault_auth_ai deposit_ai token_program
        clock_sysvar system_program rest p0 dk lp new_deposited new_supply clk p1 w1 w2 w3 w4 d)
    note acc = 1(1) and p0 = 1(2,4,7,10-12,15,16,19-21) and dk = 1(3,24) and c1 = 1(17) and c2 = 1(18) and w3 = 1(23)
      and c3 = 1(27) and w' = 1(31)
    have "holds_pool pid w1 k p"
      by (rule token_call_holds(1) [OF laws _ _ c1]) (simp_all add: held)
    then have held2: "holds_pool pid w2 k p"
      by (rule token_call_holds(2) [OF laws _ _ c2, rotated]) simp
    have "pool_step p0 (DepositEv amount lp (clock_epoch clk)) (touch_hwm (clock_epoch clk) p1)"
      using p0 by (auto intro: pool_step.deposit)
    moreover have "wf_pool p1" if "wf_pool p0"
      using p0(11) that by (simp add: wf_pool_def)
    ultimately have "\<exists>q. holds_pool pid w3 k q \<and> pool_moves (\<lambda>ev. ai_key (accounts ! 1) = k \<and> instruction_of ev = Deposit amount) p q"
      unfolding w3 using p0(1) acc holds_pool_at [OF held] holds_pool_wf [OF held]
      by (intro write_twice_moves [where ev = "DepositEv amount lp (clock_epoch clk)", OF held2]) auto
    then obtain q where q: "holds_pool pid w3 k q" "pool_moves (\<lambda>ev. ai_key (accounts ! 1) = k \<and> instruction_of ev = Deposit amount) p q"
      by blast
    have "cpi_effect_ok pid w3 w4"
      using c3 create_or_adopt_pda_effect runtime_lawsD(2,4) [OF laws] by (auto split: if_splits)
    then have "holds_pool pid w4 k q"
      using q(1) by (rule holds_pool_cpi)
    then have "holds_pool pid w' k q"
      unfolding w' holds_pool_borrow
      by (intro holds_pool_deposit [OF apart]) (simp_all add: dk)
    with q(2) show ?thesis
      by blast
  qed
qed


text \<open>A withdrawal writes the refreshed high-water mark first, then the totals.\<close>

lemma write_then_write_moves:
  assumes "holds_pool pid w k p" and "ai_key ai = k \<Longrightarrow> wf_pool p1"
    and "\<And>x. holds_pool pid (write_pool ai p1 w) k x \<Longrightarrow> holds_pool pid w2 k x"
    and "ai_key ai = k \<Longrightarrow> pool_step p ev q \<and> A ev"
  shows "\<exists>q'. holds_pool pid (write_pool ai q w2) k q' \<and> pool_moves A p q'"
proof (cases "ai_key ai = k")
  case True
  then have "holds_pool pid w2 k p1" and "wf_pool q"
    using holds_pool_write [of pid w k p ai p1] assms step_wf holds_pool_wf by auto
  then have "holds_pool pid (write_pool ai q w2) k q"
    using True holds_pool_write [of pid w2 k p1 ai q] by auto
  then show ?thesis
    using True assms(4) by (auto simp: pool_moves_def)
next
  case False
  then have "holds_pool pid w2 k p"
    using holds_pool_write [of pid w k p ai p1] assms by auto
  then have "holds_pool pid (write_pool ai q w2) k p"
    using False holds_pool_write [of pid w2 k p ai q] by auto
  then show ?thesis
    by (auto simp: pool_moves_def)
qed

interpretation withdraw_h: pool_handler
  "\<lambda>S pid accounts. process_withdraw S pid accounts lp"
  "\<lambda>ev. instruction_of ev = Withdraw lp" for lp
proof
  fix S pid k accounts w w' p
  assume laws: "runtime_laws S pid" and apart: "no_deposit_at S pid k"
    and held: "holds_pool pid w k p" and run: "process_withdraw S pid accounts lp w = Inr w'"
  from runtime_lawsD(1) [OF laws] run show "\<exists>q. holds_pool pid w' k q \<and> pool_moves (\<lambda>ev. ai_key (accounts ! 1) = k \<and> instruction_of ev = Withdraw lp) p q"
  proof (rule withdraw_run, goal_cases)
    case (1 user_ai pool_ai user_lp_ata lp_mint_ai vault_ai user_ata vault_auth_ai deposit_ai token_program
        clock_sysvar rest p0 p1 dk d c clk new_withdrawn new_supply w1 w2 w3 new_lp)
    note acc = 1(1) and p0 = 1(2,5,9,25-28,31,32) and dk = 1(3,14) and c1 = 1(29) and c2 = 1(30) and w3 = 1(33)
      and w' = 1(37)
    have step: "pool_step p0 (WithdrawEv lp c (clock_epoch clk))
        (p1\<lparr>total_withdrawn := new_withdrawn, total_lp_supply := new_supply\<rparr>)"
      using p0 by (auto intro: pool_step.withdraw)
    have "\<exists>q. holds_pool pid w3 k q \<and> pool_moves (\<lambda>ev. ai_key (accounts ! 1) = k \<and> instruction_of ev = Withdraw lp) p q"
      unfolding w3
    proof (rule write_then_write_moves)
      show "holds_pool pid (w\<lparr>mut_borrowed := ai_key pool_ai # mut_borrowed w\<rparr>) k p"
        using held by simp
      show "ai_key pool_ai = k \<Longrightarrow> wf_pool p1"
        using p0(1,7) holds_pool_at [OF held] holds_pool_wf [OF held] touch_hwm_reserved(1) by simp
      show "ai_key pool_ai = k \<Longrightarrow> pool_step p (WithdrawEv lp c (clock_epoch clk))
          (p1\<lparr>total_withdrawn := new_withdrawn, total_lp_supply := new_supply\<rparr>)
          \<and> ai_key (accounts ! 1) = k \<and> instruction_of (WithdrawEv lp c (clock_epoch clk)) = Withdraw lp"
        using step p0(1) acc holds_pool_at [OF held] by simp
      fix x
      assume "holds_pool pid (write_pool pool_ai p1
          (w\<lparr>mut_borrowed := ai_key pool_ai # mut_borrowed w\<rparr>)) k x"
      then have "holds_pool pid w1 k x"
        by (rule token_call_holds(1) [OF laws _ _ c1, rotated]) simp
      then show "holds_pool pid w2 k x"
        by (rule token_call_holds(2) [OF laws _ _ c2, rotated]) simp
    qed
    then obtain q where q: "holds_pool pid w3 k q" "pool_moves (\<lambda>ev. ai_key (accounts ! 1) = k \<and> instruction_of ev = Withdraw lp) p q"
      by blast
    then have "holds_pool pid w' k q"
      unfolding w' holds_pool_borrow
      by (intro holds_pool_deposit [OF apart]) (simp_all add: dk)
    with q(2) show ?thesis
      by blast
  qed
qed

text \<open>Initialisation only reaches an account that holds no data yet.\<close>

lemma init_pool_frame:
  assumes laws: "runtime_laws S pid" and self: "no_self_call pid accounts"
    and held: "holds_pool pid w k p"
    and run: "process_init_pool S pid accounts cooldown cap w = Inr w'"
  shows "holds_pool pid w' k p \<and> 2 < length accounts \<and> ai_key (accounts ! 2) \<noteq> k"
  using runtime_lawsD(1) [OF laws] run
proof (rule init_pool_run, goal_cases)
  case (1 admin_ai slab_ai pool_ai lp_mint_ai vault_ai vault_auth_ai collateral_mint_ai percolator_ai
    token_program system_program rent_sysvar rest w1 w2 w3 w4)
  note acc = 1(1) and empty = 1(4) and c1 = 1(9) and c2 = 1(10) and c3 = 1(11) and c4 = 1(12) and w' = 1(14)
  have other: "ai_key pool_ai \<noteq> k"
    using held empty by (auto simp: holds_pool_def pool_account_def STAKE_POOL_SIZE_def)
  have "ai_key percolator_ai \<noteq> pid"
    using self acc by (simp add: no_self_call_def)
  then have "holds_pool pid w2 k p"
    using create_or_adopt_pda_effect [OF runtime_lawsD(2,4) [OF laws] c1]
      wrapper_cpi_effect(2) [OF runtime_lawsD(2) [OF laws] _ c2] held by (blast intro: holds_pool_cpi)
  then have "holds_pool pid w3 k p"
    by (rule token_call_holds(2) [OF laws _ _ c3, rotated]) simp
  then have "holds_pool pid w4 k p"
    by (rule token_call_holds(2) [OF laws _ _ c4, rotated]) simp
  then have "holds_pool pid w' k p"
    unfolding w' holds_pool_borrow
    using other holds_pool_write [where ai = pool_ai and k = k and pid = pid and p = p] by fastforce
  with other acc show ?thesis
    by simp
qed

interpretation init_h: pool_handler
  "\<lambda>S pid accounts. process_init_pool S pid accounts cooldown cap"
  "\<lambda>ev. instruction_of ev = InitPool cooldown cap" for cooldown cap
  unfolding pool_handler_def pool_moves_def using init_pool_frame by blast

interpretation init_trading_h: pool_handler
  "\<lambda>S pid accounts. process_init_trading_pool S pid accounts cooldown cap"
  "\<lambda>ev. instruction_of ev = InitTradingPool cooldown cap" for cooldown cap
proof
  fix S pid k accounts w w' p
  assume laws: "runtime_laws S pid" and self: "no_self_call pid accounts"
    and held: "holds_pool pid w k p"
    and run: "process_init_trading_pool S pid accounts cooldown cap w = Inr w'"
  obtain w1 where init: "process_init_pool S pid accounts cooldown cap w = Inr w1"
      and w': "w' = release (accounts ! 2) (write_pool (accounts ! 2)
        ((pool_at w1 (ai_key (accounts ! 2)))\<lparr>pool_mode := 1\<rparr>)
        (w1\<lparr>mut_borrowed := ai_key (accounts ! 2) # mut_borrowed w1\<rparr>))"
    using run by (rule init_trading_run)
  have "holds_pool pid w1 k p" and "ai_key (accounts ! 2) \<noteq> k"
    using init_pool_frame [OF laws self held init] by simp_all
  then have "holds_pool pid w' k p"
    unfolding w' holds_pool_borrow
    using holds_pool_write [where ai = "accounts ! 2" and k = k and pid = pid and p = p] by fastforce
  then show "\<exists>q. holds_pool pid w' k q \<and> pool_moves (\<lambda>ev. ai_key (accounts ! 1) = k \<and> instruction_of ev = InitTradingPool cooldown cap) p q"
    by (auto simp: pool_moves_def)
qed

text \<open>The forwarding instructions leave the pools alone, and the retired ones always fail.\<close>

lemma asset_authority_frame:
  assumes "runtime_laws S pid" and "ai_key percolator_ai \<noteq> pid" and "holds_pool pid w k p"
    and "cpi_update_asset_authority S w percolator_ai a b c i kind sds = Inr w'"
  shows "\<exists>q. holds_pool pid w' k q \<and> pool_moves A p q"
  using holds_pool_cpi [OF wrapper_cpi_effect(3) [OF runtime_lawsD(2) [OF assms(1)] assms(2,4)] assms(3)]
  by (auto simp: pool_moves_def)

interpretation oracle_h: pool_handler
  "\<lambda>S pid accounts. process_admin_set_oracle_authority S pid accounts authority"
  "\<lambda>ev. instruction_of ev = AdminSetOracleAuthority authority" for authority
proof
  fix S pid k accounts w w' p
  assume laws: "runtime_laws S pid" and self: "no_self_call pid accounts"
    and held: "holds_pool pid w k p"
    and run: "process_admin_set_oracle_authority S pid accounts authority w = Inr w'"
  from runtime_lawsD(1) [OF laws] run show "\<exists>q. holds_pool pid w' k q \<and> pool_moves (\<lambda>ev. ai_key (accounts ! 1) = k \<and> instruction_of ev = AdminSetOracleAuthority authority) p q"
    by (rule oracle_run, intro asset_authority_frame [OF laws _ held])
      (use self in \<open>auto simp: no_self_call_def\<close>)
qed

interpretation policy_h: pool_handler
  "\<lambda>S pid accounts. process_admin_set_insurance_policy S pid accounts authority base bps cooldown"
  "\<lambda>ev. instruction_of ev = AdminSetInsurancePolicy authority base bps cooldown"
  for authority base bps cooldown
proof
  fix S pid k accounts w w' p
  assume laws: "runtime_laws S pid" and self: "no_self_call pid accounts"
    and held: "holds_pool pid w k p"
    and run: "process_admin_set_insurance_policy S pid accounts authority base bps cooldown w = Inr w'"
  from runtime_lawsD(1) [OF laws] run show "\<exists>q. holds_pool pid w' k q \<and> pool_moves (\<lambda>ev. ai_key (accounts ! 1) = k \<and> instruction_of ev = AdminSetInsurancePolicy authority base bps cooldown) p q"
    by (rule policy_run, intro asset_authority_frame [OF laws _ held])
      (use self in \<open>auto simp: no_self_call_def\<close>)
qed

lemma retired_fail:
  "process_admin_set_risk_threshold S pid accounts t w \<noteq> Inr w'"
  "process_admin_set_maintenance_fee S pid accounts t w \<noteq> Inr w'"
  by (auto simp: process_admin_set_risk_threshold_def process_admin_set_maintenance_fee_def bnd_Inr
      cpi_set_risk_threshold_def cpi_set_maintenance_fee_def)

interpretation risk_h: pool_handler
  "\<lambda>S pid accounts. process_admin_set_risk_threshold S pid accounts t"
  "\<lambda>ev. instruction_of ev = AdminSetRiskThreshold t" for t
  by unfold_locales (simp add: retired_fail)

interpretation fee_h: pool_handler
  "\<lambda>S pid accounts. process_admin_set_maintenance_fee S pid accounts t"
  "\<lambda>ev. instruction_of ev = AdminSetMaintenanceFee t" for t
  by unfold_locales (simp add: retired_fail)

section \<open>The program\<close>

interpretation dispatch_h: pool_handler "\<lambda>S pid accounts. dispatch S pid accounts instr"
  "\<lambda>ev. instruction_of ev = instr" for instr
  unfolding dispatch_def
  by (cases instr; simp; unfold_locales)

interpretation process_h: pool_handler
  "\<lambda>S pid accounts. process_instruction S pid accounts instruction_data"
  "\<lambda>ev. unpack instruction_data = Inr (instruction_of ev)" for instruction_data
proof
  fix S pid k accounts w w' p
  assume pre: "runtime_laws S pid" "no_deposit_at S pid k" "no_self_call pid accounts"
    and held: "holds_pool pid w k p" and "process_instruction S pid accounts instruction_data w = Inr w'"
  then obtain instr where "unpack instruction_data = Inr instr" "dispatch S pid accounts instr w = Inr w'"
    by (auto simp: process_instruction_def process_def bnd_Inr)
  then show "\<exists>q. holds_pool pid w' k q
      \<and> pool_moves (\<lambda>ev. ai_key (accounts ! 1) = k \<and> unpack instruction_data = Inr (instruction_of ev)) p q"
    using dispatch_h.refines [OF pre _ held] by (simp add: eq_commute)
qed

end
