(* ===== verification/Vault_System.thy ===== *)
theory Vault_System
  imports Refinement
begin

text \<open>
  The life of a pool: from the transaction that initialises its account through any sequence of
  instructions of the program, interleaved with whatever other programs do to the accounts they
  own.  What the system program does to a new account is the named law \<open>creation_law\<close>.
\<close>

section \<open>Account creation\<close>

text \<open>The system program hands out zeroed data and assigns the owner it is told to.\<close>

definition creation_law :: "sdk \<Rightarrow> bool" where
  "creation_law S \<longleftrightarrow>
     (\<forall>w payer k lam n own infos sds w'.
        invoke_signed S w (SystemCreateAccount payer k lam n own) infos sds = Inr w' \<longrightarrow>
        acc_data (accts w' k) = replicate (unat n) 0 \<and> acc_owner (accts w' k) = own)
     \<and> (\<forall>w k n infos sds w'. invoke_signed S w (SystemAllocate k n) infos sds = Inr w' \<longrightarrow>
        acc_data (accts w' k) = replicate (unat n) 0)
     \<and> (\<forall>w k own infos sds w'. invoke_signed S w (SystemAssign k own) infos sds = Inr w' \<longrightarrow>
        acc_data (accts w' k) = acc_data (accts w k) \<and> acc_owner (accts w' k) = own)"

lemma create_or_adopt_pda_zeroed:
  assumes "creation_law S" and "n < 2 ^ 64"
    and "create_or_adopt_pda S w target payer sys own n sd = Inr w'"
  shows "acc_data (accts w' (ai_key target)) = replicate n 0 \<and> acc_owner (accts w' (ai_key target)) = own"
proof -
  have n: "unat (of_nat n :: u64) = n"
    using assms(2) by (simp add: unat_of_nat)
  show ?thesis
  proof (cases "info_lamports w target = 0")
    case True
    with assms(3) obtain need where
      "invoke_signed S w (SystemCreateAccount (ai_key payer) (ai_key target) need (of_nat n) own)
        [payer, target, sys] [sd] = Inr w'"
      unfolding create_or_adopt_pda_def by (auto simp: bnd_Inr)
    with assms(1) n show ?thesis
      unfolding creation_law_def by metis
  next
    case False
    with assms(3) obtain w1 w2 where
      "invoke_signed S w1 (SystemAllocate (ai_key target) (of_nat n)) [target, sys] [sd] = Inr w2"
      "invoke_signed S w2 (SystemAssign (ai_key target) own) [target, sys] [sd] = Inr w'"
      unfolding create_or_adopt_pda_def Let_def by (auto simp: bnd_Inr)
    with assms(1) n show ?thesis
      unfolding creation_law_def by metis
  qed
qed

section \<open>A new pool\<close>

lemma init_fields_fresh:
  assumes "q = init_pool_fields b vb sk ak ck lk vk pk cooldown cap zeroed_pool"
  shows "fresh_pool q \<and> fresh_pool (q\<lparr>pool_mode := 1\<rparr>)"
proof -
  have "reserved q = STAKE_POOL_DISCRIMINATOR @ CURRENT_VERSION # replicate 55 0"
    unfolding assms by (simp add: init_pool_fields_def set_discriminator_def zeroed_pool_def copy_into_def
        STAKE_POOL_DISCRIMINATOR_def CURRENT_VERSION_def numeral_nat)
  then have "wf_pool q" "\<not> is_resolved q" "\<not> hwm_enabled q" "validate_discriminator q"
    unfolding assms by (simp_all add: wf_pool_def is_resolved_def hwm_enabled_def
        validate_discriminator_def subslice_def STAKE_POOL_DISCRIMINATOR_def CURRENT_VERSION_def
        init_pool_fields_def set_discriminator_def zeroed_pool_def)
  moreover have "wf_pool (q\<lparr>pool_mode := 1\<rparr>)"
    using calculation(1) by (simp add: wf_pool_def)
  ultimately show ?thesis
    by (simp add: fresh_pool_def)
      (simp add: assms init_pool_fields_def set_discriminator_def zeroed_pool_def)
qed

text \<open>The account of a pool that \<open>InitPool\<close> has created, and its record.\<close>

lemma init_pool_creates:
  assumes laws: "runtime_laws S pid" and create: "creation_law S" and self: "no_self_call pid accounts"
    and run: "process_init_pool S pid accounts cooldown cap w = Inr w'"
  obtains admin_ai slab_ai pool_ai lp_mint_ai vault_ai vault_auth_ai collateral_mint_ai percolator_ai
    rest where
    "accounts = admin_ai # slab_ai # pool_ai # lp_mint_ai # vault_ai # vault_auth_ai
       # collateral_mint_ai # percolator_ai # rest"
    "ai_is_signer admin_ai" "ai_key pool_ai = fst (derive_pool_pda S pid (ai_key slab_ai))"
    "acc_data (accts w (ai_key pool_ai)) = []"
    "acc_owner (accts w (ai_key slab_ai)) = ai_key percolator_ai"
    "holds_pool pid w' (ai_key pool_ai)
       (init_pool_fields (snd (derive_pool_pda S pid (ai_key slab_ai)))
          (snd (derive_vault_authority S pid (ai_key pool_ai))) (ai_key slab_ai) (ai_key admin_ai)
          (ai_key collateral_mint_ai) (ai_key lp_mint_ai) (ai_key vault_ai) (ai_key percolator_ai)
          cooldown cap zeroed_pool)"
  using runtime_lawsD(1) [OF laws] run
proof (rule init_pool_run, goal_cases)
  case (1 admin_ai slab_ai pool_ai lp_mint_ai vault_ai vault_auth_ai collateral_mint_ai percolator_ai
    token_program system_program rent_sysvar rest w1 w2 w3 w4)
  note acc = 1(2) and checks = 1(3-5,8) and c1 = 1(10) and c2 = 1(11) and c3 = 1(12) and c4 = 1(13)
    and w' = 1(15)
  have "holds_pool pid w1 (ai_key pool_ai) zeroed_pool"
    using create_or_adopt_pda_zeroed [OF create _ c1] decode_pool_zero
    by (simp add: holds_pool_def pool_account_def pool_at_def STAKE_POOL_SIZE_def)
  moreover have "ai_key percolator_ai \<noteq> pid"
    using self acc by (simp add: no_self_call_def)
  ultimately have "holds_pool pid w2 (ai_key pool_ai) zeroed_pool"
    using wrapper_cpi_effect(2) [OF runtime_lawsD(2) [OF laws] _ c2] by (blast intro: holds_pool_cpi)
  then have "holds_pool pid w3 (ai_key pool_ai) zeroed_pool"
    by (rule token_call_holds(2) [OF laws _ _ c3, rotated]) simp
  then have held: "holds_pool pid w4 (ai_key pool_ai) zeroed_pool"
    by (rule token_call_holds(2) [OF laws _ _ c4, rotated]) simp
  have "wf_pool (init_pool_fields b vb sk ak ck lk vk pk cooldown cap zeroed_pool)" for b vb sk ak ck lk vk pk
    using init_fields_fresh [OF refl] by (simp add: fresh_pool_def)
  then have "holds_pool pid w' (ai_key pool_ai)
      (init_pool_fields (snd (derive_pool_pda S pid (ai_key slab_ai)))
        (snd (derive_vault_authority S pid (ai_key pool_ai))) (ai_key slab_ai) (ai_key admin_ai)
        (ai_key collateral_mint_ai) (ai_key lp_mint_ai) (ai_key vault_ai) (ai_key percolator_ai)
        cooldown cap zeroed_pool)"
    unfolding w' holds_pool_borrow holds_pool_at [OF held]
    using holds_pool_write [where ai = pool_ai and pid = pid and p = zeroed_pool
        and w = "w4\<lparr>mut_borrowed := ai_key pool_ai # mut_borrowed w4\<rparr>" and k = "ai_key pool_ai"]
      held by simp
  with checks show thesis
    unfolding owned_by_def by (rule 1(1) [OF acc])
qed

section \<open>Histories\<close>

text \<open>
  One step of the ledger's history: an instruction of the program, or anything that leaves the
  program's accounts alone.
\<close>

inductive chain_step :: "sdk \<Rightarrow> pubkey \<Rightarrow> world \<Rightarrow> world \<Rightarrow> bool" for S :: sdk and pid :: pubkey where
  own: "process_instruction S pid accounts data w = Inr w' \<Longrightarrow> no_self_call pid accounts \<Longrightarrow>
    chain_step S pid w w'"
| other: "cpi_effect_ok pid w w' \<Longrightarrow> chain_step S pid w w'"

inductive chain :: "sdk \<Rightarrow> pubkey \<Rightarrow> world \<Rightarrow> world \<Rightarrow> bool" for S :: sdk and pid :: pubkey where
  here: "chain S pid w w"
| next_step: "chain S pid w w' \<Longrightarrow> chain_step S pid w' w'' \<Longrightarrow> chain S pid w w''"

lemma chain_step_moves:
  assumes "runtime_laws S pid" and "no_deposit_at S pid k"
    and "chain_step S pid w w'" and "holds_pool pid w k p"
  shows "\<exists>q. holds_pool pid w' k q \<and> (q = p \<or> (\<exists>ev. pool_step p ev q))"
  using assms(3)
proof cases
  case (own accounts data)
  then show ?thesis
    using process_h.refines [OF assms(1,2) own(2,1) assms(4)] pool_moves_any by blast
next
  case other
  then show ?thesis
    using holds_pool_cpi [OF other assms(4)] by blast
qed

lemma chain_invariant:
  assumes "runtime_laws S pid" and "no_deposit_at S pid k" and "chain S pid w w'"
    and "holds_pool pid w k p" and "I p"
    and "\<And>p ev q. wf_pool p \<Longrightarrow> I p \<Longrightarrow> pool_step p ev q \<Longrightarrow> I q"
  shows "\<exists>q. holds_pool pid w' k q \<and> I q"
  using assms(3-5)
proof (induction rule: chain.induct)
  case (here w)
  then show ?case
    by blast
next
  case (next_step w w' w'')
  then obtain q where q: "holds_pool pid w' k q" "I q"
    by blast
  then obtain r where r: "holds_pool pid w'' k r" "r = q \<or> (\<exists>ev. pool_step q ev r)"
    using chain_step_moves [OF assms(1,2) next_step.hyps(2)] by blast
  then show ?case
    using q(2) holds_pool_wf [OF q(1)] assms(6) by blast
qed

section \<open>The share price\<close>

text \<open>No instruction but a flush of the pool itself lowers the worth of a share.\<close>

lemma instruction_price:
  assumes "runtime_laws S pid" and "no_deposit_at S pid k" and "no_self_call pid accounts"
    and "process_instruction S pid accounts data w = Inr w'" and "holds_pool pid w k p"
    and "solvent p" and "shares p \<noteq> 0"
  obtains q where "holds_pool pid w' k q" "worth p * shares q \<le> worth q * shares p
     \<or> (\<exists>a. unpack data = Inr (FlushToInsurance a) \<and> ai_key (accounts ! 1) = k \<and> pool_step p (FlushEv a) q)"
proof -
  obtain q where q: "holds_pool pid w' k q" and "q = p \<or> ai_key (accounts ! 1) = k
      \<and> (\<exists>ev. unpack data = Inr (instruction_of ev) \<and> pool_step p ev q)"
    using process_h.refines [OF assms(1-5)] by (auto simp: pool_moves_def)
  then consider "q = p"
    | ev where "ai_key (accounts ! 1) = k" "unpack data = Inr (instruction_of ev)" "pool_step p ev q"
    by blast
  then show thesis
  proof cases
    case (2 ev)
    have ledger: "ledger_step ev (worth p, shares p) (worth q, shares q)"
      using step_ledger [OF 2(3) assms(6)] by (simp add: ledger_def)
    have "worth p * shares q \<le> worth q * shares p" if "\<nexists>a. ev = FlushEv a"
      using assms(7) that by (intro ledger_price [OF ledger]) auto
    moreover have "unpack data = Inr (FlushToInsurance a)" if "ev = FlushEv a" for a
      using 2(2) that by simp
    ultimately show thesis
      using that [OF q] 2(1,3) by blast
  qed (use that q in auto)
qed

end
