(* ===== verification/Books_Frame.thy ===== *)
theory Books_Frame
  imports Vault_System
begin

text \<open>
  What an instruction cannot touch.  A quantity of the ledger that is tracked for a pool \<open>k\<close> (the
  sum of its deposit records, the balance of its vault) is kept by every elementary action of a
  handler that is not about that pool: calls not signed with its seeds, writes to other pools
  and to the records of other pools.  The locale \<open>books_frame\<close> states that contract once and derives that
  it is kept by whole instructions: by every instruction for another pool, and by the
  administrative ones that move nothing.  It is interpreted in \<open>Records\<close>, and
  through \<open>Guarded_Asset\<close> in \<open>Custody\<close> and \<open>Lp_Mint\<close>.
\<close>

section \<open>Signatures and addresses\<close>

definition unsigned_by :: "pubkey \<Rightarrow> account_info list \<Rightarrow> bool" where
  "unsigned_by a infos \<longleftrightarrow> (\<forall>i \<in> set infos. ai_is_signer i \<longrightarrow> ai_key i \<noteq> a)"

abbreviation vault_authority :: "sdk \<Rightarrow> pubkey \<Rightarrow> pubkey \<Rightarrow> pubkey" where
  "vault_authority S pid k \<equiv> fst (derive_vault_authority S pid k)"

definition record_keys :: "sdk \<Rightarrow> pubkey \<Rightarrow> pubkey \<Rightarrow> pubkey set" where
  "record_keys S pid k = range (\<lambda>u. fst (derive_deposit_pda S pid k u))"

text \<open>Derived addresses do not collide: no pool and no record of another pool has the address of
  one of this pool's records.\<close>

definition address_law :: "sdk \<Rightarrow> pubkey \<Rightarrow> pubkey \<Rightarrow> bool" where
  "address_law S pid k \<longleftrightarrow> no_deposit_at S pid k
     \<and> (\<forall>k' u. k' \<noteq> k \<longrightarrow> fst (derive_deposit_pda S pid k' u) \<notin> record_keys S pid k)
     \<and> (\<forall>slab_key. fst (derive_pool_pda S pid slab_key) \<notin> record_keys S pid k)"

text \<open>Seed lists that sign neither for a deposit record nor for the vault authority of \<open>k\<close>.\<close>

definition record_seeds :: "seeds \<Rightarrow> bool" where
  "record_seeds s \<longleftrightarrow> hd s = seed_of ''stake_deposit''"

definition vault_seeds :: "pubkey \<Rightarrow> seeds \<Rightarrow> bool" where
  "vault_seeds k s \<longleftrightarrow> (\<exists>b. s = vault_auth_seeds k b)"

lemma seed_kinds [simp]:
  "\<not> record_seeds (pool_seeds slab_key b)" "\<not> record_seeds (vault_auth_seeds k b)"
  "record_seeds (deposit_seeds k u b)"
  "\<not> vault_seeds k (pool_seeds slab_key b)" "\<not> vault_seeds k (deposit_seeds k' u b)"
  "vault_seeds k (vault_auth_seeds k' b) \<longleftrightarrow> k' = k"
proof -
  show "vault_seeds k (vault_auth_seeds k' b) \<longleftrightarrow> k' = k"
    by (auto simp: vault_seeds_def vault_auth_seeds_def codec_key.enc_inject)
qed (auto simp: record_seeds_def vault_seeds_def pool_seeds_def vault_auth_seeds_def deposit_seeds_def
    seed_of_def)

text \<open>An account that a handler reads as a pool, or that is empty at a pool's address.\<close>

definition pool_like :: "sdk \<Rightarrow> pubkey \<Rightarrow> world \<Rightarrow> pubkey \<Rightarrow> bool" where
  "pool_like S pid w a \<longleftrightarrow> STAKE_POOL_SIZE \<le> length (acc_data (accts w a))
     \<or> acc_data (accts w a) = [] \<and> a \<in> range (\<lambda>s. fst (derive_pool_pda S pid s))"

text \<open>What the tracked quantities depend on in a pool's record.\<close>

definition same_books :: "stake_pool \<Rightarrow> stake_pool \<Rightarrow> bool" where
  "same_books p q \<longleftrightarrow> total_lp_supply q = total_lp_supply p
     \<and> assets_in q = assets_in p \<and> assets_out q = assets_out p
     \<and> total_flushed q = total_flushed p \<and> total_returned q = total_returned p
     \<and> pre_supply_vault_offset q = pre_supply_vault_offset p \<and> identity q = identity p"

lemma quiet_updates:
  assumes "wf_pool p"
  shows "wf_pool (set_config c d p) \<and> same_books p (set_config c d p)"
    and "wf_pool (set_resolved p) \<and> same_books p (set_resolved p)"
    and "wf_pool (p\<lparr>admin_transferred := x\<rparr>) \<and> same_books p (p\<lparr>admin_transferred := x\<rparr>)"
    and "wf_pool (set_hwm_enabled b p) \<and> same_books p (set_hwm_enabled b p)"
    and "wf_pool (set_hwm_floor_bps bps p) \<and> same_books p (set_hwm_floor_bps bps p)"
proof -
  have flag: "pre_supply_vault_offset (p\<lparr>reserved := (reserved p)[9 := v]\<rparr>) = pre_supply_vault_offset p" for v
    using assms by (simp add: pre_supply_vault_offset_def subslice_def wf_pool_def)
  show "wf_pool (set_config c d p) \<and> same_books p (set_config c d p)"
    using assms by (simp add: set_config_def wf_pool_def same_books_def assets_in_def assets_out_def
        identity_def pre_supply_vault_offset_def)
  show "wf_pool (set_resolved p) \<and> same_books p (set_resolved p)"
    using assms by (simp add: same_books_def identity_def) (simp add: set_resolved_def flag)
  show "wf_pool (p\<lparr>admin_transferred := x\<rparr>) \<and> same_books p (p\<lparr>admin_transferred := x\<rparr>)"
    using assms by (simp add: wf_pool_def same_books_def assets_in_def assets_out_def identity_def)
  show "wf_pool (set_hwm_enabled b p) \<and> same_books p (set_hwm_enabled b p)"
    using assms by (simp add: same_books_def identity_def) (simp add: set_hwm_enabled_def flag)
  show "wf_pool (set_hwm_floor_bps bps p) \<and> same_books p (set_hwm_floor_bps bps p)"
    using assms by (simp add: same_books_def identity_def)
qed

lemma same_books_trans: "same_books p q \<Longrightarrow> same_books q r \<Longrightarrow> same_books p r"
  by (simp add: same_books_def)

text \<open>The instructions that move the funds or the shares of the pool they are called for.\<close>

fun moves_books :: "stake_instruction \<Rightarrow> bool" where
  "moves_books (Deposit _) = True"
| "moves_books (Withdraw _) = True"
| "moves_books (FlushToInsurance _) = True"
| "moves_books (AdminWithdrawInsurance _) = True"
| "moves_books AccrueFees = True"
| "moves_books _ = False"

section \<open>The contract\<close>

locale books_frame =
  fixes env :: "sdk \<Rightarrow> pubkey \<Rightarrow> pubkey \<Rightarrow> bool"
    and kept :: "sdk \<Rightarrow> pubkey \<Rightarrow> pubkey \<Rightarrow> world \<Rightarrow> world \<Rightarrow> bool"
  assumes env_laws: "env S pid k \<Longrightarrow> runtime_laws S pid \<and> creation_law S \<and> address_law S pid k"
    and kept_refl: "kept S pid k w w"
    and kept_borrow: "kept S pid k w0 w \<Longrightarrow> kept S pid k w0 (w\<lparr>mut_borrowed := x\<rparr>)"
    and kept_call: "env S pid k \<Longrightarrow> kept S pid k w0 w \<Longrightarrow> call_program S c \<noteq> pid \<Longrightarrow>
      unsigned_by (vault_authority S pid k) infos \<Longrightarrow> invoke S w c infos = Inr w' \<Longrightarrow>
      kept S pid k w0 w'"
    and kept_signed: "env S pid k \<Longrightarrow> kept S pid k w0 w \<Longrightarrow> call_program S c \<noteq> pid \<Longrightarrow>
      unsigned_by (vault_authority S pid k) infos \<Longrightarrow>
      \<forall>s \<in> set sds. \<not> record_seeds s \<and> \<not> vault_seeds k s \<Longrightarrow>
      invoke_signed S w c infos sds = Inr w' \<Longrightarrow> kept S pid k w0 w'"
    and kept_create: "env S pid k \<Longrightarrow> kept S pid k w0 w \<Longrightarrow> ai_key target \<notin> record_keys S pid k \<Longrightarrow>
      unsigned_by (vault_authority S pid k) [payer, target, sys] \<Longrightarrow> \<not> vault_seeds k sd \<Longrightarrow>
      create_or_adopt_pda S w target payer sys pid n sd = Inr w' \<Longrightarrow> kept S pid k w0 w'"
    and kept_policy: "env S pid k \<Longrightarrow> kept S pid k w0 w \<Longrightarrow> ai_key percolator_ai \<noteq> pid \<Longrightarrow>
      percolator_program (pool_at w0 k) = ai_key percolator_ai \<Longrightarrow>
      unsigned_by (vault_authority S pid k) [current, new_authority, slab_ai] \<Longrightarrow>
      \<forall>s \<in> set sds. \<not> record_seeds s \<Longrightarrow>
      cpi_update_asset_authority S w percolator_ai current new_authority slab_ai i kind sds = Inr w' \<Longrightarrow>
      kept S pid k w0 w'"
    and kept_write: "env S pid k \<Longrightarrow> kept S pid k w0 w \<Longrightarrow> pool_like S pid w0 (ai_key ai) \<Longrightarrow>
      (ai_key ai = k \<Longrightarrow> wf_pool q \<and> same_books (pool_at w k) q) \<Longrightarrow>
      kept S pid k w0 (write_pool ai q w)"
    and kept_record: "env S pid k \<Longrightarrow> kept S pid k w0 w \<Longrightarrow> ai_key ai \<notin> insert k (record_keys S pid k) \<Longrightarrow>
      acc_owner (accts w (ai_key ai)) = pid \<Longrightarrow> kept S pid k w0 (write_deposit ai d w)"
begin

lemma env_runtime:
  assumes "env S pid k"
  shows "iter_law S" "spl_token_id S \<noteq> pid" "system_program_id S \<noteq> pid" "creation_law S"
    "runtime_laws S pid" "owner_law S pid"
  using env_laws [OF assms] runtime_lawsD by blast+

lemma kept_release: "kept S pid k w0 w \<Longrightarrow> kept S pid k w0 (release ai w)"
  unfolding release_def by (rule kept_borrow)

text \<open>The last steps of an instruction for another pool.\<close>

lemma kept_write_other:
  assumes "env S pid k" and "kept S pid k w0 w" and "ai_key ai \<noteq> k"
    and "STAKE_POOL_SIZE \<le> length (acc_data (accts w0 (ai_key ai)))"
  shows "kept S pid k w0 (write_pool ai q w)"
  by (rule kept_write [OF assms(1,2)]) (use assms(3,4) in \<open>simp_all add: pool_like_def\<close>)

text \<open>Handlers that move nothing, whichever pool they are called for.\<close>

lemma kept_final:
  assumes "env S pid k" and "kept S pid k w0 w1"
    and "STAKE_POOL_SIZE \<le> length (acc_data (accts w0 (ai_key ai)))"
    and "ai_key ai = k \<Longrightarrow> wf_pool q \<and> same_books (pool_at w1 k) q"
  shows "kept S pid k w0 (release ai (write_pool ai q (w1\<lparr>mut_borrowed := x\<rparr>)))"
    and "kept S pid k w0 (release ai (write_pool ai q w1))"
  using assms by (auto intro!: kept_release kept_write kept_borrow simp: pool_like_def pool_at_def)

lemma config_kept:
  assumes "env S pid k" and "process_update_config S pid accounts c d w = Inr w'"
  shows "kept S pid k w w'"
  using env_runtime(1) [OF assms(1)] assms(2)
  by (rule update_config_run) (auto intro!: kept_final(1) [OF assms(1) kept_refl] quiet_updates wf_pool_at)

lemma hwm_kept:
  assumes "env S pid k" and "process_admin_set_hwm_config S pid accounts enabled bps w = Inr w'"
  shows "kept S pid k w w'"
  using env_runtime(1) [OF assms(1)] assms(2)
proof (rule hwm_config_run)
  fix pool_ai p
  assume p: "p = pool_at w (ai_key pool_ai)"
    and size: "STAKE_POOL_SIZE \<le> length (acc_data (accts w (ai_key pool_ai)))"
    and w': "w' = release pool_ai (write_pool pool_ai
       (if enabled then set_hwm_floor_bps bps (set_hwm_enabled enabled p)
        else set_hwm_enabled enabled p)
       (w\<lparr>mut_borrowed := ai_key pool_ai # mut_borrowed w\<rparr>))"
  have "wf_pool p"
    using wf_pool_at [OF size] by (simp add: p)
  then have "wf_pool (set_hwm_enabled b p) \<and> same_books p (set_hwm_enabled b p)"
    "wf_pool (set_hwm_floor_bps bps (set_hwm_enabled b p))
      \<and> same_books p (set_hwm_floor_bps bps (set_hwm_enabled b p))" for b
    using quiet_updates(4) [of p b] quiet_updates(5) [of "set_hwm_enabled b p" bps] same_books_trans
    by blast+
  then show ?thesis
    unfolding w' by (intro kept_final(1) [OF assms(1) kept_refl size]) (simp add: p)
qed

lemma unsigned_infos:
  assumes "unsigned_by a accounts" and "set infos \<subseteq> set accounts"
  shows "unsigned_by a infos"
  using assms by (auto simp: unsigned_by_def)

text \<open>Calls into the wrapper signed with the seeds of a pool.\<close>

lemma wrapper_kept:
  assumes "env S pid k" and "kept S pid k w0 w" and "ai_key percolator_ai \<noteq> pid"
    and "unsigned_by (vault_authority S pid k) [a, b, c]"
  shows "cpi_update_authority S w percolator_ai a b c (pool_seeds sk bmp) = Inr w' \<Longrightarrow> kept S pid k w0 w'"
    and "cpi_resolve_market S w percolator_ai a b (pool_seeds sk bmp) = Inr w' \<Longrightarrow> kept S pid k w0 w'"
    and "cpi_update_asset_authority S w percolator_ai a b c i kind sds = Inr w' \<Longrightarrow>
      \<forall>s \<in> set sds. \<not> record_seeds s \<and> \<not> vault_seeds k s \<Longrightarrow> kept S pid k w0 w'"
  unfolding cpi_defs Let_def
  by (erule kept_signed [OF assms(1,2), rotated 3]; use assms(3,4) in \<open>simp add: unsigned_by_def\<close>)+

lemma resolve_kept:
  assumes "env S pid k" and "no_self_call pid accounts" and "unsigned_by (vault_authority S pid k) accounts"
    and "process_admin_resolve_market S pid accounts w = Inr w'"
  shows "kept S pid k w w'"
  using env_runtime(1) [OF assms(1)] assms(4)
proof (rule resolve_run, goal_cases)
  case (1 admin_ai pool_ai slab_ai percolator_ai rest p b w1)
  note acc = 1(1) and val = 1(3) and cpi = 1(4) and size = 1(6) and w' = 1(7)
  have "kept S pid k w w1"
    using assms(2,3) by (intro wrapper_kept(2) [OF assms(1) kept_refl _ _ cpi, where c = pool_ai])
      (auto simp: acc no_self_call_def unsigned_by_def)
  then show ?case
    unfolding w' using val wf_pool_at [OF size] quiet_updates(2)
    by (intro kept_final(1) [OF assms(1)]) (auto simp: validate_admin_cpi_Inr)
qed

lemma transfer_kept:
  assumes "env S pid k" and "no_self_call pid accounts" and "unsigned_by (vault_authority S pid k) accounts"
    and "process_transfer_admin S pid accounts w = Inr w'"
  shows "kept S pid k w w'"
  using env_runtime(1) [OF assms(1)] assms(4)
proof (rule transfer_admin_run, goal_cases)
  case (1 admin_ai pool_ai slab_ai percolator_ai rest p w1)
  note acc = 1(1) and cpi = 1(10) and size = 1(12) and w' = 1(13) and size0 = 1(14)
  have "kept S pid k w w1"
    using assms(2,3) by (intro wrapper_kept(1) [OF assms(1) kept_refl _ _ cpi])
      (auto simp: acc no_self_call_def unsigned_by_def)
  then show ?case
    unfolding w' using size0 wf_pool_at [OF size] quiet_updates(3)
    by (intro kept_final(1) [OF assms(1)]) auto
qed

lemma oracle_kept:
  assumes "env S pid k" and "no_self_call pid accounts" and "unsigned_by (vault_authority S pid k) accounts"
    and "process_admin_set_oracle_authority S pid accounts authority w = Inr w'"
  shows "kept S pid k w w'"
  using env_runtime(1) [OF assms(1)] assms(4)
  by (rule oracle_run, intro wrapper_kept(3) [OF assms(1) kept_refl])
    (use assms(2,3) in \<open>auto simp: no_self_call_def unsigned_by_def\<close>)

lemma policy_kept:
  assumes "env S pid k" and "no_self_call pid accounts" and "unsigned_by (vault_authority S pid k) accounts"
    and "process_admin_set_insurance_policy S pid accounts authority base bps cooldown w = Inr w'"
  shows "kept S pid k w w'"
  using env_runtime(1) [OF assms(1)] assms(4)
proof (rule policy_run, goal_cases)
  case (1 admin_ai pool_ai slab_ai percolator_ai authority_ai rest b vb)
  note acc = 1(1) and val = 1(7) and cpi = 1(8)
  have pre: "ai_key percolator_ai \<noteq> pid"
    "unsigned_by (vault_authority S pid k) [pool_ai, authority_ai, slab_ai]"
    using assms(2,3) by (auto simp: acc no_self_call_def unsigned_by_def)
  show ?case
  proof (cases "ai_key pool_ai = k")
    case True
    then show ?thesis
      using val by (intro kept_policy [OF assms(1) kept_refl pre(1) _ pre(2) _ cpi])
        (auto simp: validate_admin_cpi_Inr)
  next
    case False
    then show ?thesis
      by (intro wrapper_kept(3) [OF assms(1) kept_refl pre cpi]) auto
  qed
qed

text \<open>A new pool is created beside the existing ones.\<close>

lemma init_kept:
  assumes env: "env S pid k" and self: "no_self_call pid accounts"
    and unsigned: "unsigned_by (vault_authority S pid k) accounts" and held: "pool_account pid w k"
    and run: "process_init_pool S pid accounts cooldown cap w = Inr w'"
  shows "kept S pid k w w' \<and> ai_key (accounts ! 2) \<noteq> k \<and> pool_like S pid w (ai_key (accounts ! 2))"
  using env_runtime(1) [OF env] run
proof (rule init_pool_run, goal_cases)
  case (1 admin_ai slab_ai pool_ai lp_mint_ai vault_ai vault_auth_ai collateral_mint_ai percolator_ai
    token_program system_program rent_sysvar rest w1 w2 w3 w4)
  note acc = 1(1) and addr = 1(3) and empty = 1(4) and c1 = 1(9) and c2 = 1(10) and c3 = 1(11)
    and c4 = 1(12) and w' = 1(14)
  have other: "ai_key pool_ai \<noteq> k"
    using held empty by (auto simp: pool_account_def STAKE_POOL_SIZE_def)
  have fresh: "ai_key pool_ai \<notin> record_keys S pid k" "pool_like S pid w (ai_key pool_ai)"
    using env_laws [OF env] by (auto simp: addr address_law_def pool_like_def empty [unfolded addr])
  have prog: "ai_key percolator_ai \<noteq> pid"
    using self by (simp add: acc no_self_call_def)
  have "kept S pid k w w1"
    using unsigned by (intro kept_create [OF env kept_refl fresh(1) _ _ c1]) (auto simp: acc unsigned_by_def)
  then have "kept S pid k w w2"
    by (rule wrapper_kept(1) [OF env _ prog _ c2]) (use unsigned in \<open>simp add: acc unsigned_by_def\<close>)
  then have "kept S pid k w w3"
    by (rule kept_signed [OF env _ _ _ _ c3])
      (use unsigned other env_runtime(2) [OF env] in \<open>simp_all add: acc unsigned_by_def\<close>)
  then have "kept S pid k w w4"
    by (rule kept_signed [OF env _ _ _ _ c4])
      (use unsigned other env_runtime(2) [OF env] in \<open>simp_all add: acc unsigned_by_def\<close>)
  then have "kept S pid k w w'"
    unfolding w' using other fresh(2) by (intro kept_release kept_write [OF env] kept_borrow) auto
  with other fresh(2) show ?case
    by (simp add: acc)
qed

lemma init_trading_kept:
  assumes "env S pid k" and "no_self_call pid accounts" and "unsigned_by (vault_authority S pid k) accounts"
    and "pool_account pid w k" and "process_init_trading_pool S pid accounts cooldown cap w = Inr w'"
  shows "kept S pid k w w'"
proof -
  obtain w1 where init: "process_init_pool S pid accounts cooldown cap w = Inr w1"
      and w': "w' = release (accounts ! 2) (write_pool (accounts ! 2)
        ((pool_at w1 (ai_key (accounts ! 2)))\<lparr>pool_mode := 1\<rparr>)
        (w1\<lparr>mut_borrowed := ai_key (accounts ! 2) # mut_borrowed w1\<rparr>))"
    using assms(5) by (rule init_trading_run)
  show ?thesis
    unfolding w' using init_kept [OF assms(1-4) init]
    by (intro kept_release kept_write [OF assms(1)] kept_borrow) auto
qed

text \<open>The handlers that move tokens, called for another pool.\<close>

lemma accrue_other:
  assumes "env S pid k" and "ai_key (accounts ! 1) \<noteq> k" and "process_accrue_fees S pid accounts w = Inr w'"
  shows "kept S pid k w w'"
  using env_runtime(1) [OF assms(1)] assms(3)
  by (rule accrue_run) (use assms(2) in \<open>auto intro!: kept_final(1) [OF assms(1) kept_refl]\<close>)

lemma flush_other:
  assumes env: "env S pid k" and self: "no_self_call pid accounts"
    and unsigned: "unsigned_by (vault_authority S pid k) accounts" and other: "ai_key (accounts ! 1) \<noteq> k"
    and run: "process_flush_to_insurance S pid accounts amount w = Inr w'"
  shows "kept S pid k w w'"
  using env_runtime(1) [OF env] run
proof (rule flush_run, goal_cases)
  case (1 caller pool_ai vault_ai vault_auth_ai slab_ai wrapper_vault percolator_ai token_program rest
    p available new_flushed w1)
  note acc = 1(1) and cpi = 1(16) and w' = 1(18) and size = 1(19)
  have "kept S pid k w w1"
    using cpi [unfolded cpi_top_up_insurance_def Let_def] self unsigned other
    by (elim kept_signed [OF env kept_borrow [OF kept_refl], rotated 3])
      (auto simp: acc no_self_call_def unsigned_by_def)
  then show ?case
    unfolding w' using other size by (intro kept_final(2) [OF env]) (auto simp: acc)
qed

lemma return_other:
  assumes env: "env S pid k" and self: "no_self_call pid accounts"
    and unsigned: "unsigned_by (vault_authority S pid k) accounts" and other: "ai_key (accounts ! 1) \<noteq> k"
    and run: "process_admin_withdraw_insurance S pid accounts amount w = Inr w'"
  shows "kept S pid k w w'"
  using env_runtime(1) [OF env] run
proof (rule withdraw_insurance_run, goal_cases)
  case (1 admin_ai pool_ai slab_ai vault_auth_ai stake_vault wrapper_vault wrapper_vault_pda percolator_ai
    token_program clock_ai rest p b w1 new_returned)
  note acc = 1(1) and val = 1(3) and cpi = 1(8) and w' = 1(12)
  have "kept S pid k w w1"
    using cpi [unfolded cpi_withdraw_insurance_def Let_def] self unsigned other
    by (elim kept_signed [OF env kept_refl, rotated 3])
      (auto simp: acc no_self_call_def unsigned_by_def)
  then show ?case
    unfolding w' using other val by (intro kept_final(1) [OF env]) (auto simp: acc validate_admin_cpi_Inr)
qed

text \<open>A token call that does not move the tracked pool's funds.\<close>

lemma token_kept:
  assumes "env S pid k" and "kept S pid k w0 w" and "call_program S c = spl_token_id S"
    and "unsigned_by (vault_authority S pid k) infos"
  shows "invoke S w c infos = Inr w' \<Longrightarrow> kept S pid k w0 w'"
    and "k' \<noteq> k \<Longrightarrow> invoke_signed S w c infos [vault_auth_seeds k' b] = Inr w' \<Longrightarrow> kept S pid k w0 w'"
proof -
  have prog: "call_program S c \<noteq> pid"
    using assms(3) env_runtime(2) [OF assms(1)] by simp
  show "invoke S w c infos = Inr w' \<Longrightarrow> kept S pid k w0 w'"
    by (rule kept_call [OF assms(1,2) prog assms(4)])
  show "k' \<noteq> k \<Longrightarrow> invoke_signed S w c infos [vault_auth_seeds k' b] = Inr w' \<Longrightarrow> kept S pid k w0 w'"
    by (rule kept_signed [OF assms(1,2) prog assms(4)]) simp_all
qed

lemma other_record:
  assumes "env S pid k" and "k' \<noteq> k"
  shows "fst (derive_deposit_pda S pid k' u) \<notin> insert k (record_keys S pid k)"
  using env_laws [OF assms(1)] assms(2) by (auto simp: address_law_def no_deposit_at_def)

lemma deposit_other:
  assumes env: "env S pid k" and unsigned: "unsigned_by (vault_authority S pid k) accounts"
    and other: "ai_key (accounts ! 1) \<noteq> k" and run: "process_deposit S pid accounts amount w = Inr w'"
  shows "kept S pid k w w'"
  using env_runtime(1) [OF env] run
proof (rule deposit_run, goal_cases)
  case (1 user_ai pool_ai user_ata vault_ai lp_mint_ai user_lp_ata vault_auth_ai deposit_ai token_program
    clock_sysvar system_program rest p dk lp new_deposited new_supply clk p1 w1 w2 w3 w4 d)
  note acc = 1(1) and dk = 1(3) and c1 = 1(17) and c2 = 1(18) and w3 = 1(23) and da = 1(24)
    and own = 1(26) and c3 = 1(27) and w' = 1(31) and size = 1(32)
  have pool: "ai_key pool_ai \<noteq> k"
    using other by (simp add: acc)
  have rec: "ai_key deposit_ai \<notin> insert k (record_keys S pid k)"
    unfolding da dk using other_record [OF env pool] .
  have "kept S pid k w w1"
    by (rule token_kept(1) [OF env kept_borrow [OF kept_refl] _ _ c1])
      (use unsigned in \<open>simp_all add: acc unsigned_by_def\<close>)
  then have "kept S pid k w w2"
    by (rule token_kept(2) [OF env _ _ _ pool c2])
      (use unsigned in \<open>simp_all add: acc unsigned_by_def\<close>)
  then have kept3: "kept S pid k w w3"
    unfolding w3 by (intro kept_write_other [OF env] pool size)
  have "kept S pid k w w4 \<and> acc_owner (accts w4 (ai_key deposit_ai)) = pid"
  proof (cases "acc_data (accts w3 dk) = []")
    case True
    then have create: "create_or_adopt_pda S w3 deposit_ai user_ai system_program pid STAKE_DEPOSIT_SIZE
        (deposit_seeds (ai_key pool_ai) (ai_key user_ai)
          (snd (derive_deposit_pda S pid (ai_key pool_ai) (ai_key user_ai)))) = Inr w4"
      using c3 by simp
    have "kept S pid k w w4"
      using unsigned rec by (intro kept_create [OF env kept3 _ _ _ create]) (auto simp: acc unsigned_by_def)
    then show ?thesis
      using create_or_adopt_pda_zeroed [OF env_runtime(4) [OF env] _ create]
      by (simp add: STAKE_DEPOSIT_SIZE_def)
  next
    case False
    then show ?thesis
      using own c3 kept3 by (auto simp: owned_by_def)
  qed
  then show ?case
    unfolding w' using rec by (intro kept_release kept_record [OF env] kept_borrow) auto
qed

lemma withdraw_other:
  assumes env: "env S pid k" and unsigned: "unsigned_by (vault_authority S pid k) accounts"
    and other: "ai_key (accounts ! 1) \<noteq> k" and run: "process_withdraw S pid accounts lp w = Inr w'"
  shows "kept S pid k w w'"
  using env_runtime(1) [OF env] run
proof (rule withdraw_run, goal_cases)
  case (1 user_ai pool_ai user_lp_ata lp_mint_ai vault_ai user_ata vault_auth_ai deposit_ai token_program
    clock_sysvar rest p p1 dk d c clk new_withdrawn new_supply w1 w2 w3 new_lp)
  note acc = 1(1) and dk = 1(3) and size = 1(8) and da = 1(14) and own = 1(15) and c1 = 1(29) and c2 = 1(30)
    and w3 = 1(33) and w' = 1(37)
  have pool: "ai_key pool_ai \<noteq> k"
    using other by (simp add: acc)
  have rec: "ai_key deposit_ai \<notin> insert k (record_keys S pid k)"
    unfolding da dk using other_record [OF env pool] .
  have eff: "cpi_effect_ok pid (write_pool pool_ai p1
        (w\<lparr>mut_borrowed := ai_key pool_ai # mut_borrowed w\<rparr>)) w2"
    using owner_law_invoke [OF env_runtime(6) [OF env] c1]
      owner_law_invoke_signed [OF env_runtime(6) [OF env] c2] env_runtime(2) [OF env]
    by (auto intro: cpi_effect_ok_trans)
  have "kept S pid k w w1"
    by (rule token_kept(1) [OF env kept_write_other [OF env kept_borrow [OF kept_refl] pool size] _ _ c1])
      (use unsigned in \<open>simp_all add: acc unsigned_by_def\<close>)
  then have "kept S pid k w w2"
    by (rule token_kept(2) [OF env _ _ _ pool c2])
      (use unsigned in \<open>simp_all add: acc unsigned_by_def\<close>)
  then have "kept S pid k w w3"
    unfolding w3 by (intro kept_write_other [OF env] pool size)
  moreover have "acc_owner (accts w3 (ai_key deposit_ai)) = pid"
    using eff own by (simp add: w3 write_pool_def cpi_effect_ok_def owned_by_def)
  ultimately show ?case
    unfolding w' using rec by (intro kept_release kept_record [OF env] kept_borrow) auto
qed

text \<open>A whole instruction keeps the books of \<open>k\<close> unless it moves tokens or records of \<open>k\<close>.\<close>

lemma dispatch_kept:
  assumes "env S pid k" and "no_self_call pid accounts" and "unsigned_by (vault_authority S pid k) accounts"
    and "pool_account pid w k" and "dispatch S pid accounts instr w = Inr w'"
    and "moves_books instr \<Longrightarrow> ai_key (accounts ! 1) \<noteq> k"
  shows "kept S pid k w w'"
proof (cases instr)
  case InitPool
  then show ?thesis
    using assms init_kept by (simp add: dispatch_def)
next
  case InitTradingPool
  then show ?thesis
    using assms init_trading_kept by (simp add: dispatch_def)
qed (use assms in \<open>simp_all add: dispatch_def retired_fail config_kept hwm_kept resolve_kept transfer_kept
    oracle_kept policy_kept accrue_other flush_other return_other deposit_other withdraw_other\<close>)

end

end
