(* ===== verification/Demo_Runtime.thy ===== *)
theory Demo_Runtime
  imports Vault_System
begin

text \<open>
  A concrete runtime that satisfies the laws, with one insurance pool, one trading pool record
  and one depositor, on which the theorems with hypotheses about the runtime are evaluated.  The
  system program creates and assigns accounts; the token and wrapper programs accept every call.
\<close>

section \<open>The runtime\<close>

definition demo_pid :: pubkey where "demo_pid = 1"
definition demo_token :: pubkey where "demo_token = 2"
definition demo_system :: pubkey where "demo_system = 3"
definition demo_wrapper :: pubkey where "demo_wrapper = 4"

fun demo_next :: "account_info list \<Rightarrow> fault + (account_info \<times> account_info list)" where
  "demo_next [] = Inl NotEnoughAccountKeys"
| "demo_next (a # as) = Inr (a, as)"

definition demo_address :: "seeds \<Rightarrow> pubkey \<Rightarrow> pubkey \<times> u8" where
  "demo_address sds pid =
     (if length sds = 3 then 22 else if hd sds = seed_of ''stake_pool'' then 20 else 21, 255)"

definition demo_alloc :: "pubkey \<Rightarrow> u64 \<Rightarrow> pubkey \<Rightarrow> world \<Rightarrow> fault + world" where
  "demo_alloc k n own w =
     (if acc_owner (accts w k) = demo_system
      then Inr (w\<lparr>accts := (accts w)(k := (accts w k)
             \<lparr>acc_data := replicate (unat n) 0, acc_owner := own\<rparr>)\<rparr>)
      else Inl (CalleeError 0))"

definition demo_assign :: "pubkey \<Rightarrow> pubkey \<Rightarrow> world \<Rightarrow> fault + world" where
  "demo_assign k own w =
     (if acc_owner (accts w k) = demo_system
      then Inr (w\<lparr>accts := (accts w)(k := (accts w k)\<lparr>acc_owner := own\<rparr>)\<rparr>)
      else Inl (CalleeError 0))"

definition demo_call :: "world \<Rightarrow> cpi_call \<Rightarrow> fault + world" where
  "demo_call w c = (case c of
     SystemCreateAccount _ k _ n own \<Rightarrow> demo_alloc k n own w
   | SystemAllocate k n \<Rightarrow> demo_alloc k n demo_system w
   | SystemAssign k own \<Rightarrow> demo_assign k own w
   | _ \<Rightarrow> Inr w)"

definition demo_sdk :: sdk where
  "demo_sdk = \<lparr>next_account_info = demo_next, find_program_address = demo_address,
     invoke = (\<lambda>w c infos. demo_call w c), invoke_signed = (\<lambda>w c infos sds. demo_call w c),
     rent_minimum_balance = (\<lambda>n. Inr (of_nat n)),
     clock_from_account_info = (\<lambda>w ai. Inr \<lparr>clock_slot = 1000, clock_epoch = 2\<rparr>),
     token_account_amount = (\<lambda>bs. if length bs = 8 then Inr (of_u64 bs) else Inl InvalidAccountData),
     spl_token_id = demo_token, system_program_id = demo_system\<rparr>"

lemma demo_sdk_simps [simp]:
  "next_account_info demo_sdk = demo_next" "find_program_address demo_sdk = demo_address"
  "invoke demo_sdk w c i = demo_call w c" "invoke_signed demo_sdk w c i s = demo_call w c"
  "rent_minimum_balance demo_sdk n = Inr (of_nat n)"
  "clock_from_account_info demo_sdk w ai = Inr \<lparr>clock_slot = 1000, clock_epoch = 2\<rparr>"
  "token_account_amount demo_sdk bs =
     (if length bs = 8 then Inr (of_u64 bs) else Inl InvalidAccountData)"
  "spl_token_id demo_sdk = demo_token" "system_program_id demo_sdk = demo_system"
  by (simp_all add: demo_sdk_def)

lemma demo_call_effect: "demo_call w c = Inr w' \<Longrightarrow> cpi_effect_ok demo_pid w w'"
  by (auto simp: demo_call_def demo_alloc_def demo_assign_def cpi_effect_ok_def demo_system_def
      demo_pid_def split: cpi_call.splits if_splits)

lemma demo_laws: "runtime_laws demo_sdk demo_pid"
  by (simp add: runtime_laws_def iter_law_def owner_law_def demo_call_effect)
    (simp add: demo_token_def demo_system_def demo_pid_def)

lemma demo_creation: "creation_law demo_sdk"
  by (auto simp: creation_law_def demo_call_def demo_alloc_def demo_assign_def split: if_splits)

lemma demo_addresses [simp]:
  "derive_pool_pda demo_sdk pid s = (20, 255)" "derive_vault_authority demo_sdk pid k = (21, 255)"
  "derive_deposit_pda demo_sdk pid k u = (22, 255)"
  by (simp_all add: derive_pool_pda_def derive_vault_authority_def derive_deposit_pda_def
      demo_address_def seed_of_def)

lemma demo_no_deposit: "k \<noteq> 22 \<Longrightarrow> no_deposit_at demo_sdk pid k"
  by (auto simp: no_deposit_at_def)

section \<open>Accounts\<close>

definition demo_info :: "pubkey \<Rightarrow> bool \<Rightarrow> account_info" where
  "demo_info k s = \<lparr>ai_key = k, ai_is_signer = s, ai_is_writable = True\<rparr>"

lemma demo_info_simps [simp]:
  "ai_key (demo_info k s) = k" "ai_is_signer (demo_info k s) = s" "ai_is_writable (demo_info k s)"
  by (simp_all add: demo_info_def)

text \<open>A pool with the given mode and totals, administered by key 11 for the slab at key 12.\<close>

definition demo_pool :: "u8 \<Rightarrow> u64 \<Rightarrow> u64 \<Rightarrow> stake_pool" where
  "demo_pool mode deposited supply' =
     (init_pool_fields 255 255 12 11 33 31 30 demo_wrapper 10 0 zeroed_pool)
     \<lparr>pool_mode := mode, total_deposited := deposited, total_lp_supply := supply'\<rparr>"

definition demo_deposit :: "u64 \<Rightarrow> u64 \<Rightarrow> stake_deposit" where
  "demo_deposit slot lp = zeroed_deposit\<lparr>dep_is_initialized := 1, dep_bump := 255, dep_pool := 20,
     dep_user := 10, last_deposit_slot := slot, lp_amount := lp\<rparr>"

definition demo_account :: "pubkey \<Rightarrow> byte list \<Rightarrow> account" where
  "demo_account own bs = \<lparr>acc_lamports = 0, acc_owner = own, acc_data = bs\<rparr>"

text \<open>The store with that pool at key 20, the depositor's record at key 22 and the vault's token
  account at key 30; every other account is empty and belongs to the system program.\<close>

definition demo_world :: "stake_pool \<Rightarrow> byte list \<Rightarrow> pubkey \<Rightarrow> u64 \<Rightarrow> world" where
  "demo_world p dep_bytes dep_owner balance =
     \<lparr>accts = (\<lambda>k. demo_account demo_system [])
       (12 := demo_account demo_wrapper [], 20 := demo_account demo_pid (encode_pool p),
        22 := demo_account dep_owner dep_bytes, 30 := demo_account demo_token (le_u64 balance)),
      mut_borrowed = []\<rparr>"

lemma demo_account_simps [simp]:
  "acc_data (demo_account own bs) = bs" "acc_owner (demo_account own bs) = own"
  "acc_lamports (demo_account own bs) = 0"
  by (simp_all add: demo_account_def)

lemma demo_world_simps [simp]:
  "accts (demo_world p bs own b) 20 = demo_account demo_pid (encode_pool p)"
  "accts (demo_world p bs own b) 22 = demo_account own bs"
  "accts (demo_world p bs own b) 30 = demo_account demo_token (le_u64 b)"
  "accts (demo_world p bs own b) 12 = demo_account demo_wrapper []"
  "mut_borrowed (demo_world p bs own b) = []"
  by (simp_all add: demo_world_def)

lemma wf_demo_pool [simp]: "wf_pool (demo_pool m d s)"
proof -
  have "wf_pool (init_pool_fields 255 255 12 11 33 31 30 demo_wrapper 10 0 zeroed_pool)"
    using init_fields_fresh [OF refl] by (simp add: fresh_pool_def)
  then show ?thesis
    by (simp add: demo_pool_def wf_pool_def)
qed

lemma demo_holds:
  "wf_pool p \<Longrightarrow> holds_pool demo_pid (demo_world p bs own b) 20 p"
  by (simp add: holds_pool_def pool_account_def pool_at_def STAKE_POOL_SIZE_def length_encode_pool
      decode_encode_pool)

lemma demo_pool_fields [simp]:
  "is_initialized (demo_pool m d s) = 1" "admin_transferred (demo_pool m d s) = 1"
  "admin (demo_pool m d s) = 11" "slab (demo_pool m d s) = 12" "vault (demo_pool m d s) = 30"
  "lp_mint (demo_pool m d s) = 31" "percolator_program (demo_pool m d s) = demo_wrapper"
  "pool_mode (demo_pool m d s) = m" "total_deposited (demo_pool m d s) = d"
  "total_lp_supply (demo_pool m d s) = s" "cooldown_slots (demo_pool m d s) = 10"
  "deposit_cap (demo_pool m d s) = 0" "total_flushed (demo_pool m d s) = 0"
  "total_returned (demo_pool m d s) = 0" "total_withdrawn (demo_pool m d s) = 0"
  "total_fees_earned (demo_pool m d s) = 0"
  by (simp_all add: demo_pool_def init_pool_fields_def set_discriminator_def zeroed_pool_def)

lemma demo_pool_flags [simp]:
  "\<not> is_resolved (demo_pool m d s)" "\<not> hwm_enabled (demo_pool m d s)"
  "validate_discriminator (demo_pool m d s)"
  using init_fields_fresh [OF refl, of 255 255 12 11 33 31 30 demo_wrapper 10 0]
  by (simp_all add: demo_pool_def fresh_pool_def)

lemma demo_read_pool:
  "wf_pool p \<Longrightarrow> as_pool (encode_pool p) = Inr p"
  by (simp add: as_pool_def length_encode_pool STAKE_POOL_SIZE_def decode_encode_pool)

lemma demo_read_deposit:
  "wf_deposit d \<Longrightarrow> as_deposit (encode_deposit d) = Inr d"
  by (simp add: as_deposit_def length_encode_deposit STAKE_DEPOSIT_SIZE_def decode_encode_deposit)

section \<open>Runs\<close>

lemmas demo_eval = Let_def try_borrow_mut_data_def try_borrow_data_def data_is_empty_def
  info_account_def info_owner_def info_lamports_def demo_read_pool demo_read_deposit
  verify_token_program_def demo_call_def write_pool_def

definition demo_init_accounts :: "account_info list" where
  "demo_init_accounts = [demo_info 11 True, demo_info 12 False, demo_info 20 False, demo_info 31 False,
     demo_info 30 False, demo_info 21 False, demo_info 33 False, demo_info demo_wrapper False,
     demo_info demo_token False, demo_info demo_system False, demo_info 51 False]"

definition demo_deposit_accounts :: "account_info list" where
  "demo_deposit_accounts = [demo_info 10 True, demo_info 20 False, demo_info 40 False,
     demo_info 30 False, demo_info 31 False, demo_info 41 False, demo_info 21 False,
     demo_info 22 False, demo_info demo_token False, demo_info 50 False, demo_info demo_system False]"

lemma demo_calc_lp: "pool_calc_lp_for_deposit (demo_pool 0 3000 1000) 500 = Some 166"
  by (simp add: pool_calc_lp_for_deposit_def total_pool_value_def checked_add_def checked_sub_def
      unwrap_or_def share_eval)

lemma demo_deposit_runs:
  "\<exists>w'. process_deposit demo_sdk demo_pid demo_deposit_accounts 500
     (demo_world (demo_pool 0 3000 1000) [] demo_system 0) = Inr w'"
  unfolding process_deposit_def demo_deposit_accounts_def
  by (simp add: demo_eval demo_calc_lp checked_add_def create_or_adopt_pda_def demo_alloc_def
      deposit_fields_def as_deposit_def STAKE_DEPOSIT_SIZE_def decode_deposit_zero zeroed_deposit_def
      set_deposit_discriminator_def)

end
