(* ===== verification/User_Properties.thy ===== *)
theory User_Properties
  imports Demo_Runtime
begin

text \<open>
  What the user-facing handlers do, end to end: the conditions a successful deposit or
  withdrawal has met, the token calls it has made, the pool and the depositor's record it leaves, and the
  booking of the fee crank.
\<close>

section \<open>The depositor's record\<close>

text \<open>A token instruction changes only accounts of the token program.\<close>

definition token_frame_law :: "sdk \<Rightarrow> bool" where
  "token_frame_law S \<longleftrightarrow> (\<forall>w c w' k. call_program S c = spl_token_id S \<longrightarrow>
     ((\<exists>i. invoke S w c i = Inr w') \<or> (\<exists>i s. invoke_signed S w c i s = Inr w')) \<longrightarrow>
     acc_owner (accts w k) \<noteq> spl_token_id S \<longrightarrow>
     acc_owner (accts w' k) = acc_owner (accts w k) \<and> acc_data (accts w' k) = acc_data (accts w k))"

text \<open>The clock sysvar has one value throughout a transaction.\<close>

definition clock_law :: "sdk \<Rightarrow> clock \<Rightarrow> bool" where
  "clock_law S clk \<longleftrightarrow> (\<forall>w ai c. clock_from_account_info S w ai = Inr c \<longrightarrow> c = clk)"

lemma token_frameD:
  assumes "token_frame_law S" and "call_program S c = spl_token_id S"
    and "acc_owner (accts w k) \<noteq> spl_token_id S"
  shows "invoke S w c i = Inr w' \<Longrightarrow>
      acc_owner (accts w' k) = acc_owner (accts w k) \<and> acc_data (accts w' k) = acc_data (accts w k)"
    and "invoke_signed S w c i s = Inr w' \<Longrightarrow>
      acc_owner (accts w' k) = acc_owner (accts w k) \<and> acc_data (accts w' k) = acc_data (accts w k)"
  using assms unfolding token_frame_law_def by blast+

text \<open>The record a deposit starts from: the stored one, or zeroes when there is none yet.\<close>

definition deposit_record :: "world \<Rightarrow> pubkey \<Rightarrow> stake_deposit" where
  "deposit_record w dk = (if acc_data (accts w dk) = [] then zeroed_deposit else deposit_at w dk)"

lemma deposit_fields_exact:
  assumes "deposit_fields b pk u lp slot cooldown d = Inr d'" and "wf_deposit d"
  shows "wf_deposit d' \<and> unat (lp_amount d') = unat (lp_amount d) + unat lp
    \<and> last_deposit_slot d' =
        weighted_deposit_slot (lp_amount d) (last_deposit_slot d) lp slot cooldown
    \<and> dep_is_initialized d' = 1 \<and> dep_user d' = u \<and> dep_pool d' = pk"
  using assms
  by (auto simp: deposit_fields_def Let_def res_inv checked_add_Some wf_deposit_def
      set_deposit_discriminator_def copy_into_def STAKE_DEPOSIT_DISCRIMINATOR_def)

lemma wf_deposit_record:
  "acc_data (accts w dk) = [] \<or> STAKE_DEPOSIT_SIZE \<le> length (acc_data (accts w dk)) \<Longrightarrow>
    wf_deposit (deposit_record w dk)"
  by (auto simp: deposit_record_def wf_deposit_at)

section \<open>The calls\<close>

text \<open>Two stores that agree on every account outside \<open>K\<close>.\<close>

definition same_but :: "pubkey set \<Rightarrow> world \<Rightarrow> world \<Rightarrow> bool" where
  "same_but K w w' \<longleftrightarrow> (\<forall>a. a \<notin> K \<longrightarrow> accts w' a = accts w a)"

text \<open>The token calls of a deposit, one after the other from the store in which the pool is borrowed: the user's
  transfer of the amount into the vault, and the mint of the LP tokens to the user's LP account, signed with the
  seeds of the vault authority.\<close>

definition deposit_calls :: "sdk \<Rightarrow> pubkey \<Rightarrow> account_info list \<Rightarrow> u64 \<Rightarrow> u64 \<Rightarrow> world \<Rightarrow> world \<Rightarrow> bool" where
  "deposit_calls S pid accounts amount lp w w2 \<longleftrightarrow>
     (\<exists>w1. invoke S (w\<lparr>mut_borrowed := ai_key (accounts ! 1) # mut_borrowed w\<rparr>)
          (TokenTransfer (spl_token_id S) (ai_key (accounts ! 2)) (ai_key (accounts ! 3)) (ai_key (accounts ! 0)) amount)
          [accounts ! 2, accounts ! 3, accounts ! 0, accounts ! 8] = Inr w1
       \<and> invoke_signed S w1
          (TokenMintTo (spl_token_id S) (ai_key (accounts ! 4)) (ai_key (accounts ! 5))
             (fst (derive_vault_authority S pid (ai_key (accounts ! 1)))) lp)
          [accounts ! 4, accounts ! 5, accounts ! 6, accounts ! 8]
          [vault_auth_seeds (ai_key (accounts ! 1)) (snd (derive_vault_authority S pid (ai_key (accounts ! 1))))]
        = Inr w2)"

text \<open>Between the booking of the pool and the booking of the record, a new record's account is created at the user's
  expense; an existing one is left as it is.\<close>

definition opens_record :: "sdk \<Rightarrow> pubkey \<Rightarrow> account_info list \<Rightarrow> bool \<Rightarrow> world \<Rightarrow> world \<Rightarrow> bool" where
  "opens_record S pid accounts fresh w3 w4 \<longleftrightarrow>
     (if fresh then create_or_adopt_pda S w3 (accounts ! 7) (accounts ! 0) (accounts ! 10) pid STAKE_DEPOSIT_SIZE
        (deposit_seeds (ai_key (accounts ! 1)) (ai_key (accounts ! 0))
          (snd (derive_deposit_pda S pid (ai_key (accounts ! 1)) (ai_key (accounts ! 0))))) = Inr w4
      else w4 = w3)"

text \<open>The token calls of a withdrawal, from the store in which the high-water mark has been refreshed: the burn of the
  user's LP tokens, and the payment out of the vault, signed with the seeds of the vault authority.\<close>

definition withdraw_calls :: "sdk \<Rightarrow> pubkey \<Rightarrow> account_info list \<Rightarrow> u64 \<Rightarrow> u64 \<Rightarrow> world \<Rightarrow> world \<Rightarrow> bool" where
  "withdraw_calls S pid accounts lp c w w2 \<longleftrightarrow>
     (\<exists>w1. invoke S w
          (TokenBurn (spl_token_id S) (ai_key (accounts ! 2)) (ai_key (accounts ! 3)) (ai_key (accounts ! 0)) lp)
          [accounts ! 2, accounts ! 3, accounts ! 0, accounts ! 8] = Inr w1
       \<and> invoke_signed S w1
          (TokenTransfer (spl_token_id S) (ai_key (accounts ! 4)) (ai_key (accounts ! 5))
             (fst (derive_vault_authority S pid (ai_key (accounts ! 1)))) c)
          [accounts ! 4, accounts ! 5, accounts ! 6, accounts ! 8]
          [vault_auth_seeds (ai_key (accounts ! 1)) (snd (derive_vault_authority S pid (ai_key (accounts ! 1))))]
        = Inr w2)"

lemma same_but_writes [simp]:
  "ai_key ai \<in> K \<Longrightarrow> same_but K w (write_pool ai p w') = same_but K w w'"
  "ai_key ai \<in> K \<Longrightarrow> same_but K w (write_deposit ai d w') = same_but K w w'"
  "same_but K w (release ai w') = same_but K w w'"
  "same_but K w (w'\<lparr>mut_borrowed := b\<rparr>) = same_but K w w'"
  "same_but K w w"
  by (auto simp: same_but_def write_pool_def write_deposit_def write_data_def release_def) metis+

section \<open>Deposit\<close>

text \<open>After the creation step the account holds the record the deposit starts from.\<close>

lemma record_after_creation:
  assumes "creation_law S" and "ai_key deposit_ai = dk"
    and "acc_data (accts w3 dk) = acc_data (accts w dk)"
    and "(if acc_data (accts w3 dk) = []
      then create_or_adopt_pda S w3 deposit_ai payer sys pid STAKE_DEPOSIT_SIZE sd else Inr w3) = Inr w4"
  shows "deposit_at w4 dk = deposit_record w dk"
proof (cases "acc_data (accts w dk) = []")
  case True
  then have "acc_data (accts w4 dk) = replicate 152 0"
    using assms create_or_adopt_pda_zeroed [OF assms(1), of STAKE_DEPOSIT_SIZE w3 deposit_ai]
    by (auto simp: STAKE_DEPOSIT_SIZE_def)
  then show ?thesis
    using True by (simp add: deposit_record_def deposit_at_def STAKE_DEPOSIT_SIZE_def
        decode_deposit_zero)
next
  case False
  with assms show ?thesis
    by (simp add: deposit_record_def deposit_at_def)
qed

lemma holds_pool_write_touched:
  assumes "holds_pool pid w (ai_key ai) p" and "wf_pool q"
  shows "holds_pool pid (write_pool ai (touch_hwm e q) (write_pool ai q w)) (ai_key ai) (touch_hwm e q)"
  using assms touch_hwm_reserved(1) [OF assms(2)] holds_pool_write [of pid w "ai_key ai" p ai q]
    holds_pool_write [of pid "write_pool ai q w" "ai_key ai" q ai "touch_hwm e q"] by simp

lemma record_under_pool_writes:
  assumes "cpi_effect_ok pid (w\<lparr>mut_borrowed := ai_key ai # mut_borrowed w\<rparr>) w2"
    and "acc_data (accts w2 dk) = acc_data (accts w dk)"
    and "dk \<notin> set (mut_borrowed (write_pool ai q (write_pool ai p1 w2)))"
  shows "dk \<noteq> ai_key ai"
    and "acc_data (accts (write_pool ai q (write_pool ai p1 w2)) dk) = acc_data (accts w dk)"
proof -
  show "dk \<noteq> ai_key ai"
    using assms(1,3) by (auto simp: write_pool_def cpi_effect_ok_def)
  with assms(2) show "acc_data (accts (write_pool ai q (write_pool ai p1 w2)) dk) = acc_data (accts w dk)"
    by (simp add: write_pool_def)
qed

lemma pool_under_record_writes:
  assumes "holds_pool pid w2 (ai_key ai) p" and "wf_pool q"
    and "cpi_effect_ok pid (write_pool ai (touch_hwm e q) (write_pool ai q w2)) w4"
    and "ai_key dai \<noteq> ai_key ai"
  shows "holds_pool pid (release ai (release dai (write_deposit dai d (w4\<lparr>mut_borrowed := b\<rparr>))))
    (ai_key ai) (touch_hwm e q)"
proof -
  have "holds_pool pid w4 (ai_key ai) (touch_hwm e q)"
    using holds_pool_cpi [OF assms(3)] holds_pool_write_touched [OF assms(1,2)] by blast
  with assms(4) show ?thesis
    unfolding holds_pool_borrow by (intro holds_pool_write_deposit) simp_all
qed

lemma deposit_pool_and_record:
  assumes laws: "runtime_laws S pid" "creation_law S" "token_frame_law S"
    and run: "process_deposit S pid accounts amount w = Inr w'"
    and u: "u = ai_key (accounts ! 0)" and k: "k = ai_key (accounts ! 1)"
    and dk: "dk = fst (derive_deposit_pda S pid k u)"
    and held: "holds_pool pid w k p" and dep: "acc_owner (accts w dk) \<noteq> spl_token_id S"
    and clock: "clock_law S clk"
  shows "\<exists>lp p1. ai_is_signer (accounts ! 0)
    \<and> pool_step p (DepositEv amount lp (clock_epoch clk)) (touch_hwm (clock_epoch clk) p1)
    \<and> pool_calc_lp_for_deposit p amount = Some lp
    \<and> p1 = p\<lparr>total_deposited := total_deposited p + amount, total_lp_supply := total_lp_supply p + lp\<rparr>
    \<and> holds_pool pid w' k (touch_hwm (clock_epoch clk) p1)
    \<and> wf_deposit (deposit_record w dk)
    \<and> deposit_fields (snd (derive_deposit_pda S pid k u)) k u lp (clock_slot clk) (cooldown_slots p)
        (deposit_record w dk) = Inr (deposit_at w' dk)"
  using runtime_lawsD(1) [OF laws(1)] run
proof (rule deposit_run, goal_cases)
  case (1 user_ai pool_ai user_ata vault_ai lp_mint_ai user_lp_ata vault_auth_ai deposit_ai token_program
    clock_sysvar system_program rest p0 dk' lp new_deposited new_supply clk' p1 w1 w2 w3 w4 d)
  note acc = 1(1) and p0 = 1(2) and dk' = 1(3) and guards = 1(4,5,7,10-12,15,16) and sums = 1(19,20)
    and p1 = 1(21) and c1 = 1(17) and c2 = 1(18) and clk = 1(22) and w3 = 1(23) and da = 1(24)
    and borrow3 = 1(25) and c3 = 1(27) and size = 1(29) and fields = 1(30) and w' = 1(31)
  have keys: "ai_key user_ai = u" "ai_key pool_ai = k" "dk' = dk" "clk' = clk" "p0 = p"
    using acc u k dk dk' clock clk p0 holds_pool_at [OF held] by (auto simp: clock_law_def)
  have eff: "cpi_effect_ok pid (w\<lparr>mut_borrowed := ai_key pool_ai # mut_borrowed w\<rparr>) w1"
    "cpi_effect_ok pid w1 w2"
    using owner_law_invoke [OF runtime_lawsD(2) [OF laws(1)] c1]
      owner_law_invoke_signed [OF runtime_lawsD(2) [OF laws(1)] c2] runtime_lawsD(3) [OF laws(1)]
    by simp_all
  then have eff2: "cpi_effect_ok pid (w\<lparr>mut_borrowed := ai_key pool_ai # mut_borrowed w\<rparr>) w2"
    by (blast intro: cpi_effect_ok_trans)
  have data2: "acc_data (accts w2 dk) = acc_data (accts w dk)"
    using token_frameD(1) [OF laws(3) _ _ c1, of dk] token_frameD(2) [OF laws(3) _ _ c2, of dk] dep
    by simp
  note apart = record_under_pool_writes(1) [OF eff2 data2 borrow3 [unfolded w3 keys(3)]]
    and data3 = record_under_pool_writes(2) [OF eff2 data2 borrow3 [unfolded w3 keys(3)], folded w3]
  have data4: "deposit_at w4 dk = deposit_record w dk"
    using record_after_creation [OF laws(2) _ data3] da c3 by (simp add: keys)
  have wf: "wf_deposit (deposit_record w dk)"
    using wf_deposit_at [OF size] by (simp add: keys data4)
  then have "wf_deposit d"
    using deposit_fields_exact [OF fields] by (simp add: keys data4)
  then have d: "deposit_at w' dk = d"
    using deposit_at_write_deposit [of d deposit_ai "w4\<lparr>mut_borrowed := dk' # mut_borrowed w4\<rparr>"]
    by (simp add: w' da keys)
  have step: "pool_step p (DepositEv amount lp (clock_epoch clk)) (touch_hwm (clock_epoch clk) p1)"
    using guards sums p1 by (auto simp: keys intro: pool_step.deposit)
  have new: "new_deposited = total_deposited p + amount" "new_supply = total_lp_supply p + lp"
    using sums by (auto simp: keys checked_add_def split: if_splits)
  have "cpi_effect_ok pid w3 w4"
    using c3 create_or_adopt_pda_effect [OF runtime_lawsD(2,4) [OF laws(1)]]
    by (auto split: if_splits)
  moreover have "holds_pool pid w2 (ai_key pool_ai) p" "wf_pool p1"
    using held holds_pool_cpi [OF eff2] p1 holds_pool_wf [OF held] by (simp_all add: keys wf_pool_def)
  ultimately have "holds_pool pid w' k (touch_hwm (clock_epoch clk) p1)"
    using pool_under_record_writes [of pid w2 pool_ai p p1] apart da keys(2-4) by (simp add: w3 w')
  with step guards p1 new fields d wf show ?thesis
    by (auto simp: keys acc data4)
qed

lemma deposit_calls_made:
  assumes laws: "runtime_laws S pid" "token_frame_law S"
    and run: "process_deposit S pid accounts amount w = Inr w'"
    and u: "u = ai_key (accounts ! 0)" and k: "k = ai_key (accounts ! 1)"
    and dk: "dk = fst (derive_deposit_pda S pid k u)"
    and held: "holds_pool pid w k p" and dep: "acc_owner (accts w dk) \<noteq> spl_token_id S"
  shows "amount \<noteq> 0 \<and> validate_discriminator p \<and> vault p = ai_key (accounts ! 3) \<and> lp_mint p = ai_key (accounts ! 4)
    \<and> ai_key (accounts ! 6) = fst (derive_vault_authority S pid k) \<and> ai_key (accounts ! 7) = dk
    \<and> ai_key (accounts ! 8) = spl_token_id S
    \<and> (\<exists>lp w2 w3 w4. pool_calc_lp_for_deposit p amount = Some lp
        \<and> deposit_calls S pid accounts amount lp w w2 \<and> same_but {k} w2 w3
        \<and> opens_record S pid accounts (acc_data (accts w dk) = []) w3 w4
        \<and> same_but {k, dk} w4 w')"
  using runtime_lawsD(1) [OF laws(1)] run
proof (rule deposit_run, goal_cases)
  case (1 user_ai pool_ai user_ata vault_ai lp_mint_ai user_lp_ata vault_auth_ai deposit_ai token_program
    clock_sysvar system_program rest p0 dk' lp new_deposited new_supply clk' p1 w1 w2 w3 w4 d)
  note acc = 1(1) and p0 = 1(2) and dk' = 1(3) and guards = 1(4,8,9,13,14,15,33) and c1 = 1(17) and c2 = 1(18)
    and w3 = 1(23) and da = 1(24) and borrow3 = 1(25) and c3 = 1(27) and w' = 1(31)
  have keys: "ai_key user_ai = u" "ai_key pool_ai = k" "dk' = dk" "p0 = p"
    using acc u k dk dk' p0 holds_pool_at [OF held] by auto
  have eff2: "cpi_effect_ok pid (w\<lparr>mut_borrowed := ai_key pool_ai # mut_borrowed w\<rparr>) w2"
    using owner_law_invoke [OF runtime_lawsD(2) [OF laws(1)] c1]
      owner_law_invoke_signed [OF runtime_lawsD(2) [OF laws(1)] c2] runtime_lawsD(3) [OF laws(1)]
    by (auto intro: cpi_effect_ok_trans)
  have data2: "acc_data (accts w2 dk) = acc_data (accts w dk)"
    using token_frameD(1) [OF laws(2) _ _ c1, of dk] token_frameD(2) [OF laws(2) _ _ c2, of dk] dep
    by simp
  note data3 = record_under_pool_writes(2) [OF eff2 data2 borrow3 [unfolded w3 keys(3)], folded w3]
  have "deposit_calls S pid accounts amount lp w w2"
    using c1 c2 by (auto simp: deposit_calls_def acc)
  moreover have "same_but {k} w2 w3" "same_but {k, dk} w4 w'"
    by (simp_all add: w3 w' keys da)
  moreover have "opens_record S pid accounts (acc_data (accts w dk) = []) w3 w4"
    using c3 by (auto simp: opens_record_def acc keys data3)
  ultimately show ?thesis
    using guards da by (auto simp: acc keys)
qed


lemma demo_token_frame: "token_frame_law demo_sdk"
  by (auto simp: token_frame_law_def demo_call_def demo_token_def demo_system_def split: cpi_call.splits)

lemma demo_clock: "clock_law demo_sdk \<lparr>clock_slot = 1000, clock_epoch = 2\<rparr>"
  by (simp add: clock_law_def)


section \<open>Withdraw\<close>

lemma withdraw_pool_and_record:
  assumes laws: "runtime_laws S pid" and run: "process_withdraw S pid accounts lp w = Inr w'"
    and u: "u = ai_key (accounts ! 0)" and k: "k = ai_key (accounts ! 1)"
    and dk: "dk = fst (derive_deposit_pda S pid k u)"
    and held: "holds_pool pid w k p" and clock: "clock_law S clk"
  shows "\<exists>c q. ai_is_signer (accounts ! 0) \<and> acc_owner (accts w dk) = pid
    \<and> dep_is_initialized (deposit_at w dk) = 1 \<and> dep_user (deposit_at w dk) = u
    \<and> dep_pool (deposit_at w dk) = k
    \<and> saturating_add (last_deposit_slot (deposit_at w dk)) (cooldown_slots p) \<le> clock_slot clk
    \<and> lp \<le> lp_amount (deposit_at w dk)
    \<and> pool_step p (WithdrawEv lp c (clock_epoch clk)) q
    \<and> holds_pool pid w' k q
    \<and> deposit_at w' dk = (deposit_at w dk)\<lparr>lp_amount := lp_amount (deposit_at w dk) - lp\<rparr>"
  using runtime_lawsD(1) [OF laws] run
proof (rule withdraw_run, goal_cases)
  case (1 user_ai pool_ai user_lp_ata lp_mint_ai vault_ai user_ata vault_auth_ai deposit_ai token_program
    clock_sysvar rest p0 p1 dk' d c clk' new_withdrawn new_supply w1 w2 w3 new_lp)
  note acc = 1(1) and p0 = 1(2) and dk' = 1(3) and d = 1(4) and size = 1(19) and signer = 1(6)
    and guards = 1(5,9,25-27,31,32) and p1 = 1(28) and da = 1(14,15) and apart = 1(17) and clk = 1(16)
    and rec = 1(20-24) and c1 = 1(29) and c2 = 1(30) and w3 = 1(33) and sub = 1(36) and w' = 1(37)
  have keys: "ai_key user_ai = u" "ai_key pool_ai = k" "dk' = dk" "clk' = clk" "p0 = p"
    using acc u k dk dk' clock clk p0 holds_pool_at [OF held] by (auto simp: clock_law_def)
  have owner: "acc_owner (accts w dk) = pid"
    using da by (simp add: owned_by_def keys)
  have eff: "cpi_effect_ok pid (write_pool pool_ai p1
        (w\<lparr>mut_borrowed := ai_key pool_ai # mut_borrowed w\<rparr>)) w2"
    using owner_law_invoke [OF runtime_lawsD(2) [OF laws] c1]
      owner_law_invoke_signed [OF runtime_lawsD(2) [OF laws] c2] runtime_lawsD(3) [OF laws]
    by (auto intro: cpi_effect_ok_trans)
  have "acc_data (accts w2 dk) = acc_data (accts w dk)"
    using eff owner apart by (simp add: cpi_effect_ok_def write_pool_def keys)
  then have rec3: "deposit_at w3 dk = deposit_at w dk"
    using apart by (simp add: w3 deposit_at_write_other keys) (simp add: deposit_at_def)
  have new_lp: "new_lp = lp_amount (deposit_at w dk) - lp"
    using sub rec3 by (auto simp: keys checked_sub_def split: if_splits)
  have "wf_deposit ((deposit_at w dk)\<lparr>lp_amount := new_lp\<rparr>)"
    using wf_deposit_at [OF size] by (simp add: keys wf_deposit_def)
  then have "deposit_at w' dk = (deposit_at w dk)\<lparr>lp_amount := new_lp\<rparr>"
    using deposit_at_write_deposit [of _ deposit_ai] da by (simp add: w' keys rec3)
  moreover have step: "pool_step p (WithdrawEv lp c (clock_epoch clk))
      (p1\<lparr>total_withdrawn := new_withdrawn, total_lp_supply := new_supply\<rparr>)"
    using guards p1 by (auto simp: keys intro: pool_step.withdraw)
  moreover have "holds_pool pid w' k (p1\<lparr>total_withdrawn := new_withdrawn, total_lp_supply := new_supply\<rparr>)"
  proof -
    have "wf_pool p1"
      using p1 holds_pool_wf [OF held] touch_hwm_reserved(1) by (simp add: keys)
    then have "holds_pool pid w2 k p1"
      using holds_pool_cpi [OF eff] held holds_pool_write [of pid _ k p pool_ai p1] by (simp add: keys)
    then have "holds_pool pid w3 k (p1\<lparr>total_withdrawn := new_withdrawn, total_lp_supply := new_supply\<rparr>)"
      using holds_pool_write [of pid w2 k p1 pool_ai] step_wf [OF step holds_pool_wf [OF held]]
      by (simp add: w3 keys)
    then show ?thesis
      unfolding w' holds_pool_borrow using apart da keys by (intro holds_pool_write_deposit) simp_all
  qed
  ultimately show ?thesis
    using signer owner rec new_lp by (auto simp: keys acc d not_less)
qed

lemma withdraw_calls_made:
  assumes laws: "runtime_laws S pid" and run: "process_withdraw S pid accounts lp w = Inr w'"
    and u: "u = ai_key (accounts ! 0)" and k: "k = ai_key (accounts ! 1)"
    and dk: "dk = fst (derive_deposit_pda S pid k u)"
    and held: "holds_pool pid w k p" and clock: "clock_law S clk"
  shows "lp \<noteq> 0 \<and> is_initialized p = 1 \<and> validate_discriminator p
    \<and> lp_mint p = ai_key (accounts ! 3) \<and> vault p = ai_key (accounts ! 4)
    \<and> ai_key (accounts ! 6) = fst (derive_vault_authority S pid k) \<and> ai_key (accounts ! 7) = dk
    \<and> ai_key (accounts ! 8) = spl_token_id S
    \<and> (\<exists>c w2. pool_calc_collateral_for_withdraw p lp = Some c
        \<and> withdraw_calls S pid accounts lp c
            (write_pool (accounts ! 1) (touch_hwm (clock_epoch clk) p) (w\<lparr>mut_borrowed := k # mut_borrowed w\<rparr>)) w2
        \<and> same_but {k, dk} w2 w')"
  using runtime_lawsD(1) [OF laws] run
proof (rule withdraw_run, goal_cases)
  case (1 user_ai pool_ai user_lp_ata lp_mint_ai vault_ai user_ata vault_auth_ai deposit_ai token_program
    clock_sysvar rest p0 p1 dk' d c clk' new_withdrawn new_supply w1 w2 w3 new_lp)
  note acc = 1(1) and p0 = 1(2) and dk' = 1(3) and guards = 1(5,9-13,25,38) and da = 1(14) and clk = 1(16)
    and p1 = 1(28) and c1 = 1(29) and c2 = 1(30) and w3 = 1(33) and w' = 1(37)
  have keys: "ai_key user_ai = u" "ai_key pool_ai = k" "dk' = dk" "clk' = clk" "p0 = p"
    using acc u k dk dk' clock clk p0 holds_pool_at [OF held] by (auto simp: clock_law_def)
  have "withdraw_calls S pid accounts lp c
      (write_pool pool_ai (touch_hwm (clock_epoch clk) p) (w\<lparr>mut_borrowed := k # mut_borrowed w\<rparr>)) w2"
    using c1 c2 by (auto simp: withdraw_calls_def acc p1 keys)
  moreover have "same_but {k, dk} w2 w'"
    by (simp add: w3 w' keys da)
  ultimately show ?thesis
    using guards da by (auto simp: acc keys)
qed


definition demo_withdraw_accounts :: "account_info list" where
  "demo_withdraw_accounts = [demo_info 10 True, demo_info 20 False, demo_info 41 False,
     demo_info 31 False, demo_info 30 False, demo_info 40 False, demo_info 21 False,
     demo_info 22 False, demo_info demo_token False, demo_info 50 False]"

lemma wf_demo_deposit [simp]: "wf_deposit (demo_deposit s lp)"
  by (simp add: demo_deposit_def wf_deposit_def zeroed_deposit_def)

lemma demo_deposit_fields [simp]:
  "dep_is_initialized (demo_deposit s lp) = 1" "dep_user (demo_deposit s lp) = 10"
  "dep_pool (demo_deposit s lp) = 20" "last_deposit_slot (demo_deposit s lp) = s"
  "lp_amount (demo_deposit s lp) = lp"
  by (simp_all add: demo_deposit_def)

lemma demo_calc_collateral:
  "pool_calc_collateral_for_withdraw (demo_pool 0 3000 1000) 100 = Some 300"
  by (simp add: pool_calc_collateral_for_withdraw_def total_pool_value_def checked_add_def
      checked_sub_def share_eval)

lemma demo_withdraw_runs:
  "\<exists>w'. process_withdraw demo_sdk demo_pid demo_withdraw_accounts 100
     (demo_world (demo_pool 0 3000 1000) (encode_deposit (demo_deposit 900 150)) demo_pid 0) = Inr w'"
  unfolding process_withdraw_def demo_withdraw_accounts_def
  by (simp add: demo_eval demo_calc_collateral checked_add_def checked_sub_def saturating_add_def)


text \<open>C16. While the high-water mark is enabled, no withdrawal takes the pool below its floor: the worth
  left is at least the epoch's mark times the floor in basis points, and that mark is at least
  what the pool was worth before.\<close>
theorem withdraw_respects_floor:
  assumes "runtime_laws S pid" and "clock_law S clk"
    and "process_withdraw S pid accounts lp w = Inr w'" and "k = ai_key (accounts ! 1)"
    and "holds_pool pid w k p" and "hwm_enabled p"
  shows "\<exists>q. holds_pool pid w' k q
    \<and> unat (epoch_high_water_tvl q) * unat (hwm_floor_bps p) div 10000 \<le> worth q
    \<and> worth p \<le> unat (epoch_high_water_tvl q) \<and> hwm_last_epoch q = clock_epoch clk"
proof -
  obtain c q where step: "pool_step p (WithdrawEv lp c (clock_epoch clk)) q" and q: "holds_pool pid w' k q"
    using withdraw_pool_and_record [OF assms(1,3) refl assms(4) refl assms(5,2)] by blast
  have wf: "wf_pool p"
    using assms(5) by (rule holds_pool_wf)
  have "pool_calc_collateral_for_withdraw p lp = Some c"
    and permits: "hwm_permits (clock_epoch clk) p c"
    and mark: "epoch_high_water_tvl q = epoch_high_water_tvl (touch_hwm (clock_epoch clk) p)"
      "hwm_last_epoch q = hwm_last_epoch (touch_hwm (clock_epoch clk) p)"
    using step by (auto elim!: withdraw_stepE)
  then obtain v where v: "total_pool_value p = Some v"
    by (auto simp: pool_calc_collateral_for_withdraw_def bind_eq_Some_conv)
  then have tvl: "unat (tvl p) = worth p" and solv: "solvent p"
    using value_worth [OF v] by (simp_all add: tvl_def unwrap_or_def)
  note fresh = refresh_hwm_value [OF wf surjective_pairing, of "clock_epoch clk" "tvl p"]
  have touched: "epoch_high_water_tvl q = snd (refresh_hwm (clock_epoch clk) (tvl p) p)"
    "hwm_last_epoch q = clock_epoch clk"
    using mark fresh(2,3) assms(6) by (simp_all add: touch_hwm_def)
  have "worth q = worth p - unat c"
    using step_ledger [OF step solv] by (simp add: ledger_def)
  then have "unat (epoch_high_water_tvl q) * unat (hwm_floor_bps p) div 10000 \<le> worth q"
    using permits assms(6) tvl
    by (auto simp: hwm_permits_def hwm_withdrawal_allowed_exact touched unat_diff_exact)
  moreover have "tvl p \<le> snd (refresh_hwm (clock_epoch clk) (tvl p) p)"
    unfolding fresh(1) by simp
  then have "worth p \<le> unat (epoch_high_water_tvl q)"
    using tvl by (simp add: touched unat_le_iff)
  ultimately show ?thesis
    using q touched(2) by blast
qed

definition demo_hwm_pool :: stake_pool where
  "demo_hwm_pool = set_hwm_floor_bps 8000 (set_hwm_enabled True (demo_pool 0 3000 1000))"

lemma demo_hwm_pool_simps [simp]:
  "wf_pool demo_hwm_pool" "hwm_enabled demo_hwm_pool" "hwm_floor_bps demo_hwm_pool = 8000"
  "is_initialized demo_hwm_pool = 1" "validate_discriminator demo_hwm_pool"
  "lp_mint demo_hwm_pool = 31" "vault demo_hwm_pool = 30" "cooldown_slots demo_hwm_pool = 10"
  "total_withdrawn demo_hwm_pool = 0" "total_lp_supply demo_hwm_pool = 1000"
  "total_pool_value demo_hwm_pool = Some 3000"
proof -
  have "validate_discriminator (set_hwm_enabled True p) = validate_discriminator p" for p
    by (simp add: validate_discriminator_def set_hwm_enabled_def subslice_def)
  then show "validate_discriminator demo_hwm_pool"
    by (simp add: demo_hwm_pool_def floor_field.put_discriminator)
  show "total_pool_value demo_hwm_pool = Some 3000"
    by (simp add: demo_hwm_pool_def total_pool_value_def checked_add_def checked_sub_def)
qed (simp_all add: demo_hwm_pool_def floor_field.put_flags)

lemma demo_hwm_refresh:
  "snd (refresh_hwm 2 3000 demo_hwm_pool) = 3000"
  "hwm_floor_bps (fst (refresh_hwm 2 3000 demo_hwm_pool)) = 8000"
proof -
  note facts = refresh_hwm_value [OF demo_hwm_pool_simps(1) surjective_pairing, of 2 3000]
  have "subslice 16 8 (reserved (demo_pool 0 3000 1000)) = replicate 8 0"
    by (simp add: demo_pool_def init_pool_fields_def set_discriminator_def zeroed_pool_def
        copy_into_def subslice_def STAKE_POOL_DISCRIMINATOR_def)
  then have "epoch_high_water_tvl demo_hwm_pool = 0"
    by (simp add: demo_hwm_pool_def) (simp add: epoch_high_water_tvl_def set_hwm_enabled_def
        subslice_def from_le_bytes_zero)
  then show "snd (refresh_hwm 2 3000 demo_hwm_pool) = 3000"
    unfolding facts(1) by (simp add: max_def)
  show "hwm_floor_bps (fst (refresh_hwm 2 3000 demo_hwm_pool)) = 8000"
    using facts(6) by simp
qed

lemma demo_hwm_collateral: "pool_calc_collateral_for_withdraw demo_hwm_pool 100 = Some 300"
  by (simp add: pool_calc_collateral_for_withdraw_def share_eval)

lemma demo_hwm_withdraw_runs:
  "\<exists>w'. process_withdraw demo_sdk demo_pid demo_withdraw_accounts 100
     (demo_world demo_hwm_pool (encode_deposit (demo_deposit 900 150)) demo_pid 0) = Inr w'"
proof -
  have touched: "total_withdrawn (fst (refresh_hwm 2 3000 demo_hwm_pool)) = 0"
    "total_lp_supply (fst (refresh_hwm 2 3000 demo_hwm_pool)) = 1000"
    using refresh_hwm_value(5) [OF demo_hwm_pool_simps(1) surjective_pairing, of 2 3000] by auto
  show ?thesis
    unfolding process_withdraw_def demo_withdraw_accounts_def
    by (simp add: demo_eval demo_hwm_collateral checked_add_def checked_sub_def saturating_add_def
        unwrap_or_def case_prod_unfold demo_hwm_refresh hwm_withdrawal_allowed_exact touched)
qed

theorem withdraw_respects_floor_witness:
  "\<exists>w' q. process_withdraw demo_sdk demo_pid demo_withdraw_accounts 100
       (demo_world demo_hwm_pool (encode_deposit (demo_deposit 900 150)) demo_pid 0) = Inr w'
     \<and> holds_pool demo_pid w' 20 q
     \<and> unat (epoch_high_water_tvl q) * 8000 div 10000 \<le> worth q
     \<and> worth demo_hwm_pool \<le> unat (epoch_high_water_tvl q)"
proof -
  obtain w' where run: "process_withdraw demo_sdk demo_pid demo_withdraw_accounts 100
      (demo_world demo_hwm_pool (encode_deposit (demo_deposit 900 150)) demo_pid 0) = Inr w'"
    using demo_hwm_withdraw_runs by blast
  have k: "20 = ai_key (demo_withdraw_accounts ! 1)"
    by (simp add: demo_withdraw_accounts_def)
  show ?thesis
    using run withdraw_respects_floor [OF demo_laws demo_clock run k
        demo_holds [OF demo_hwm_pool_simps(1)] demo_hwm_pool_simps(2)] by auto
qed

section \<open>AccrueFees\<close>

text \<open>C23. The fee crank books exactly the surplus of the vault: with shares outstanding the fees grow by
  the vault balance beyond deposits plus fees less withdrawals plus the pre-supply offset, and
  afterwards nothing is left to book; without shares it books nothing and remembers the balance
  as the offset.\<close>
theorem accrue_books_surplus:
  assumes "runtime_laws S pid" and "process_accrue_fees S pid accounts w = Inr w'"
    and "k = ai_key (accounts ! 1)" and "holds_pool pid w k p"
  shows "pool_mode p = 1 \<and> (\<exists>b q. token_account_amount S (acc_data (accts w (vault p))) = Inr b
    \<and> holds_pool pid w' k q \<and> last_vault_snapshot q = b
    \<and> (if total_lp_supply p = 0
       then total_fees_earned q = total_fees_earned p \<and> pre_supply_vault_offset q = b
       else unat (total_fees_earned q) = unat (total_fees_earned p)
           + (unat b + unat (total_withdrawn p) - (unat (total_deposited p)
              + unat (total_fees_earned p) + unat (pre_supply_vault_offset p)))
         \<and> unat b + unat (total_withdrawn q) \<le> unat (total_deposited q)
             + unat (total_fees_earned q) + unat (pre_supply_vault_offset q)))"
  using runtime_lawsD(1) [OF assms(1)] assms(2)
proof (rule accrue_run, goal_cases)
  case (1 caller pool_ai vault_ai clock_ai rest p0 q balance clk)
  note acc = 1(1) and p0 = 1(2) and mode = 1(6,7) and bal = 1(9) and step = 1(11) and w' = 1(12)
  have keys: "ai_key pool_ai = k" "p0 = p"
    using acc assms(3) p0 holds_pool_at [OF assms(4)] by simp_all
  have wf: "wf_pool p"
    using assms(4) by (rule holds_pool_wf)
  have "holds_pool pid w' k q"
    using assms(4) step_wf [OF step] wf holds_pool_write [of pid _ k p pool_ai q]
    by (simp add: w' keys)
  moreover have "last_vault_snapshot q = balance \<and> (if total_lp_supply p = 0
       then total_fees_earned q = total_fees_earned p \<and> pre_supply_vault_offset q = balance
       else unat (total_fees_earned q) = unat (total_fees_earned p)
           + (unat balance + unat (total_withdrawn p) - (unat (total_deposited p)
              + unat (total_fees_earned p) + unat (pre_supply_vault_offset p)))
         \<and> unat balance + unat (total_withdrawn q) \<le> unat (total_deposited q)
             + unat (total_fees_earned q) + unat (pre_supply_vault_offset q))"
    using step unfolding keys
  proof (rule accrue_stepE, goal_cases)
    case 1
    then show ?case
      using wf by simp
  next
    case (2 v x f)
    then show ?case
      by (simp add: accrual_baseline_Some checked_add_Some) linarith
  qed
  ultimately show ?thesis
    using mode bal by (auto simp: keys)
qed

definition demo_accrue_accounts :: "account_info list" where
  "demo_accrue_accounts = [demo_info 10 True, demo_info 20 False, demo_info 30 False, demo_info 50 False]"

lemma demo_accrue_runs:
  "\<exists>w'. process_accrue_fees demo_sdk demo_pid demo_accrue_accounts
     (demo_world (demo_pool 1 3000 1000) [] demo_system 3200) = Inr w'"
proof -
  have "subslice 32 8 (reserved (demo_pool 1 3000 1000)) = replicate 8 0"
    by (simp add: demo_pool_def init_pool_fields_def set_discriminator_def zeroed_pool_def
        copy_into_def subslice_def STAKE_POOL_DISCRIMINATOR_def)
  then have "pre_supply_vault_offset (demo_pool 1 3000 1000) = 0"
    by (simp add: pre_supply_vault_offset_def from_le_bytes_zero)
  then show ?thesis
    unfolding process_accrue_fees_def demo_accrue_accounts_def
    by (simp add: demo_eval accrual_baseline_def checked_add_def checked_sub_def codec64.dec_enc)
qed

theorem accrue_books_surplus_witness:
  "\<exists>w' b q. process_accrue_fees demo_sdk demo_pid demo_accrue_accounts
       (demo_world (demo_pool 1 3000 1000) [] demo_system 3200) = Inr w'
     \<and> holds_pool demo_pid w' 20 q \<and> last_vault_snapshot q = b
     \<and> unat b + unat (total_withdrawn q) \<le> unat (total_deposited q)
         + unat (total_fees_earned q) + unat (pre_supply_vault_offset q)"
proof -
  obtain w' where run: "process_accrue_fees demo_sdk demo_pid demo_accrue_accounts
      (demo_world (demo_pool 1 3000 1000) [] demo_system 3200) = Inr w'"
    using demo_accrue_runs by blast
  have k: "20 = ai_key (demo_accrue_accounts ! 1)"
    by (simp add: demo_accrue_accounts_def)
  show ?thesis
    using run accrue_books_surplus [OF demo_laws run k demo_holds [OF wf_demo_pool]] by auto
qed

end
