(* ===== verification/Records.thy ===== *)
theory Records
  imports Books_Frame User_Properties
begin

text \<open>
  The books of a pool against its deposit records: the LP amounts in the records of a pool add up
  to the supply the pool has recorded, through every instruction.  What is assumed beyond the
  runtime's laws is how accounts at derived addresses come into being.
\<close>

section \<open>Laws of account creation\<close>

text \<open>An account at a record's address becomes the program's only by a call the program signs with a
  record's seeds.\<close>

definition record_creation_law :: "sdk \<Rightarrow> pubkey \<Rightarrow> pubkey \<Rightarrow> bool" where
  "record_creation_law S pid k \<longleftrightarrow> (\<forall>dk \<in> record_keys S pid k. \<forall>w c infos w'.
     acc_owner (accts w dk) \<noteq> pid \<longrightarrow>
     (invoke S w c infos = Inr w' \<longrightarrow> acc_owner (accts w' dk) \<noteq> pid)
     \<and> (\<forall>sds. invoke_signed S w c infos sds = Inr w' \<longrightarrow> (\<forall>s \<in> set sds. \<not> record_seeds s) \<longrightarrow>
          acc_owner (accts w' dk) \<noteq> pid))"

text \<open>The system program changes the data and owner of no account but the one it is told to.\<close>

definition system_frame_law :: "sdk \<Rightarrow> bool" where
  "system_frame_law S \<longleftrightarrow> (\<forall>w infos sds w' a b t lam n own.
     t \<noteq> a \<longrightarrow>
     (invoke_signed S w (SystemCreateAccount b t lam n own) infos sds = Inr w'
        \<or> invoke_signed S w (SystemAllocate t n) infos sds = Inr w'
        \<or> invoke_signed S w (SystemAssign t own) infos sds = Inr w'
        \<or> invoke S w (SystemTransfer b t lam) infos = Inr w') \<longrightarrow>
     acc_owner (accts w' a) = acc_owner (accts w a) \<and> acc_data (accts w' a) = acc_data (accts w a))"

lemma system_frameD:
  assumes "system_frame_law S" and "t \<noteq> a"
  shows "invoke_signed S w (SystemCreateAccount b t lam n own) infos sds = Inr w' \<Longrightarrow>
      acc_owner (accts w' a) = acc_owner (accts w a) \<and> acc_data (accts w' a) = acc_data (accts w a)"
    and "invoke_signed S w (SystemAllocate t n) infos sds = Inr w' \<Longrightarrow>
      acc_owner (accts w' a) = acc_owner (accts w a) \<and> acc_data (accts w' a) = acc_data (accts w a)"
    and "invoke_signed S w (SystemAssign t own) infos sds = Inr w' \<Longrightarrow>
      acc_owner (accts w' a) = acc_owner (accts w a) \<and> acc_data (accts w' a) = acc_data (accts w a)"
    and "invoke S w (SystemTransfer b t lam) infos = Inr w' \<Longrightarrow>
      acc_owner (accts w' a) = acc_owner (accts w a) \<and> acc_data (accts w' a) = acc_data (accts w a)"
  using assms unfolding system_frame_law_def by blast+

lemma create_frame:
  assumes law: "system_frame_law S" and a: "ai_key target \<noteq> a"
    and run: "create_or_adopt_pda S w target payer sys own n sd = Inr w'"
  shows "acc_owner (accts w' a) = acc_owner (accts w a) \<and> acc_data (accts w' a) = acc_data (accts w a)"
proof (cases "info_lamports w target = 0")
  case True
  with run obtain need where
    "invoke_signed S w (SystemCreateAccount (ai_key payer) (ai_key target) need (of_nat n) own)
      [payer, target, sys] [sd] = Inr w'"
    unfolding create_or_adopt_pda_def by (auto simp: bnd_Inr)
  then show ?thesis
    by (rule system_frameD(1) [OF law a])
next
  case False
  with run obtain need w1 w2 where fund: "(if info_lamports w target < need
        then invoke S w (SystemTransfer (ai_key payer) (ai_key target) (need - info_lamports w target))
          [payer, target, sys] else Inr w) = Inr w1"
      and alloc: "invoke_signed S w1 (SystemAllocate (ai_key target) (of_nat n)) [target, sys] [sd] = Inr w2"
      and assign: "invoke_signed S w2 (SystemAssign (ai_key target) own) [target, sys] [sd] = Inr w'"
    unfolding create_or_adopt_pda_def Let_def by (auto simp: bnd_Inr)
  have "acc_owner (accts w1 a) = acc_owner (accts w a) \<and> acc_data (accts w1 a) = acc_data (accts w a)"
    using fund by (auto split: if_splits dest: system_frameD(4) [OF law a])
  then show ?thesis
    using system_frameD(2) [OF law a alloc] system_frameD(3) [OF law a assign] by simp
qed

definition records_env :: "sdk \<Rightarrow> pubkey \<Rightarrow> pubkey \<Rightarrow> bool" where
  "records_env S pid k \<longleftrightarrow> runtime_laws S pid \<and> creation_law S \<and> address_law S pid k
     \<and> record_creation_law S pid k \<and> system_frame_law S"

section \<open>The sum of the records\<close>

definition record_lp :: "pubkey \<Rightarrow> world \<Rightarrow> pubkey \<Rightarrow> nat" where
  "record_lp pid w dk =
     (if acc_owner (accts w dk) = pid then unat (lp_amount (deposit_at w dk)) else 0)"

definition recorded_lp :: "sdk \<Rightarrow> pubkey \<Rightarrow> pubkey \<Rightarrow> world \<Rightarrow> nat" where
  "recorded_lp S pid k w = (\<Sum>dk \<in> record_keys S pid k. record_lp pid w dk)"

definition records_sized :: "sdk \<Rightarrow> pubkey \<Rightarrow> pubkey \<Rightarrow> world \<Rightarrow> bool" where
  "records_sized S pid k w \<longleftrightarrow> (\<forall>dk \<in> record_keys S pid k. acc_owner (accts w dk) = pid \<longrightarrow>
     length (acc_data (accts w dk)) = STAKE_DEPOSIT_SIZE)"

definition records_same :: "sdk \<Rightarrow> pubkey \<Rightarrow> pubkey \<Rightarrow> world \<Rightarrow> world \<Rightarrow> bool" where
  "records_same S pid k w w' \<longleftrightarrow> (\<forall>dk \<in> record_keys S pid k.
     (acc_owner (accts w' dk) = pid \<longleftrightarrow> acc_owner (accts w dk) = pid)
     \<and> (acc_owner (accts w dk) = pid \<longrightarrow> acc_data (accts w' dk) = acc_data (accts w dk)))"

text \<open>All records agree except that the one at \<open>dk\<close> may have changed.\<close>

lemma recorded_update:
  assumes "dk \<in> record_keys S pid k"
    and "\<And>a. a \<in> record_keys S pid k \<Longrightarrow> a \<noteq> dk \<Longrightarrow> record_lp pid w' a = record_lp pid w a"
  shows "recorded_lp S pid k w' + record_lp pid w dk = recorded_lp S pid k w + record_lp pid w' dk"
proof -
  have fin: "finite (record_keys S pid k)"
    by (rule finite)
  have "(\<Sum>a \<in> record_keys S pid k - {dk}. record_lp pid w' a)
      = (\<Sum>a \<in> record_keys S pid k - {dk}. record_lp pid w a)"
    using assms(2) by (intro sum.cong) auto
  then show ?thesis
    unfolding recorded_lp_def sum.remove [OF fin assms(1)] by simp
qed

lemma record_lp_same:
  "records_same S pid k w w' \<Longrightarrow> dk \<in> record_keys S pid k \<Longrightarrow> record_lp pid w' dk = record_lp pid w dk"
  by (auto simp: records_same_def record_lp_def deposit_at_def)

lemma records_same_sum:
  assumes "records_same S pid k w w'"
  shows "recorded_lp S pid k w' = recorded_lp S pid k w" and "records_sized S pid k w' = records_sized S pid k w"
proof -
  show "recorded_lp S pid k w' = recorded_lp S pid k w"
    unfolding recorded_lp_def using record_lp_same [OF assms] by (intro sum.cong) auto
  show "records_sized S pid k w' = records_sized S pid k w"
    using assms by (auto simp: records_sized_def records_same_def)
qed

lemma records_same_trans:
  "records_same S pid k w w' \<Longrightarrow> records_same S pid k w' w'' \<Longrightarrow> records_same S pid k w w''"
  by (auto simp: records_same_def)

section \<open>What leaves the records alone\<close>

text \<open>The records and the recorded supply of pool \<open>k\<close>, as they were at \<open>w0\<close>.\<close>

definition records_kept :: "sdk \<Rightarrow> pubkey \<Rightarrow> pubkey \<Rightarrow> world \<Rightarrow> world \<Rightarrow> bool" where
  "records_kept S pid k w0 w \<longleftrightarrow> (pool_account pid w0 k \<and> records_sized S pid k w0 \<longrightarrow>
     records_same S pid k w0 w \<and> pool_account pid w k
     \<and> total_lp_supply (pool_at w k) = total_lp_supply (pool_at w0 k))"

lemma records_call:
  assumes env: "records_env S pid k" and prog: "call_program S c \<noteq> pid"
    and call: "invoke S w c infos = Inr w'
      \<or> invoke_signed S w c infos sds = Inr w' \<and> (\<forall>s \<in> set sds. \<not> record_seeds s)"
  shows "records_same S pid k w w'"
    and "pool_account pid w k \<Longrightarrow> pool_account pid w' k \<and> pool_at w' k = pool_at w k"
proof -
  have own: "owner_law S pid" and new: "record_creation_law S pid k"
    using env by (simp_all add: records_env_def runtime_laws_def)
  have eff: "cpi_effect_ok pid w w'"
    using call owner_law_invoke [OF own _ prog] owner_law_invoke_signed [OF own _ prog] by blast
  then show "pool_account pid w k \<Longrightarrow> pool_account pid w' k \<and> pool_at w' k = pool_at w k"
    using cpi_effect_pool by blast
  show "records_same S pid k w w'"
    using eff new call unfolding records_same_def cpi_effect_ok_def record_creation_law_def by blast
qed

lemma records_kept_call:
  assumes "records_env S pid k" and "records_kept S pid k w0 w" and "call_program S c \<noteq> pid"
    and "invoke S w c infos = Inr w'
      \<or> invoke_signed S w c infos sds = Inr w' \<and> (\<forall>s \<in> set sds. \<not> record_seeds s)"
  shows "records_kept S pid k w0 w'"
  using records_call [OF assms(1,3,4)] assms(2) records_same_trans unfolding records_kept_def by metis

lemma records_same_write:
  assumes "\<And>dk. dk \<in> record_keys S pid k \<Longrightarrow> dk = ai_key ai \<Longrightarrow> acc_owner (accts w dk) \<noteq> pid"
  shows "records_same S pid k w (write_pool ai q w)"
  using assms by (auto simp: records_same_def write_pool_def) (metis write_data_other)

lemma not_a_record:
  assumes "records_env S pid k" and "records_sized S pid k w" and "pool_like S pid w a"
    and "a \<in> record_keys S pid k"
  shows "acc_owner (accts w a) \<noteq> pid"
  using assms by (auto simp: pool_like_def records_sized_def records_env_def address_law_def
      STAKE_POOL_SIZE_def STAKE_DEPOSIT_SIZE_def)

lemma records_kept_write:
  assumes env: "records_env S pid k" and kept: "records_kept S pid k w0 w"
    and like: "pool_like S pid w0 (ai_key ai)"
    and pool: "ai_key ai = k \<Longrightarrow> total_lp_supply (pool_at w k) = total_lp_supply (pool_at w0 k) \<Longrightarrow>
      wf_pool q \<and> total_lp_supply q = total_lp_supply (pool_at w0 k)"
  shows "records_kept S pid k w0 (write_pool ai q w)"
  unfolding records_kept_def
proof (intro impI conjI; elim conjE)
  assume ok: "pool_account pid w0 k" "records_sized S pid k w0"
  with kept have at_w: "records_same S pid k w0 w" "pool_account pid w k"
      "total_lp_supply (pool_at w k) = total_lp_supply (pool_at w0 k)"
    by (simp_all add: records_kept_def)
  have "records_same S pid k w (write_pool ai q w)"
    using not_a_record [OF env ok(2) like] at_w(1)
    by (intro records_same_write) (auto simp: records_same_def)
  with at_w(1) show "records_same S pid k w0 (write_pool ai q w)"
    by (rule records_same_trans)
  show "pool_account pid (write_pool ai q w) k"
    using pool at_w(2,3) pool_account_write_pool [of q pid w k ai]
    by (cases "ai_key ai = k") (auto simp: pool_account_def write_pool_def)
  show "total_lp_supply (pool_at (write_pool ai q w) k) = total_lp_supply (pool_at w0 k)"
    using pool at_w(3) pool_at_write_pool [of q ai w] pool_at_write_other(1) [of ai k q w]
    by (cases "ai_key ai = k") auto
qed

lemma records_kept_elsewhere:
  assumes "records_kept S pid k w0 w"
    and "\<And>a. a \<in> insert k (record_keys S pid k) \<Longrightarrow>
      acc_owner (accts w' a) = acc_owner (accts w a) \<and> acc_data (accts w' a) = acc_data (accts w a)"
  shows "records_kept S pid k w0 w'"
proof -
  have "records_same S pid k w w'"
    using assms(2) by (simp add: records_same_def)
  moreover have "pool_account pid w' k = pool_account pid w k" "pool_at w' k = pool_at w k"
    using assms(2) by (simp_all add: pool_account_def pool_at_def)
  ultimately show ?thesis
    using assms(1) records_same_trans by (simp add: records_kept_def) blast
qed

lemma records_kept_create:
  assumes env: "records_env S pid k" and kept: "records_kept S pid k w0 w"
    and new: "ai_key target \<notin> record_keys S pid k"
    and run: "create_or_adopt_pda S w target payer sys pid n sd = Inr w'"
  shows "records_kept S pid k w0 w'"
proof -
  have laws: "system_frame_law S" "owner_law S pid" "system_program_id S \<noteq> pid"
    using env by (simp_all add: records_env_def runtime_laws_def)
  have "records_same S pid k w w'"
    using create_frame [OF laws(1) _ run] new unfolding records_same_def by metis
  moreover have "pool_account pid w k \<Longrightarrow> pool_account pid w' k \<and> pool_at w' k = pool_at w k"
    using cpi_effect_pool [OF create_or_adopt_pda_effect [OF laws(2,3) run]] by blast
  ultimately show ?thesis
    using kept records_same_trans by (simp add: records_kept_def) blast
qed

interpretation records: books_frame records_env records_kept
proof
  fix S pid k w0 w c infos w'
  show "records_kept S pid k w w"
    by (simp add: records_kept_def records_same_def)
  show "records_kept S pid k w0 w \<Longrightarrow> records_kept S pid k w0 (w\<lparr>mut_borrowed := x\<rparr>)" for x
    by (simp add: records_kept_def records_same_def pool_account_def pool_at_def)
  assume env: "records_env S pid k"
  then show "runtime_laws S pid \<and> creation_law S \<and> address_law S pid k"
    by (simp add: records_env_def)
  assume kept: "records_kept S pid k w0 w"
  show "records_kept S pid k w0 w'" if "call_program S c \<noteq> pid" "invoke S w c infos = Inr w'"
    using records_kept_call [OF env kept that(1)] that(2) by blast
  show "records_kept S pid k w0 w'" if "call_program S c \<noteq> pid" "invoke_signed S w c infos sds = Inr w'"
    "\<forall>s \<in> set sds. \<not> record_seeds s \<and> \<not> vault_seeds k s" for sds
    using records_kept_call [OF env kept that(1)] that(2,3) by blast
  show "records_kept S pid k w0 w'" if "ai_key target \<notin> record_keys S pid k"
    "create_or_adopt_pda S w target payer sys pid n sd = Inr w'" for target payer sys n sd
    using records_kept_create [OF env kept that] .
  show "records_kept S pid k w0 w'" if "ai_key percolator_ai \<noteq> pid" "\<forall>s \<in> set sds. \<not> record_seeds s"
    "cpi_update_asset_authority S w percolator_ai a b sl i kind sds = Inr w'" for percolator_ai a b sl i kind sds
    using that unfolding cpi_update_asset_authority_def Let_def
    by (intro records_kept_call [OF env kept]) auto
  show "records_kept S pid k w0 (write_pool ai q w)" if "pool_like S pid w0 (ai_key ai)"
    "ai_key ai = k \<Longrightarrow> wf_pool q \<and> same_books (pool_at w k) q" for ai q
    using that by (intro records_kept_write [OF env kept]) (auto simp: same_books_def)
  show "records_kept S pid k w0 (write_deposit ai d w)" if "ai_key ai \<notin> insert k (record_keys S pid k)" for ai d
    using that by (intro records_kept_elsewhere [OF kept]) (metis write_data_other write_deposit_def)
qed

section \<open>The instructions that move shares or funds of the pool itself\<close>

lemma accrue_records:
  assumes env: "records_env S pid k" and run: "process_accrue_fees S pid accounts w = Inr w'"
  shows "records_kept S pid k w w'"
  using records.env_runtime(1) [OF env] run
proof (rule accrue_run)
  fix pool_ai p q balance clk
  assume p: "p = pool_at w (ai_key pool_ai)" and step: "pool_step p (AccrueEv balance (clock_slot clk)) q"
    and size: "STAKE_POOL_SIZE \<le> length (acc_data (accts w (ai_key pool_ai)))"
    and w': "w' = release pool_ai (write_pool pool_ai q (w\<lparr>mut_borrowed := ai_key pool_ai # mut_borrowed w\<rparr>))"
  have "wf_pool q" "total_lp_supply q = total_lp_supply p"
    using step_wf [OF step] wf_pool_at [OF size] step by (auto simp: p elim: accrue_stepE)
  then show ?thesis
    unfolding w' using size
    by (intro records.kept_release records_kept_write [OF env] records.kept_borrow records.kept_refl)
      (auto simp: p pool_like_def pool_at_def)
qed

lemma flush_records:
  assumes env: "records_env S pid k" and self: "no_self_call pid accounts"
    and run: "process_flush_to_insurance S pid accounts amount w = Inr w'"
  shows "records_kept S pid k w w'"
  using records.env_runtime(1) [OF env] run
proof (rule flush_run, goal_cases)
  case (1 caller pool_ai vault_ai vault_auth_ai slab_ai wrapper_vault percolator_ai token_program rest
    p available new_flushed w1)
  note acc = 1(1) and p = 1(2) and cpi = 1(16) and w' = 1(18) and size = 1(19)
  have "records_kept S pid k w w1"
    using cpi self unfolding cpi_top_up_insurance_def Let_def
    by (intro records_kept_call [OF env records.kept_borrow [OF records.kept_refl]])
      (auto simp: acc no_self_call_def)
  then show ?case
    unfolding w' using size wf_pool_at [OF size]
    by (intro records.kept_release records_kept_write [OF env]) (auto simp: p pool_like_def wf_pool_def)
qed

lemma return_records:
  assumes env: "records_env S pid k" and self: "no_self_call pid accounts"
    and run: "process_admin_withdraw_insurance S pid accounts amount w = Inr w'"
  shows "records_kept S pid k w w'"
  using records.env_runtime(1) [OF env] run
proof (rule withdraw_insurance_run, goal_cases)
  case (1 admin_ai pool_ai slab_ai vault_auth_ai stake_vault wrapper_vault wrapper_vault_pda percolator_ai
    token_program clock_ai rest p b w1 new_returned)
  note acc = 1(1) and val = 1(3) and cpi = 1(8) and size = 1(10) and w' = 1(12)
  have "records_kept S pid k w w1"
    using cpi self unfolding cpi_withdraw_insurance_def Let_def
    by (intro records_kept_call [OF env records.kept_refl]) (auto simp: acc no_self_call_def)
  then show ?case
    unfolding w' using val wf_pool_at [OF size]
    by (intro records.kept_release records_kept_write [OF env] records.kept_borrow)
      (auto simp: pool_like_def wf_pool_def validate_admin_cpi_Inr pool_at_def)
qed

text \<open>The record a user's deposit or withdrawal works on is one of the pool's.\<close>

lemma record_key: "fst (derive_deposit_pda S pid k u) \<in> record_keys S pid k"
  by (simp add: record_keys_def)

lemma pool_not_record: "records_env S pid k \<Longrightarrow> k \<notin> record_keys S pid k"
  by (simp add: records_env_def address_law_def no_deposit_at_def record_keys_def image_iff) metis

text \<open>A step of the books: the sum of the records moves with the supply, and no record but the one at \<open>dk\<close> is
  touched.\<close>

definition others_same :: "sdk \<Rightarrow> pubkey \<Rightarrow> pubkey \<Rightarrow> pubkey \<Rightarrow> world \<Rightarrow> world \<Rightarrow> bool" where
  "others_same S pid k dk w w' \<longleftrightarrow> (\<forall>a \<in> record_keys S pid k. a \<noteq> dk \<longrightarrow>
     (acc_owner (accts w' a) = pid \<longleftrightarrow> acc_owner (accts w a) = pid)
     \<and> (acc_owner (accts w a) = pid \<longrightarrow> acc_data (accts w' a) = acc_data (accts w a)))"

definition books_step :: "sdk \<Rightarrow> pubkey \<Rightarrow> pubkey \<Rightarrow> pubkey \<Rightarrow> world \<Rightarrow> world \<Rightarrow> bool" where
  "books_step S pid k dk w w' \<longleftrightarrow> pool_account pid w' k \<and> records_sized S pid k w' \<and> others_same S pid k dk w w'
     \<and> recorded_lp S pid k w' + shares (pool_at w k) = recorded_lp S pid k w + shares (pool_at w' k)"

lemma kept_books_step:
  assumes "records_kept S pid k w w'" and "pool_account pid w k" and "records_sized S pid k w"
  shows "books_step S pid k dk w w'"
  using assms records_same_sum [of S pid k w w']
  by (auto simp: records_kept_def books_step_def shares_def others_same_def records_same_def)

text \<open>The last write of a deposit or withdrawal: one record is replaced, in its size.\<close>

lemma write_record:
  assumes "ai_key ai = dk" and "dk \<noteq> k" and "wf_deposit d" and "acc_owner (accts w dk) = pid"
    and "length (acc_data (accts w dk)) = STAKE_DEPOSIT_SIZE" and "pool_account pid w k"
    and "w' = release ai' (release ai (write_deposit ai d (w\<lparr>mut_borrowed := b\<rparr>)))"
  shows "pool_account pid w' k" "pool_at w' k = pool_at w k" "record_lp pid w' dk = unat (lp_amount d)"
    "acc_owner (accts w' dk) = pid" "length (acc_data (accts w' dk)) = STAKE_DEPOSIT_SIZE"
    "\<And>a. a \<noteq> dk \<Longrightarrow> accts w' a = accts w a"
proof -
  have at_dk: "deposit_at (write_deposit ai d (w\<lparr>mut_borrowed := b\<rparr>)) dk = d"
    using deposit_at_write_deposit [OF assms(3), of ai] assms(1) by simp
  show same: "accts w' a = accts w a" if "a \<noteq> dk" for a
    using that assms(1) by (simp add: assms(7) write_deposit_def)
  then show "pool_account pid w' k" "pool_at w' k = pool_at w k"
    using assms(2,6) by (simp_all add: pool_account_def pool_at_def)
  show own: "acc_owner (accts w' dk) = pid"
    using assms(4) by (simp add: assms(7) write_deposit_def)
  show "length (acc_data (accts w' dk)) = STAKE_DEPOSIT_SIZE"
    using assms(1,3,5) by (simp add: assms(7) write_deposit_def write_data_def length_encode_deposit
        STAKE_DEPOSIT_SIZE_def)
  show "record_lp pid w' dk = unat (lp_amount d)"
    using own at_dk by (simp add: record_lp_def assms(7))
qed

lemma books_stepI:
  assumes "pool_account pid w' k" and "records_sized S pid k w" and "dk \<in> record_keys S pid k"
    and "others_same S pid k dk w w'"
    and "length (acc_data (accts w' dk)) = STAKE_DEPOSIT_SIZE"
    and "record_lp pid w' dk + shares (pool_at w k) = record_lp pid w dk + shares (pool_at w' k)"
  shows "books_step S pid k dk w w'"
proof -
  have "record_lp pid w' a = record_lp pid w a" if "a \<in> record_keys S pid k" "a \<noteq> dk" for a
    using assms(4) that by (auto simp: others_same_def record_lp_def deposit_at_def)
  then have "recorded_lp S pid k w' + record_lp pid w dk = recorded_lp S pid k w + record_lp pid w' dk"
    using recorded_update [OF assms(3)] by blast
  moreover have "records_sized S pid k w'"
    unfolding records_sized_def using assms(2,4,5) by (metis records_sized_def others_same_def)
  ultimately show ?thesis
    using assms(1,4,6) by (simp add: books_step_def)
qed

lemma records_two_calls:
  assumes env: "records_env S pid k"
    and prog: "call_program S a = spl_token_id S \<and> call_program S b = spl_token_id S
      \<and> (\<forall>s \<in> set sds. \<not> record_seeds s)"
    and c1: "invoke S w0 a infos = Inr w1" and c2: "invoke_signed S w1 b infos' sds = Inr w2"
    and w0: "accts w0 = accts w"
  shows "records_same S pid k w w2"
    and "pool_account pid w k \<Longrightarrow> pool_account pid w2 k \<and> pool_at w2 k = pool_at w k"
proof -
  have ids: "call_program S a \<noteq> pid" "call_program S b \<noteq> pid"
    using prog records.env_runtime(2) [OF env] by simp_all
  have one: "records_same S pid k w0 w1"
      "pool_account pid w0 k \<Longrightarrow> pool_account pid w1 k \<and> pool_at w1 k = pool_at w0 k"
    using records_call [OF env ids(1)] c1 by blast+
  have two: "records_same S pid k w1 w2"
      "pool_account pid w1 k \<Longrightarrow> pool_account pid w2 k \<and> pool_at w2 k = pool_at w1 k"
    using records_call [OF env ids(2)] c2 prog by blast+
  show "records_same S pid k w w2"
    using records_same_trans [OF one(1) two(1)] by (simp add: records_same_def w0)
  show "pool_account pid w k \<Longrightarrow> pool_account pid w2 k \<and> pool_at w2 k = pool_at w k"
    using one(2) two(2) by (simp add: pool_account_def pool_at_def w0)
qed

lemma pool_write:
  assumes "records_env S pid k" and "ai_key ai = k" and "wf_pool q" and "pool_account pid w k"
  shows "records_same S pid k w (write_pool ai q w)" and "pool_account pid (write_pool ai q w) k"
    and "pool_at (write_pool ai q w) k = q"
  using records_same_write [of S pid k ai w q] pool_not_record [OF assms(1)] assms(2,4)
    pool_account_write_pool [OF assms(3)] pool_at_write_pool [OF assms(3), of ai w] by auto

lemma two_pool_writes:
  assumes "records_env S pid k" and "ai_key ai = k" and "wf_pool q" and "wf_pool r" and "pool_account pid w k"
  shows "records_same S pid k w (write_pool ai r (write_pool ai q w))"
    and "pool_account pid (write_pool ai r (write_pool ai q w)) k"
    and "pool_at (write_pool ai r (write_pool ai q w)) k = r"
  using pool_write [OF assms(1,2,3,5)] pool_write [OF assms(1,2,4)] records_same_trans by blast+

text \<open>The step of a deposit that opens the record: it exists already, or is created empty.\<close>

lemma record_opened:
  assumes env: "records_env S pid k" and rec: "dk \<in> record_keys S pid k" "ai_key ai = dk"
    and sized: "records_sized S pid k w" and same: "records_same S pid k w w3"
    and held: "pool_account pid w3 k" and own: "acc_data (accts w3 dk) = [] \<or> owned_by pid w3 ai"
    and open_record: "(if acc_data (accts w3 dk) = []
      then create_or_adopt_pda S w3 ai payer sys pid STAKE_DEPOSIT_SIZE sd else Inr w3) = Inr w4"
  shows "acc_owner (accts w4 dk) = pid \<and> length (acc_data (accts w4 dk)) = STAKE_DEPOSIT_SIZE
    \<and> unat (lp_amount (deposit_at w4 dk)) = record_lp pid w dk
    \<and> pool_account pid w4 k \<and> pool_at w4 k = pool_at w3 k
    \<and> (\<forall>a. a \<noteq> dk \<longrightarrow> acc_owner (accts w4 a) = acc_owner (accts w3 a)
        \<and> acc_data (accts w4 a) = acc_data (accts w3 a))"
proof (cases "acc_data (accts w3 dk) = []")
  case True
  then have create: "create_or_adopt_pda S w3 ai payer sys pid STAKE_DEPOSIT_SIZE sd = Inr w4"
    using open_record by simp
  have laws: "creation_law S" "system_frame_law S" "owner_law S pid" "system_program_id S \<noteq> pid"
    using env by (simp_all add: records_env_def runtime_laws_def)
  have zero: "acc_data (accts w4 dk) = replicate 152 0" "acc_owner (accts w4 dk) = pid"
    using create_or_adopt_pda_zeroed [OF laws(1) _ create] rec(2) by (simp_all add: STAKE_DEPOSIT_SIZE_def)
  then have "lp_amount (deposit_at w4 dk) = 0"
    by (simp add: deposit_at_def STAKE_DEPOSIT_SIZE_def decode_deposit_zero zeroed_deposit_def)
  moreover have "acc_owner (accts w3 dk) \<noteq> pid"
    using True records_same_sum(2) [OF same] sized rec(1) by (auto simp: records_sized_def STAKE_DEPOSIT_SIZE_def)
  then have "record_lp pid w dk = 0"
    using same rec(1) by (simp add: records_same_def record_lp_def)
  moreover note cpi_effect_pool [OF create_or_adopt_pda_effect [OF laws(3,4) create] held]
    create_frame [OF laws(2) _ create]
  ultimately show ?thesis
    using zero rec(2) by (auto simp: STAKE_DEPOSIT_SIZE_def)
next
  case False
  then have "w4 = w3" and owned: "acc_owner (accts w3 dk) = pid"
    using open_record own rec(2) by (auto simp: owned_by_def)
  moreover have "record_lp pid w3 dk = record_lp pid w dk"
    using record_lp_same [OF same rec(1)] .
  moreover have "length (acc_data (accts w3 dk)) = STAKE_DEPOSIT_SIZE"
    using records_same_sum(2) [OF same] sized rec(1) owned by (auto simp: records_sized_def)
  ultimately show ?thesis
    using held by (simp add: record_lp_def)
qed

lemma deposit_records:
  assumes env: "records_env S pid k" and pool: "ai_key (accounts ! 1) = k"
    and held: "pool_account pid w k" and sized: "records_sized S pid k w"
    and run: "process_deposit S pid accounts amount w = Inr w'"
  shows "books_step S pid k (fst (derive_deposit_pda S pid k (ai_key (accounts ! 0)))) w w'"
  using records.env_runtime(1) [OF env] run
proof (rule deposit_run, goal_cases)
  case (1 user_ai pool_ai user_ata vault_ai lp_mint_ai user_lp_ata vault_auth_ai deposit_ai token_program
    clock_sysvar system_program rest p dk lp new_deposited new_supply clk p1 w1 w2 w3 w4 d)
  note acc = 1(1) and p = 1(2) and dk = 1(3) and c1 = 1(17) and c2 = 1(18) and sums = 1(20) and p1 = 1(21)
    and w3 = 1(23) and da = 1(24) and own = 1(26) and c3 = 1(27) and size = 1(29) and fields = 1(30)
    and w' = 1(31)
  have key: "ai_key pool_ai = k"
    using pool by (simp add: acc)
  have rec: "dk \<in> record_keys S pid k" "dk \<noteq> k"
    using pool_not_record [OF env] record_key [of S pid k "ai_key user_ai"] unfolding dk key by metis+
  have at2: "records_same S pid k w w2" "pool_account pid w2 k" "pool_at w2 k = p"
    using records_two_calls [OF env _ c1 c2, of w] held by (simp_all add: p key)
  have "wf_pool p1" "wf_pool (touch_hwm (clock_epoch clk) p1)"
    using wf_pool_at [of w k] held touch_hwm_reserved(1) [of p1 "clock_epoch clk"]
    by (simp_all add: p1 p key pool_account_def wf_pool_def)
  then have at3: "records_same S pid k w w3" "pool_account pid w3 k" "pool_at w3 k = touch_hwm (clock_epoch clk) p1"
    unfolding w3 using two_pool_writes [OF env key _ _ at2(2)] records_same_trans [OF at2(1)] by blast+
  have opened: "acc_owner (accts w4 dk) = pid" "length (acc_data (accts w4 dk)) = STAKE_DEPOSIT_SIZE"
    "unat (lp_amount (deposit_at w4 dk)) = record_lp pid w dk" "pool_account pid w4 k"
    "pool_at w4 k = pool_at w3 k" "\<And>a. a \<noteq> dk \<Longrightarrow> acc_owner (accts w4 a) = acc_owner (accts w3 a)
      \<and> acc_data (accts w4 a) = acc_data (accts w3 a)"
    using record_opened [OF env rec(1) da sized at3(1,2) own c3] by blast+
  have d: "wf_deposit d" "unat (lp_amount d) = record_lp pid w dk + unat lp"
    using deposit_fields_exact [OF fields] wf_deposit_at [OF size] opened(3) by simp_all
  note final = write_record [OF da rec(2) d(1) opened(1,2,4) w']
  have "shares (pool_at w' k) = shares (pool_at w k) + unat lp"
    using sums by (simp add: final(2) opened(5) at3(3) p1 p key shares_def checked_add_Some)
  moreover have "others_same S pid k dk w w'"
    using at3(1) opened(6) final(6) by (simp add: records_same_def others_same_def)
  ultimately have "books_step S pid k dk w w'"
    by (intro books_stepI [OF final(1) sized rec(1)] final(5)) (simp_all add: final(3) d(2))
  then show ?case
    by (simp add: dk key acc)
qed

lemma withdraw_records:
  assumes env: "records_env S pid k" and pool: "ai_key (accounts ! 1) = k"
    and held: "pool_account pid w k" and sized: "records_sized S pid k w"
    and run: "process_withdraw S pid accounts lp w = Inr w'"
  shows "books_step S pid k (fst (derive_deposit_pda S pid k (ai_key (accounts ! 0)))) w w'"
  using records.env_runtime(1) [OF env] run
proof (rule withdraw_run, goal_cases)
  case (1 user_ai pool_ai user_lp_ata lp_mint_ai vault_ai user_ata vault_auth_ai deposit_ai token_program
    clock_sysvar rest p p1 dk d c clk new_withdrawn new_supply w1 w2 w3 new_lp)
  note acc = 1(1) and p = 1(2) and dk = 1(3) and da = 1(14) and own = 1(15) and p1 = 1(28) and c1 = 1(29)
    and c2 = 1(30) and sums = 1(32) and w3 = 1(33) and size = 1(35) and sub = 1(36) and w' = 1(37)
  have key: "ai_key pool_ai = k"
    using pool by (simp add: acc)
  have rec: "dk \<in> record_keys S pid k" "dk \<noteq> k"
    using pool_not_record [OF env] record_key [of S pid k "ai_key user_ai"] unfolding dk key by metis+
  let ?w0 = "w\<lparr>mut_borrowed := ai_key pool_ai # mut_borrowed w\<rparr>"
  have wf: "wf_pool p1" "wf_pool (p1\<lparr>total_withdrawn := new_withdrawn, total_lp_supply := new_supply\<rparr>)"
    using wf_pool_at [of w k] held touch_hwm_reserved(1) [of p "clock_epoch clk"]
    by (simp_all add: p1 p key pool_account_def wf_pool_def)
  have at0: "records_same S pid k w (write_pool pool_ai p1 ?w0)" "pool_account pid (write_pool pool_ai p1 ?w0) k"
    using pool_write [OF env key wf(1), of ?w0] held by (simp_all add: records_same_def pool_account_def)
  have at2: "records_same S pid k (write_pool pool_ai p1 ?w0) w2" "pool_account pid w2 k"
    using records_two_calls [OF env _ c1 c2 refl] at0(2) by simp_all
  have at3: "records_same S pid k w w3" "pool_account pid w3 k"
    "pool_at w3 k = p1\<lparr>total_withdrawn := new_withdrawn, total_lp_supply := new_supply\<rparr>"
    unfolding w3 using pool_write [OF env key wf(2) at2(2)] records_same_trans at0(1) at2(1) by blast+
  have owned: "acc_owner (accts w dk) = pid" "acc_owner (accts w3 dk) = pid"
    using own at3(1) rec(1) by (simp_all add: owned_by_def da records_same_def)
  then have len: "length (acc_data (accts w3 dk)) = STAKE_DEPOSIT_SIZE"
    using records_same_sum(2) [OF at3(1)] sized rec(1) by (simp add: records_sized_def)
  have "wf_deposit ((deposit_at w3 dk)\<lparr>lp_amount := new_lp\<rparr>)"
    using wf_deposit_at [OF size] by (simp add: wf_deposit_def)
  note final = write_record [OF da rec(2) this owned(2) len at3(2) w']
  have "record_lp pid w dk = unat new_lp + unat lp"
    using record_lp_same [OF at3(1) rec(1)] sub owned by (simp add: record_lp_def checked_sub_Some)
  moreover have "shares (pool_at w k) = shares (pool_at w' k) + unat lp"
    using sums by (simp add: final(2) at3(3) shares_def checked_sub_Some p key)
  moreover have "others_same S pid k dk w w'"
    using at3(1) final(6) by (simp add: records_same_def others_same_def)
  ultimately have "books_step S pid k dk w w'"
    by (intro books_stepI [OF final(1) sized rec(1)] final(5)) (simp_all add: final(3))
  then show ?case
    by (simp add: dk key acc)
qed

section \<open>Every instruction\<close>

lemma instruction_books:
  assumes "records_env S pid k" and "no_self_call pid accounts"
    and "unsigned_by (vault_authority S pid k) accounts"
    and "pool_account pid w k" and "records_sized S pid k w"
    and "process_instruction S pid accounts data w = Inr w'"
  shows "books_step S pid k (fst (derive_deposit_pda S pid k (ai_key (accounts ! 0)))) w w'"
proof -
  obtain instr where run: "dispatch S pid accounts instr w = Inr w'"
    using assms(6) by (auto simp: process_instruction_def process_def bnd_Inr)
  show ?thesis
  proof (cases "moves_books instr \<and> ai_key (accounts ! 1) = k")
    case False
    then have "records_kept S pid k w w'"
      using records.dispatch_kept [OF assms(1-4) run] by blast
    then show ?thesis
      by (rule kept_books_step [OF _ assms(4,5)])
  next
    case True
    then show ?thesis
      using run assms kept_books_step accrue_records flush_records return_records
      by (cases instr) (auto simp: dispatch_def deposit_records withdraw_records)
  qed
qed

end
