(* ===== verification/Guarded_Asset.thy ===== *)
theory Guarded_Asset
  imports Records
begin

text \<open>
  Token program accounts under the authority of a pool.  A pool names two such accounts, its vault and its LP
  mint.  The locale \<open>guarded_asset\<close> is their common contract: without the signature of the pool's vault
  authority no call can take the account out of its guard or turn what it holds to the pool's
  disadvantage.  That makes the account a quantity in the sense of \<open>books_frame\<close>, so it survives every
  instruction that is not about the pool's own funds.  \<open>Custody\<close> interprets the contract on the vault,
  \<open>Lp_Mint\<close> on the mint.
\<close>

text \<open>The asset of pool \<open>k\<close> is under the pool's own authority, and the pool's wrapper is \<open>P\<close>.\<close>

definition guarded ::
    "(stake_pool \<Rightarrow> pubkey) \<Rightarrow> (pubkey \<Rightarrow> account \<Rightarrow> bool) \<Rightarrow> pubkey \<Rightarrow> sdk \<Rightarrow> pubkey \<Rightarrow> pubkey \<Rightarrow> world \<Rightarrow> bool" where
  "guarded asset safe P S pid k w \<longleftrightarrow> pool_account pid w k \<and> percolator_program (pool_at w k) = P
     \<and> safe (vault_authority S pid k) (accts w (asset (pool_at w k)))"

definition guarded_kept ::
    "(stake_pool \<Rightarrow> pubkey) \<Rightarrow> (pubkey \<Rightarrow> account \<Rightarrow> bool) \<Rightarrow> (sdk \<Rightarrow> pubkey \<Rightarrow> pubkey \<Rightarrow> world \<Rightarrow> world \<Rightarrow> bool) \<Rightarrow>
      pubkey \<Rightarrow> sdk \<Rightarrow> pubkey \<Rightarrow> pubkey \<Rightarrow> world \<Rightarrow> world \<Rightarrow> bool" where
  "guarded_kept asset safe keeps P S pid k w0 w \<longleftrightarrow> (guarded asset safe P S pid k w0 \<longrightarrow>
     pool_account pid w k \<and> same_books (pool_at w0 k) (pool_at w k)
     \<and> keeps S (vault_authority S pid k) (asset (pool_at w0 k)) w0 w)"

locale guarded_asset =
  fixes asset :: "stake_pool \<Rightarrow> pubkey"
    and safe :: "pubkey \<Rightarrow> account \<Rightarrow> bool"
    and keeps :: "sdk \<Rightarrow> pubkey \<Rightarrow> pubkey \<Rightarrow> world \<Rightarrow> world \<Rightarrow> bool"
    and env :: "sdk \<Rightarrow> pubkey \<Rightarrow> pubkey \<Rightarrow> bool"
    and P :: pubkey
  assumes guard_laws: "env S pid k \<Longrightarrow> runtime_laws S pid \<and> creation_law S \<and> address_law S pid k"
    and asset_identity: "identity q = identity p \<Longrightarrow> asset q = asset p"
    and safe_account: "env S pid k \<Longrightarrow> safe A a \<Longrightarrow>
      acc_owner a = spl_token_id S \<and> acc_data a \<noteq> [] \<and> length (acc_data a) < STAKE_POOL_SIZE"
    and keeps_refl: "safe A (accts w X) \<Longrightarrow> keeps S A X w w"
    and keeps_safe: "keeps S A X w w' \<Longrightarrow> safe A (accts w' X)"
    and keeps_trans: "keeps S A X w w' \<Longrightarrow> keeps S A X w' w'' \<Longrightarrow> keeps S A X w w''"
    and keeps_same: "keeps S A X w w' \<Longrightarrow> accts w'' X = accts w' X \<Longrightarrow> keeps S A X w w''"
    and unsigned_keeps: "env S pid k \<Longrightarrow> safe (vault_authority S pid k) (accts w X) \<Longrightarrow> call_program S c \<noteq> pid \<Longrightarrow>
      unsigned_by (vault_authority S pid k) infos \<Longrightarrow> invoke S w c infos = Inr w' \<Longrightarrow>
      keeps S (vault_authority S pid k) X w w'"
    and other_seeds_keep: "env S pid k \<Longrightarrow> safe (vault_authority S pid k) (accts w X) \<Longrightarrow> call_program S c \<noteq> pid \<Longrightarrow>
      unsigned_by (vault_authority S pid k) infos \<Longrightarrow> invoke_signed S w c infos sds = Inr w' \<Longrightarrow>
      \<forall>s \<in> set sds. \<not> vault_seeds k s \<Longrightarrow> keeps S (vault_authority S pid k) X w w'"
    and policy_keeps: "env S pid k \<Longrightarrow> safe (vault_authority S pid k) (accts w X) \<Longrightarrow> ai_key prog = P \<Longrightarrow>
      cpi_update_asset_authority S w prog cur new sl i kind sds = Inr w' \<Longrightarrow> keeps S (vault_authority S pid k) X w w'"
begin

lemma guard_runtime:
  assumes "env S pid k"
  shows "owner_law S pid" "spl_token_id S \<noteq> pid" "system_program_id S \<noteq> pid" "creation_law S"
  using guard_laws [OF assms] runtime_lawsD by blast+

lemma guarded_step:
  assumes "guarded_kept asset safe keeps P S pid k w0 w" and "cpi_effect_ok pid w w'"
    and "\<And>X. safe (vault_authority S pid k) (accts w X) \<Longrightarrow> guarded asset safe P S pid k w0 \<Longrightarrow>
      keeps S (vault_authority S pid k) X w w'"
  shows "guarded_kept asset safe keeps P S pid k w0 w'"
  unfolding guarded_kept_def
proof
  assume c: "guarded asset safe P S pid k w0"
  with assms(1) have w: "pool_account pid w k" "same_books (pool_at w0 k) (pool_at w k)"
      "keeps S (vault_authority S pid k) (asset (pool_at w0 k)) w0 w"
    by (simp_all add: guarded_kept_def)
  then have "keeps S (vault_authority S pid k) (asset (pool_at w0 k)) w0 w'"
    using assms(3) [OF keeps_safe c] keeps_trans by blast
  with w show "pool_account pid w' k \<and> same_books (pool_at w0 k) (pool_at w' k)
      \<and> keeps S (vault_authority S pid k) (asset (pool_at w0 k)) w0 w'"
    using cpi_effect_pool [OF assms(2) w(1)] by simp
qed

lemma create_keeps:
  assumes env: "env S pid k" and auth: "safe (vault_authority S pid k) (accts w X)"
    and unsigned: "unsigned_by (vault_authority S pid k) [payer, target, sys]" and sd: "\<not> vault_seeds k sd"
    and run: "create_or_adopt_pda S w target payer sys own n sd = Inr w'"
  shows "keeps S (vault_authority S pid k) X w w'"
proof -
  let ?A = "vault_authority S pid k"
  note sys = guard_runtime(3) [OF env]
  have infos: "unsigned_by ?A [target, sys]"
    using unsigned by (simp add: unsigned_by_def)
  have step: "keeps S ?A X u u'"
    if "invoke_signed S u c i [sd] = Inr u'" "safe ?A (accts u X)" "call_program S c = system_program_id S"
      "unsigned_by ?A i" for u u' c i
    using other_seeds_keep [OF env that(2) _ that(4,1)] that(3) sd sys by simp
  show ?thesis
  proof (cases "info_lamports w target = 0")
    case True
    with run obtain need where
      "invoke_signed S w (SystemCreateAccount (ai_key payer) (ai_key target) need (of_nat n) own)
        [payer, target, sys] [sd] = Inr w'"
      unfolding create_or_adopt_pda_def by (auto simp: bnd_Inr)
    then show ?thesis
      by (rule step [OF _ auth _ unsigned]) simp
  next
    case False
    with run obtain need w1 w2 where fund: "(if info_lamports w target < need
          then invoke S w (SystemTransfer (ai_key payer) (ai_key target) (need - info_lamports w target))
            [payer, target, sys] else Inr w) = Inr w1"
        and alloc: "invoke_signed S w1 (SystemAllocate (ai_key target) (of_nat n)) [target, sys] [sd] = Inr w2"
        and assign: "invoke_signed S w2 (SystemAssign (ai_key target) own) [target, sys] [sd] = Inr w'"
      unfolding create_or_adopt_pda_def Let_def by (auto simp: bnd_Inr)
    have k1: "keeps S ?A X w w1"
    proof (cases "info_lamports w target < need")
      case True
      with fund show ?thesis
        by (intro unsigned_keeps [OF env auth _ unsigned]) (auto simp: sys)
    qed (use fund keeps_refl [OF auth] in simp)
    have k2: "keeps S ?A X w1 w2"
      by (rule step [OF alloc keeps_safe [OF k1] _ infos]) simp
    have "keeps S ?A X w2 w'"
      by (rule step [OF assign keeps_safe [OF k2] _ infos]) simp
    with k1 k2 show ?thesis
      using keeps_trans by blast
  qed
qed

text \<open>A pool that is written, or a record, is never the asset.\<close>

lemma not_asset:
  assumes "env S pid k" and "safe A (accts w X)"
  shows "pool_like S pid w a \<Longrightarrow> a \<noteq> X" and "acc_owner (accts w a) = pid \<Longrightarrow> a \<noteq> X"
  using safe_account [OF assms] guard_runtime(2) [OF assms(1)] by (auto simp: pool_like_def)

lemma guarded_write:
  assumes env: "env S pid k" and kept: "guarded_kept asset safe keeps P S pid k w0 w"
    and like: "pool_like S pid w0 (ai_key ai)"
    and pool: "ai_key ai = k \<Longrightarrow> wf_pool q \<and> same_books (pool_at w k) q"
  shows "guarded_kept asset safe keeps P S pid k w0 (write_pool ai q w)"
  unfolding guarded_kept_def
proof
  assume c: "guarded asset safe P S pid k w0"
  with kept have w: "pool_account pid w k" "same_books (pool_at w0 k) (pool_at w k)"
      "keeps S (vault_authority S pid k) (asset (pool_at w0 k)) w0 w"
    by (simp_all add: guarded_kept_def)
  have "ai_key ai \<noteq> asset (pool_at w0 k)"
    using not_asset(1) [OF env _ like] c unfolding guarded_def by blast
  then have "keeps S (vault_authority S pid k) (asset (pool_at w0 k)) w0 (write_pool ai q w)"
    by (intro keeps_same [OF w(3)]) (simp add: write_pool_def)
  moreover have "pool_account pid (write_pool ai q w) k \<and> same_books (pool_at w0 k) (pool_at (write_pool ai q w) k)"
  proof (cases "ai_key ai = k")
    case True
    then show ?thesis
      using pool w(1,2) pool_account_write_pool [of q pid w k ai] pool_at_write_pool [of q ai w] same_books_trans
      by auto
  next
    case False
    then show ?thesis
      using w(1,2) pool_at_write_other(1) [of ai k q w] by (simp add: pool_account_def write_pool_def)
  qed
  ultimately show "pool_account pid (write_pool ai q w) k \<and> same_books (pool_at w0 k) (pool_at (write_pool ai q w) k)
      \<and> keeps S (vault_authority S pid k) (asset (pool_at w0 k)) w0 (write_pool ai q w)"
    by blast
qed

lemma guarded_record:
  assumes env: "env S pid k" and kept: "guarded_kept asset safe keeps P S pid k w0 w"
    and other: "ai_key ai \<noteq> k" and own: "acc_owner (accts w (ai_key ai)) = pid"
  shows "guarded_kept asset safe keeps P S pid k w0 (write_deposit ai d w)"
  unfolding guarded_kept_def
proof
  assume "guarded asset safe P S pid k w0"
  with kept have w: "pool_account pid w k" "same_books (pool_at w0 k) (pool_at w k)"
      "keeps S (vault_authority S pid k) (asset (pool_at w0 k)) w0 w"
    by (simp_all add: guarded_kept_def)
  have "ai_key ai \<noteq> asset (pool_at w0 k)"
    using not_asset(2) [OF env keeps_safe [OF w(3)] own] .
  then have "keeps S (vault_authority S pid k) (asset (pool_at w0 k)) w0 (write_deposit ai d w)"
    by (intro keeps_same [OF w(3)]) (simp add: write_deposit_def)
  with w(1,2) other show "pool_account pid (write_deposit ai d w) k
      \<and> same_books (pool_at w0 k) (pool_at (write_deposit ai d w) k)
      \<and> keeps S (vault_authority S pid k) (asset (pool_at w0 k)) w0 (write_deposit ai d w)"
    using pool_at_write_other(2) [of ai k d w] by (simp add: pool_account_def write_deposit_def)
qed

text \<open>The step of a deposit that opens the record leaves the asset as it is.\<close>

lemma open_record_keeps:
  assumes env: "env S pid k" and auth: "safe (vault_authority S pid k) (accts w3 X)"
    and unsigned: "unsigned_by (vault_authority S pid k) [payer, ai, sys]"
    and own: "acc_data (accts w3 (ai_key ai)) = [] \<or> owned_by pid w3 ai"
    and open_record: "(if acc_data (accts w3 (ai_key ai)) = []
      then create_or_adopt_pda S w3 ai payer sys pid STAKE_DEPOSIT_SIZE (deposit_seeds k u b) else Inr w3) = Inr w4"
  shows "keeps S (vault_authority S pid k) X w3 w4 \<and> cpi_effect_ok pid w3 w4 \<and> ai_key ai \<noteq> X"
proof (cases "acc_data (accts w3 (ai_key ai)) = []")
  case True
  then have create: "create_or_adopt_pda S w3 ai payer sys pid STAKE_DEPOSIT_SIZE (deposit_seeds k u b) = Inr w4"
    using open_record by simp
  have kept: "keeps S (vault_authority S pid k) X w3 w4"
    by (rule create_keeps [OF env auth unsigned _ create]) simp
  moreover have "acc_owner (accts w4 (ai_key ai)) = pid"
    using create_or_adopt_pda_zeroed [OF guard_runtime(4) [OF env] _ create] by (simp add: STAKE_DEPOSIT_SIZE_def)
  ultimately show ?thesis
    using create_or_adopt_pda_effect [OF guard_runtime(1,3) [OF env] create] not_asset(2) [OF env keeps_safe] by blast
next
  case False
  then have "w4 = w3" "acc_owner (accts w3 (ai_key ai)) = pid"
    using open_record own by (auto simp: owned_by_def)
  then show ?thesis
    using keeps_refl [OF auth] not_asset(2) [OF env auth] by (auto simp: cpi_effect_ok_def)
qed

end

sublocale guarded_asset \<subseteq> books_frame env "guarded_kept asset safe keeps P"
proof
  fix S pid k w0 w c infos w'
  show "guarded_kept asset safe keeps P S pid k w w"
    using keeps_refl by (simp add: guarded_kept_def guarded_def same_books_def)
  show "guarded_kept asset safe keeps P S pid k w0 w \<Longrightarrow> guarded_kept asset safe keeps P S pid k w0 (w\<lparr>mut_borrowed := x\<rparr>)" for x
    by (auto simp: guarded_kept_def pool_account_def pool_at_def elim: keeps_same)
  assume env: "env S pid k"
  note own = guard_runtime(1) [OF env]
  show "runtime_laws S pid \<and> creation_law S \<and> address_law S pid k"
    by (rule guard_laws [OF env])
  assume kept: "guarded_kept asset safe keeps P S pid k w0 w"
  show "guarded_kept asset safe keeps P S pid k w0 w'" if "call_program S c \<noteq> pid" "invoke S w c infos = Inr w'"
    "unsigned_by (vault_authority S pid k) infos"
    using owner_law_invoke [OF own that(2,1)] unsigned_keeps [OF env _ that(1,3,2)]
    by (intro guarded_step [OF kept])
  show "guarded_kept asset safe keeps P S pid k w0 w'" if "call_program S c \<noteq> pid" "invoke_signed S w c infos sds = Inr w'"
    "unsigned_by (vault_authority S pid k) infos" "\<forall>s \<in> set sds. \<not> record_seeds s \<and> \<not> vault_seeds k s" for sds
    using owner_law_invoke_signed [OF own that(2,1)] other_seeds_keep [OF env _ that(1,3,2)] that(4)
    by (intro guarded_step [OF kept]) auto
  show "guarded_kept asset safe keeps P S pid k w0 w'"
    if "create_or_adopt_pda S w target payer sys pid n sd = Inr w'"
      "unsigned_by (vault_authority S pid k) [payer, target, sys]" "\<not> vault_seeds k sd" for target payer sys n sd
    using create_or_adopt_pda_effect [OF own guard_runtime(3) [OF env] that(1)] create_keeps [OF env _ that(2,3,1)]
    by (intro guarded_step [OF kept])
  show "guarded_kept asset safe keeps P S pid k w0 w'" if "ai_key percolator_ai \<noteq> pid"
    "percolator_program (pool_at w0 k) = ai_key percolator_ai"
    "cpi_update_asset_authority S w percolator_ai a b sl i kind sds = Inr w'" for percolator_ai a b sl i kind sds
    using wrapper_cpi_effect(3) [OF own that(1,3)] policy_keeps [OF env _ _ that(3)] that(2)
    by (intro guarded_step [OF kept]) (auto simp: guarded_def)
  show "guarded_kept asset safe keeps P S pid k w0 (write_pool ai q w)" if "pool_like S pid w0 (ai_key ai)"
    "ai_key ai = k \<Longrightarrow> wf_pool q \<and> same_books (pool_at w k) q" for ai q
    using that by (rule guarded_write [OF env kept])
  show "guarded_kept asset safe keeps P S pid k w0 (write_deposit ai d w)"
    if "ai_key ai \<notin> insert k (record_keys S pid k)" "acc_owner (accts w (ai_key ai)) = pid" for ai d
    using that by (intro guarded_record [OF env kept]) auto
qed

end
