(* ===== verification/Asset_Moves.thy ===== *)
theory Asset_Moves
  imports Guarded_Asset
begin

text \<open>
  The five instructions that do move the funds of a pool, seen from an account under the pool's
  authority: the calls by which such an account can be touched, the step of the pool, and that everything else
  the handler does leaves the account alone.  \<open>Vault_Funded\<close> and \<open>Lp_Mint\<close> put the effect of those calls
  on the vault and on the mint in.
\<close>

lemma write_pool_elsewhere: "ai_key ai \<noteq> a \<Longrightarrow> accts (write_pool ai q w) a = accts w a"
  by (simp add: write_pool_def)

context guarded_asset
begin

lemma pool_apart:
  assumes "env S pid k" and "pool_account pid w k" and "safe A (accts w X)"
  shows "X \<noteq> k"
  using not_asset(2) [OF assms(1,3), of k] assms(2) by (auto simp: pool_account_def)

lemma token_calls_effect:
  assumes "env S pid k"
    and "invoke S w0 c1 i1 = Inr w1" "call_program S c1 = spl_token_id S"
    and "invoke_signed S w1 c2 i2 s2 = Inr w2" "call_program S c2 = spl_token_id S"
  shows "cpi_effect_ok pid w0 w2"
  using owner_law_invoke [OF guard_runtime(1) [OF assms(1)] assms(2)]
    owner_law_invoke_signed [OF guard_runtime(1) [OF assms(1)] assms(4)] guard_runtime(2) [OF assms(1)] assms(3,5)
  by (auto intro: cpi_effect_ok_trans)

lemma deposit_moves:
  assumes env: "env S pid k" and unsigned: "unsigned_by (vault_authority S pid k) accounts"
    and pool: "ai_key (accounts ! 1) = k" and held: "pool_account pid w k"
    and run: "process_deposit S pid accounts amount w = Inr w'"
  obtains src u dst infos1 infos2 sds w1 w2 lp e q where
    "invoke S (w\<lparr>mut_borrowed := k # mut_borrowed w\<rparr>)
      (TokenTransfer (spl_token_id S) src (vault (pool_at w k)) u amount) infos1 = Inr w1"
    "unsigned_by (vault_authority S pid k) infos1" "u \<noteq> vault_authority S pid k"
    "invoke_signed S w1 (TokenMintTo (spl_token_id S) (lp_mint (pool_at w k)) dst (vault_authority S pid k) lp)
      infos2 sds = Inr w2"
    "pool_step (pool_at w k) (DepositEv amount lp e) q" "holds_pool pid w' k q"
    "\<And>X. safe (vault_authority S pid k) (accts w2 X) \<Longrightarrow> keeps S (vault_authority S pid k) X w2 w'"
proof (rule deposit_run [OF conjunct1 [OF guard_laws [OF env], THEN runtime_lawsD(1)] run], goal_cases)
  case (1 user_ai pool_ai user_ata vault_ai lp_mint_ai user_lp_ata vault_auth_ai deposit_ai token_program
    clock_sysvar system_program rest p dk lp new_deposited new_supply clk p1 w1 w2 w3 w4 d)
  note that = 1(1) and acc = 1(2) and p = 1(3) and guards = 1(5,8,11-13,16,17,20,21) and signer = 1(6)
    and m = 1(9) and v = 1(10) and c1 = 1(18) and c2 = 1(19) and p1 = 1(22) and w3 = 1(24) and da = 1(25)
    and own = 1(27) and c3 = 1(28) and w' = 1(32)
  let ?A = "vault_authority S pid k"
  have key: "ai_key pool_ai = k" "p = pool_at w k"
    using pool by (simp_all add: acc p)
  have eff: "cpi_effect_ok pid (w\<lparr>mut_borrowed := ai_key pool_ai # mut_borrowed w\<rparr>) w2"
    by (rule token_calls_effect [OF env c1 _ c2]) simp_all
  have held: "holds_pool pid w k p"
    using held by (simp add: holds_pool_def key)
  then have at2: "holds_pool pid w2 k p"
    using holds_pool_cpi [OF eff] by simp
  have step: "pool_step p (DepositEv amount lp (clock_epoch clk)) (touch_hwm (clock_epoch clk) p1)"
    using guards p1 by (auto intro: pool_step.deposit)
  have dk: "dk \<noteq> k"
    using guard_laws [OF env] 1(4) by (auto simp: address_law_def no_deposit_at_def key)
  have open4: "cpi_effect_ok pid w3 w4"
    using c3 create_or_adopt_pda_effect [OF guard_runtime(1,3) [OF env]]
    by (auto simp: cpi_effect_ok_def split: if_splits)
  have held': "holds_pool pid w' k (touch_hwm (clock_epoch clk) p1)"
    using pool_under_record_writes [of pid w2 pool_ai p p1 "clock_epoch clk" w4 deposit_ai] at2 open4 dk da
      holds_pool_wf [OF at2] by (simp add: w3 w' key p1 wf_pool_def)
  have rest: "keeps S ?A X w2 w'" if safe: "safe ?A (accts w2 X)" for X
  proof -
    have "X \<noteq> k"
      using pool_apart [OF env _ safe] at2 by (auto simp: holds_pool_def)
    then have at3: "accts w3 X = accts w2 X"
      by (simp add: w3 write_pool_elsewhere key)
    have opened: "keeps S ?A X w3 w4" "dk \<noteq> X"
      using open_record_keeps [OF env _ _ own [folded da] c3 [folded da, unfolded key], of X] unsigned safe
      by (simp_all add: at3 acc unsigned_by_def da)
    have "keeps S ?A X w2 w3"
      using keeps_same [OF keeps_refl [OF safe] at3] .
    moreover have "keeps S ?A X w4 w'"
      using opened(2) da by (intro keeps_same [OF keeps_refl [OF keeps_safe [OF opened(1)]]])
        (simp add: w' write_deposit_def)
    ultimately show ?thesis
      using opened(1) keeps_trans by blast
  qed
  show ?case
    by (rule that [OF c1 [unfolded key(1) v [symmetric] key(2)] _ _ c2 [unfolded key(1) m [symmetric] key(2)]
          step [unfolded key(2)] held' rest])
      (use unsigned signer in \<open>auto simp: acc unsigned_by_def\<close>)
qed

lemma withdraw_moves:
  assumes env: "env S pid k" and unsigned: "unsigned_by (vault_authority S pid k) accounts"
    and pool: "ai_key (accounts ! 1) = k" and held: "pool_account pid w k"
    and run: "process_withdraw S pid accounts lp w = Inr w'"
  obtains src u dst infos1 infos2 sds w0 w1 w2 c e q where
    "\<And>X. X \<noteq> k \<Longrightarrow> accts w0 X = accts w X"
    "invoke S w0 (TokenBurn (spl_token_id S) src (lp_mint (pool_at w k)) u lp) infos1 = Inr w1"
    "unsigned_by (vault_authority S pid k) infos1"
    "invoke_signed S w1 (TokenTransfer (spl_token_id S) (vault (pool_at w k)) dst (vault_authority S pid k) c)
      infos2 sds = Inr w2"
    "pool_step (pool_at w k) (WithdrawEv lp c e) q" "holds_pool pid w' k q"
    "\<And>X. safe (vault_authority S pid k) (accts w2 X) \<Longrightarrow> keeps S (vault_authority S pid k) X w2 w'"
proof (rule withdraw_run [OF conjunct1 [OF guard_laws [OF env], THEN runtime_lawsD(1)] run], goal_cases)
  case (1 user_ai pool_ai user_lp_ata lp_mint_ai vault_ai user_ata vault_auth_ai deposit_ai token_program
    clock_sysvar rest p p1 dk d c clk new_withdrawn new_supply w1 w2 w3 new_lp)
  note that = 1(1) and acc = 1(2) and p = 1(3) and guards = 1(6,10,26-28,32,33) and m = 1(11) and v = 1(12)
    and da = 1(15) and own = 1(16) and apart = 1(18) and p1 = 1(29) and c1 = 1(30) and c2 = 1(31) and w3 = 1(34)
    and w' = 1(38)
  let ?A = "vault_authority S pid k"
  let ?w0 = "write_pool pool_ai p1 (w\<lparr>mut_borrowed := ai_key pool_ai # mut_borrowed w\<rparr>)"
  let ?q = "p1\<lparr>total_withdrawn := new_withdrawn, total_lp_supply := new_supply\<rparr>"
  have key: "ai_key pool_ai = k" "p = pool_at w k"
    using pool by (simp_all add: acc p)
  have eff: "cpi_effect_ok pid ?w0 w2"
    by (rule token_calls_effect [OF env c1 _ c2]) simp_all
  have held: "holds_pool pid w k p"
    using held by (simp add: holds_pool_def key)
  have wf: "wf_pool p" "wf_pool p1"
    using holds_pool_wf [OF held] touch_hwm_reserved(1) by (simp_all add: p1)
  then have at2: "holds_pool pid w2 k p1"
    using holds_pool_cpi [OF eff] held holds_pool_write [of pid _ k p pool_ai p1] by (simp add: key)
  have step: "pool_step p (WithdrawEv lp c (clock_epoch clk)) ?q"
    using guards p1 by (auto intro: pool_step.withdraw)
  have at3: "holds_pool pid w3 k ?q"
    using holds_pool_write [OF at2, of pool_ai ?q] step_wf [OF step wf(1)] by (simp add: w3 key)
  then have held': "holds_pool pid w' k ?q"
    unfolding w' holds_pool_borrow using apart da key by (intro holds_pool_write_deposit) simp_all
  have dk: "acc_owner (accts w2 dk) = pid"
    using own da apart eff by (simp add: cpi_effect_ok_def owned_by_def write_pool_elsewhere key)
  have rest: "keeps S ?A X w2 w'" if safe: "safe ?A (accts w2 X)" for X
  proof -
    have "X \<noteq> k" "dk \<noteq> X"
      using pool_apart [OF env _ safe] at2 not_asset(2) [OF env safe dk] by (auto simp: holds_pool_def)
    then show ?thesis
      using da by (intro keeps_same [OF keeps_refl [OF safe]])
        (simp add: w' w3 write_pool_elsewhere write_deposit_def key)
  qed
  show ?case
    by (rule that [OF _ c1 [folded m, unfolded key(2)] _ c2 [folded v, unfolded key] step [unfolded key(2)] held' rest])
      (use unsigned in \<open>auto simp: key(1) acc unsigned_by_def write_pool_elsewhere\<close>)
qed

text \<open>The last write of a handler that moves nothing itself.\<close>

lemma final_write:
  assumes env: "env S pid k" and held: "holds_pool pid w1 k p" and ai: "ai_key ai = k" and wf: "wf_pool q"
  shows "holds_pool pid (release ai (write_pool ai q (w1\<lparr>mut_borrowed := x\<rparr>))) k q"
    and "safe (vault_authority S pid k) (accts w1 X) \<Longrightarrow>
      keeps S (vault_authority S pid k) X w1 (release ai (write_pool ai q (w1\<lparr>mut_borrowed := x\<rparr>)))"
proof -
  have "holds_pool pid (w1\<lparr>mut_borrowed := x\<rparr>) k p"
    using held by simp
  then show "holds_pool pid (release ai (write_pool ai q (w1\<lparr>mut_borrowed := x\<rparr>))) k q"
    using holds_pool_write [of pid _ k p ai q] wf ai by fastforce
  assume safe: "safe (vault_authority S pid k) (accts w1 X)"
  then have "X \<noteq> k"
    using pool_apart [OF env _ safe] held by (auto simp: holds_pool_def)
  then show "keeps S (vault_authority S pid k) X w1 (release ai (write_pool ai q (w1\<lparr>mut_borrowed := x\<rparr>)))"
    using ai by (intro keeps_same [OF keeps_refl [OF safe]]) (simp add: write_pool_elsewhere)
qed

lemma flush_moves:
  assumes env: "env S pid k" and self: "no_self_call pid accounts"
    and pool: "ai_key (accounts ! 1) = k" and held: "pool_account pid w k"
    and run: "process_flush_to_insurance S pid accounts amount w = Inr w'"
  obtains prog a sl v wv tp sd w1 q where
    "cpi_top_up_insurance S (w\<lparr>mut_borrowed := k # mut_borrowed w\<rparr>) prog a sl v wv tp amount sd = Inr w1"
    "ai_key prog = percolator_program (pool_at w k)" "ai_key v = vault (pool_at w k)"
    "pool_step (pool_at w k) (FlushEv amount) q" "holds_pool pid w' k q"
    "\<And>X. safe (vault_authority S pid k) (accts w1 X) \<Longrightarrow> keeps S (vault_authority S pid k) X w1 w'"
proof (rule flush_run [OF conjunct1 [OF guard_laws [OF env], THEN runtime_lawsD(1)] run], goal_cases)
  case (1 caller pool_ai vault_ai vault_auth_ai slab_ai wrapper_vault percolator_ai token_program rest
    p available new_flushed w1)
  note that = 1(1) and acc = 1(2) and p = 1(3) and guards = 1(4,7,8,14,15,18) and v = 1(11) and prog = 1(12)
    and cpi = 1(17) and w' = 1(19)
  have key: "ai_key pool_ai = k" "p = pool_at w k"
    using pool by (simp_all add: acc p)
  have eff: "cpi_effect_ok pid (w\<lparr>mut_borrowed := k # mut_borrowed w\<rparr>) w1"
    using wrapper_cpi_effect(1) [OF guard_runtime(1) [OF env] _ cpi] no_self_callD [OF self, of percolator_ai]
    by (simp add: acc key)
  have held: "holds_pool pid w k p"
    using held by (simp add: holds_pool_def key)
  then have at1: "holds_pool pid w1 k p"
    using holds_pool_cpi [OF eff] by simp
  have step: "pool_step p (FlushEv amount) (p\<lparr>total_flushed := new_flushed\<rparr>)"
    using guards by (intro pool_step.flush) (auto simp: unat_less_iff)
  note final = final_write [OF env at1 key(1) step_wf [OF step holds_pool_wf [OF held]], where x = "mut_borrowed w1"]
  show ?case
    by (rule that [OF cpi [unfolded key(1)] _ _ step [unfolded key(2)]])
      (use prog v final in \<open>simp_all add: key(2) w'\<close>)
qed

lemma return_moves:
  assumes env: "env S pid k" and self: "no_self_call pid accounts"
    and pool: "ai_key (accounts ! 1) = k" and held: "pool_account pid w k"
    and run: "process_admin_withdraw_insurance S pid accounts amount w = Inr w'"
  obtains prog a sl v wv wa tp sd w1 q where
    "cpi_withdraw_insurance S w prog a sl v wv wa tp amount sd = Inr w1"
    "ai_key prog = percolator_program (pool_at w k)" "ai_key v = vault (pool_at w k)"
    "pool_step (pool_at w k) (ReturnEv amount) q" "holds_pool pid w' k q"
    "\<And>X. safe (vault_authority S pid k) (accts w1 X) \<Longrightarrow> keeps S (vault_authority S pid k) X w1 w'"
proof (rule withdraw_insurance_run [OF conjunct1 [OF guard_laws [OF env], THEN runtime_lawsD(1)] run], goal_cases)
  case (1 admin_ai pool_ai slab_ai vault_auth_ai stake_vault wrapper_vault wrapper_vault_pda percolator_ai
    token_program clock_ai rest p b w1 new_returned)
  note that = 1(1) and acc = 1(2) and p = 1(3) and val = 1(4) and mode = 1(5) and v = 1(6) and cpi = 1(9)
    and add = 1(12) and w' = 1(13)
  have key: "ai_key pool_ai = k" "p = pool_at w k" "ai_key percolator_ai = percolator_program p"
    using pool val by (simp_all add: acc p validate_admin_cpi_Inr)
  have eff: "cpi_effect_ok pid w w1"
    using wrapper_cpi_effect(5) [OF guard_runtime(1) [OF env] _ cpi] no_self_callD [OF self, of percolator_ai]
    by (simp add: acc)
  have held: "holds_pool pid w k p"
    using held by (simp add: holds_pool_def key)
  note at1 = holds_pool_cpi [OF eff held]
  have step: "pool_step p (ReturnEv amount) (p\<lparr>total_returned := new_returned\<rparr>)"
    using val mode add by (intro pool_step.return)
      (simp_all add: validate_admin_cpi_Inr key holds_pool_at [OF at1, unfolded key(2)])
  note final = final_write [OF env at1 key(1) step_wf [OF step holds_pool_wf [OF held]], where x = "k # mut_borrowed w1"]
  show ?case
    by (rule that [OF cpi _ _ step [unfolded key(2)]])
      (use key(3) v final in \<open>simp_all add: key(1,2) w' holds_pool_at [OF at1, unfolded key(2)]\<close>)
qed

lemma accrue_moves:
  assumes env: "env S pid k" and pool: "ai_key (accounts ! 1) = k" and held: "pool_account pid w k"
    and run: "process_accrue_fees S pid accounts w = Inr w'"
  obtains balance t q where "token_account_amount S (acc_data (accts w (vault (pool_at w k)))) = Inr balance"
    "pool_step (pool_at w k) (AccrueEv balance t) q" "holds_pool pid w' k q"
    "\<And>X. safe (vault_authority S pid k) (accts w X) \<Longrightarrow> keeps S (vault_authority S pid k) X w w'"
proof (rule accrue_run [OF conjunct1 [OF guard_laws [OF env], THEN runtime_lawsD(1)] run], goal_cases)
  case (1 caller pool_ai vault_ai clock_ai rest p q balance clk)
  note that = 1(1) and acc = 1(2) and p = 1(3) and v = 1(8) and amount = 1(10) and step = 1(12) and w' = 1(13)
  have key: "ai_key pool_ai = k" "p = pool_at w k"
    using pool by (simp_all add: acc p)
  have held: "holds_pool pid w k p"
    using held by (simp add: holds_pool_def key)
  note final = final_write [OF env held key(1) step_wf [OF step holds_pool_wf [OF held]], where x = "k # mut_borrowed w"]
  show ?case
    by (rule that [OF _ step [unfolded key(2)]]) (use amount v final in \<open>simp_all add: key w'\<close>)
qed

end

end
