(* ===== verification/Custody.thy ===== *)
theory Custody
  imports Asset_Moves
begin

text \<open>
  Custody of the collateral: the vault's token account always holds at least what the pool owes its
  depositors.  The token program and the wrapper are outside the repository; what the program
  relies on are the named laws below, each a documented rule of SPL Token or of the wrapper's
  insurance instructions.  \<open>auths\<close> stands for the keys that may move the tokens of an account
  (its owner and its delegate).
\<close>

section \<open>Laws of the token program and the wrapper\<close>

definition bal :: "sdk \<Rightarrow> world \<Rightarrow> pubkey \<Rightarrow> nat" where
  "bal S w a = (case token_account_amount S (acc_data (accts w a)) of Inl _ \<Rightarrow> 0 | Inr b \<Rightarrow> unat b)"

text \<open>A token account belongs to the token program and is smaller than a pool.\<close>

definition token_account_law :: "sdk \<Rightarrow> (account \<Rightarrow> pubkey set) \<Rightarrow> bool" where
  "token_account_law S auths \<longleftrightarrow> (\<forall>a. auths a \<noteq> {} \<longrightarrow>
     acc_owner a = spl_token_id S \<and> acc_data a \<noteq> [] \<and> length (acc_data a) < STAKE_POOL_SIZE)"

definition vault_kept :: "sdk \<Rightarrow> (account \<Rightarrow> pubkey set) \<Rightarrow> pubkey \<Rightarrow> pubkey \<Rightarrow> world \<Rightarrow> world \<Rightarrow> bool" where
  "vault_kept S auths A V w w' \<longleftrightarrow> auths (accts w' V) = {A} \<and> bal S w V \<le> bal S w' V"

text \<open>Nothing is taken from a token account, nor is its authority changed, by a call its authority
  has not signed.\<close>

definition signature_law :: "sdk \<Rightarrow> pubkey \<Rightarrow> (account \<Rightarrow> pubkey set) \<Rightarrow> pubkey \<Rightarrow> bool" where
  "signature_law S pid auths k \<longleftrightarrow> (\<forall>w V c infos w'.
     auths (accts w V) = {vault_authority S pid k} \<longrightarrow> call_program S c \<noteq> pid \<longrightarrow>
     unsigned_by (vault_authority S pid k) infos \<longrightarrow>
     (invoke S w c infos = Inr w' \<longrightarrow> vault_kept S auths (vault_authority S pid k) V w w')
     \<and> (\<forall>sds. invoke_signed S w c infos sds = Inr w' \<longrightarrow> (\<forall>s \<in> set sds. \<not> vault_seeds k s) \<longrightarrow>
          vault_kept S auths (vault_authority S pid k) V w w'))"

text \<open>What the token instructions the program issues do: a transfer needs the authority of its source
  and moves exactly its amount; minting takes nothing; a new account gets the authority it is given.\<close>

definition token_program_law :: "sdk \<Rightarrow> (account \<Rightarrow> pubkey set) \<Rightarrow> bool" where
  "token_program_law S auths \<longleftrightarrow>
     (\<forall>w src dst a amt infos sds w'.
        invoke S w (TokenTransfer (spl_token_id S) src dst a amt) infos = Inr w'
        \<or> invoke_signed S w (TokenTransfer (spl_token_id S) src dst a amt) infos sds = Inr w' \<longrightarrow>
        (\<forall>k. auths (accts w' k) = auths (accts w k)
           \<and> bal S w' k + (if k = src then unat amt else 0) = bal S w k + (if k = dst then unat amt else 0))
        \<and> a \<in> auths (accts w src))
     \<and> (\<forall>w mint dst a amt infos sds w'.
        invoke_signed S w (TokenMintTo (spl_token_id S) mint dst a amt) infos sds = Inr w' \<longrightarrow>
        (\<forall>k. auths (accts w' k) = auths (accts w k) \<and> bal S w k \<le> bal S w' k))
     \<and> (\<forall>w a mint own infos sds w'.
        invoke_signed S w (TokenInitializeAccount (spl_token_id S) a mint own) infos sds = Inr w' \<longrightarrow>
        auths (accts w' a) = {own})"

text \<open>What the wrapper does with a vault it is handed: a top-up takes at most its amount, a withdrawal
  of insurance pays at least its amount, and changing an authority moves nothing.\<close>

definition wrapper_token_law :: "sdk \<Rightarrow> (account \<Rightarrow> pubkey set) \<Rightarrow> pubkey \<Rightarrow> bool" where
  "wrapper_token_law S auths P \<longleftrightarrow> (\<forall>w prog w'. ai_key prog = P \<longrightarrow>
     (\<forall>a sl v wv tp amount sd. cpi_top_up_insurance S w prog a sl v wv tp amount sd = Inr w' \<longrightarrow>
        auths (accts w' (ai_key v)) = auths (accts w (ai_key v))
        \<and> bal S w (ai_key v) \<le> bal S w' (ai_key v) + unat amount)
     \<and> (\<forall>a sl v wv wa tp amount sd. cpi_withdraw_insurance S w prog a sl v wv wa tp amount sd = Inr w' \<longrightarrow>
        auths (accts w' (ai_key v)) = auths (accts w (ai_key v))
        \<and> bal S w (ai_key v) + unat amount \<le> bal S w' (ai_key v))
     \<and> (\<forall>a b sl i kind sds. cpi_update_asset_authority S w prog a b sl i kind sds = Inr w' \<longrightarrow>
        (\<forall>v. auths (accts w' v) = auths (accts w v) \<and> bal S w v \<le> bal S w' v)))"

definition custody_env :: "(account \<Rightarrow> pubkey set) \<Rightarrow> pubkey \<Rightarrow> sdk \<Rightarrow> pubkey \<Rightarrow> pubkey \<Rightarrow> bool" where
  "custody_env auths P S pid k \<longleftrightarrow> runtime_laws S pid \<and> creation_law S \<and> address_law S pid k
     \<and> token_account_law S auths \<and> signature_law S pid auths k \<and> token_program_law S auths
     \<and> wrapper_token_law S auths P"

lemma custody_laws:
  assumes "custody_env auths P S pid k"
  shows "runtime_laws S pid" "creation_law S" "address_law S pid k" "token_account_law S auths"
    "signature_law S pid auths k" "token_program_law S auths" "wrapper_token_law S auths P"
    "no_deposit_at S pid k" "iter_law S" "owner_law S pid" "spl_token_id S \<noteq> pid" "system_program_id S \<noteq> pid"
  using assms by (simp_all add: custody_env_def address_law_def runtime_laws_def)

section \<open>What leaves the vault alone\<close>

abbreviation in_custody :: "(account \<Rightarrow> pubkey set) \<Rightarrow> pubkey \<Rightarrow> sdk \<Rightarrow> pubkey \<Rightarrow> pubkey \<Rightarrow> world \<Rightarrow> bool" where
  "in_custody auths \<equiv> guarded vault (\<lambda>A a. auths a = {A})"

abbreviation custody_kept ::
    "(account \<Rightarrow> pubkey set) \<Rightarrow> pubkey \<Rightarrow> sdk \<Rightarrow> pubkey \<Rightarrow> pubkey \<Rightarrow> world \<Rightarrow> world \<Rightarrow> bool" where
  "custody_kept auths \<equiv> guarded_kept vault (\<lambda>A a. auths a = {A}) (\<lambda>S. vault_kept S auths)"

lemma same_books_vault: "same_books p q \<Longrightarrow> vault q = vault p \<and> percolator_program q = percolator_program p"
  by (simp add: same_books_def identity_def)

interpretation custody: guarded_asset vault "\<lambda>A a. auths a = {A}" "\<lambda>S. vault_kept S auths" "custody_env auths P" P
  for auths P
proof
  fix S pid k A X w w' w'' c infos
  show "auths (accts w X) = {A} \<Longrightarrow> vault_kept S auths A X w w"
    and "vault_kept S auths A X w w' \<Longrightarrow> auths (accts w' X) = {A}"
    and "vault_kept S auths A X w w' \<Longrightarrow> vault_kept S auths A X w' w'' \<Longrightarrow> vault_kept S auths A X w w''"
    and "vault_kept S auths A X w w' \<Longrightarrow> accts w'' X = accts w' X \<Longrightarrow> vault_kept S auths A X w w''"
    by (simp_all add: vault_kept_def bal_def)
  show "identity q = identity p \<Longrightarrow> vault q = vault p" for p q
    by (simp add: identity_def)
  assume env: "custody_env auths P S pid k"
  show "runtime_laws S pid \<and> creation_law S \<and> address_law S pid k"
    using custody_laws [OF env] by blast
  show "acc_owner a = spl_token_id S \<and> acc_data a \<noteq> [] \<and> length (acc_data a) < STAKE_POOL_SIZE"
    if "auths a = {A}" for a
    using custody_laws(4) [OF env] that unfolding token_account_law_def by (metis insert_not_empty)
  assume safe: "auths (accts w X) = {vault_authority S pid k}"
  show "vault_kept S auths (vault_authority S pid k) X w w'"
    if "call_program S c \<noteq> pid" "unsigned_by (vault_authority S pid k) infos" "invoke S w c infos = Inr w'"
    using custody_laws(5) [OF env] safe that unfolding signature_law_def by blast
  show "vault_kept S auths (vault_authority S pid k) X w w'"
    if "call_program S c \<noteq> pid" "unsigned_by (vault_authority S pid k) infos"
      "invoke_signed S w c infos sds = Inr w'" "\<forall>s \<in> set sds. \<not> vault_seeds k s" for sds
    using custody_laws(5) [OF env] safe that unfolding signature_law_def by blast
  show "vault_kept S auths (vault_authority S pid k) X w w'"
    if "ai_key prog = P" "cpi_update_asset_authority S w prog cur new sl i kind sds = Inr w'"
    for prog cur new sl i kind sds
    using custody_laws(7) [OF env] safe that unfolding wrapper_token_law_def vault_kept_def by metis
qed

section \<open>Funded pools\<close>

text \<open>What the vault has to hold: the pool's worth and, for a trading pool, the balance that was there
  before its first share.\<close>

definition owed :: "stake_pool \<Rightarrow> nat" where
  "owed p = worth p + (if pool_mode p = 1 then unat (pre_supply_vault_offset p) else 0)"

definition funded :: "(account \<Rightarrow> pubkey set) \<Rightarrow> pubkey \<Rightarrow> sdk \<Rightarrow> pubkey \<Rightarrow> pubkey \<Rightarrow> world \<Rightarrow> bool" where
  "funded auths P S pid k w \<longleftrightarrow> in_custody auths P S pid k w \<and> solvent (pool_at w k)
     \<and> trading_ok (pool_at w k) \<and> owed (pool_at w k) \<le> bal S w (vault (pool_at w k))"

lemma kept_funded:
  assumes "custody_kept auths P S pid k w w'" and "funded auths P S pid k w"
  shows "funded auths P S pid k w'"
proof -
  have "pool_account pid w' k" and books: "same_books (pool_at w k) (pool_at w' k)"
      and "vault_kept S auths (vault_authority S pid k) (vault (pool_at w k)) w w'"
    using assms by (simp_all add: guarded_kept_def funded_def)
  moreover have "owed (pool_at w' k) = owed (pool_at w k)" "solvent (pool_at w' k) = solvent (pool_at w k)"
    using books by (simp_all add: same_books_def owed_def worth_def solvent_def identity_def)
  moreover have "trading_ok (pool_at w' k)"
    using books assms(2) by (simp add: same_books_def trading_ok_def funded_def identity_def shares_def worth_def)
  ultimately show ?thesis
    using assms(2) same_books_vault [OF books] by (auto simp: funded_def guarded_def vault_kept_def)
qed

lemma step_funded:
  assumes "funded auths P S pid k w" and "pool_step (pool_at w k) ev q" and "holds_pool pid w' k q"
    and "auths (accts w' (vault (pool_at w k))) = {vault_authority S pid k}"
    and "owed q \<le> bal S w' (vault (pool_at w k))"
  shows "funded auths P S pid k w'"
proof -
  have "vault q = vault (pool_at w k)" "percolator_program q = percolator_program (pool_at w k)"
    using step_identity [OF assms(2)] by (simp_all add: identity_def)
  then show ?thesis
    using assms step_ledger [OF assms(2)] step_trading_ok [OF assms(2)]
    by (simp add: funded_def guarded_def holds_pool_def)
qed

lemma step_offset:
  assumes "pool_step p ev q" and "wf_pool p" and "\<And>b t. ev \<noteq> AccrueEv b t"
  shows "pre_supply_vault_offset q = pre_supply_vault_offset p \<and> pool_mode q = pool_mode p"
  using assms
proof (induction rule: pool_step.induct)
  case (deposit p a lp d s e)
  then have "wf_pool (p\<lparr>total_deposited := d, total_lp_supply := s\<rparr>)"
    by (simp add: wf_pool_def)
  then show ?case
    by (simp add: touch_hwm_reserved)
next
  case (resolve p)
  then show ?case
    using quiet_updates(2) [of p] by (simp add: same_books_def)
next
  case (hwm p enabled bps)
  then show ?case
    using quiet_updates(4) [of p enabled] quiet_updates(5) [of "set_hwm_enabled enabled p" bps]
    by (cases enabled) (simp_all add: same_books_def)
next
  case (config p x y)
  then show ?case
    using quiet_updates(1) [of p x y] by (simp add: same_books_def set_config_def)
qed (auto simp: touch_hwm_reserved)

end
