(* ===== verification/Vault_Funded.thy ===== *)
theory Vault_Funded
  imports Custody
begin

text \<open>
  The vault is funded: every instruction, whoever sends it and whatever it is for, leaves the token account
  of a pool's vault with at least what the pool owes.  \<open>Custody\<close> covers what cannot touch the vault;
  here are the five instructions that move the pool's own funds, and the whole entry point.
\<close>

section \<open>The instructions that move the pool's own funds\<close>

lemma owed_step:
  assumes "funded auths P S pid k w" and "pool_step (pool_at w k) ev q" and "\<And>b t. ev \<noteq> AccrueEv b t"
  shows "owed q + worth (pool_at w k) = owed (pool_at w k) + worth q"
    and "ledger_step ev (ledger (pool_at w k)) (ledger q)"
proof -
  have "wf_pool (pool_at w k)" "solvent (pool_at w k)"
    using assms(1) wf_pool_at [of w k] by (simp_all add: funded_def guarded_def pool_account_def)
  then show "owed q + worth (pool_at w k) = owed (pool_at w k) + worth q"
    and "ledger_step ev (ledger (pool_at w k)) (ledger q)"
    using step_offset [OF assms(2) _ assms(3)] step_ledger [OF assms(2)] by (simp_all add: owed_def)
qed

lemma fundedD:
  assumes "funded auths P S pid k w"
  shows "holds_pool pid w k (pool_at w k)" "wf_pool (pool_at w k)" "solvent (pool_at w k)"
    "trading_ok (pool_at w k)" "percolator_program (pool_at w k) = P"
    "auths (accts w (vault (pool_at w k))) = {vault_authority S pid k}"
    "owed (pool_at w k) \<le> bal S w (vault (pool_at w k))" "pool_account pid w k"
  using assms wf_pool_at [of w k] by (simp_all add: funded_def guarded_def pool_account_def holds_pool_def)

lemma bal_same: "acc_data (accts w' a) = acc_data (accts w a) \<Longrightarrow> bal S w' a = bal S w a"
  by (simp add: bal_def)

text \<open>A transfer into the vault that another key signs adds its amount; one out of it takes at most its
  amount.\<close>

lemma transfer_moves:
  assumes "token_program_law S auths"
    and "invoke S w (TokenTransfer (spl_token_id S) src dst a amt) infos = Inr w'
      \<or> invoke_signed S w (TokenTransfer (spl_token_id S) src dst a amt) infos sds = Inr w'"
  shows "auths (accts w' k) = auths (accts w k)" and "a \<in> auths (accts w src)"
    and "bal S w' k + (if k = src then unat amt else 0) = bal S w k + (if k = dst then unat amt else 0)"
proof -
  have "(\<forall>k. auths (accts w' k) = auths (accts w k)
      \<and> bal S w' k + (if k = src then unat amt else 0) = bal S w k + (if k = dst then unat amt else 0))
    \<and> a \<in> auths (accts w src)"
    using conjunct1 [OF assms(1) [unfolded token_program_law_def]] assms(2) by blast
  then show "auths (accts w' k) = auths (accts w k)" and "a \<in> auths (accts w src)"
    and "bal S w' k + (if k = src then unat amt else 0) = bal S w k + (if k = dst then unat amt else 0)"
    by blast+
qed

lemma transfer_in:
  assumes law: "token_program_law S auths" and auth: "auths (accts w V) = {A}" and "a \<noteq> A"
    and run: "invoke S w (TokenTransfer (spl_token_id S) src V a amt) infos = Inr w'"
  shows "auths (accts w' V) = {A} \<and> bal S w' V = bal S w V + unat amt"
  using transfer_moves(1,3) [OF law disjI1 [OF run], where k = V] transfer_moves(2) [OF law disjI1 [OF run]] auth assms(3) by (cases "V = src") auto

lemma transfer_out:
  assumes law: "token_program_law S auths"
    and run: "invoke_signed S w (TokenTransfer (spl_token_id S) V dst a amt) infos sds = Inr w'"
  shows "auths (accts w' V) = auths (accts w V) \<and> bal S w V \<le> bal S w' V + unat amt"
  using transfer_moves(1,3) [OF law disjI2 [OF run], where k = V] by (auto split: if_splits)

lemma mint_keeps:
  assumes "token_program_law S auths"
    and "invoke_signed S w (TokenMintTo (spl_token_id S) mint dst a amt) infos sds = Inr w'"
  shows "auths (accts w' V) = auths (accts w V) \<and> bal S w V \<le> bal S w' V"
  using assms unfolding token_program_law_def by blast

text \<open>The step of the pool against the vault's balance, from the store after the calls that touch the vault.\<close>

lemma moved_funded:
  assumes "funded auths P S pid k w" and "pool_step (pool_at w k) ev q" and "holds_pool pid w' k q"
    and "vault_kept S auths (vault_authority S pid k) (vault (pool_at w k)) w2 w'"
    and "owed q \<le> bal S w2 (vault (pool_at w k))"
  shows "funded auths P S pid k w'"
  using step_funded [OF assms(1-3)] assms(4,5) by (simp add: vault_kept_def)

lemma deposit_funded:
  assumes env: "custody_env auths P S pid k" and unsigned: "unsigned_by (vault_authority S pid k) accounts"
    and pool: "ai_key (accounts ! 1) = k" and funded: "funded auths P S pid k w"
    and run: "process_deposit S pid accounts amount w = Inr w'"
  shows "funded auths P S pid k w'"
proof (rule custody.deposit_moves [OF env unsigned pool fundedD(8) [OF funded] run], goal_cases)
  case (1 src u dst infos1 infos2 sds w1 w2 lp e q)
  let ?A = "vault_authority S pid k" and ?V = "vault (pool_at w k)"
  have "auths (accts w1 ?V) = {?A} \<and> bal S w1 ?V = bal S w ?V + unat amount"
    using transfer_in [OF custody_laws(6) [OF env] _ 1(3,1)] fundedD(6) [OF funded] by (simp add: bal_def)
  then have t2: "auths (accts w2 ?V) = {?A} \<and> bal S w ?V + unat amount \<le> bal S w2 ?V"
    using mint_keeps [OF custody_laws(6) [OF env] 1(4), of ?V] by auto
  moreover have "owed q = owed (pool_at w k) + unat amount"
    using owed_step [OF funded 1(5)] by (simp add: ledger_def)
  ultimately show ?case
    using fundedD(7) [OF funded] by (intro moved_funded [OF funded 1(5,6,7)]) auto
qed

lemma withdraw_funded:
  assumes env: "custody_env auths P S pid k" and unsigned: "unsigned_by (vault_authority S pid k) accounts"
    and pool: "ai_key (accounts ! 1) = k" and funded: "funded auths P S pid k w"
    and run: "process_withdraw S pid accounts lp w = Inr w'"
  shows "funded auths P S pid k w'"
proof (rule custody.withdraw_moves [OF env unsigned pool fundedD(8) [OF funded] run], goal_cases)
  case (1 src u dst infos1 infos2 sds w0 w1 w2 c e q)
  let ?A = "vault_authority S pid k" and ?V = "vault (pool_at w k)"
  have at0: "accts w0 ?V = accts w ?V"
    using 1(1) custody.pool_apart [OF env fundedD(8,6) [OF funded]] by blast
  have "vault_kept S auths ?A ?V w0 w1"
    using custody.unsigned_keeps [OF env _ _ 1(3,2)] fundedD(6) [OF funded] custody_laws(11) [OF env]
    by (simp add: at0)
  then have t2: "auths (accts w2 ?V) = {?A} \<and> bal S w ?V \<le> bal S w2 ?V + unat c"
    using transfer_out [OF custody_laws(6) [OF env] 1(4)] bal_same [of w0 ?V w S] by (simp add: vault_kept_def at0)
  have "unat c = unat lp * worth (pool_at w k) div shares (pool_at w k)" "unat lp \<le> shares (pool_at w k)"
      "worth q = worth (pool_at w k) - unat c"
    using owed_step(2) [OF funded 1(5)] by (simp_all add: ledger_def)
  then have "owed q + unat c = owed (pool_at w k)"
    using collateral_bounds(1) [of c lp "pool_at w k"] owed_step(1) [OF funded 1(5)] by simp
  then show ?case
    using t2 fundedD(7) [OF funded] by (intro moved_funded [OF funded 1(5,6,7)]) auto
qed

lemma flush_funded:
  assumes env: "custody_env auths P S pid k" and self: "no_self_call pid accounts"
    and pool: "ai_key (accounts ! 1) = k" and funded: "funded auths P S pid k w"
    and run: "process_flush_to_insurance S pid accounts amount w = Inr w'"
  shows "funded auths P S pid k w'"
proof (rule custody.flush_moves [OF env self pool fundedD(8) [OF funded] run], goal_cases)
  case (1 prog a sl v wv tp sd w1 q)
  let ?V = "vault (pool_at w k)"
  have "auths (accts w1 ?V) = auths (accts w ?V) \<and> bal S w ?V \<le> bal S w1 ?V + unat amount"
    using custody_laws(7) [OF env] 1(1-3) fundedD(5) [OF funded] unfolding wrapper_token_law_def
    by (metis (no_types, lifting) bal_same world.select_convs(1) world.update_convs(2) world.surjective)
  moreover have "owed q + unat amount = owed (pool_at w k)"
    using owed_step [OF funded 1(4)] by (auto simp: ledger_def)
  ultimately show ?case
    using fundedD(6,7) [OF funded] by (intro moved_funded [OF funded 1(4,5,6)]) auto
qed

lemma return_funded:
  assumes env: "custody_env auths P S pid k" and self: "no_self_call pid accounts"
    and pool: "ai_key (accounts ! 1) = k" and funded: "funded auths P S pid k w"
    and run: "process_admin_withdraw_insurance S pid accounts amount w = Inr w'"
  shows "funded auths P S pid k w'"
proof (rule custody.return_moves [OF env self pool fundedD(8) [OF funded] run], goal_cases)
  case (1 prog a sl v wv wa tp sd w1 q)
  let ?V = "vault (pool_at w k)"
  have "auths (accts w1 ?V) = auths (accts w ?V) \<and> bal S w ?V + unat amount \<le> bal S w1 ?V"
    using custody_laws(7) [OF env] 1(1-3) fundedD(5) [OF funded] unfolding wrapper_token_law_def by metis
  moreover have "owed q = owed (pool_at w k) + unat amount"
    using owed_step [OF funded 1(4)] by (simp add: ledger_def)
  ultimately show ?case
    using fundedD(6,7) [OF funded] by (intro moved_funded [OF funded 1(4,5,6)]) auto
qed

text \<open>The crank books at most what the vault holds.\<close>

lemma accrue_owed:
  assumes "pool_step p (AccrueEv b t) q" and "solvent p" and "trading_ok p" and "wf_pool p"
    and "owed p \<le> unat b"
  shows "owed q = unat b"
  using assms(1)
proof (rule accrue_stepE, goal_cases)
  case 1
  then have "worth p = 0"
    using assms(3) by (simp add: trading_ok_def shares_def)
  then show ?thesis
    using 1 assms(4) by (simp add: owed_def worth_def assets_in_def assets_out_def)
next
  case (2 v x f)
  then have "total_flushed p = 0" "total_returned p = 0"
    using assms(3) by (simp_all add: trading_ok_def)
  then have "unat v = worth p" "owed p = unat x"
    using 2 by (simp_all add: accrual_baseline_Some worth_def assets_in_def assets_out_def owed_def checked_add_Some)
  then show ?thesis
    using 2 assms(2,5) by (simp add: owed_def worth_def assets_in_def assets_out_def solvent_def checked_add_Some)
qed

lemma accrue_funded:
  assumes env: "custody_env auths P S pid k"
    and pool: "ai_key (accounts ! 1) = k" and funded: "funded auths P S pid k w"
    and run: "process_accrue_fees S pid accounts w = Inr w'"
  shows "funded auths P S pid k w'"
proof (rule custody.accrue_moves [OF env pool fundedD(8) [OF funded] run], goal_cases)
  case (1 balance t q)
  have bal: "bal S w (vault (pool_at w k)) = unat balance"
    using 1(1) by (simp add: bal_def)
  then have "owed q = unat balance"
    using accrue_owed [OF 1(2)] fundedD [OF funded] by simp
  then show ?case
    using bal by (intro moved_funded [OF funded 1(2,3,4)] fundedD(6) [OF funded]) simp
qed

section \<open>Every instruction\<close>

lemma instruction_funded:
  assumes "custody_env auths P S pid k" and "no_self_call pid accounts"
    and "unsigned_by (vault_authority S pid k) accounts"
    and "funded auths P S pid k w" and "process_instruction S pid accounts data w = Inr w'"
  shows "funded auths P S pid k w'"
proof -
  obtain instr where run: "dispatch S pid accounts instr w = Inr w'"
    using assms(5) by (auto simp: process_instruction_def process_def bnd_Inr)
  have held: "pool_account pid w k"
    using fundedD(1) [OF assms(4)] by (simp add: holds_pool_def)
  show ?thesis
  proof (cases "moves_books instr \<and> ai_key (accounts ! 1) = k")
    case False
    then have "custody_kept auths P S pid k w w'"
      using custody.dispatch_kept [OF assms(1-3) held run] by blast
    then show ?thesis
      using assms(4) by (rule kept_funded)
  next
    case True
    then have own: "ai_key (accounts ! 1) = k"
      by blast
    note user = deposit_funded [OF assms(1,3) own assms(4)] withdraw_funded [OF assms(1,3) own assms(4)]
      and admin = flush_funded [OF assms(1,2) own assms(4)] return_funded [OF assms(1,2) own assms(4)]
      and crank = accrue_funded [OF assms(1) own assms(4)]
    show ?thesis
      using True run by (cases instr) (simp_all add: dispatch_def user admin crank)
  qed
qed

end
