(* ===== verification/Lp_Mint.thy ===== *)
theory Lp_Mint
  imports Asset_Moves
begin

text \<open>
  The LP mint against the books: the LP tokens in circulation never outnumber the supply the pool has recorded.
  \<open>minted\<close> stands for what the token program keeps in a mint account, the mint authority and the supply
  (\<open>None\<close> for an account that is no mint); the laws are documented rules of SPL Token.  Holders may burn
  their tokens outside the program, so the supply can fall below the books but not rise above
  them.
\<close>

section \<open>Laws of the token program and the wrapper\<close>

definition mint_supply :: "(account \<Rightarrow> (pubkey \<times> nat) option) \<Rightarrow> account \<Rightarrow> nat" where
  "mint_supply minted a = (case minted a of None \<Rightarrow> 0 | Some (_, n) \<Rightarrow> n)"

definition minted_by :: "(account \<Rightarrow> (pubkey \<times> nat) option) \<Rightarrow> pubkey \<Rightarrow> account \<Rightarrow> bool" where
  "minted_by minted A a \<longleftrightarrow> (\<exists>n. minted a = Some (A, n))"

definition mint_kept :: "(account \<Rightarrow> (pubkey \<times> nat) option) \<Rightarrow> pubkey \<Rightarrow> pubkey \<Rightarrow> world \<Rightarrow> world \<Rightarrow> bool" where
  "mint_kept minted A M w w' \<longleftrightarrow> minted_by minted A (accts w' M)
     \<and> mint_supply minted (accts w' M) \<le> mint_supply minted (accts w M)"

text \<open>A mint belongs to the token program and is smaller than a pool.\<close>

definition mint_account_law :: "sdk \<Rightarrow> (account \<Rightarrow> (pubkey \<times> nat) option) \<Rightarrow> bool" where
  "mint_account_law S minted \<longleftrightarrow> (\<forall>a. minted a \<noteq> None \<longrightarrow>
     acc_owner a = spl_token_id S \<and> acc_data a \<noteq> [] \<and> length (acc_data a) < STAKE_POOL_SIZE)"

text \<open>Without the signature of its mint authority nothing is minted and the authority stays.\<close>

definition mint_signature_law :: "sdk \<Rightarrow> pubkey \<Rightarrow> (account \<Rightarrow> (pubkey \<times> nat) option) \<Rightarrow> pubkey \<Rightarrow> bool" where
  "mint_signature_law S pid minted k \<longleftrightarrow> (\<forall>w M c infos w'.
     minted_by minted (vault_authority S pid k) (accts w M) \<longrightarrow> call_program S c \<noteq> pid \<longrightarrow>
     unsigned_by (vault_authority S pid k) infos \<longrightarrow>
     (invoke S w c infos = Inr w' \<longrightarrow> mint_kept minted (vault_authority S pid k) M w w')
     \<and> (\<forall>sds. invoke_signed S w c infos sds = Inr w' \<longrightarrow> (\<forall>s \<in> set sds. \<not> vault_seeds k s) \<longrightarrow>
          mint_kept minted (vault_authority S pid k) M w w'))"

text \<open>What the token instructions the program issues do to a mint: \<open>MintTo\<close> adds its amount to the mint it names,
  \<open>Burn\<close> takes it off, transfers and new token accounts touch no mint, and a new mint starts at zero under
  the authority it is given.\<close>

definition mint_to_law :: "sdk \<Rightarrow> (account \<Rightarrow> (pubkey \<times> nat) option) \<Rightarrow> bool" where
  "mint_to_law S minted \<longleftrightarrow> (\<forall>w M dst a amt infos sds w' A n.
     invoke_signed S w (TokenMintTo (spl_token_id S) M dst a amt) infos sds = Inr w' \<longrightarrow>
     minted (accts w M) = Some (A, n) \<longrightarrow> minted (accts w' M) = Some (A, n + unat amt))"

definition burn_law :: "sdk \<Rightarrow> (account \<Rightarrow> (pubkey \<times> nat) option) \<Rightarrow> bool" where
  "burn_law S minted \<longleftrightarrow> (\<forall>w M src a amt infos w' A n.
     invoke S w (TokenBurn (spl_token_id S) src M a amt) infos = Inr w' \<longrightarrow>
     minted (accts w M) = Some (A, n) \<longrightarrow> (\<exists>n'. minted (accts w' M) = Some (A, n') \<and> n = n' + unat amt))"

definition mint_frame_law :: "sdk \<Rightarrow> (account \<Rightarrow> (pubkey \<times> nat) option) \<Rightarrow> bool" where
  "mint_frame_law S minted \<longleftrightarrow> (\<forall>w M infos sds w'. minted (accts w M) \<noteq> None \<longrightarrow>
     (\<exists>src dst a amt. invoke_signed S w (TokenTransfer (spl_token_id S) src dst a amt) infos sds = Inr w')
     \<or> (\<exists>a m own. invoke_signed S w (TokenInitializeAccount (spl_token_id S) a m own) infos sds = Inr w') \<longrightarrow>
     minted (accts w' M) = minted (accts w M))"

definition new_mint_law :: "sdk \<Rightarrow> (account \<Rightarrow> (pubkey \<times> nat) option) \<Rightarrow> bool" where
  "new_mint_law S minted \<longleftrightarrow> (\<forall>w M own freeze dec infos sds w'.
     invoke_signed S w (TokenInitializeMint (spl_token_id S) M own freeze dec) infos sds = Inr w' \<longrightarrow>
     minted (accts w' M) = Some (own, 0))"

text \<open>The wrapper is handed the vault authority's signature for its insurance instructions; it does not use it
  to mint.\<close>

definition wrapper_mint_law :: "sdk \<Rightarrow> (account \<Rightarrow> (pubkey \<times> nat) option) \<Rightarrow> pubkey \<Rightarrow> bool" where
  "wrapper_mint_law S minted P \<longleftrightarrow> (\<forall>w prog w' A M. ai_key prog = P \<longrightarrow> minted_by minted A (accts w M) \<longrightarrow>
     (\<forall>a sl v wv tp amount sd. cpi_top_up_insurance S w prog a sl v wv tp amount sd = Inr w' \<longrightarrow>
        mint_kept minted A M w w')
     \<and> (\<forall>a sl v wv wa tp amount sd. cpi_withdraw_insurance S w prog a sl v wv wa tp amount sd = Inr w' \<longrightarrow>
        mint_kept minted A M w w')
     \<and> (\<forall>a b sl i kind sds. cpi_update_asset_authority S w prog a b sl i kind sds = Inr w' \<longrightarrow>
        mint_kept minted A M w w'))"

definition mint_env :: "(account \<Rightarrow> (pubkey \<times> nat) option) \<Rightarrow> pubkey \<Rightarrow> sdk \<Rightarrow> pubkey \<Rightarrow> pubkey \<Rightarrow> bool" where
  "mint_env minted P S pid k \<longleftrightarrow> runtime_laws S pid \<and> creation_law S \<and> address_law S pid k
     \<and> mint_account_law S minted \<and> mint_signature_law S pid minted k \<and> mint_to_law S minted \<and> burn_law S minted
     \<and> mint_frame_law S minted \<and> new_mint_law S minted \<and> wrapper_mint_law S minted P"

lemma mint_laws:
  assumes "mint_env minted P S pid k"
  shows "runtime_laws S pid" "creation_law S" "address_law S pid k" "mint_account_law S minted"
    "mint_signature_law S pid minted k" "mint_to_law S minted" "burn_law S minted" "mint_frame_law S minted"
    "new_mint_law S minted" "wrapper_mint_law S minted P" "spl_token_id S \<noteq> pid"
  using assms by (simp_all add: mint_env_def runtime_laws_def)

lemma wrapper_keeps:
  assumes "wrapper_mint_law S minted P" and "ai_key prog = P" and "minted_by minted A (accts w M)"
  shows "cpi_top_up_insurance S w prog a sl v wv tp amount sd = Inr w' \<Longrightarrow> mint_kept minted A M w w'"
    and "cpi_withdraw_insurance S w prog a sl v wv wa tp amount sd = Inr w' \<Longrightarrow> mint_kept minted A M w w'"
    and "cpi_update_asset_authority S w prog a b sl i kind sds = Inr w' \<Longrightarrow> mint_kept minted A M w w'"
proof -
  note law = assms(1) [unfolded wrapper_mint_law_def, rule_format, OF assms(2,3)]
  show "cpi_top_up_insurance S w prog a sl v wv tp amount sd = Inr w' \<Longrightarrow> mint_kept minted A M w w'"
    by (rule law [THEN conjunct1, rule_format])
  show "cpi_withdraw_insurance S w prog a sl v wv wa tp amount sd = Inr w' \<Longrightarrow> mint_kept minted A M w w'"
    by (rule law [THEN conjunct2, THEN conjunct1, rule_format])
  show "cpi_update_asset_authority S w prog a b sl i kind sds = Inr w' \<Longrightarrow> mint_kept minted A M w w'"
    by (rule law [THEN conjunct2, THEN conjunct2, rule_format])
qed

section \<open>The mint as a guarded account\<close>

interpretation mint: guarded_asset lp_mint "minted_by minted" "\<lambda>S. mint_kept minted" "mint_env minted P" P
  for minted P
proof
  fix S pid k A X w w' w'' c infos
  show "minted_by minted A (accts w X) \<Longrightarrow> mint_kept minted A X w w"
    and "mint_kept minted A X w w' \<Longrightarrow> minted_by minted A (accts w' X)"
    and "mint_kept minted A X w w' \<Longrightarrow> mint_kept minted A X w' w'' \<Longrightarrow> mint_kept minted A X w w''"
    and "mint_kept minted A X w w' \<Longrightarrow> accts w'' X = accts w' X \<Longrightarrow> mint_kept minted A X w w''"
    by (simp_all add: mint_kept_def)
  show "identity q = identity p \<Longrightarrow> lp_mint q = lp_mint p" for p q
    by (simp add: identity_def)
  assume env: "mint_env minted P S pid k"
  show "runtime_laws S pid \<and> creation_law S \<and> address_law S pid k"
    using mint_laws [OF env] by blast
  show "acc_owner a = spl_token_id S \<and> acc_data a \<noteq> [] \<and> length (acc_data a) < STAKE_POOL_SIZE"
    if "minted_by minted A a" for a
    using mint_laws(4) [OF env] that unfolding mint_account_law_def minted_by_def by (metis option.distinct(1))
  assume safe: "minted_by minted (vault_authority S pid k) (accts w X)"
  show "mint_kept minted (vault_authority S pid k) X w w'"
    if "call_program S c \<noteq> pid" "unsigned_by (vault_authority S pid k) infos" "invoke S w c infos = Inr w'"
    using mint_laws(5) [OF env] safe that unfolding mint_signature_law_def by blast
  show "mint_kept minted (vault_authority S pid k) X w w'"
    if "call_program S c \<noteq> pid" "unsigned_by (vault_authority S pid k) infos"
      "invoke_signed S w c infos sds = Inr w'" "\<forall>s \<in> set sds. \<not> vault_seeds k s" for sds
    using mint_laws(5) [OF env] safe that unfolding mint_signature_law_def by blast
  show "mint_kept minted (vault_authority S pid k) X w w'"
    if "ai_key prog = P" "cpi_update_asset_authority S w prog cur new sl i kind sds = Inr w'"
    for prog cur new sl i kind sds
    by (rule wrapper_keeps(3) [OF mint_laws(10) [OF env] that(1) safe that(2)])
qed

section \<open>Backed mints\<close>

definition backed :: "(account \<Rightarrow> (pubkey \<times> nat) option) \<Rightarrow> pubkey \<Rightarrow> sdk \<Rightarrow> pubkey \<Rightarrow> pubkey \<Rightarrow> world \<Rightarrow> bool" where
  "backed minted P S pid k w \<longleftrightarrow> guarded lp_mint (minted_by minted) P S pid k w \<and> solvent (pool_at w k)
     \<and> mint_supply minted (accts w (lp_mint (pool_at w k))) \<le> shares (pool_at w k)"

lemma backedD:
  assumes "backed minted P S pid k w"
  shows "pool_account pid w k" "percolator_program (pool_at w k) = P" "wf_pool (pool_at w k)"
    "minted_by minted (vault_authority S pid k) (accts w (lp_mint (pool_at w k)))" "solvent (pool_at w k)"
    "mint_supply minted (accts w (lp_mint (pool_at w k))) \<le> shares (pool_at w k)"
  using assms wf_pool_at [of w k] by (simp_all add: backed_def guarded_def pool_account_def)

lemma kept_backed:
  assumes "guarded_kept lp_mint (minted_by minted) (\<lambda>S. mint_kept minted) P S pid k w w'"
    and "backed minted P S pid k w"
  shows "backed minted P S pid k w'"
proof -
  have "pool_account pid w' k" and books: "same_books (pool_at w k) (pool_at w' k)"
      and "mint_kept minted (vault_authority S pid k) (lp_mint (pool_at w k)) w w'"
    using assms by (simp_all add: guarded_kept_def backed_def)
  moreover have "lp_mint (pool_at w' k) = lp_mint (pool_at w k)" "shares (pool_at w' k) = shares (pool_at w k)"
      "percolator_program (pool_at w' k) = percolator_program (pool_at w k)" "solvent (pool_at w' k) = solvent (pool_at w k)"
    using books by (simp_all add: same_books_def identity_def shares_def solvent_def)
  ultimately show ?thesis
    using assms(2) by (simp add: backed_def guarded_def mint_kept_def)
qed

text \<open>The step of the pool against the mint, from the store after the calls that touch the mint.\<close>

lemma moved_backed:
  assumes "backed minted P S pid k w" and "pool_step (pool_at w k) ev q" and "holds_pool pid w' k q"
    and "mint_kept minted (vault_authority S pid k) (lp_mint (pool_at w k)) w2 w'"
    and "mint_supply minted (accts w2 (lp_mint (pool_at w k))) \<le> shares q"
  shows "backed minted P S pid k w'"
proof -
  have "lp_mint q = lp_mint (pool_at w k)" "percolator_program q = percolator_program (pool_at w k)"
    using step_identity [OF assms(2)] by (simp_all add: identity_def)
  then show ?thesis
    using assms(3-5) backedD [OF assms(1)] step_ledger [OF assms(2)]
    by (simp add: backed_def guarded_def holds_pool_def mint_kept_def)
qed

lemma step_shares:
  assumes "backed minted P S pid k w" and "pool_step (pool_at w k) ev q"
  shows "ledger_step ev (ledger (pool_at w k)) (ledger q)"
  using step_ledger [OF assms(2)] backedD [OF assms(1)] by blast

section \<open>The instructions that move the pool's own funds\<close>

lemma deposit_backed:
  assumes env: "mint_env minted P S pid k" and unsigned: "unsigned_by (vault_authority S pid k) accounts"
    and pool: "ai_key (accounts ! 1) = k" and backed: "backed minted P S pid k w"
    and run: "process_deposit S pid accounts amount w = Inr w'"
  shows "backed minted P S pid k w'"
proof (rule mint.deposit_moves [OF env unsigned pool backedD(1) [OF backed] run], goal_cases)
  case (1 src u dst infos1 infos2 sds w1 w2 lp e q)
  let ?A = "vault_authority S pid k" and ?M = "lp_mint (pool_at w k)"
  have "mint_kept minted ?A ?M (w\<lparr>mut_borrowed := k # mut_borrowed w\<rparr>) w1"
    using backedD(4) [OF backed] mint_laws(11) [OF env] by (intro mint.unsigned_keeps [OF env _ _ 1(2,1)]) simp_all
  then obtain n where n: "minted (accts w1 ?M) = Some (?A, n)" "n \<le> shares (pool_at w k)"
    using backedD(6) [OF backed] by (auto simp: mint_kept_def minted_by_def mint_supply_def)
  have t2: "minted (accts w2 ?M) = Some (?A, n + unat lp)"
    using mint_laws(6) [OF env] n(1) 1(4) unfolding mint_to_law_def by blast
  moreover have "shares q = shares (pool_at w k) + unat lp"
    using step_shares [OF backed 1(5)] by (simp add: ledger_def)
  ultimately show ?case
    using n(2) by (intro moved_backed [OF backed 1(5,6,7)]) (simp_all add: minted_by_def mint_supply_def)
qed

lemma withdraw_backed:
  assumes env: "mint_env minted P S pid k" and unsigned: "unsigned_by (vault_authority S pid k) accounts"
    and pool: "ai_key (accounts ! 1) = k" and backed: "backed minted P S pid k w"
    and run: "process_withdraw S pid accounts lp w = Inr w'"
  shows "backed minted P S pid k w'"
proof (rule mint.withdraw_moves [OF env unsigned pool backedD(1) [OF backed] run], goal_cases)
  case (1 src u dst infos1 infos2 sds w0 w1 w2 c e q)
  let ?A = "vault_authority S pid k" and ?M = "lp_mint (pool_at w k)"
  have "accts w0 ?M = accts w ?M"
    using 1(1) mint.pool_apart [OF env backedD(1,4) [OF backed]] by blast
  then obtain n where "minted (accts w0 ?M) = Some (?A, n)" "n \<le> shares (pool_at w k)"
    using backedD(4,6) [OF backed] by (auto simp: minted_by_def mint_supply_def)
  then obtain n' where n': "minted (accts w1 ?M) = Some (?A, n')" "n' + unat lp \<le> shares (pool_at w k)"
    using mint_laws(7) [OF env] 1(2) unfolding burn_law_def by blast
  then have t2: "minted (accts w2 ?M) = Some (?A, n')"
    using mint_laws(8) [OF env] 1(4) unfolding mint_frame_law_def by (metis option.distinct(1))
  moreover have "shares q = shares (pool_at w k) - unat lp"
    using step_shares [OF backed 1(5)] by (simp add: ledger_def)
  ultimately show ?case
    using n'(2) by (intro moved_backed [OF backed 1(5,6,7)]) (simp_all add: minted_by_def mint_supply_def)
qed

text \<open>Flush, return and the fee crank move no shares.\<close>

lemma flush_backed:
  assumes env: "mint_env minted P S pid k" and self: "no_self_call pid accounts"
    and pool: "ai_key (accounts ! 1) = k" and backed: "backed minted P S pid k w"
    and run: "process_flush_to_insurance S pid accounts amount w = Inr w'"
  shows "backed minted P S pid k w'"
proof (rule mint.flush_moves [OF env self pool backedD(1) [OF backed] run], goal_cases)
  case (1 prog a sl v wv tp sd w1 q)
  have "mint_kept minted (vault_authority S pid k) (lp_mint (pool_at w k)) (w\<lparr>mut_borrowed := k # mut_borrowed w\<rparr>) w1"
    using wrapper_keeps [OF mint_laws(10) [OF env], of prog] backedD(2,4) [OF backed] 1(1,2) by simp
  moreover have "shares q = shares (pool_at w k)"
    using step_shares [OF backed 1(4)] by (simp add: ledger_def)
  ultimately show ?case
    using backedD(6) [OF backed] by (intro moved_backed [OF backed 1(4,5,6)]) (simp_all add: mint_kept_def)
qed

lemma return_backed:
  assumes env: "mint_env minted P S pid k" and self: "no_self_call pid accounts"
    and pool: "ai_key (accounts ! 1) = k" and backed: "backed minted P S pid k w"
    and run: "process_admin_withdraw_insurance S pid accounts amount w = Inr w'"
  shows "backed minted P S pid k w'"
proof (rule mint.return_moves [OF env self pool backedD(1) [OF backed] run], goal_cases)
  case (1 prog a sl v wv wa tp sd w1 q)
  have "mint_kept minted (vault_authority S pid k) (lp_mint (pool_at w k)) w w1"
    using wrapper_keeps [OF mint_laws(10) [OF env], of prog] backedD(2,4) [OF backed] 1(1,2) by simp
  moreover have "shares q = shares (pool_at w k)"
    using step_shares [OF backed 1(4)] by (simp add: ledger_def)
  ultimately show ?case
    using backedD(6) [OF backed] by (intro moved_backed [OF backed 1(4,5,6)]) (simp_all add: mint_kept_def)
qed

lemma accrue_backed:
  assumes env: "mint_env minted P S pid k"
    and pool: "ai_key (accounts ! 1) = k" and backed: "backed minted P S pid k w"
    and run: "process_accrue_fees S pid accounts w = Inr w'"
  shows "backed minted P S pid k w'"
proof (rule mint.accrue_moves [OF env pool backedD(1) [OF backed] run], goal_cases)
  case (1 balance t q)
  have "shares q = shares (pool_at w k)"
    using 1(2) by (auto elim: accrue_stepE simp: shares_def)
  then show ?case
    using backedD(4,6) [OF backed] by (intro moved_backed [OF backed 1(2,3,4)]) simp_all
qed

section \<open>Every instruction\<close>

lemma instruction_backed:
  assumes "mint_env minted P S pid k" and "no_self_call pid accounts"
    and "unsigned_by (vault_authority S pid k) accounts"
    and "backed minted P S pid k w" and "process_instruction S pid accounts data w = Inr w'"
  shows "backed minted P S pid k w'"
proof -
  obtain instr where run: "dispatch S pid accounts instr w = Inr w'"
    using assms(5) by (auto simp: process_instruction_def process_def bnd_Inr)
  show ?thesis
  proof (cases "moves_books instr \<and> ai_key (accounts ! 1) = k")
    case False
    then have "guarded_kept lp_mint (minted_by minted) (\<lambda>S. mint_kept minted) P S pid k w w'"
      using mint.dispatch_kept [OF assms(1-3) backedD(1) [OF assms(4)] run] by blast
    then show ?thesis
      using assms(4) by (rule kept_backed)
  next
    case True
    then have own: "ai_key (accounts ! 1) = k"
      by blast
    note user = deposit_backed [OF assms(1,3) own assms(4)] withdraw_backed [OF assms(1,3) own assms(4)]
      and admin = flush_backed [OF assms(1,2) own assms(4)] return_backed [OF assms(1,2) own assms(4)]
      and crank = accrue_backed [OF assms(1) own assms(4)]
    show ?thesis
      using True run by (cases instr) (simp_all add: dispatch_def user admin crank)
  qed
qed

end
