(* ===== verification/Demo_Bank.thy ===== *)
theory Demo_Bank
  imports Custody Lp_Mint
begin

text \<open>
  A runtime with a token program that checks signatures, balances and mint authorities, a wrapper that
  keeps an insurance account, and a system program that assigns derived addresses only under their
  seeds.  It satisfies all the laws of \<open>Records\<close>, \<open>Custody\<close> and \<open>Lp_Mint\<close>; the theorems about whole
  histories are evaluated on it.  Of the LP tokens it keeps the mint, not the holders' accounts.
\<close>

section \<open>Token accounts\<close>

definition token_ok :: "account \<Rightarrow> bool" where
  "token_ok a \<longleftrightarrow> acc_owner a = demo_token \<and> length (acc_data a) = 40"

definition token_owner :: "account \<Rightarrow> pubkey" where
  "token_owner a = key_of (take 32 (acc_data a))"

definition token_amount :: "account \<Rightarrow> u64" where
  "token_amount a = of_u64 (drop 32 (acc_data a))"

definition bank_auths :: "account \<Rightarrow> pubkey set" where
  "bank_auths a = (if token_ok a then {token_owner a} else {})"

definition put_amount :: "pubkey \<Rightarrow> u64 \<Rightarrow> world \<Rightarrow> world" where
  "put_amount k v w = w\<lparr>accts := (accts w)(k := (accts w k)
     \<lparr>acc_data := take 32 (acc_data (accts w k)) @ le_u64 v\<rparr>)\<rparr>"

definition bank_move :: "pubkey \<Rightarrow> pubkey \<Rightarrow> u64 \<Rightarrow> world \<Rightarrow> fault + world" where
  "bank_move src dst amt w =
     (if token_ok (accts w src) \<and> token_ok (accts w dst) \<and> src \<noteq> dst \<and> amt \<le> token_amount (accts w src)
         \<and> unat (token_amount (accts w dst)) + unat amt < 2 ^ 64
      then Inr (put_amount dst (token_amount (accts w dst) + amt)
             (put_amount src (token_amount (accts w src) - amt) w))
      else Inl (CalleeError 1))"

text \<open>A mint has one byte more than a token account; authority and supply stand where a token account has its
  owner and amount.\<close>

definition mint_ok :: "account \<Rightarrow> bool" where
  "mint_ok a \<longleftrightarrow> acc_owner a = demo_token \<and> length (acc_data a) = 41"

definition mint_amount :: "account \<Rightarrow> u64" where
  "mint_amount a = of_u64 (take 8 (drop 32 (acc_data a)))"

definition bank_minted :: "account \<Rightarrow> (pubkey \<times> nat) option" where
  "bank_minted a = (if mint_ok a then Some (token_owner a, unat (mint_amount a)) else None)"

definition mint_data :: "pubkey \<Rightarrow> u64 \<Rightarrow> byte list" where
  "mint_data own v = key_bytes own @ le_u64 v @ [1]"

definition put_mint :: "pubkey \<Rightarrow> pubkey \<Rightarrow> u64 \<Rightarrow> world \<Rightarrow> world" where
  "put_mint M own v w = w\<lparr>accts := (accts w)(M := (accts w M)\<lparr>acc_data := mint_data own v\<rparr>)\<rparr>"

section \<open>The programs\<close>

definition bank_address :: "seeds \<Rightarrow> pubkey \<Rightarrow> pubkey \<times> u8" where
  "bank_address sds pid =
     (if length sds = 3 then if sds ! 1 \<noteq> key_bytes 20 then 23 else if sds ! 2 = key_bytes 10 then 22 else 24
      else if hd sds = seed_of ''stake_pool'' then 20 else 21, 255)"

definition bank_signed :: "pubkey \<Rightarrow> account_info list \<Rightarrow> seeds list \<Rightarrow> bool" where
  "bank_signed a infos sds \<longleftrightarrow> (\<exists>i \<in> set infos. ai_is_signer i \<and> ai_key i = a)
     \<or> a = 21 \<and> vault_auth_seeds 20 255 \<in> set sds"

definition bank_transfer :: "pubkey \<Rightarrow> pubkey \<Rightarrow> pubkey \<Rightarrow> u64 \<Rightarrow> account_info list \<Rightarrow> seeds list \<Rightarrow> world \<Rightarrow>
    fault + world" where
  "bank_transfer src dst a amt infos sds w =
     (if token_owner (accts w src) = a \<and> bank_signed a infos sds then bank_move src dst amt w
      else Inl (CalleeError 2))"

definition bank_open :: "pubkey \<Rightarrow> pubkey \<Rightarrow> world \<Rightarrow> fault + world" where
  "bank_open k own w =
     (if token_ok (accts w k) \<and> token_owner (accts w k) = 0
      then Inr (w\<lparr>accts := (accts w)(k := (accts w k)\<lparr>acc_data := key_bytes own @ le_u64 0\<rparr>)\<rparr>)
      else Inl (CalleeError 3))"

definition bank_mint_to :: "pubkey \<Rightarrow> pubkey \<Rightarrow> u64 \<Rightarrow> account_info list \<Rightarrow> seeds list \<Rightarrow> world \<Rightarrow> fault + world" where
  "bank_mint_to M a amt infos sds w =
     (if mint_ok (accts w M) \<and> token_owner (accts w M) = a \<and> bank_signed a infos sds
         \<and> unat (mint_amount (accts w M)) + unat amt < 2 ^ 64
      then Inr (put_mint M a (mint_amount (accts w M) + amt) w) else Inl (CalleeError 6))"

definition bank_burn :: "pubkey \<Rightarrow> u64 \<Rightarrow> world \<Rightarrow> fault + world" where
  "bank_burn M amt w =
     (if mint_ok (accts w M) \<and> amt \<le> mint_amount (accts w M)
      then Inr (put_mint M (token_owner (accts w M)) (mint_amount (accts w M) - amt) w) else Inl (CalleeError 7))"

definition bank_new_mint :: "pubkey \<Rightarrow> pubkey \<Rightarrow> world \<Rightarrow> fault + world" where
  "bank_new_mint M own w =
     (if mint_ok (accts w M) \<and> token_owner (accts w M) = 0 then Inr (put_mint M own 0 w) else Inl (CalleeError 8))"

definition bank_wrapper :: "instruction \<Rightarrow> account_info list \<Rightarrow> seeds list \<Rightarrow> world \<Rightarrow> fault + world" where
  "bank_wrapper ix infos sds w =
     (let key = (\<lambda>i. meta_key (ix_accounts ix ! i)); amt = of_u64 (take 8 (tl (ix_data ix))) in
      if hd (ix_data ix) = TAG_TOP_UP_INSURANCE then bank_transfer (key 2) (key 3) (key 0) amt infos sds w
      else if hd (ix_data ix) = TAG_WITHDRAW_INSURANCE
        then if token_owner (accts w (key 3)) = 21 then Inl (CalleeError 4) else bank_move (key 3) (key 2) amt w
      else Inr w)"

text \<open>A record's address is handed to the program only under a record's seeds.\<close>

definition bank_assignable :: "pubkey \<Rightarrow> pubkey \<Rightarrow> seeds list \<Rightarrow> bool" where
  "bank_assignable k own sds \<longleftrightarrow> (own = demo_pid \<and> k \<in> {22, 24} \<longrightarrow> (\<exists>s \<in> set sds. record_seeds s))"

definition bank_call :: "world \<Rightarrow> cpi_call \<Rightarrow> account_info list \<Rightarrow> seeds list \<Rightarrow> fault + world" where
  "bank_call w c infos sds = (case c of
     WrapperCall ix \<Rightarrow> bank_wrapper ix infos sds w
   | TokenTransfer _ src dst a amt \<Rightarrow> bank_transfer src dst a amt infos sds w
   | TokenInitializeAccount _ k _ own \<Rightarrow> bank_open k own w
   | TokenMintTo _ M _ a amt \<Rightarrow> bank_mint_to M a amt infos sds w
   | TokenBurn _ _ M _ amt \<Rightarrow> bank_burn M amt w
   | TokenInitializeMint _ M own _ _ \<Rightarrow> bank_new_mint M own w
   | SystemCreateAccount _ k _ n own \<Rightarrow>
       if bank_assignable k own sds then demo_alloc k n own w else Inl (CalleeError 5)
   | SystemAllocate k n \<Rightarrow> demo_alloc k n demo_system w
   | SystemAssign k own \<Rightarrow> if bank_assignable k own sds then demo_assign k own w else Inl (CalleeError 5)
   | _ \<Rightarrow> Inr w)"

definition bank_sdk :: sdk where
  "bank_sdk = demo_sdk\<lparr>find_program_address := bank_address, invoke := (\<lambda>w c infos. bank_call w c infos []),
     invoke_signed := bank_call,
     token_account_amount := (\<lambda>bs. if length bs = 40 then Inr (of_u64 (drop 32 bs)) else Inl InvalidAccountData)\<rparr>"

lemma bank_sdk_simps [simp]:
  "next_account_info bank_sdk = demo_next" "find_program_address bank_sdk = bank_address"
  "invoke bank_sdk w c i = bank_call w c i []" "invoke_signed bank_sdk w c i s = bank_call w c i s"
  "rent_minimum_balance bank_sdk n = Inr (of_nat n)"
  "clock_from_account_info bank_sdk w ai = Inr \<lparr>clock_slot = 1000, clock_epoch = 2\<rparr>"
  "token_account_amount bank_sdk bs =
     (if length bs = 40 then Inr (of_u64 (drop 32 bs)) else Inl InvalidAccountData)"
  "spl_token_id bank_sdk = demo_token" "system_program_id bank_sdk = demo_system"
  by (simp_all add: bank_sdk_def demo_sdk_def)

lemma bank_addresses [simp]:
  "derive_pool_pda bank_sdk pid s = (20, 255)" "derive_vault_authority bank_sdk pid k = (21, 255)"
  "derive_deposit_pda bank_sdk pid k u = (if k \<noteq> 20 then 23 else if u = 10 then 22 else 24, 255)"
  by (simp_all add: derive_pool_pda_def derive_vault_authority_def derive_deposit_pda_def
      bank_address_def seed_of_def codec_key.enc_inject)

section \<open>The laws\<close>

lemma demo_ids [simp]: "demo_token \<noteq> demo_pid" "demo_system \<noteq> demo_pid" "demo_pid \<noteq> demo_token"
    "demo_pid \<noteq> demo_system" "demo_system \<noteq> demo_token" "demo_token \<noteq> demo_system" "demo_wrapper \<noteq> demo_pid"
    "demo_wrapper \<noteq> demo_system" "demo_wrapper \<noteq> demo_token"
  by (simp_all add: demo_token_def demo_system_def demo_pid_def demo_wrapper_def)

lemma put_amount_simps [simp]:
  "mut_borrowed (put_amount k v w) = mut_borrowed w"
  "acc_owner (accts (put_amount k v w) a) = acc_owner (accts w a)"
  "a \<noteq> k \<Longrightarrow> accts (put_amount k v w) a = accts w a"
  by (simp_all add: put_amount_def)

lemma put_amount_token:
  assumes "token_ok (accts w k)"
  shows "token_ok (accts (put_amount k v w) a) = token_ok (accts w a)"
    and "token_owner (accts (put_amount k v w) a) = token_owner (accts w a)"
    and "token_amount (accts (put_amount k v w) k) = v"
proof -
  have len: "length (acc_data (accts w k)) = 40"
    using assms by (simp add: token_ok_def)
  show "token_ok (accts (put_amount k v w) a) = token_ok (accts w a)"
    using len by (cases "a = k") (simp_all add: put_amount_def token_ok_def)
  show "token_owner (accts (put_amount k v w) a) = token_owner (accts w a)"
    using len by (cases "a = k") (simp_all add: put_amount_def token_owner_def)
  show "token_amount (accts (put_amount k v w) k) = v"
    using len by (simp add: put_amount_def token_amount_def codec64.dec_enc)
qed

lemma bal_bank: "bal bank_sdk w a = (if length (acc_data (accts w a)) = 40 then unat (token_amount (accts w a)) else 0)"
  by (simp add: bal_def token_amount_def)

lemma bank_move_effect:
  assumes "bank_move src dst amt w = Inr w'"
  shows "cpi_effect_ok demo_pid w w'" and "bank_auths (accts w' a) = bank_auths (accts w a)"
    and "bal bank_sdk w' a + (if a = src then unat amt else 0) = bal bank_sdk w a + (if a = dst then unat amt else 0)"
    and "acc_owner (accts w' a) = acc_owner (accts w a)" and "token_ok (accts w src)"
proof -
  let ?s = "token_amount (accts w src)" and ?d = "token_amount (accts w dst)"
  have ok: "token_ok (accts w src)" "token_ok (accts w dst)" "src \<noteq> dst" "amt \<le> ?s" "unat ?d + unat amt < 2 ^ 64"
      and w': "w' = put_amount dst (?d + amt) (put_amount src (?s - amt) w)"
    using assms by (auto simp: bank_move_def split: if_splits)
  show "token_ok (accts w src)" by (rule ok)
  show "acc_owner (accts w' a) = acc_owner (accts w a)"
    by (simp add: w')
  show "bank_auths (accts w' a) = bank_auths (accts w a)"
    using ok by (simp add: bank_auths_def w' put_amount_token)
  have "accts w' a = accts w a" if "acc_owner (accts w a) = demo_pid" for a
    using that ok(1,2) by (cases "a = src"; cases "a = dst") (simp_all add: w' token_ok_def)
  then show "cpi_effect_ok demo_pid w w'"
    by (auto simp: cpi_effect_ok_def w')
  have "unat (?d + amt) = unat ?d + unat amt" "unat (?s - amt) + unat amt = unat ?s"
    using ok(4,5) by (simp_all add: unat_add_exact unat_diff_exact unat_le_iff)
  moreover have "length (acc_data (accts w' a)) = length (acc_data (accts w a))"
    using ok(1,2) by (auto simp: w' put_amount_def token_ok_def)
  moreover have "length (acc_data (accts w src)) = 40" "length (acc_data (accts w dst)) = 40"
    using ok(1,2) by (simp_all add: token_ok_def)
  moreover have "token_amount (accts w' src) = ?s - amt" "token_amount (accts w' dst) = ?d + amt"
    using ok(1-3) by (simp_all add: w' put_amount_token)
  moreover have "a \<noteq> src \<Longrightarrow> a \<noteq> dst \<Longrightarrow> token_amount (accts w' a) = token_amount (accts w a)"
    by (simp add: w')
  ultimately show "bal bank_sdk w' a + (if a = src then unat amt else 0)
      = bal bank_sdk w a + (if a = dst then unat amt else 0)"
    using ok(3) by (auto simp: bal_bank)
qed


lemma put_mint_simps [simp]:
  "mut_borrowed (put_mint M own v w) = mut_borrowed w"
  "acc_owner (accts (put_mint M own v w) a) = acc_owner (accts w a)"
  "a \<noteq> M \<Longrightarrow> accts (put_mint M own v w) a = accts w a"
  by (simp_all add: put_mint_def)

lemma put_mint_effect:
  assumes "mint_ok (accts w M)"
  shows "bank_minted (accts (put_mint M own v w) M) = Some (own, unat v)"
    and "cpi_effect_ok demo_pid w (put_mint M own v w)"
    and "bank_auths (accts (put_mint M own v w) a) = bank_auths (accts w a)"
    and "bal bank_sdk (put_mint M own v w) a = bal bank_sdk w a"
    and "token_ok (accts w a) \<Longrightarrow> a \<noteq> M"
proof -
  have own: "acc_owner (accts w M) = demo_token" and len: "length (acc_data (accts w M)) = 41"
    using assms by (simp_all add: mint_ok_def)
  then show apart: "token_ok (accts w a) \<Longrightarrow> a \<noteq> M"
    by (auto simp: token_ok_def)
  show "bank_minted (accts (put_mint M own v w) M) = Some (own, unat v)"
    using own by (simp add: put_mint_def bank_minted_def mint_ok_def mint_data_def token_owner_def mint_amount_def
        codec_key.dec_enc codec64.dec_enc)
  show "cpi_effect_ok demo_pid w (put_mint M own v w)"
    using own by (auto simp: cpi_effect_ok_def put_mint_def)
  show "bank_auths (accts (put_mint M own v w) a) = bank_auths (accts w a)"
    using len by (cases "a = M") (simp_all add: bank_auths_def token_ok_def put_mint_def mint_data_def)
  show "bal bank_sdk (put_mint M own v w) a = bal bank_sdk w a"
    using len by (cases "a = M") (simp_all add: bal_bank put_mint_def mint_data_def)
qed

lemma mint_runs:
  shows "bank_mint_to M a amt infos sds w = Inr w' \<Longrightarrow> mint_ok (accts w M)
      \<and> w' = put_mint M a (mint_amount (accts w M) + amt) w \<and> token_owner (accts w M) = a \<and> bank_signed a infos sds
      \<and> unat (mint_amount (accts w M)) + unat amt < 2 ^ 64"
    and "bank_burn M amt w = Inr w' \<Longrightarrow> mint_ok (accts w M) \<and> amt \<le> mint_amount (accts w M)
      \<and> w' = put_mint M (token_owner (accts w M)) (mint_amount (accts w M) - amt) w"
    and "bank_new_mint M own w = Inr w' \<Longrightarrow> mint_ok (accts w M) \<and> w' = put_mint M own 0 w \<and> token_owner (accts w M) = 0"
  by (auto simp: bank_mint_to_def bank_burn_def bank_new_mint_def split: if_splits)

text \<open>What any call can do.\<close>

lemma bank_call_cases:
  assumes "bank_call w c infos sds = Inr w'"
  obtains (quiet) "w' = w"
  | (moved) src dst amt where "bank_move src dst amt w = Inr w'"
      "token_owner (accts w src) = 21 \<Longrightarrow> bank_signed 21 infos sds"
  | (opened) k own where "bank_open k own w = Inr w'"
  | (minted) M own v where "mint_ok (accts w M)" "w' = put_mint M own v w"
      "token_owner (accts w M) = 21 \<Longrightarrow> own = 21 \<and> (bank_signed 21 infos sds \<or> v \<le> mint_amount (accts w M))"
  | (alloc) k n own where "demo_alloc k n own w = Inr w'" "bank_assignable k own sds"
  | (assign) k own where "demo_assign k own w = Inr w'" "bank_assignable k own sds"
proof (cases c)
  case (WrapperCall ix)
  with assms show ?thesis
    by (auto simp: bank_call_def bank_wrapper_def bank_transfer_def Let_def intro: quiet moved split: if_splits)
next
  case (SystemAllocate k n)
  with assms show ?thesis
    using alloc [of k n demo_system] by (simp add: bank_call_def bank_assignable_def)
next
  case (TokenTransfer prog src dst a amt)
  with assms have "bank_move src dst amt w = Inr w'" "token_owner (accts w src) = a" "bank_signed a infos sds"
    by (simp_all add: bank_call_def bank_transfer_def split: if_splits)
  then show ?thesis
    by (intro moved) auto
next
  case (TokenMintTo prog M dst a amt)
  with assms have run: "bank_mint_to M a amt infos sds w = Inr w'"
    by (simp add: bank_call_def)
  show ?thesis
    by (rule minted [of M a "mint_amount (accts w M) + amt"]) (use mint_runs(1) [OF run] in metis)+
next
  case (TokenBurn prog src M a amt)
  with assms have run: "bank_burn M amt w = Inr w'"
    by (simp add: bank_call_def)
  then have "mint_amount (accts w M) - amt \<le> mint_amount (accts w M)"
    using mint_runs(2) [OF run] by (simp add: unat_le_iff unat_diff_exact)
  then show ?thesis
    by (intro minted [of M "token_owner (accts w M)" "mint_amount (accts w M) - amt"])
      (use mint_runs(2) [OF run] in blast)+
next
  case (TokenInitializeMint prog M own freeze dec)
  with assms have run: "bank_new_mint M own w = Inr w'"
    by (simp add: bank_call_def)
  show ?thesis
    by (rule minted [of M own 0]) (use mint_runs(3) [OF run] in simp_all)
next
  case (TokenInitializeAccount prog k m own)
  with assms show ?thesis
    by (intro opened) (simp add: bank_call_def)
next
  case (SystemCreateAccount payer k lamports n own)
  with assms show ?thesis
    by (intro alloc [of k n own]) (simp_all add: bank_call_def split: if_splits)
next
  case (SystemTransfer payer k lamports)
  with assms show ?thesis
    by (intro quiet) (simp add: bank_call_def)
next
  case (SystemAssign k own)
  with assms show ?thesis
    by (intro assign [of k own]) (simp_all add: bank_call_def split: if_splits)
qed

lemma bank_open_effect:
  assumes "bank_open k own w = Inr w'"
  shows "cpi_effect_ok demo_pid w w'" and "acc_owner (accts w' a) = acc_owner (accts w a)"
    and "bank_auths (accts w' k) = {own}" and "bank_auths (accts w a) = {21} \<Longrightarrow> accts w' a = accts w a"
  using assms by (auto simp: bank_open_def cpi_effect_ok_def token_ok_def bank_auths_def token_owner_def
      codec_key.dec_enc split: if_splits)

lemma demo_system_effect:
  assumes "demo_alloc k n own w = Inr w' \<or> demo_assign k own w = Inr w'"
  shows "cpi_effect_ok demo_pid w w'" and "a \<noteq> k \<Longrightarrow> accts w' a = accts w a"
    and "acc_owner (accts w' k) = own" and "acc_owner (accts w k) = demo_system"
  using assms by (auto simp: demo_alloc_def demo_assign_def cpi_effect_ok_def split: if_splits)

lemma bank_call_effect:
  assumes "bank_call w c infos sds = Inr w'"
  shows "cpi_effect_ok demo_pid w w'"
  using assms by (cases rule: bank_call_cases)
    (auto dest: bank_move_effect(1) bank_open_effect(1) put_mint_effect(2) demo_system_effect(1) [OF disjI1] demo_system_effect(1) [OF disjI2])

lemma bank_laws: "runtime_laws bank_sdk demo_pid"
  by (simp add: runtime_laws_def iter_law_def owner_law_def bank_call_effect)

lemma bank_creation: "creation_law bank_sdk"
  by (auto simp: creation_law_def bank_call_def demo_alloc_def demo_assign_def split: if_splits)

lemma bank_frame: "system_frame_law bank_sdk"
  by (auto simp: system_frame_law_def bank_call_def demo_alloc_def demo_assign_def split: if_splits)

lemma bank_record_keys: "record_keys bank_sdk demo_pid 20 = {22, 24}"
proof
  show "record_keys bank_sdk demo_pid 20 \<subseteq> {22, 24}"
    by (auto simp: record_keys_def)
  have "fst (derive_deposit_pda bank_sdk demo_pid 20 10) \<in> record_keys bank_sdk demo_pid 20"
    "fst (derive_deposit_pda bank_sdk demo_pid 20 0) \<in> record_keys bank_sdk demo_pid 20"
    unfolding record_keys_def by blast+
  then show "{22, 24} \<subseteq> record_keys bank_sdk demo_pid 20"
    by simp
qed

lemma bank_address_law: "address_law bank_sdk demo_pid 20"
  by (simp add: address_law_def bank_record_keys no_deposit_at_def)

lemma bank_no_new_record:
  assumes "bank_call w c infos sds = Inr w'" and "dk \<in> {22, 24}" and "acc_owner (accts w dk) \<noteq> demo_pid"
    and "\<forall>s \<in> set sds. \<not> record_seeds s"
  shows "acc_owner (accts w' dk) \<noteq> demo_pid"
  using assms(1)
proof (cases rule: bank_call_cases)
  case (alloc k n own)
  then show ?thesis
    using assms(2-4) demo_system_effect(2,3) [OF disjI1 [OF alloc(1)]]
    by (cases "k = dk") (auto simp: bank_assignable_def)
next
  case (assign k own)
  then show ?thesis
    using assms(2-4) demo_system_effect(2,3) [OF disjI2 [OF assign(1)]]
    by (cases "k = dk") (auto simp: bank_assignable_def)
qed (use assms(3) bank_move_effect(4) bank_open_effect(2) in auto)

lemma bank_records_env: "records_env bank_sdk demo_pid 20"
  using bank_laws bank_creation bank_frame bank_address_law bank_no_new_record
  by (auto simp: records_env_def record_creation_law_def bank_record_keys)

lemma bank_token_accounts: "token_account_law bank_sdk bank_auths"
  by (auto simp: token_account_law_def bank_auths_def token_ok_def STAKE_POOL_SIZE_def split: if_splits)

lemma bank_vault_kept:
  assumes "bank_call w c infos sds = Inr w'" and "bank_auths (accts w V) = {21}"
    and "unsigned_by 21 infos" and "\<forall>s \<in> set sds. \<not> vault_seeds 20 s"
  shows "vault_kept bank_sdk bank_auths 21 V w w'"
  using assms(1)
proof (cases rule: bank_call_cases)
  case (moved src dst amt)
  have "\<not> bank_signed 21 infos sds"
    using assms(3,4) by (auto simp: bank_signed_def unsigned_by_def)
  then have "V \<noteq> src"
    using moved(2) assms(2) by (auto simp: bank_auths_def split: if_splits)
  then show ?thesis
    using assms(2) bank_move_effect(2,3) [OF moved(1), of V] by (auto simp: vault_kept_def)
next
  case (opened k own)
  then show ?thesis
    using assms(2) bank_open_effect(4) [OF opened assms(2)] by (simp add: vault_kept_def bal_def)
next
  case (alloc k n own)
  have "V \<noteq> k"
    using assms(2) demo_system_effect(4) [OF disjI1 [OF alloc(1)]] by (auto simp: bank_auths_def token_ok_def split: if_splits)
  then show ?thesis
    using assms(2) demo_system_effect(2) [OF disjI1 [OF alloc(1)], of V] by (simp add: vault_kept_def bal_def)
next
  case (assign k own)
  have "V \<noteq> k"
    using assms(2) demo_system_effect(4) [OF disjI2 [OF assign(1)]] by (auto simp: bank_auths_def token_ok_def split: if_splits)
  then show ?thesis
    using assms(2) demo_system_effect(2) [OF disjI2 [OF assign(1)], of V] by (simp add: vault_kept_def bal_def)
next
  case (minted M own v)
  then show ?thesis
    using assms(2) put_mint_effect(3,4) [OF minted(1)] by (simp add: vault_kept_def)
qed (use assms(2) in \<open>simp add: vault_kept_def\<close>)

lemma bank_signatures: "signature_law bank_sdk demo_pid bank_auths 20"
  unfolding signature_law_def using bank_vault_kept by simp

lemma bank_transfer_effect:
  assumes "bank_transfer src dst a amt infos sds w = Inr w'"
  shows "bank_auths (accts w' k) = bank_auths (accts w k)" and "a \<in> bank_auths (accts w src)"
    and "bal bank_sdk w' k + (if k = src then unat amt else 0) = bal bank_sdk w k + (if k = dst then unat amt else 0)"
proof -
  have move: "bank_move src dst amt w = Inr w'" and own: "token_owner (accts w src) = a"
    using assms by (auto simp: bank_transfer_def split: if_splits)
  show "bank_auths (accts w' k) = bank_auths (accts w k)"
    and "bal bank_sdk w' k + (if k = src then unat amt else 0) = bal bank_sdk w k + (if k = dst then unat amt else 0)"
    using bank_move_effect(2,3) [OF move] by blast+
  show "a \<in> bank_auths (accts w src)"
    using bank_move_effect(5) [OF move] own by (simp add: bank_auths_def)
qed

lemma bank_token_program: "token_program_law bank_sdk bank_auths"
proof -
  have "(\<forall>k. bank_auths (accts w' k) = bank_auths (accts w k)
      \<and> bal bank_sdk w' k + (if k = src then unat amt else 0) = bal bank_sdk w k + (if k = dst then unat amt else 0))
    \<and> a \<in> bank_auths (accts w src)" if "bank_transfer src dst a amt infos sds w = Inr w'"
    for w src dst a amt infos sds w'
    using bank_transfer_effect [OF that] by blast
  moreover have "bank_auths (accts w' k) = bank_auths (accts w k) \<and> bal bank_sdk w k \<le> bal bank_sdk w' k"
    if "bank_mint_to M a amt infos sds w = Inr w'" for w M a amt infos sds w' k
    using that put_mint_effect(3,4) [of w M] by (auto simp: bank_mint_to_def split: if_splits)
  ultimately show ?thesis
    unfolding token_program_law_def using bank_open_effect(3)
    by (simp add: bank_call_def split del: if_split)
qed

lemma bank_wrapper_tokens: "wrapper_token_law bank_sdk bank_auths demo_wrapper"
proof -
  have amt: "of_u64 (take 8 (le_u128 (ucast (a :: u64)))) = a" for a
    by (simp add: wide_le_bytes codec64.dec_enc)
  note eval = cpi_defs Let_def bank_call_def bank_wrapper_def push_u128_from_u64_def meta_readonly_def
    meta_writable_def amt TAG_TOP_UP_INSURANCE_def TAG_WITHDRAW_INSURANCE_def TAG_UPDATE_ASSET_AUTHORITY_def
  have top_up: "bank_auths (accts w' v) = bank_auths (accts w v) \<and> bal bank_sdk w v \<le> bal bank_sdk w' v + unat amt"
    if "bank_transfer v wv a amt infos sds w = Inr w'" for v wv a amt infos sds w w'
    using bank_transfer_effect(1,3) [OF that, of v] by (auto split: if_splits)
  have refund: "bank_auths (accts w' v) = bank_auths (accts w v) \<and> bal bank_sdk w v + unat amt \<le> bal bank_sdk w' v"
    if "bank_move wv v amt w = Inr w'" for v wv amt w w'
    using bank_move_effect(2,3) [OF that, of v] that by (auto simp: bank_move_def split: if_splits)
  show ?thesis
    unfolding wrapper_token_law_def
    by (intro conjI allI impI) (auto simp: eval dest: top_up refund split: if_splits)
qed

lemma bank_custody_env: "custody_env bank_auths demo_wrapper bank_sdk demo_pid 20"
  using bank_laws bank_creation bank_address_law bank_token_accounts bank_signatures bank_token_program
    bank_wrapper_tokens by (simp add: custody_env_def)


text \<open>The laws of the mint.\<close>

lemma minted_account: "bank_minted a = Some (A, n) \<longleftrightarrow> mint_ok a \<and> A = token_owner a \<and> n = unat (mint_amount a)"
  by (auto simp: bank_minted_def)

lemma minted_by_bank: "minted_by bank_minted A a \<longleftrightarrow> mint_ok a \<and> A = token_owner a"
  by (auto simp: minted_by_def minted_account)

lemma mint_supply_bank: "mint_ok a \<Longrightarrow> mint_supply bank_minted a = unat (mint_amount a)"
  by (simp add: mint_supply_def bank_minted_def)

lemma bank_mints: "mint_account_law bank_sdk bank_minted"
  by (auto simp: mint_account_law_def bank_minted_def mint_ok_def STAKE_POOL_SIZE_def split: if_splits)

lemma put_mint_account:
  assumes "mint_ok (accts w M)"
  shows "mint_ok (accts (put_mint M own v w) M)" "token_owner (accts (put_mint M own v w) M) = own"
    "mint_amount (accts (put_mint M own v w) M) = v"
  using assms by (simp_all add: put_mint_def mint_ok_def mint_data_def token_owner_def mint_amount_def
      codec_key.dec_enc codec64.dec_enc)

text \<open>Moving tokens, opening token accounts and allocating accounts leave mints alone.\<close>

lemma mint_untouched:
  assumes "mint_ok (accts w M)"
  shows "bank_move src dst amt w = Inr w' \<Longrightarrow> accts w' M = accts w M"
    and "bank_open k own w = Inr w' \<Longrightarrow> accts w' M = accts w M"
    and "demo_alloc k n own w = Inr w' \<or> demo_assign k own w = Inr w' \<Longrightarrow> accts w' M = accts w M"
  using assms by (auto simp: demo_alloc_def demo_assign_def
      bank_move_def bank_open_def token_ok_def mint_ok_def put_amount_def split: if_splits)

lemma bank_mint_kept:
  assumes "bank_call w c infos sds = Inr w'" and "minted_by bank_minted 21 (accts w M)"
    and "\<not> bank_signed 21 infos sds"
  shows "mint_kept bank_minted 21 M w w'"
proof -
  have M: "mint_ok (accts w M)" "token_owner (accts w M) = 21"
    using assms(2) by (simp_all add: minted_by_bank)
  have same: "mint_kept bank_minted 21 M w w'" if "accts w' M = accts w M"
    using that assms(2) by (simp add: mint_kept_def)
  from assms(1) show ?thesis
  proof (cases rule: bank_call_cases)
    case (minted N own v)
    show ?thesis
    proof (cases "N = M")
      case True
      then have "own = 21" "v \<le> mint_amount (accts w M)"
        using minted(3) M(2) assms(3) by blast+
      then show ?thesis
        using put_mint_account [OF minted(1), of own v] M(1) True
        by (simp add: minted(2) mint_kept_def minted_by_bank mint_supply_bank unat_le_iff)
    next
      case False
      then show ?thesis
        by (intro same) (simp add: minted(2))
    qed
  qed (use same mint_untouched [OF M(1)] in blast)+
qed

lemma bank_mint_signatures: "mint_signature_law bank_sdk demo_pid bank_minted 20"
proof -
  have "\<not> bank_signed 21 infos sds" if "unsigned_by 21 infos" "\<forall>s \<in> set sds. \<not> vault_seeds 20 s" for infos sds
    using that by (auto simp: bank_signed_def unsigned_by_def)
  then show ?thesis
    unfolding mint_signature_law_def using bank_mint_kept by simp
qed

lemma bank_mint_program: "mint_to_law bank_sdk bank_minted" "burn_law bank_sdk bank_minted"
    "new_mint_law bank_sdk bank_minted" "mint_frame_law bank_sdk bank_minted"
proof -
  show "mint_to_law bank_sdk bank_minted"
    unfolding mint_to_law_def minted_account
    by (auto simp: bank_call_def put_mint_account unat_add_exact dest!: mint_runs(1))
  show "burn_law bank_sdk bank_minted"
    unfolding burn_law_def minted_account
    by (auto simp: bank_call_def put_mint_account unat_diff_exact unat_le_iff dest!: mint_runs(2))
  show "new_mint_law bank_sdk bank_minted"
    unfolding new_mint_law_def minted_account
    by (auto simp: bank_call_def put_mint_account dest!: mint_runs(3))
  show "mint_frame_law bank_sdk bank_minted"
    unfolding mint_frame_law_def
    by (auto simp: bank_call_def bank_transfer_def minted_account dest: mint_untouched(1,2) split: if_splits)
qed

lemma bank_wrapper_mints: "wrapper_mint_law bank_sdk bank_minted demo_wrapper"
proof -
  have "mint_kept bank_minted A M w w'"
    if "minted_by bank_minted A (accts w M)" "bank_wrapper ix infos sds w = Inr w'" for A M w w' ix infos sds
  proof -
    have "accts w' M = accts w M"
      using that mint_untouched(1) [of w M]
      by (auto simp: minted_by_bank bank_wrapper_def bank_transfer_def Let_def split: if_splits)
    with that(1) show ?thesis
      by (simp add: mint_kept_def)
  qed
  then show ?thesis
    unfolding wrapper_mint_law_def by (simp add: cpi_defs Let_def bank_call_def)
qed

lemma bank_mint_env: "mint_env bank_minted demo_wrapper bank_sdk demo_pid 20"
  using bank_laws bank_creation bank_address_law bank_mints bank_mint_signatures bank_mint_program bank_wrapper_mints
  by (simp add: mint_env_def)

section \<open>A history\<close>

text \<open>Before the pool exists: the vault's token account and the LP mint are allocated but not initialised, user 10 holds 5000
  tokens at key 40.\<close>

definition bank_token :: "pubkey \<Rightarrow> u64 \<Rightarrow> account" where
  "bank_token own v = demo_account demo_token (key_bytes own @ le_u64 v)"

definition bank_lp :: "pubkey \<Rightarrow> u64 \<Rightarrow> account" where
  "bank_lp own v = demo_account demo_token (mint_data own v)"

definition bank_empty :: world where
  "bank_empty = \<lparr>accts = (\<lambda>k. demo_account demo_system [])
     (12 := demo_account demo_wrapper [], 30 := bank_token 0 0, 31 := bank_lp 0 0,
      40 := bank_token 10 5000), mut_borrowed = []\<rparr>"

definition bank_world :: "stake_pool \<Rightarrow> byte list \<Rightarrow> pubkey \<Rightarrow> u64 \<Rightarrow> u64 \<Rightarrow> world" where
  "bank_world p dep_bytes dep_owner vault_amt user_amt =
     \<lparr>accts = (\<lambda>k. demo_account demo_system [])
       (12 := demo_account demo_wrapper [], 20 := demo_account demo_pid (encode_pool p),
        22 := demo_account dep_owner dep_bytes,
        30 := bank_token 21 vault_amt, 31 := bank_lp 21 0, 40 := bank_token 10 user_amt),
      mut_borrowed = []\<rparr>"

lemma bank_token_simps [simp]:
  "token_ok (bank_token own v)" "token_owner (bank_token own v) = own" "token_amount (bank_token own v) = v"
  "acc_owner (bank_token own v) = demo_token" "acc_data (bank_token own v) = key_bytes own @ le_u64 v"
  by (simp_all add: bank_token_def token_ok_def token_owner_def token_amount_def codec_key.dec_enc codec64.dec_enc)

lemma bank_lp_simps [simp]:
  "mint_ok (bank_lp own v)" "token_owner (bank_lp own v) = own" "mint_amount (bank_lp own v) = v"
  "acc_owner (bank_lp own v) = demo_token"
  by (simp_all add: bank_lp_def mint_ok_def token_owner_def mint_amount_def mint_data_def codec_key.dec_enc
      codec64.dec_enc)

lemmas bank_eval = bank_mint_to_def bank_burn_def bank_new_mint_def demo_eval bank_call_def bank_transfer_def bank_move_def bank_open_def bank_wrapper_def
  bank_signed_def bank_assignable_def


lemma demo_pool_fresh:
  "demo_pool 0 0 0 = init_pool_fields 255 255 12 11 33 31 30 demo_wrapper 10 0 zeroed_pool"
  by (simp add: demo_pool_def init_pool_fields_def set_discriminator_def zeroed_pool_def)

lemma bank_init_run:
  "process_init_pool bank_sdk demo_pid demo_init_accounts 10 0 bank_empty
     = Inr (bank_world (demo_pool 0 0 0) [] demo_system 0 5000)"
  unfolding process_init_pool_def demo_init_accounts_def bank_empty_def
  by (simp add: bank_eval create_or_adopt_pda_def demo_alloc_def cpi_defs as_pool_def
      STAKE_POOL_SIZE_def TAG_TOP_UP_INSURANCE_def TAG_WITHDRAW_INSURANCE_def TAG_UPDATE_AUTHORITY_def
      decode_pool_zero demo_pool_fresh [symmetric])
    (simp add: write_data_def release_def bank_world_def length_encode_pool bank_token_def bank_lp_def put_mint_def
      demo_account_def
      fun_eq_iff)

lemma bank_world_simps [simp]:
  "accts (bank_world p bs own v u) 20 = demo_account demo_pid (encode_pool p)"
  "accts (bank_world p bs own v u) 22 = demo_account own bs"
  "accts (bank_world p bs own v u) 30 = bank_token 21 v"
  "accts (bank_world p bs own v u) 31 = bank_lp 21 0"
  "accts (bank_world p bs own v u) 40 = bank_token 10 u"
  "accts (bank_world p bs own v u) 12 = demo_account demo_wrapper []"
  "mut_borrowed (bank_world p bs own v u) = []"
  by (simp_all add: bank_world_def)

lemma bank_first_lp: "pool_calc_lp_for_deposit (demo_pool 0 0 0) 500 = Some 500"
  by (simp add: pool_calc_lp_for_deposit_def total_pool_value_def checked_add_def checked_sub_def
      unwrap_or_def share_eval)

lemma bank_deposit_run:
  "\<exists>w'. process_deposit bank_sdk demo_pid demo_deposit_accounts 500
     (bank_world (demo_pool 0 0 0) [] demo_system 0 5000) = Inr w'"
  unfolding process_deposit_def demo_deposit_accounts_def
  by (simp add: bank_eval bank_first_lp checked_add_def create_or_adopt_pda_def demo_alloc_def
      deposit_fields_def as_deposit_def STAKE_DEPOSIT_SIZE_def decode_deposit_zero zeroed_deposit_def
      set_deposit_discriminator_def)

text \<open>Calls of the token program leave accounts of others alone.\<close>

lemma bank_token_frame: "token_frame_law bank_sdk"
proof -
  have move: "accts w' a = accts w a" if "bank_move src dst amt w = Inr w'" "acc_owner (accts w a) \<noteq> demo_token"
    for src dst amt w w' a
    using that by (auto simp: bank_move_def token_ok_def put_amount_def split: if_splits)
  have "acc_owner (accts w' a) = acc_owner (accts w a) \<and> acc_data (accts w' a) = acc_data (accts w a)"
    if "bank_call w c infos sds = Inr w'" "call_program bank_sdk c = demo_token" "acc_owner (accts w a) \<noteq> demo_token"
    for w c infos sds w' a
    using that move [of _ _ _ w w' a]
    by (cases c) (auto simp: bank_call_def bank_wrapper_def bank_transfer_def bank_open_def token_ok_def Let_def
        bank_mint_to_def bank_burn_def bank_new_mint_def put_mint_def mint_ok_def split: if_splits)
  then show ?thesis
    by (auto simp: token_frame_law_def)
qed

lemma bank_clock: "clock_law bank_sdk \<lparr>clock_slot = 1000, clock_epoch = 2\<rparr>"
  by (simp add: clock_law_def)

lemma bank_holds: "wf_pool p \<Longrightarrow> holds_pool demo_pid (bank_world p bs own v u) 20 p"
  by (simp add: holds_pool_def pool_account_def pool_at_def STAKE_POOL_SIZE_def length_encode_pool
      decode_encode_pool)

lemma bank_deposit_shares:
  assumes "process_deposit bank_sdk demo_pid demo_deposit_accounts 500
     (bank_world (demo_pool 0 0 0) [] demo_system 0 5000) = Inr w'"
  shows "shares (pool_at w' 20) = 500"
proof -
  let ?w = "bank_world (demo_pool 0 0 0) [] demo_system 0 5000"
  have keys: "10 = ai_key (demo_deposit_accounts ! 0)" "20 = ai_key (demo_deposit_accounts ! 1)"
    by (simp_all add: demo_deposit_accounts_def)
  have dk: "22 = fst (derive_deposit_pda bank_sdk demo_pid 20 10)"
    and dep: "acc_owner (accts ?w 22) \<noteq> spl_token_id bank_sdk"
    by simp_all
  have lp: "lp = 500" if "pool_calc_lp_for_deposit (demo_pool 0 0 0) 500 = Some lp" for lp
    using that bank_first_lp by simp
  show ?thesis
    using deposit_pool_and_record [OF bank_laws bank_creation bank_token_frame assms keys dk
        bank_holds [OF wf_demo_pool] dep bank_clock]
    by (auto simp: holds_pool_def shares_def dest!: lp)
qed

end
