(* ===== verification/Pool_History.thy ===== *)
theory Pool_History
  imports Vault_Funded Demo_Bank
begin

text \<open>
  Whole histories of a pool: from the transaction that creates it, through any instructions of the program
  and any activity of other programs, its deposit records add up to its supply and its vault covers
  them.  Of the activity of others only what the platform guarantees is used: accounts of the program
  change by the program alone, nobody else signs for its derived addresses.
\<close>

section \<open>Histories\<close>

inductive pool_life :: "sdk \<Rightarrow> pubkey \<Rightarrow> pubkey \<Rightarrow> (world \<Rightarrow> world \<Rightarrow> bool) \<Rightarrow> world \<Rightarrow> world \<Rightarrow> bool"
  for S :: sdk and pid k :: pubkey and E :: "world \<Rightarrow> world \<Rightarrow> bool" where
  here: "pool_life S pid k E w w"
| own: "pool_life S pid k E w w' \<Longrightarrow> process_instruction S pid accounts data w' = Inr w'' \<Longrightarrow>
    no_self_call pid accounts \<Longrightarrow> unsigned_by (vault_authority S pid k) accounts \<Longrightarrow> pool_life S pid k E w w''"
| other: "pool_life S pid k E w w' \<Longrightarrow> cpi_effect_ok pid w' w'' \<Longrightarrow> E w' w'' \<Longrightarrow> pool_life S pid k E w w''"

lemma pool_life_invariant:
  assumes "pool_life S pid k E w w'" and "I w"
    and "\<And>accounts data u u'. I u \<Longrightarrow> process_instruction S pid accounts data u = Inr u' \<Longrightarrow>
      no_self_call pid accounts \<Longrightarrow> unsigned_by (vault_authority S pid k) accounts \<Longrightarrow> I u'"
    and "\<And>u u'. I u \<Longrightarrow> cpi_effect_ok pid u u' \<Longrightarrow> E u u' \<Longrightarrow> I u'"
  shows "I w'"
  using assms by (induction rule: pool_life.induct) blast+

lemma pool_life_mono:
  assumes "pool_life S pid k E w w'" and "\<And>u u'. E u u' \<Longrightarrow> F u u'"
  shows "pool_life S pid k F w w'"
  using assms by (induction rule: pool_life.induct) (blast intro: pool_life.intros)+

section \<open>The creation of a pool\<close>

definition creates_pool :: "sdk \<Rightarrow> pubkey \<Rightarrow> account_info list \<Rightarrow> world \<Rightarrow> world \<Rightarrow> bool" where
  "creates_pool S pid accounts w w' \<longleftrightarrow> (\<exists>cooldown cap.
     process_init_pool S pid accounts cooldown cap w = Inr w'
     \<or> process_init_trading_pool S pid accounts cooldown cap w = Inr w')"

lemma creates_pool_runs:
  assumes "creates_pool S pid accounts w w'"
  obtains cooldown cap w1 where "process_init_pool S pid accounts cooldown cap w = Inr w1"
    "\<And>a. a \<noteq> ai_key (accounts ! 2) \<Longrightarrow> accts w' a = accts w1 a"
proof -
  obtain cooldown cap where "process_init_pool S pid accounts cooldown cap w = Inr w'
      \<or> process_init_trading_pool S pid accounts cooldown cap w = Inr w'"
    using assms by (auto simp: creates_pool_def)
  then show thesis
  proof
    assume "process_init_trading_pool S pid accounts cooldown cap w = Inr w'"
    then show thesis
      by (rule init_trading_run) (rule that; simp add: write_pool_def)
  qed (rule that; simp)
qed

lemma fresh_offset:
  "pre_supply_vault_offset (init_pool_fields b vb sk ak ck lk vk pk cooldown cap zeroed_pool) = 0"
  by (simp add: pre_supply_vault_offset_def init_pool_fields_def set_discriminator_def zeroed_pool_def
      copy_into_def subslice_def STAKE_POOL_DISCRIMINATOR_def from_le_bytes_zero)

text \<open>A pool as it is created, and the token account that becomes its vault.\<close>

definition new_pool :: "sdk \<Rightarrow> pubkey \<Rightarrow> account_info list \<Rightarrow> stake_pool \<Rightarrow> bool" where
  "new_pool S pid accounts q \<longleftrightarrow> fresh_pool q \<and> pre_supply_vault_offset q = 0
     \<and> vault q = ai_key (accounts ! 4) \<and> lp_mint q = ai_key (accounts ! 3)
     \<and> percolator_program q = ai_key (accounts ! 7)"

lemma init_pool_new:
  assumes "runtime_laws S pid" and "creation_law S" and "no_self_call pid accounts"
    and "process_init_pool S pid accounts cooldown cap w = Inr w'"
  shows "\<exists>q. holds_pool pid w' (ai_key (accounts ! 2)) q \<and> new_pool S pid accounts q
      \<and> new_pool S pid accounts (q\<lparr>pool_mode := 1\<rparr>)"
  using assms
proof (rule init_pool_creates, goal_cases)
  case (1 admin_ai slab_ai pool_ai lp_mint_ai vault_ai vault_auth_ai collateral_mint_ai percolator_ai rest)
  let ?q = "init_pool_fields (snd (derive_pool_pda S pid (ai_key slab_ai)))
    (snd (derive_vault_authority S pid (ai_key pool_ai))) (ai_key slab_ai) (ai_key admin_ai)
    (ai_key collateral_mint_ai) (ai_key lp_mint_ai) (ai_key vault_ai) (ai_key percolator_ai)
    cooldown cap zeroed_pool"
  have "vault ?q = ai_key vault_ai" "lp_mint ?q = ai_key lp_mint_ai" "percolator_program ?q = ai_key percolator_ai"
    by (simp_all add: init_pool_fields_def set_discriminator_def)
  moreover have "pre_supply_vault_offset (?q\<lparr>pool_mode := 1\<rparr>) = pre_supply_vault_offset ?q"
    by (simp add: pre_supply_vault_offset_def)
  moreover have "fresh_pool ?q" "fresh_pool (?q\<lparr>pool_mode := 1\<rparr>)"
    using init_fields_fresh [OF refl] by blast+
  ultimately have "new_pool S pid accounts ?q \<and> new_pool S pid accounts (?q\<lparr>pool_mode := 1\<rparr>)"
    by (simp add: new_pool_def 1(1) fresh_offset)
  then show ?case
    using 1(6) by (auto simp: 1(1))
qed

lemma creates_pool_new:
  assumes "runtime_laws S pid" and "creation_law S" and "no_self_call pid accounts"
    and "creates_pool S pid accounts w w'"
  shows "\<exists>q. holds_pool pid w' (ai_key (accounts ! 2)) q \<and> new_pool S pid accounts q"
proof -
  obtain cooldown cap where "process_init_pool S pid accounts cooldown cap w = Inr w'
      \<or> process_init_trading_pool S pid accounts cooldown cap w = Inr w'"
    using assms(4) by (auto simp: creates_pool_def)
  then show ?thesis
  proof
    assume "process_init_trading_pool S pid accounts cooldown cap w = Inr w'"
    then obtain w1 where init: "process_init_pool S pid accounts cooldown cap w = Inr w1"
        and w': "w' = release (accounts ! 2) (write_pool (accounts ! 2)
          ((pool_at w1 (ai_key (accounts ! 2)))\<lparr>pool_mode := 1\<rparr>)
          (w1\<lparr>mut_borrowed := ai_key (accounts ! 2) # mut_borrowed w1\<rparr>))"
      by (rule init_trading_run)
    obtain q where q: "holds_pool pid w1 (ai_key (accounts ! 2)) q" "new_pool S pid accounts (q\<lparr>pool_mode := 1\<rparr>)"
      using init_pool_new [OF assms(1-3) init] by blast
    then have "wf_pool (q\<lparr>pool_mode := 1\<rparr>)"
      by (simp add: new_pool_def fresh_pool_def)
    then have "holds_pool pid w' (ai_key (accounts ! 2)) (q\<lparr>pool_mode := 1\<rparr>)"
      unfolding w' holds_pool_borrow holds_pool_at [OF q(1)]
      using holds_pool_write [where ai = "accounts ! 2" and k = "ai_key (accounts ! 2)" and p = q and pid = pid
          and w = "w1\<lparr>mut_borrowed := ai_key (accounts ! 2) # mut_borrowed w1\<rparr>"] q(1) by simp
    with q(2) show ?thesis
      by blast
  qed (use init_pool_new [OF assms(1-3)] in blast)
qed

text \<open>Creating a pool opens no deposit record and puts its vault under the pool's authority.\<close>

lemma init_pool_opens_nothing:
  assumes env: "records_env S pid k" and self: "no_self_call pid accounts" and k: "k = ai_key (accounts ! 2)"
    and run: "process_init_pool S pid accounts cooldown cap w = Inr w'"
  shows "records_same S pid k w w'"
  using records.env_runtime(1) [OF env] run
proof (rule init_pool_run, goal_cases)
  case (1 admin_ai slab_ai pool_ai lp_mint_ai vault_ai vault_auth_ai collateral_mint_ai percolator_ai
    token_program system_program rent_sysvar rest w1 w2 w3 w4)
  note acc = 1(1) and c1 = 1(9) and c2 = 1(10) and c3 = 1(11) and c4 = 1(12) and w' = 1(14)
  have key: "ai_key pool_ai = k" "ai_key percolator_ai \<noteq> pid"
    using k self by (auto simp: acc no_self_call_def)
  have token: "spl_token_id S \<noteq> pid" and frame: "system_frame_law S"
    using env by (simp_all add: records_env_def runtime_laws_def)
  have "acc_owner (accts w1 dk) = acc_owner (accts w dk) \<and> acc_data (accts w1 dk) = acc_data (accts w dk)"
    if "dk \<in> record_keys S pid k" for dk
    using create_frame [OF frame _ c1, of dk] that pool_not_record [OF env] by (auto simp: key)
  then have s1: "records_same S pid k w w1"
    by (simp add: records_same_def)
  have s2: "records_same S pid k w1 w2"
    using c2 key(2) unfolding cpi_update_authority_def Let_def
    by (intro records_call(1) [OF env]) auto
  have s3: "records_same S pid k w2 w3"
    using c3 token by (intro records_call(1) [OF env _ disjI2]) auto
  have s4: "records_same S pid k w3 w4"
    using c4 token by (intro records_call(1) [OF env _ disjI2]) auto
  have "records_same S pid k w4 w'"
    unfolding w' using records_same_write [of S pid k pool_ai "w4\<lparr>mut_borrowed := k # mut_borrowed w4\<rparr>"]
      pool_not_record [OF env] by (auto simp: key records_same_def)
  then show ?case
    using s1 s2 s3 s4 records_same_trans by blast
qed

lemma init_pool_vault:
  assumes law: "token_program_law S auths" "token_account_law S auths" "runtime_laws S pid"
    and self: "no_self_call pid accounts" and creation: "creation_law S"
    and k: "k = ai_key (accounts ! 2)"
    and run: "process_init_pool S pid accounts cooldown cap w = Inr w'"
  shows "auths (accts w' (ai_key (accounts ! 4))) = {vault_authority S pid k} \<and> ai_key (accounts ! 4) \<noteq> k"
  using runtime_lawsD(1) [OF law(3)] run
proof (rule init_pool_run, goal_cases)
  case (1 admin_ai slab_ai pool_ai lp_mint_ai vault_ai vault_auth_ai collateral_mint_ai percolator_ai
    token_program system_program rent_sysvar rest w1 w2 w3 w4)
  note acc = 1(1) and auth = 1(5) and c4 = 1(12) and w' = 1(14)
  have key: "ai_key pool_ai = k"
    using k by (simp add: acc)
  have "\<forall>w a mint own infos sds w'.
      invoke_signed S w (TokenInitializeAccount (spl_token_id S) a mint own) infos sds = Inr w' \<longrightarrow>
      auths (accts w' a) = {own}"
    using law(1) unfolding token_program_law_def by (elim conjE)
  then have authority: "auths (accts w4 (ai_key vault_ai)) = {vault_authority S pid k}"
    using c4 unfolding auth key by blast
  then have "acc_owner (accts w4 (ai_key vault_ai)) = spl_token_id S"
    using law(2) unfolding token_account_law_def by (metis insert_not_empty)
  moreover have "acc_owner (accts w' k) = pid"
    using init_pool_new [OF law(3) creation self run] k by (auto simp: holds_pool_def pool_account_def)
  then have "acc_owner (accts w4 k) = pid"
    by (simp add: w' write_pool_def key)
  ultimately have "ai_key vault_ai \<noteq> k"
    using runtime_lawsD(3) [OF law(3)] by metis
  with authority show ?case
    by (simp add: w' acc write_pool_elsewhere key)
qed

section \<open>Records and supply\<close>

definition no_records :: "sdk \<Rightarrow> pubkey \<Rightarrow> pubkey \<Rightarrow> world \<Rightarrow> bool" where
  "no_records S pid k w \<longleftrightarrow> (\<forall>dk \<in> record_keys S pid k. acc_owner (accts w dk) \<noteq> pid)"

definition books_balance :: "sdk \<Rightarrow> pubkey \<Rightarrow> pubkey \<Rightarrow> world \<Rightarrow> bool" where
  "books_balance S pid k w \<longleftrightarrow> pool_account pid w k \<and> records_sized S pid k w
     \<and> recorded_lp S pid k w = shares (pool_at w k)"

lemma no_records_sum: "no_records S pid k w \<Longrightarrow> recorded_lp S pid k w = 0 \<and> records_sized S pid k w"
  by (simp add: no_records_def recorded_lp_def record_lp_def records_sized_def)

lemma creation_balances:
  assumes env: "records_env S pid k" and self: "no_self_call pid accounts" and k: "k = ai_key (accounts ! 2)"
    and new: "no_records S pid k w" and run: "creates_pool S pid accounts w w'"
  shows "books_balance S pid k w'"
proof -
  obtain q where q: "holds_pool pid w' k q" "new_pool S pid accounts q"
    using creates_pool_new [OF records.env_runtime(5,4) [OF env] self run] k by blast
  obtain cooldown cap w1 where init: "process_init_pool S pid accounts cooldown cap w = Inr w1"
      and frame: "\<And>a. a \<noteq> k \<Longrightarrow> accts w' a = accts w1 a"
    using creates_pool_runs [OF run, folded k] by blast
  have "accts w' dk = accts w1 dk" if "dk \<in> record_keys S pid k" for dk
    using frame that pool_not_record [OF env] by metis
  then have "records_same S pid k w1 w'"
    by (simp add: records_same_def)
  then have "records_same S pid k w w'"
    using records_same_trans init_pool_opens_nothing [OF env self k init] by blast
  then have "recorded_lp S pid k w' = 0" "records_sized S pid k w'"
    using records_same_sum no_records_sum [OF new] by metis+
  then show ?thesis
    using q by (simp add: books_balance_def holds_pool_def new_pool_def fresh_pool_def shares_def)
qed

lemma records_balance:
  assumes env: "records_env S pid k" and life: "pool_life S pid k (records_same S pid k) w w'"
    and start: "books_balance S pid k w"
  shows "books_balance S pid k w'"
  using life start
proof (rule pool_life_invariant)
  fix accounts data u u'
  assume u: "books_balance S pid k u" and run: "process_instruction S pid accounts data u = Inr u'"
    and "no_self_call pid accounts" "unsigned_by (vault_authority S pid k) accounts"
  then have "books_step S pid k (fst (derive_deposit_pda S pid k (ai_key (accounts ! 0)))) u u'"
    using instruction_books [OF env _ _ _ _ run] by (simp add: books_balance_def)
  with u show "books_balance S pid k u'"
    by (simp add: books_balance_def books_step_def)
next
  fix u u'
  assume u: "books_balance S pid k u" and "cpi_effect_ok pid u u'" "records_same S pid k u u'"
  then show "books_balance S pid k u'"
    using cpi_effect_pool [of pid u u' k] records_same_sum [of S pid k u u'] by (simp add: books_balance_def)
qed

section \<open>The vault\<close>

definition vault_untouched :: "(account \<Rightarrow> pubkey set) \<Rightarrow> sdk \<Rightarrow> pubkey \<Rightarrow> pubkey \<Rightarrow> world \<Rightarrow> world \<Rightarrow> bool" where
  "vault_untouched auths S pid k w w' \<longleftrightarrow> (\<forall>V. auths (accts w V) = {vault_authority S pid k} \<longrightarrow>
     vault_kept S auths (vault_authority S pid k) V w w')"

lemma creation_funded:
  assumes env: "custody_env auths P S pid k" and self: "no_self_call pid accounts"
    and k: "k = ai_key (accounts ! 2)" and P: "P = ai_key (accounts ! 7)"
    and run: "creates_pool S pid accounts w w'"
  shows "funded auths P S pid k w'"
proof -
  note laws = custody_laws [OF env]
  obtain q where q: "holds_pool pid w' k q" "new_pool S pid accounts q"
    using creates_pool_new [OF laws(1,2) self run] k by blast
  obtain cooldown cap w1 where init: "process_init_pool S pid accounts cooldown cap w = Inr w1"
      and frame: "\<And>a. a \<noteq> k \<Longrightarrow> accts w' a = accts w1 a"
    using creates_pool_runs [OF run, folded k] by blast
  have "auths (accts w' (ai_key (accounts ! 4))) = {vault_authority S pid k}"
    using init_pool_vault [OF laws(6,4,1) self laws(2) k init] frame by simp
  moreover have "owed q = 0" "solvent q" "trading_ok q"
    using q(2) by (simp_all add: new_pool_def fresh_pool_def owed_def worth_def assets_in_def assets_out_def
        solvent_def trading_ok_def shares_def)
  ultimately show ?thesis
    using q by (simp add: funded_def guarded_def holds_pool_def new_pool_def P)
qed

lemma vault_stays_funded:
  assumes env: "custody_env auths P S pid k" and life: "pool_life S pid k (vault_untouched auths S pid k) w w'"
    and start: "funded auths P S pid k w"
  shows "funded auths P S pid k w'"
  using life start
proof (rule pool_life_invariant)
  fix accounts data u u'
  assume "funded auths P S pid k u" "process_instruction S pid accounts data u = Inr u'"
    "no_self_call pid accounts" "unsigned_by (vault_authority S pid k) accounts"
  then show "funded auths P S pid k u'"
    using instruction_funded [OF env] by blast
next
  fix u u'
  assume u: "funded auths P S pid k u" and eff: "cpi_effect_ok pid u u'" and "vault_untouched auths S pid k u u'"
  then have "custody_kept auths P S pid k u u'"
    by (intro custody.guarded_step [OF custody.kept_refl eff]) (simp add: vault_untouched_def)
  then show "funded auths P S pid k u'"
    using u by (rule kept_funded)
qed

section \<open>The LP mint\<close>

lemma init_pool_mint:
  assumes env: "mint_env minted P S pid k" and self: "no_self_call pid accounts" and k: "k = ai_key (accounts ! 2)"
    and run: "process_init_pool S pid accounts cooldown cap w = Inr w'"
  shows "minted (accts w' (ai_key (accounts ! 3))) = Some (vault_authority S pid k, 0) \<and> ai_key (accounts ! 3) \<noteq> k"
  using runtime_lawsD(1) [OF mint_laws(1) [OF env]] run
proof (rule init_pool_run, goal_cases)
  case (1 admin_ai slab_ai pool_ai lp_mint_ai vault_ai vault_auth_ai collateral_mint_ai percolator_ai
    token_program system_program rent_sysvar rest w1 w2 w3 w4)
  note acc = 1(1) and auth = 1(5) and c3 = 1(11) and c4 = 1(12) and w' = 1(14)
  let ?M = "ai_key lp_mint_ai"
  have key: "ai_key pool_ai = k"
    using k by (simp add: acc)
  have "minted (accts w3 ?M) = Some (vault_authority S pid k, 0)"
    using mint_laws(9) [OF env] c3 unfolding new_mint_law_def auth key by blast
  moreover from this have "minted (accts w4 ?M) = minted (accts w3 ?M)"
    using mint_laws(8) [OF env] c4 unfolding mint_frame_law_def by (metis option.distinct(1))
  ultimately have at4: "minted (accts w4 ?M) = Some (vault_authority S pid k, 0)"
    by simp
  have "acc_owner (accts w' k) = pid"
    using init_pool_new [OF mint_laws(1,2) [OF env] self run] k by (auto simp: holds_pool_def pool_account_def)
  then have "acc_owner (accts w4 k) = pid"
    by (simp add: w' write_pool_def key)
  then have "?M \<noteq> k"
    using mint.not_asset(2) [OF env, of "vault_authority S pid k" w4 ?M k] at4 by (auto simp: minted_by_def)
  with at4 show ?case
    by (simp add: w' acc write_pool_elsewhere key)
qed

lemma creation_backed:
  assumes env: "mint_env minted P S pid k" and self: "no_self_call pid accounts"
    and k: "k = ai_key (accounts ! 2)" and P: "P = ai_key (accounts ! 7)"
    and run: "creates_pool S pid accounts w w'"
  shows "backed minted P S pid k w'"
proof -
  obtain q where q: "holds_pool pid w' k q" "new_pool S pid accounts q"
    using creates_pool_new [OF mint_laws(1,2) [OF env] self run] k by blast
  obtain cooldown cap w1 where init: "process_init_pool S pid accounts cooldown cap w = Inr w1"
      and frame: "\<And>a. a \<noteq> k \<Longrightarrow> accts w' a = accts w1 a"
    using creates_pool_runs [OF run, folded k] by blast
  have "minted (accts w' (ai_key (accounts ! 3))) = Some (vault_authority S pid k, 0)"
    using init_pool_mint [OF env self k init] frame by simp
  moreover have "solvent q"
    using q(2) by (simp add: new_pool_def fresh_pool_def solvent_def assets_in_def assets_out_def)
  ultimately show ?thesis
    using q by (simp add: backed_def guarded_def holds_pool_def new_pool_def P minted_by_def mint_supply_def)
qed

text \<open>What others do to the pool's mint: they may burn, not mint.\<close>

definition mint_only_burnt ::
    "(account \<Rightarrow> (pubkey \<times> nat) option) \<Rightarrow> sdk \<Rightarrow> pubkey \<Rightarrow> pubkey \<Rightarrow> world \<Rightarrow> world \<Rightarrow> bool" where
  "mint_only_burnt minted S pid k w w' \<longleftrightarrow> (\<forall>M. minted_by minted (vault_authority S pid k) (accts w M) \<longrightarrow>
     mint_kept minted (vault_authority S pid k) M w w')"

lemma mint_stays_backed:
  assumes env: "mint_env minted P S pid k"
    and life: "pool_life S pid k (mint_only_burnt minted S pid k) w w'"
    and start: "backed minted P S pid k w"
  shows "backed minted P S pid k w'"
  using life start
proof (rule pool_life_invariant)
  fix accounts data u u'
  assume "backed minted P S pid k u" "process_instruction S pid accounts data u = Inr u'"
    "no_self_call pid accounts" "unsigned_by (vault_authority S pid k) accounts"
  then show "backed minted P S pid k u'"
    using instruction_backed [OF env] by blast
next
  fix u u'
  assume u: "backed minted P S pid k u" and eff: "cpi_effect_ok pid u u'"
    and "mint_only_burnt minted S pid k u u'"
  then have "guarded_kept lp_mint (minted_by minted) (\<lambda>S. mint_kept minted) P S pid k u u'"
    by (intro mint.guarded_step [OF mint.kept_refl eff]) (simp add: mint_only_burnt_def)
  then show "backed minted P S pid k u'"
    using u by (rule kept_backed)
qed

section \<open>What the depositors can claim\<close>

definition claim :: "stake_pool \<Rightarrow> u64 \<Rightarrow> nat" where
  "claim p lp = (case pool_calc_collateral_for_withdraw p lp of Some c \<Rightarrow> unat c | None \<Rightarrow> 0)"

definition record_claim :: "pubkey \<Rightarrow> pubkey \<Rightarrow> world \<Rightarrow> pubkey \<Rightarrow> nat" where
  "record_claim pid k w dk =
     (if acc_owner (accts w dk) = pid then claim (pool_at w k) (lp_amount (deposit_at w dk)) else 0)"

lemma claim_le: "claim p lp * shares p \<le> unat lp * worth p"
proof (cases "pool_calc_collateral_for_withdraw p lp")
  case (Some c)
  then have "unat c = unat lp * worth p div shares p"
    by (rule withdraw_collateral(2))
  with Some show ?thesis
    by (simp add: claim_def)
qed (simp add: claim_def)

lemma claims_covered:
  assumes "books_balance S pid k w"
  shows "(\<Sum>dk \<in> record_keys S pid k. record_claim pid k w dk) \<le> worth (pool_at w k)"
proof (cases "shares (pool_at w k) = 0")
  case True
  then have "pool_calc_collateral_for_withdraw (pool_at w k) lp = None" for lp
    using withdraw_collateral(1) by (metis option.exhaust)
  then have "record_claim pid k w dk = 0" for dk
    by (simp add: record_claim_def claim_def)
  then show ?thesis
    by simp
next
  case False
  let ?n = "shares (pool_at w k)" and ?v = "worth (pool_at w k)"
  have "record_claim pid k w dk * ?n \<le> record_lp pid w dk * ?v" for dk
    using claim_le by (simp add: record_claim_def record_lp_def)
  then have "(\<Sum>dk \<in> record_keys S pid k. record_claim pid k w dk * ?n)
      \<le> (\<Sum>dk \<in> record_keys S pid k. record_lp pid w dk * ?v)"
    by (rule sum_mono)
  then have "(\<Sum>dk \<in> record_keys S pid k. record_claim pid k w dk) * ?n \<le> ?n * ?v"
    using assms by (simp add: sum_distrib_right [symmetric] books_balance_def recorded_lp_def)
  with False show ?thesis
    by (simp add: mult.commute)
qed


section \<open>The theorems\<close>

text \<open>C4. The books balance through the whole life of a pool: from the transaction that creates it, through
  any sequence of instructions anybody sends to the program and any activity of other programs, the LP
  amounts of its deposit records add up to exactly the LP supply the pool has recorded.\<close>
theorem records_add_up:
  assumes "records_env S pid k" and "no_self_call pid accounts" and "k = ai_key (accounts ! 2)"
    and "no_records S pid k w0" and "creates_pool S pid accounts w0 w"
    and "pool_life S pid k (records_same S pid k) w w'"
  shows "pool_account pid w' k
    \<and> (\<Sum>dk \<in> record_keys S pid k. record_lp pid w' dk) = unat (total_lp_supply (pool_at w' k))"
  using records_balance [OF assms(1,6) creation_balances [OF assms(1-5)]]
  by (simp add: books_balance_def recorded_lp_def shares_def)

text \<open>C3. The vault covers its depositors through the whole life of a pool: whatever instructions are sent
  and whatever other programs do, the vault's token account stays under the pool's own authority and
  holds at least the pool's worth, and at least the sum of what all deposit records could be redeemed
  for.\<close>
theorem vault_covers_claims:
  assumes "records_env S pid k" and "custody_env auths P S pid k" and "no_self_call pid accounts"
    and "k = ai_key (accounts ! 2)" and "P = ai_key (accounts ! 7)"
    and "no_records S pid k w0" and "creates_pool S pid accounts w0 w"
    and "pool_life S pid k (\<lambda>u u'. records_same S pid k u u' \<and> vault_untouched auths S pid k u u') w w'"
  shows "auths (accts w' (vault (pool_at w' k))) = {vault_authority S pid k}
    \<and> worth (pool_at w' k) \<le> bal S w' (vault (pool_at w' k))
    \<and> (\<Sum>dk \<in> record_keys S pid k. record_claim pid k w' dk) \<le> bal S w' (vault (pool_at w' k))"
proof -
  have "books_balance S pid k w'"
    using records_balance [OF assms(1) pool_life_mono [OF assms(8)] creation_balances [OF assms(1,3,4,6,7)]] by blast
  then have "(\<Sum>dk \<in> record_keys S pid k. record_claim pid k w' dk) \<le> worth (pool_at w' k)"
    by (rule claims_covered)
  moreover have "funded auths P S pid k w'"
    using vault_stays_funded [OF assms(2) pool_life_mono [OF assms(8)] creation_funded [OF assms(2-5,7)]] by blast
  ultimately show ?thesis
    by (auto simp: funded_def guarded_def owed_def)
qed

text \<open>C5. No unbacked LP tokens: from the transaction that creates a pool, through any instructions and any activity
  of others, the LP mint stays under the pool's own authority and its supply is at most the LP supply the pool has
  recorded, which is the sum of its deposit records.\<close>
theorem lp_tokens_backed:
  assumes "records_env S pid k" and "mint_env minted P S pid k" and "no_self_call pid accounts"
    and "k = ai_key (accounts ! 2)" and "P = ai_key (accounts ! 7)"
    and "no_records S pid k w0" and "creates_pool S pid accounts w0 w"
    and "pool_life S pid k (\<lambda>u u'. records_same S pid k u u' \<and> mint_only_burnt minted S pid k u u') w w'"
    and "M = lp_mint (pool_at w' k)"
  shows "minted_by minted (vault_authority S pid k) (accts w' M)
    \<and> mint_supply minted (accts w' M) \<le> unat (total_lp_supply (pool_at w' k))
    \<and> mint_supply minted (accts w' M) \<le> (\<Sum>dk \<in> record_keys S pid k. record_lp pid w' dk)"
proof -
  have "books_balance S pid k w'"
    using records_balance [OF assms(1) pool_life_mono [OF assms(8)] creation_balances [OF assms(1,3,4,6,7)]] by blast
  moreover have "backed minted P S pid k w'"
    using mint_stays_backed [OF assms(2) pool_life_mono [OF assms(8)] creation_backed [OF assms(2-5,7)]] by blast
  ultimately show ?thesis
    using backedD(4,6) by (auto simp: books_balance_def recorded_lp_def shares_def assms(9))
qed

lemma bank_deposit_life:
  assumes "process_deposit bank_sdk demo_pid demo_deposit_accounts 500
     (bank_world (demo_pool 0 0 0) [] demo_system 0 5000) = Inr w'"
  shows "process_instruction bank_sdk demo_pid demo_deposit_accounts (pack (Deposit 500))
      (bank_world (demo_pool 0 0 0) [] demo_system 0 5000) = Inr w'"
    and "pool_life bank_sdk demo_pid 20 E (bank_world (demo_pool 0 0 0) [] demo_system 0 5000) w'"
proof -
  show step: "process_instruction bank_sdk demo_pid demo_deposit_accounts (pack (Deposit 500))
      (bank_world (demo_pool 0 0 0) [] demo_system 0 5000) = Inr w'"
    using assms unpack_pack [of "Deposit 500" "[]"]
    by (simp add: process_instruction_def process_def dispatch_def del: pack.simps)
  show "pool_life bank_sdk demo_pid 20 E (bank_world (demo_pool 0 0 0) [] demo_system 0 5000) w'"
    by (rule pool_life.own [OF pool_life.here step])
      (simp_all add: no_self_call_def unsigned_by_def demo_deposit_accounts_def demo_pid_def demo_token_def
        demo_system_def)
qed

lemma bank_history:
  obtains w w' where "creates_pool bank_sdk demo_pid demo_init_accounts bank_empty w"
    "process_instruction bank_sdk demo_pid demo_deposit_accounts (pack (Deposit 500)) w = Inr w'"
    "pool_life bank_sdk demo_pid 20 E w w'" "shares (pool_at w' 20) = 500"
proof -
  let ?w = "bank_world (demo_pool 0 0 0) [] demo_system 0 5000"
  obtain w' where run: "process_deposit bank_sdk demo_pid demo_deposit_accounts 500 ?w = Inr w'"
    using bank_deposit_run by blast
  have "creates_pool bank_sdk demo_pid demo_init_accounts bank_empty ?w"
    using bank_init_run by (auto simp: creates_pool_def)
  then show thesis
    using bank_deposit_life [OF run] bank_deposit_shares [OF run] by (rule that)
qed

lemma bank_start:
  "no_self_call demo_pid demo_init_accounts" "20 = ai_key (demo_init_accounts ! 2)"
  "demo_wrapper = ai_key (demo_init_accounts ! 7)" "no_records bank_sdk demo_pid 20 bank_empty"
  by (simp_all add: no_self_call_def demo_init_accounts_def no_records_def bank_record_keys bank_empty_def
      demo_pid_def demo_wrapper_def demo_token_def demo_system_def)

theorem records_add_up_witness:
  "\<exists>w w'. creates_pool bank_sdk demo_pid demo_init_accounts bank_empty w
    \<and> pool_life bank_sdk demo_pid 20 (records_same bank_sdk demo_pid 20) w w'
    \<and> (\<Sum>dk \<in> record_keys bank_sdk demo_pid 20. record_lp demo_pid w' dk) = 500"
proof (rule bank_history [of "records_same bank_sdk demo_pid 20"])
  fix w w'
  assume w: "creates_pool bank_sdk demo_pid demo_init_accounts bank_empty w"
    and life: "pool_life bank_sdk demo_pid 20 (records_same bank_sdk demo_pid 20) w w'"
    and sh: "shares (pool_at w' 20) = 500"
  show ?thesis
    using w life records_add_up [OF bank_records_env bank_start(1,2,4) w life] sh by (auto simp: shares_def)
qed

theorem vault_covers_claims_witness:
  "\<exists>w w'. creates_pool bank_sdk demo_pid demo_init_accounts bank_empty w
    \<and> process_instruction bank_sdk demo_pid demo_deposit_accounts (pack (Deposit 500)) w = Inr w'
    \<and> (\<Sum>dk \<in> record_keys bank_sdk demo_pid 20. record_claim demo_pid 20 w' dk)
        \<le> bal bank_sdk w' (vault (pool_at w' 20))"
proof (rule bank_history [of "\<lambda>u u'. records_same bank_sdk demo_pid 20 u u'
    \<and> vault_untouched bank_auths bank_sdk demo_pid 20 u u'"])
  fix w w'
  assume w: "creates_pool bank_sdk demo_pid demo_init_accounts bank_empty w"
    and run: "process_instruction bank_sdk demo_pid demo_deposit_accounts (pack (Deposit 500)) w = Inr w'"
    and life: "pool_life bank_sdk demo_pid 20 (\<lambda>u u'. records_same bank_sdk demo_pid 20 u u'
      \<and> vault_untouched bank_auths bank_sdk demo_pid 20 u u') w w'"
  show ?thesis
    using w run vault_covers_claims [OF bank_records_env bank_custody_env bank_start w life] by blast
qed

theorem lp_tokens_backed_witness:
  "\<exists>w w'. creates_pool bank_sdk demo_pid demo_init_accounts bank_empty w
    \<and> process_instruction bank_sdk demo_pid demo_deposit_accounts (pack (Deposit 500)) w = Inr w'
    \<and> mint_supply bank_minted (accts w' (lp_mint (pool_at w' 20))) \<le> 500"
proof (rule bank_history [of "\<lambda>u u'. records_same bank_sdk demo_pid 20 u u'
    \<and> mint_only_burnt bank_minted bank_sdk demo_pid 20 u u'"])
  fix w w'
  assume w: "creates_pool bank_sdk demo_pid demo_init_accounts bank_empty w"
    and run: "process_instruction bank_sdk demo_pid demo_deposit_accounts (pack (Deposit 500)) w = Inr w'"
    and life: "pool_life bank_sdk demo_pid 20 (\<lambda>u u'. records_same bank_sdk demo_pid 20 u u'
      \<and> mint_only_burnt bank_minted bank_sdk demo_pid 20 u u') w w'" and sh: "shares (pool_at w' 20) = 500"
  show ?thesis
    using w run lp_tokens_backed [OF bank_records_env bank_mint_env bank_start w life refl] sh
    by (auto simp: shares_def)
qed

end
