(* ===== verification/Withdraw_Outcome.thy ===== *)
theory Withdraw_Outcome
  imports User_Properties
begin

text \<open>
  What a withdrawal request that names the right accounts comes to: the error for each reason it is
  refused, and that it succeeds when none applies.
\<close>

section \<open>A well-formed request\<close>

definition withdraw_setup :: "sdk \<Rightarrow> pubkey \<Rightarrow> clock \<Rightarrow> account_info list \<Rightarrow> world \<Rightarrow> pubkey \<Rightarrow> stake_pool \<Rightarrow>
    stake_deposit \<Rightarrow> bool" where
  "withdraw_setup S pid clk accounts w k p d \<longleftrightarrow>
     10 \<le> length accounts \<and> ai_is_signer (accounts ! 0) \<and> ai_key (accounts ! 1) = k
     \<and> ai_key (accounts ! 3) = lp_mint p \<and> ai_key (accounts ! 4) = vault p
     \<and> ai_key (accounts ! 6) = fst (derive_vault_authority S pid k)
     \<and> ai_key (accounts ! 7) = fst (derive_deposit_pda S pid k (ai_key (accounts ! 0)))
     \<and> ai_key (accounts ! 8) = spl_token_id S \<and> mut_borrowed w = []
     \<and> clock_from_account_info S (w\<lparr>mut_borrowed := [k]\<rparr>) (accounts ! 9) = Inr clk
     \<and> holds_pool pid w k p \<and> is_initialized p = 1 \<and> validate_discriminator p
     \<and> ai_key (accounts ! 7) \<noteq> k \<and> acc_owner (accts w (ai_key (accounts ! 7))) = pid
     \<and> STAKE_DEPOSIT_SIZE \<le> length (acc_data (accts w (ai_key (accounts ! 7))))
     \<and> deposit_at w (ai_key (accounts ! 7)) = d \<and> dep_is_initialized d = 1
     \<and> dep_user d = ai_key (accounts ! 0) \<and> dep_pool d = k"

lemma ten_accounts:
  "10 \<le> length xs \<Longrightarrow> \<exists>a b c d e f g h i j rest. xs = a # b # c # d # e # f # g # h # i # j # rest"
  by (auto simp: numeral_eq_Suc Suc_le_length_iff)

lemma withdraw_setup_cases:
  assumes "withdraw_setup S pid clk accounts w k p d"
  obtains user_ai pool_ai user_lp_ata lp_mint_ai vault_ai user_ata vault_auth_ai deposit_ai token_program
    clock_sysvar rest where
    "accounts = user_ai # pool_ai # user_lp_ata # lp_mint_ai # vault_ai # user_ata # vault_auth_ai
       # deposit_ai # token_program # clock_sysvar # rest"
    "ai_is_signer user_ai" "ai_key pool_ai = k" "ai_key lp_mint_ai = lp_mint p" "ai_key vault_ai = vault p"
    "ai_key vault_auth_ai = fst (derive_vault_authority S pid k)"
    "ai_key deposit_ai = fst (derive_deposit_pda S pid k (ai_key user_ai))"
    "ai_key token_program = spl_token_id S" "mut_borrowed w = []"
    "clock_from_account_info S (w\<lparr>mut_borrowed := [k]\<rparr>) clock_sysvar = Inr clk"
    "as_pool (acc_data (accts w k)) = Inr p" "is_initialized p = 1" "validate_discriminator p"
    "fst (derive_deposit_pda S pid k (ai_key user_ai)) \<noteq> k"
    "acc_owner (accts w (fst (derive_deposit_pda S pid k (ai_key user_ai)))) = pid"
    "as_deposit (acc_data (accts w (fst (derive_deposit_pda S pid k (ai_key user_ai))))) = Inr d"
    "dep_is_initialized d = 1" "dep_user d = ai_key user_ai" "dep_pool d = k"
proof -
  obtain a b c d1 e f g h i j rest where "accounts = a # b # c # d1 # e # f # g # h # i # j # rest"
    using ten_accounts [of accounts] assms by (auto simp: withdraw_setup_def)
  then show thesis
    using assms by (intro that [of a b c d1 e f g h i j rest])
      (auto simp: withdraw_setup_def holds_pool_def pool_account_def pool_at_def deposit_at_def as_pool_Inr
        as_deposit_Inr)
qed

text \<open>The request up to the first check that depends on the amount.\<close>

lemmas withdraw_eval = Let_def try_borrow_mut_data_def try_borrow_data_def info_account_def
  info_owner_def verify_token_program_def case_prod_unfold

lemma withdraw_checks:
  assumes "iter_law S" and "withdraw_setup S pid clk accounts w k p d" and "lp \<noteq> 0"
  shows "clock_slot clk < saturating_add (last_deposit_slot d) (cooldown_slots p) \<Longrightarrow>
      process_withdraw S pid accounts lp w = Inl (stake_err CooldownNotElapsed)"
    and "saturating_add (last_deposit_slot d) (cooldown_slots p) \<le> clock_slot clk \<Longrightarrow> lp_amount d < lp \<Longrightarrow>
      process_withdraw S pid accounts lp w = Inl (stake_err InsufficientLpTokens)"
    and "saturating_add (last_deposit_slot d) (cooldown_slots p) \<le> clock_slot clk \<Longrightarrow> lp \<le> lp_amount d \<Longrightarrow>
      pool_calc_collateral_for_withdraw p lp = None \<Longrightarrow>
      process_withdraw S pid accounts lp w = Inl (stake_err Overflow)"
    and "saturating_add (last_deposit_slot d) (cooldown_slots p) \<le> clock_slot clk \<Longrightarrow> lp \<le> lp_amount d \<Longrightarrow>
      pool_calc_collateral_for_withdraw p lp = Some 0 \<Longrightarrow>
      process_withdraw S pid accounts lp w = Inl (stake_err ZeroAmount)"
proof -
  note request = withdraw_setup_cases [OF assms(2)]
  show "process_withdraw S pid accounts lp w = Inl (stake_err CooldownNotElapsed)"
    if "clock_slot clk < saturating_add (last_deposit_slot d) (cooldown_slots p)"
    by (rule request) (simp add: process_withdraw_def withdraw_eval iter_lawD [OF assms(1)] assms(3) that)
  show "process_withdraw S pid accounts lp w = Inl (stake_err InsufficientLpTokens)"
    if "saturating_add (last_deposit_slot d) (cooldown_slots p) \<le> clock_slot clk" "lp_amount d < lp"
    by (rule request) (simp add: process_withdraw_def withdraw_eval iter_lawD [OF assms(1)] assms(3) that leD)
  show "process_withdraw S pid accounts lp w = Inl (stake_err Overflow)"
    if "saturating_add (last_deposit_slot d) (cooldown_slots p) \<le> clock_slot clk" "lp \<le> lp_amount d"
      "pool_calc_collateral_for_withdraw p lp = None"
    by (rule request) (simp add: process_withdraw_def withdraw_eval iter_lawD [OF assms(1)] assms(3) that leD ok_or_def)
  show "process_withdraw S pid accounts lp w = Inl (stake_err ZeroAmount)"
    if "saturating_add (last_deposit_slot d) (cooldown_slots p) \<le> clock_slot clk" "lp \<le> lp_amount d"
      "pool_calc_collateral_for_withdraw p lp = Some 0"
    by (rule request) (simp add: process_withdraw_def withdraw_eval iter_lawD [OF assms(1)] assms(3) that leD ok_or_def)
qed


section \<open>The payout and the floor\<close>

text \<open>The high-water mark of the epoch once the pool's present worth is counted in, and the least worth that
  a withdrawal must leave.\<close>

definition epoch_mark :: "u64 \<Rightarrow> stake_pool \<Rightarrow> nat" where
  "epoch_mark e p =
     (if e = hwm_last_epoch p then max (unat (epoch_high_water_tvl p)) (worth p) else worth p)"

definition payout :: "stake_pool \<Rightarrow> u64 \<Rightarrow> nat" where
  "payout p lp = unat lp * worth p div shares p"

definition leaves_floor :: "u64 \<Rightarrow> stake_pool \<Rightarrow> u64 \<Rightarrow> bool" where
  "leaves_floor e p lp \<longleftrightarrow> (hwm_enabled p \<longrightarrow>
     epoch_mark e p * unat (hwm_floor_bps p) div 10000 \<le> worth p - payout p lp)"

lemma pool_tvl:
  assumes "assets_in p < 2 ^ 64" and "solvent p"
  shows "total_pool_value p = Some (tvl p)" and "unat (tvl p) = worth p"
proof -
  have "worth p < 2 ^ 64"
    using assms(1) by (simp add: worth_def)
  then obtain v :: u64 where v: "unat v = worth p"
    using u64_of_nat by blast
  then have "total_pool_value p = Some v"
    using assms by (simp add: total_pool_value_Some worth_def solvent_def)
  then show "total_pool_value p = Some (tvl p)" and "unat (tvl p) = worth p"
    using v by (simp_all add: tvl_def unwrap_or_def)
qed

lemma collateral_payout:
  assumes "assets_in p < 2 ^ 64" and "solvent p" and "unat lp \<le> shares p" and "lp \<noteq> 0"
  obtains c where "pool_calc_collateral_for_withdraw p lp = Some c" "unat c = payout p lp" "unat c \<le> worth p"
    "unat (tvl p) = worth p" "total_pool_value p = Some (tvl p)"
proof -
  note val = pool_tvl [OF assms(1,2)]
  have s: "total_lp_supply p \<noteq> 0" "lp \<le> total_lp_supply p"
    using assms(3,4) by (auto simp: shares_def unat_le_iff unat_eq_iff)
  obtain c where "calc_collateral_for_withdraw (total_lp_supply p) (tvl p) lp = Some c"
      "unat c = unat lp * unat (tvl p) div unat (total_lp_supply p)" "c \<le> tvl p"
    using lp_math.redeem_defined [OF s] by blast
  then show thesis
    using val by (intro that [of c])
      (simp_all add: pool_calc_collateral_for_withdraw_def payout_def shares_def unat_le_iff)
qed

lemma mark_value:
  assumes "wf_pool p" and "unat (tvl p) = worth p"
  shows "unat (snd (refresh_hwm e (tvl p) p)) = epoch_mark e p"
  using refresh_hwm_value(1) [OF assms(1) surjective_pairing, of e "tvl p"] assms(2)
  by (simp add: epoch_mark_def max_def unat_le_iff)

lemma hwm_permits_floor:
  assumes "wf_pool p" and "unat (tvl p) = worth p" and "unat c = payout p lp" and "unat c \<le> worth p"
  shows "hwm_permits e p c \<longleftrightarrow> leaves_floor e p lp"
proof -
  have "c \<le> tvl p" and "unat (tvl p - c) = worth p - payout p lp"
    using assms(2-4) by (simp_all add: unat_le_iff unat_diff_exact)
  then show ?thesis
    by (simp add: hwm_permits_def leaves_floor_def hwm_withdrawal_allowed_exact mark_value [OF assms(1,2)])
qed

lemma withdraw_below_floor:
  assumes "iter_law S" and "withdraw_setup S pid clk accounts w k p d" and "lp \<noteq> 0"
    and "saturating_add (last_deposit_slot d) (cooldown_slots p) \<le> clock_slot clk" and "lp \<le> lp_amount d"
    and "pool_calc_collateral_for_withdraw p lp = Some c" and "c \<noteq> 0" and "total_pool_value p = Some (tvl p)"
    and "c \<le> tvl p" and "\<not> hwm_permits (clock_epoch clk) p c"
  shows "process_withdraw S pid accounts lp w = Inl (stake_err WithdrawalBelowHwmFloor)"
proof -
  have wf: "wf_pool p"
    using assms(2) holds_pool_wf by (auto simp: withdraw_setup_def)
  have hwm: "hwm_enabled p" "\<not> hwm_withdrawal_allowed (tvl p - c) (snd (refresh_hwm (clock_epoch clk) (tvl p) p))
      (hwm_floor_bps (fst (refresh_hwm (clock_epoch clk) (tvl p) p)))"
    using assms(9,10) hwm_permits_iff [OF wf] by auto
  show ?thesis
    by (rule withdraw_setup_cases [OF assms(2)])
      (simp add: process_withdraw_def withdraw_eval iter_lawD [OF assms(1)] assms leD hwm unwrap_or_def checked_sub_def)
qed

text \<open>C11. Why a withdrawal is refused: a request that names the right accounts and record fails with
  \<open>CooldownNotElapsed\<close> before the cooldown has passed, with \<open>InsufficientLpTokens\<close> for more LP than the record
  holds, with \<open>ZeroAmount\<close> when the LP is worth less than one token, and with
  \<open>WithdrawalBelowHwmFloor\<close> when the payout would take the pool below the floor of the epoch's mark.\<close>
theorem withdraw_refusals:
  assumes "runtime_laws S pid" and "withdraw_setup S pid clk accounts w k p d" and "lp \<noteq> 0"
    and "assets_in p < 2 ^ 64" and "solvent p" and "unat lp \<le> shares p"
    and "unlock = min (2 ^ 64 - 1) (unat (last_deposit_slot d) + unat (cooldown_slots p))"
  shows "(unat (clock_slot clk) < unlock \<longrightarrow>
        process_withdraw S pid accounts lp w = Inl (stake_err CooldownNotElapsed))
    \<and> (unlock \<le> unat (clock_slot clk) \<longrightarrow> lp_amount d < lp \<longrightarrow>
        process_withdraw S pid accounts lp w = Inl (stake_err InsufficientLpTokens))
    \<and> (unlock \<le> unat (clock_slot clk) \<longrightarrow> lp \<le> lp_amount d \<longrightarrow> payout p lp = 0 \<longrightarrow>
        process_withdraw S pid accounts lp w = Inl (stake_err ZeroAmount))
    \<and> (unlock \<le> unat (clock_slot clk) \<longrightarrow> lp \<le> lp_amount d \<longrightarrow> payout p lp \<noteq> 0 \<longrightarrow>
        \<not> leaves_floor (clock_epoch clk) p lp \<longrightarrow>
        process_withdraw S pid accounts lp w = Inl (stake_err WithdrawalBelowHwmFloor))"
proof -
  note iter = runtime_lawsD(1) [OF assms(1)]
  have unlock: "unlock = unat (saturating_add (last_deposit_slot d) (cooldown_slots p))"
    by (simp add: assms(7) unat_saturating_add)
  have wf: "wf_pool p"
    using assms(2) holds_pool_wf by (auto simp: withdraw_setup_def)
  obtain c where c: "pool_calc_collateral_for_withdraw p lp = Some c" "unat c = payout p lp" "unat c \<le> worth p"
      "unat (tvl p) = worth p" "total_pool_value p = Some (tvl p)"
    using collateral_payout [OF assms(4-6,3)] by blast
  have "c \<le> tvl p"
    using c(3,4) by (simp add: unat_le_iff)
  note below = withdraw_below_floor [OF iter assms(2,3) _ _ c(1) _ c(5) this]
  have "payout p lp = 0 \<longleftrightarrow> c = 0"
    using c(2) by (simp add: unat_eq_iff)
  then show ?thesis
    using withdraw_checks [OF iter assms(2,3)] below hwm_permits_floor [OF wf c(4,2,3)] c(1)
    unfolding unlock by (auto simp: unat_less_iff unat_le_iff)
qed


abbreviation demo_deposit_world :: "u64 \<Rightarrow> world" where
  "demo_deposit_world slot \<equiv>
     demo_world (demo_pool 0 3000 1000) (encode_deposit (demo_deposit slot 150)) demo_pid 0"

lemma demo_withdraw_setup:
  "withdraw_setup demo_sdk demo_pid \<lparr>clock_slot = 1000, clock_epoch = 2\<rparr> demo_withdraw_accounts
     (demo_deposit_world slot) 20 (demo_pool 0 3000 1000) (demo_deposit slot 150)"
  using demo_holds [OF wf_demo_pool]
  by (simp add: withdraw_setup_def demo_withdraw_accounts_def deposit_at_def STAKE_DEPOSIT_SIZE_def
      length_encode_deposit decode_encode_deposit)

lemma demo_pool_worth:
  "worth (demo_pool 0 3000 1000) = 3000" "shares (demo_pool 0 3000 1000) = 1000"
  "assets_in (demo_pool 0 3000 1000) < 2 ^ 64" "solvent (demo_pool 0 3000 1000)"
  by (simp_all add: worth_def solvent_def assets_in_def assets_out_def shares_def)

theorem withdraw_refusals_witness:
  "process_withdraw demo_sdk demo_pid demo_withdraw_accounts 100 (demo_deposit_world 995)
     = Inl (stake_err CooldownNotElapsed)
   \<and> process_withdraw demo_sdk demo_pid demo_withdraw_accounts 200 (demo_deposit_world 900)
     = Inl (stake_err InsufficientLpTokens)"
proof -
  have "process_withdraw demo_sdk demo_pid demo_withdraw_accounts 100 (demo_deposit_world 995)
      = Inl (stake_err CooldownNotElapsed)"
    using withdraw_refusals [OF demo_laws demo_withdraw_setup _ demo_pool_worth(3,4) _ refl, of 100 995]
    by (simp add: demo_pool_worth)
  moreover have "process_withdraw demo_sdk demo_pid demo_withdraw_accounts 200 (demo_deposit_world 900)
      = Inl (stake_err InsufficientLpTokens)"
    using withdraw_refusals [OF demo_laws demo_withdraw_setup _ demo_pool_worth(3,4) _ refl, of 200 900]
    by (simp add: demo_pool_worth)
  ultimately show ?thesis ..
qed

section \<open>Success\<close>

lemma withdraw_completes:
  assumes laws: "runtime_laws S pid" and request: "withdraw_setup S pid clk accounts w k p d" and "lp \<noteq> 0"
    and "saturating_add (last_deposit_slot d) (cooldown_slots p) \<le> clock_slot clk" and "lp \<le> lp_amount d"
    and "pool_calc_collateral_for_withdraw p lp = Some c" and "c \<noteq> 0" and "total_pool_value p = Some (tvl p)"
    and permits: "hwm_permits (clock_epoch clk) p c"
    and sums: "checked_add (total_withdrawn p) c = Some t" "checked_sub (total_lp_supply p) lp = Some s"
    and burn: "invoke S (write_pool (accounts ! 1) (touch_hwm (clock_epoch clk) p) (w\<lparr>mut_borrowed := [k]\<rparr>))
      (TokenBurn (spl_token_id S) (ai_key (accounts ! 2)) (lp_mint p) (ai_key (accounts ! 0)) lp)
      [accounts ! 2, accounts ! 3, accounts ! 0, accounts ! 8] = Inr w1"
    and pay: "invoke_signed S w1
      (TokenTransfer (spl_token_id S) (vault p) (ai_key (accounts ! 5)) (fst (derive_vault_authority S pid k)) c)
      [accounts ! 4, accounts ! 5, accounts ! 6, accounts ! 8]
      [vault_auth_seeds k (snd (derive_vault_authority S pid k))] = Inr w2"
  shows "\<exists>w'. process_withdraw S pid accounts lp w = Inr w'"
proof (rule withdraw_setup_cases [OF request], goal_cases)
  case (1 user_ai pool_ai user_lp_ata lp_mint_ai vault_ai user_ata vault_auth_ai deposit_ai token_program
    clock_sysvar rest)
  let ?dk = "fst (derive_deposit_pda S pid k (ai_key user_ai))"
  let ?p1 = "touch_hwm (clock_epoch clk) p"
  let ?w3 = "write_pool pool_ai (?p1\<lparr>total_withdrawn := t, total_lp_supply := s\<rparr>) w2"
  have wf: "wf_pool p"
    using request holds_pool_wf by (auto simp: withdraw_setup_def)
  have "cpi_effect_ok pid (write_pool pool_ai ?p1 (w\<lparr>mut_borrowed := [k]\<rparr>)) w2"
    using owner_law_invoke [OF runtime_lawsD(2) [OF laws] burn]
      owner_law_invoke_signed [OF runtime_lawsD(2) [OF laws] pay] runtime_lawsD(3) [OF laws]
    by (auto simp: 1(1) intro: cpi_effect_ok_trans)
  then have w3: "mut_borrowed ?w3 = [k]" "acc_data (accts ?w3 ?dk) = acc_data (accts w ?dk)"
    using 1(3,14,15) by (auto simp: cpi_effect_ok_def write_pool_def)
  have hwm: "hwm_enabled p \<Longrightarrow> checked_sub (tvl p) c = Some (tvl p - c)
      \<and> hwm_withdrawal_allowed (tvl p - c) (snd (refresh_hwm (clock_epoch clk) (tvl p) p))
          (hwm_floor_bps (fst (refresh_hwm (clock_epoch clk) (tvl p) p)))"
    using permits hwm_permits_iff [OF wf] by (auto simp: checked_sub_def)
  have lp: "checked_sub (lp_amount d) lp = Some (lp_amount d - lp)"
    using assms(5) by (simp add: checked_sub_def)
  have calls: "invoke S (write_pool pool_ai ?p1 (w\<lparr>mut_borrowed := [k]\<rparr>))
      (TokenBurn (spl_token_id S) (ai_key user_lp_ata) (lp_mint p) (ai_key user_ai) lp)
      [user_lp_ata, lp_mint_ai, user_ai, token_program] = Inr w1"
    using burn by (simp add: 1(1))
  have transfer: "invoke_signed S w1 (TokenTransfer (spl_token_id S) (vault p) (ai_key user_ata)
      (fst (derive_vault_authority S pid k)) c) [vault_ai, user_ata, vault_auth_ai, token_program]
      [vault_auth_seeds k (snd (derive_vault_authority S pid k))] = Inr w2"
    using pay by (simp add: 1(1))
  have touched: "total_withdrawn ?p1 = total_withdrawn p" "total_lp_supply ?p1 = total_lp_supply p"
    by simp_all
  have final: "\<exists>w'. bnd (try_borrow_mut_data ?w3 deposit_ai) (\<lambda>(deposit_data, w).
      bnd (as_deposit deposit_data) (\<lambda>d. bnd (ok_or (checked_sub (lp_amount d) lp) (stake_err InsufficientLpTokens))
        (\<lambda>new_lp. Inr (release pool_ai (release deposit_ai
          (write_deposit deposit_ai (d\<lparr>lp_amount := new_lp\<rparr>) w)))))) = Inr w'"
    using w3 1(3,7,14,16) lp by (simp add: try_borrow_mut_data_def info_account_def)
  show ?case
  proof (cases "hwm_enabled p")
    case True
    then have p1: "?p1 = fst (refresh_hwm (clock_epoch clk) (tvl p) p)"
      by (simp add: touch_hwm_def)
    then show ?thesis
      using True hwm calls transfer touched sums final
      by (simp add: process_withdraw_def withdraw_eval iter_lawD [OF runtime_lawsD(1) [OF laws]] assms(3-8) leD 1
          unwrap_or_def)
  next
    case False
    then have p1: "?p1 = p"
      by (simp add: touch_hwm_def)
    then show ?thesis
      using False calls transfer sums final
      by (simp add: process_withdraw_def withdraw_eval iter_lawD [OF runtime_lawsD(1) [OF laws]] assms(3-8) leD 1)
  qed
qed


text \<open>C10. A depositor can leave: a request that names the right accounts and record, comes after the cooldown,
  asks for no more LP than the record holds and the pool has issued, is worth at least one token and leaves
  the floor of the high-water mark intact succeeds as soon as the token program accepts the burn and the
  payout; none of the program's own arithmetic can fail.  Neither resolution, nor the deposit
  cap, nor the pool's mode can hold it back.\<close>
theorem withdraw_succeeds:
  assumes "runtime_laws S pid" and "withdraw_setup S pid clk accounts w k p d"
    and "assets_in p < 2 ^ 64" and "solvent p" and "lp \<le> lp_amount d" and "unat lp \<le> shares p"
    and "min (2 ^ 64 - 1) (unat (last_deposit_slot d) + unat (cooldown_slots p)) \<le> unat (clock_slot clk)"
    and "unat c = payout p lp" and "payout p lp \<noteq> 0" and "leaves_floor (clock_epoch clk) p lp"
    and "invoke S (write_pool (accounts ! 1) (touch_hwm (clock_epoch clk) p) (w\<lparr>mut_borrowed := [k]\<rparr>))
      (TokenBurn (spl_token_id S) (ai_key (accounts ! 2)) (lp_mint p) (ai_key (accounts ! 0)) lp)
      [accounts ! 2, accounts ! 3, accounts ! 0, accounts ! 8] = Inr w1"
    and "invoke_signed S w1
      (TokenTransfer (spl_token_id S) (vault p) (ai_key (accounts ! 5)) (fst (derive_vault_authority S pid k)) c)
      [accounts ! 4, accounts ! 5, accounts ! 6, accounts ! 8]
      [vault_auth_seeds k (snd (derive_vault_authority S pid k))] = Inr w2"
  shows "\<exists>w'. process_withdraw S pid accounts lp w = Inr w'"
proof -
  have lp: "lp \<noteq> 0"
    using assms(9) by (auto simp: payout_def)
  obtain c' where "pool_calc_collateral_for_withdraw p lp = Some c'" "unat c' = payout p lp" "unat c' \<le> worth p"
      "unat (tvl p) = worth p" "total_pool_value p = Some (tvl p)"
    using collateral_payout [OF assms(3,4,6) lp] by blast
  moreover from this have "c' = c"
    using assms(8) by (simp add: unat_eq_iff)
  ultimately have c: "pool_calc_collateral_for_withdraw p lp = Some c" "unat c \<le> worth p"
      "unat (tvl p) = worth p" "total_pool_value p = Some (tvl p)"
    by simp_all
  have wf: "wf_pool p"
    using assms(2) holds_pool_wf by (auto simp: withdraw_setup_def)
  have permits: "hwm_permits (clock_epoch clk) p c"
    using hwm_permits_floor [OF wf c(3) assms(8) c(2)] assms(10) by blast
  have unlock: "saturating_add (last_deposit_slot d) (cooldown_slots p) \<le> clock_slot clk"
    using assms(7) by (simp add: unat_le_iff unat_saturating_add)
  have "c \<noteq> 0"
    using assms(8,9) by (metis unat_0)
  moreover have "unat (total_withdrawn p) + unat c < 2 ^ 64"
    using c(2) assms(3,4) by (simp add: worth_def assets_out_def solvent_def)
  then have "checked_add (total_withdrawn p) c = Some (total_withdrawn p + c)"
    by (simp add: checked_add_def)
  moreover have "checked_sub (total_lp_supply p) lp = Some (total_lp_supply p - lp)"
    using assms(6) by (simp add: checked_sub_def shares_def unat_le_iff)
  ultimately show ?thesis
    using withdraw_completes [OF assms(1,2) lp unlock assms(5) c(1) _ c(4) permits _ _ assms(11,12)] by blast
qed

theorem withdraw_succeeds_witness:
  "\<exists>w'. process_withdraw demo_sdk demo_pid demo_withdraw_accounts 100 (demo_deposit_world 900) = Inr w'"
proof -
  have "payout (demo_pool 0 3000 1000) 100 = 300" "leaves_floor 2 (demo_pool 0 3000 1000) 100"
    by (simp_all add: payout_def demo_pool_worth leaves_floor_def)
  then show ?thesis
    by (intro withdraw_succeeds [OF demo_laws demo_withdraw_setup demo_pool_worth(3,4), where c = 300])
      (simp_all add: demo_pool_worth demo_call_def)
qed

end
