(* ===== verification/Deposit_Outcome.thy ===== *)
theory Deposit_Outcome
  imports Withdraw_Outcome
begin

text \<open>
  What a deposit request that names the right accounts comes to: the error for each reason the pool has to
  turn it away, and that it succeeds when there is none.
\<close>

section \<open>A well-formed request\<close>

definition deposit_setup :: "sdk \<Rightarrow> pubkey \<Rightarrow> account_info list \<Rightarrow> world \<Rightarrow> pubkey \<Rightarrow> stake_pool \<Rightarrow> bool" where
  "deposit_setup S pid accounts w k p \<longleftrightarrow>
     11 \<le> length accounts \<and> ai_is_signer (accounts ! 0) \<and> ai_key (accounts ! 1) = k
     \<and> ai_key (accounts ! 3) = vault p \<and> ai_key (accounts ! 4) = lp_mint p
     \<and> ai_key (accounts ! 6) = fst (derive_vault_authority S pid k)
     \<and> ai_key (accounts ! 7) = fst (derive_deposit_pda S pid k (ai_key (accounts ! 0)))
     \<and> ai_key (accounts ! 8) = spl_token_id S \<and> mut_borrowed w = [] \<and> ai_key (accounts ! 7) \<noteq> k
     \<and> holds_pool pid w k p \<and> is_initialized p = 1 \<and> validate_discriminator p"

lemma eleven_accounts:
  "11 \<le> length xs \<Longrightarrow> \<exists>a b c d e f g h i j l rest. xs = a # b # c # d # e # f # g # h # i # j # l # rest"
  by (auto simp: numeral_eq_Suc Suc_le_length_iff)

lemma deposit_setup_cases:
  assumes "deposit_setup S pid accounts w k p"
  obtains user_ai pool_ai user_ata vault_ai lp_mint_ai user_lp_ata vault_auth_ai deposit_ai token_program
    clock_sysvar system_program rest where
    "accounts = user_ai # pool_ai # user_ata # vault_ai # lp_mint_ai # user_lp_ata # vault_auth_ai
       # deposit_ai # token_program # clock_sysvar # system_program # rest"
    "ai_is_signer user_ai" "ai_key pool_ai = k" "ai_key vault_ai = vault p" "ai_key lp_mint_ai = lp_mint p"
    "ai_key vault_auth_ai = fst (derive_vault_authority S pid k)"
    "ai_key deposit_ai = fst (derive_deposit_pda S pid k (ai_key user_ai))"
    "ai_key token_program = spl_token_id S" "mut_borrowed w = []"
    "fst (derive_deposit_pda S pid k (ai_key user_ai)) \<noteq> k"
    "as_pool (acc_data (accts w k)) = Inr p" "is_initialized p = 1" "validate_discriminator p"
proof -
  obtain a b c d e f g h i j l rest where "accounts = a # b # c # d # e # f # g # h # i # j # l # rest"
    using eleven_accounts [of accounts] assms by (auto simp: deposit_setup_def)
  then show thesis
    using assms by (intro that [of a b c d e f g h i j l rest])
      (auto simp: deposit_setup_def holds_pool_def pool_account_def pool_at_def as_pool_Inr)
qed

section \<open>Why the pool turns a deposit away\<close>

text \<open>The LP tokens a deposit is worth, and the first reason against it, in natural numbers over the worth and
  the shares of the pool.\<close>

definition issue :: "stake_pool \<Rightarrow> u64 \<Rightarrow> nat" where
  "issue p a = (if shares p = 0 then unat a else unat a * shares p div worth p)"

definition deposit_barrier :: "stake_pool \<Rightarrow> u64 \<Rightarrow> stake_error option" where
  "deposit_barrier p a =
     (if admin_transferred p \<noteq> 1 then Some AdminNotTransferred
      else if is_resolved p then Some MarketResolved
      else if deposit_cap p \<noteq> 0 \<and> 2 ^ 64 \<le> worth p + unat a then Some Overflow
      else if deposit_cap p \<noteq> 0 \<and> unat (deposit_cap p) < worth p + unat a then Some DepositCapExceeded
      else if (shares p = 0) \<noteq> (worth p = 0) \<or> 2 ^ 64 \<le> issue p a then Some Overflow
      else if issue p a = 0 then Some ZeroAmount
      else None)"

lemma lp_issue:
  assumes "assets_in p < 2 ^ 64" and "solvent p"
  shows "pool_calc_lp_for_deposit p a =
    (if (shares p = 0) \<noteq> (worth p = 0) \<or> 2 ^ 64 \<le> issue p a then None else Some (word_of_nat (issue p a)))"
proof -
  note v = pool_tvl [OF assms]
  have zero: "tvl p = 0 \<longleftrightarrow> worth p = 0" "total_lp_supply p = 0 \<longleftrightarrow> shares p = 0"
    using v(2) by (simp_all add: shares_def unat_eq_iff)
  have "pool_calc_lp_for_deposit p a = calc_lp_for_deposit (total_lp_supply p) (tvl p) a"
    by (simp add: pool_calc_lp_for_deposit_def Let_def tvl_def)
  moreover have "calc_lp_for_deposit (total_lp_supply p) (tvl p) a =
      (if (shares p = 0) \<noteq> (worth p = 0) \<or> 2 ^ 64 \<le> issue p a then None else Some (word_of_nat (issue p a)))"
  proof (cases "shares p = 0"; cases "worth p = 0")
    assume "shares p = 0" "worth p = 0"
    moreover from this have "total_lp_supply p = 0" "tvl p = 0"
      using zero by simp_all
    ultimately show ?thesis
      using unat_bound [of a] lp_math.mint_first [of a] by (simp add: issue_def not_le)
  next
    assume "shares p = 0" "worth p \<noteq> 0"
    moreover from this have "total_lp_supply p = 0" "tvl p \<noteq> 0"
      using zero by simp_all
    ultimately show ?thesis
      using lp_math.mint_orphaned by simp
  next
    assume "shares p \<noteq> 0" "worth p = 0"
    moreover from this have "total_lp_supply p \<noteq> 0" "tvl p = 0"
      using zero by simp_all
    ultimately show ?thesis
      using lp_math.mint_valueless by simp
  next
    assume "shares p \<noteq> 0" "worth p \<noteq> 0"
    moreover from this have "total_lp_supply p \<noteq> 0" "tvl p \<noteq> 0"
      using zero by simp_all
    ultimately show ?thesis
      by (simp add: lp_math.mint_pro_rata issue_def v(2) shares_def not_less)
  qed
  ultimately show ?thesis
    by simp
qed

lemmas deposit_eval = Let_def try_borrow_mut_data_def info_account_def verify_token_program_def
  case_prod_unfold tvl_def [symmetric]

lemma cap_check:
  assumes "assets_in p < 2 ^ 64" and "solvent p"
  shows "bnd (ok_or (checked_add (tvl p) a) (stake_err Overflow)) (\<lambda>v.
      if deposit_cap p < v then Inl (stake_err DepositCapExceeded) else Inr ()) =
    (if 2 ^ 64 \<le> worth p + unat a then Inl (stake_err Overflow)
     else if unat (deposit_cap p) < worth p + unat a then Inl (stake_err DepositCapExceeded) else Inr ())"
  using pool_tvl(2) [OF assms] by (simp add: checked_add_def ok_or_def unat_less_iff unat_add_exact)

text \<open>The request up to the transfer of the collateral.\<close>

lemma deposit_checks:
  assumes "iter_law S" and "deposit_setup S pid accounts w k p" and "amount \<noteq> 0"
    and "assets_in p < 2 ^ 64" and "solvent p"
  shows "admin_transferred p \<noteq> 1 \<Longrightarrow> process_deposit S pid accounts amount w = Inl (stake_err AdminNotTransferred)"
    and "admin_transferred p = 1 \<Longrightarrow> is_resolved p \<Longrightarrow>
      process_deposit S pid accounts amount w = Inl (stake_err MarketResolved)"
    and "admin_transferred p = 1 \<Longrightarrow> \<not> is_resolved p \<Longrightarrow> deposit_cap p \<noteq> 0 \<Longrightarrow> 2 ^ 64 \<le> worth p + unat amount \<Longrightarrow>
      process_deposit S pid accounts amount w = Inl (stake_err Overflow)"
    and "admin_transferred p = 1 \<Longrightarrow> \<not> is_resolved p \<Longrightarrow> deposit_cap p \<noteq> 0 \<Longrightarrow> worth p + unat amount < 2 ^ 64 \<Longrightarrow>
      unat (deposit_cap p) < worth p + unat amount \<Longrightarrow>
      process_deposit S pid accounts amount w = Inl (stake_err DepositCapExceeded)"
    and "admin_transferred p = 1 \<Longrightarrow> \<not> is_resolved p \<Longrightarrow> within_cap p amount \<Longrightarrow>
      pool_calc_lp_for_deposit p amount = None \<Longrightarrow>
      process_deposit S pid accounts amount w = Inl (stake_err Overflow)"
    and "admin_transferred p = 1 \<Longrightarrow> \<not> is_resolved p \<Longrightarrow> within_cap p amount \<Longrightarrow>
      pool_calc_lp_for_deposit p amount = Some 0 \<Longrightarrow>
      process_deposit S pid accounts amount w = Inl (stake_err ZeroAmount)"
proof -
  note request = deposit_setup_cases [OF assms(2)] and iter = iter_lawD [OF assms(1)]
    and cap = cap_check [OF assms(4,5)]
  have inside: "deposit_cap p = 0 \<or> worth p + unat amount < 2 ^ 64 \<and> \<not> unat (deposit_cap p) < worth p + unat amount"
    if "within_cap p amount"
    using that unat_bound [of "deposit_cap p"] by (auto simp: within_cap_def pool_tvl(2) [OF assms(4,5)])
  show "process_deposit S pid accounts amount w = Inl (stake_err AdminNotTransferred)" if "admin_transferred p \<noteq> 1"
    by (rule request) (simp add: process_deposit_def deposit_eval iter assms(3) that)
  show "process_deposit S pid accounts amount w = Inl (stake_err MarketResolved)"
    if "admin_transferred p = 1" "is_resolved p"
    by (rule request) (simp add: process_deposit_def deposit_eval iter assms(3) that)
  show "process_deposit S pid accounts amount w = Inl (stake_err Overflow)"
    if "admin_transferred p = 1" "\<not> is_resolved p" "deposit_cap p \<noteq> 0" "2 ^ 64 \<le> worth p + unat amount"
    by (rule request) (use that(4) in \<open>simp add: process_deposit_def deposit_eval iter assms(3) that(1-3) cap word_gt_0\<close>)
  show "process_deposit S pid accounts amount w = Inl (stake_err DepositCapExceeded)"
    if "admin_transferred p = 1" "\<not> is_resolved p" "deposit_cap p \<noteq> 0" "worth p + unat amount < 2 ^ 64"
      "unat (deposit_cap p) < worth p + unat amount"
    by (rule request) (use that(4) in \<open>simp add: process_deposit_def deposit_eval iter assms(3) that(1-3,5) cap word_gt_0\<close>)
  show "process_deposit S pid accounts amount w = Inl (stake_err Overflow)"
    if "admin_transferred p = 1" "\<not> is_resolved p" "within_cap p amount" "pool_calc_lp_for_deposit p amount = None"
    by (rule request) (use inside [OF that(3)] in
      \<open>auto simp: process_deposit_def deposit_eval iter assms(3) that(1,2,4) cap word_gt_0\<close>)
  show "process_deposit S pid accounts amount w = Inl (stake_err ZeroAmount)"
    if "admin_transferred p = 1" "\<not> is_resolved p" "within_cap p amount" "pool_calc_lp_for_deposit p amount = Some 0"
    by (rule request) (use inside [OF that(3)] in
      \<open>auto simp: process_deposit_def deposit_eval iter assms(3) that(1,2,4) cap word_gt_0\<close>)
qed

text \<open>C13. Why a deposit is refused: a request that names the right accounts of an initialised pool fails with
  \<open>AdminNotTransferred\<close> before the hand-over, with \<open>MarketResolved\<close> after resolution, with
  \<open>DepositCapExceeded\<close> when the pool's worth would pass its cap, with \<open>Overflow\<close> when the worth is
  orphaned (no shares), the shares are worthless or the result is beyond u64, and with \<open>ZeroAmount\<close> when
  the amount is zero or buys no LP token; the first of these that applies, in the order of
  \<open>deposit_barrier\<close>.\<close>
theorem deposit_refusals:
  assumes "runtime_laws S pid" and "deposit_setup S pid accounts w k p"
    and "assets_in p < 2 ^ 64" and "solvent p"
    and "amount = 0 \<and> e = ZeroAmount \<or> amount \<noteq> 0 \<and> deposit_barrier p amount = Some e"
  shows "process_deposit S pid accounts amount w = Inl (stake_err e)"
proof (cases "amount = 0")
  case True
  with assms(5) show ?thesis
    by (simp add: process_deposit_def)
next
  case False
  then have barrier: "deposit_barrier p amount = Some e"
    using assms(5) by blast
  note checks = deposit_checks [OF runtime_lawsD(1) [OF assms(1)] assms(2) False assms(3,4)]
  have cap: "within_cap p amount \<longleftrightarrow> deposit_cap p = 0 \<or> worth p + unat amount \<le> unat (deposit_cap p)"
    by (simp add: within_cap_def pool_tvl(2) [OF assms(3,4)])
  have lp: "issue p amount = 0 \<Longrightarrow> word_of_nat (issue p amount) = (0 :: u64)"
    by simp
  show ?thesis
    using barrier checks(1-4) checks(5,6) [OF _ _ cap [THEN iffD2]] lp lp_issue [OF assms(3,4), of amount]
    unfolding deposit_barrier_def by (simp add: not_le not_less split: if_splits)
qed

lemma demo_deposit_setup:
  assumes "wf_pool p" and "is_initialized p = 1" and "validate_discriminator p" and "vault p = 30" and "lp_mint p = 31"
  shows "deposit_setup demo_sdk demo_pid demo_deposit_accounts (demo_world p [] demo_system 0) 20 p"
  using demo_holds [OF assms(1)] assms(2-)
  by (simp add: deposit_setup_def demo_deposit_accounts_def)

lemma demo_setup_pool:
  "deposit_setup demo_sdk demo_pid demo_deposit_accounts (demo_world (demo_pool 0 d s) [] demo_system 0) 20
    (demo_pool 0 d s)"
  by (rule demo_deposit_setup) simp_all

theorem deposit_refusals_witness:
  "process_deposit demo_sdk demo_pid demo_deposit_accounts 2 (demo_world (demo_pool 0 3000 1000) [] demo_system 0)
     = Inl (stake_err ZeroAmount)
   \<and> process_deposit demo_sdk demo_pid demo_deposit_accounts 500 (demo_world (demo_pool 0 3000 0) [] demo_system 0)
     = Inl (stake_err Overflow)"
proof -
  have "process_deposit demo_sdk demo_pid demo_deposit_accounts 2 (demo_world (demo_pool 0 3000 1000) [] demo_system 0)
      = Inl (stake_err ZeroAmount)"
    by (rule deposit_refusals [OF demo_laws demo_setup_pool])
      (simp_all add: deposit_barrier_def issue_def worth_def solvent_def assets_in_def assets_out_def shares_def)
  moreover have "process_deposit demo_sdk demo_pid demo_deposit_accounts 500
      (demo_world (demo_pool 0 3000 0) [] demo_system 0) = Inl (stake_err Overflow)"
    by (rule deposit_refusals [OF demo_laws demo_setup_pool])
      (simp_all add: deposit_barrier_def issue_def worth_def solvent_def assets_in_def assets_out_def shares_def)
  ultimately show ?thesis ..
qed

section \<open>Success\<close>

text \<open>The record a deposit writes can be opened: it is there already, or the system program creates it.\<close>

definition record_opens :: "sdk \<Rightarrow> pubkey \<Rightarrow> account_info list \<Rightarrow> world \<Rightarrow> world \<Rightarrow> nat \<Rightarrow> bool" where
  "record_opens S pid accounts w w3 n \<longleftrightarrow> (let a = accts w (ai_key (accounts ! 7)) in
     acc_data a = [] \<and> acc_owner a \<noteq> spl_token_id S \<and> (\<exists>w4. create_or_adopt_pda S w3 (accounts ! 7) (accounts ! 0)
       (accounts ! 10) pid STAKE_DEPOSIT_SIZE (deposit_seeds (ai_key (accounts ! 1)) (ai_key (accounts ! 0))
         (snd (derive_deposit_pda S pid (ai_key (accounts ! 1)) (ai_key (accounts ! 0))))) = Inr w4)
     \<or> acc_owner a = pid \<and> STAKE_DEPOSIT_SIZE \<le> length (acc_data a)
       \<and> unat (lp_amount (deposit_at w (ai_key (accounts ! 7)))) + n < 2 ^ 64)"

lemma deposit_fields_defined:
  assumes "unat (lp_amount d) + unat lp < 2 ^ 64"
  shows "\<exists>d'. deposit_fields b k u lp slot cooldown d = Inr d'"
  using assms by (auto simp: deposit_fields_def Let_def checked_add_def set_deposit_discriminator_def)

lemma record_ready:
  assumes laws: "runtime_laws S pid" "creation_law S" and ai: "ai_key ai = dk" "dk \<notin> set (mut_borrowed w3)"
    and same: "acc_data (accts w3 dk) = acc_data (accts w dk)" "acc_owner (accts w3 dk) = acc_owner (accts w dk)"
    and ready: "acc_data (accts w dk) = [] \<and> create_or_adopt_pda S w3 ai payer sys pid STAKE_DEPOSIT_SIZE sd = Inr w4
      \<or> acc_owner (accts w dk) = pid \<and> STAKE_DEPOSIT_SIZE \<le> length (acc_data (accts w dk)) \<and> w4 = w3
        \<and> unat (lp_amount (deposit_at w dk)) + unat lp < 2 ^ 64"
  obtains d d' where "data_is_empty w3 ai = Inr (acc_data (accts w dk) = [])"
    "acc_data (accts w dk) = [] \<Longrightarrow> create_or_adopt_pda S w3 ai payer sys pid STAKE_DEPOSIT_SIZE sd = Inr w4"
    "acc_data (accts w dk) \<noteq> [] \<Longrightarrow> info_owner w3 ai = pid \<and> w4 = w3"
    "dk \<notin> set (mut_borrowed w4)" "as_deposit (acc_data (accts w4 dk)) = Inr d"
    "deposit_fields b k u lp slot cooldown d = Inr d'"
proof -
  have "mut_borrowed w4 = mut_borrowed w3"
    using ready create_or_adopt_pda_effect [OF runtime_lawsD(2,4) [OF laws(1)]] by (auto simp: cpi_effect_ok_def)
  moreover have "\<exists>d. as_deposit (acc_data (accts w4 dk)) = Inr d \<and> unat (lp_amount d) + unat lp < 2 ^ 64"
  proof (cases "acc_data (accts w dk) = []")
    case True
    then have "acc_data (accts w4 dk) = replicate 152 0"
      using ready same(1) create_or_adopt_pda_zeroed [OF laws(2), of STAKE_DEPOSIT_SIZE w3 ai] ai(1)
      by (auto simp: STAKE_DEPOSIT_SIZE_def)
    then show ?thesis
      using unat_bound [of lp]
      by (simp add: as_deposit_def STAKE_DEPOSIT_SIZE_def decode_deposit_zero zeroed_deposit_def)
  next
    case False
    then show ?thesis
      using ready same by (auto simp: as_deposit_def deposit_at_def)
  qed
  then obtain d d' where "as_deposit (acc_data (accts w4 dk)) = Inr d"
      "deposit_fields b k u lp slot cooldown d = Inr d'"
    using deposit_fields_defined by blast
  ultimately show thesis
    using ready same ai by (intro that [of d d'])
      (auto simp: STAKE_DEPOSIT_SIZE_def data_is_empty_def info_owner_def info_account_def)
qed

lemma no_barrier:
  assumes "deposit_barrier p a = None" and "assets_in p < 2 ^ 64" and "solvent p" and "unat lp = issue p a"
  shows "admin_transferred p = 1" and "\<not> is_resolved p" and "within_cap p a" and "lp \<noteq> 0"
    and "pool_calc_lp_for_deposit p a = Some lp"
    and "0 < deposit_cap p \<Longrightarrow> bnd (ok_or (checked_add (tvl p) a) (stake_err Overflow)) (\<lambda>v.
      if deposit_cap p < v then Inl (stake_err DepositCapExceeded) else Inr ()) = Inr ()"
proof -
  have lp: "word_of_nat (issue p a) = lp"
    by (simp flip: assms(4))
  have none: "admin_transferred p = 1 \<and> \<not> is_resolved p
      \<and> (deposit_cap p = 0 \<or> worth p + unat a \<le> unat (deposit_cap p))
      \<and> (shares p = 0) = (worth p = 0) \<and> issue p a < 2 ^ 64 \<and> issue p a \<noteq> 0"
    using assms(1) unfolding deposit_barrier_def by (simp add: not_le not_less split: if_splits)
  then show "admin_transferred p = 1" "\<not> is_resolved p" "pool_calc_lp_for_deposit p a = Some lp" "lp \<noteq> 0"
    using lp_issue [OF assms(2,3), of a] assms(4) by (auto simp: lp)
  show cap: "within_cap p a"
    using none by (simp add: within_cap_def pool_tvl(2) [OF assms(2,3)])
  then show "bnd (ok_or (checked_add (tvl p) a) (stake_err Overflow)) (\<lambda>v.
      if deposit_cap p < v then Inl (stake_err DepositCapExceeded) else Inr ()) = Inr ()" if "0 < deposit_cap p"
    using cap_check_Inr [of p a] that by simp
qed

text \<open>The two token calls leave the record as it was.\<close>

lemma token_calls_frame:
  assumes "runtime_laws S pid" and "token_frame_law S" and "acc_owner (accts w dk) \<noteq> spl_token_id S" and "dk \<noteq> k"
    and calls: "invoke S (w\<lparr>mut_borrowed := [k]\<rparr>) c1 i1 = Inr w1" "invoke_signed S w1 c2 i2 s2 = Inr w2"
    and prog: "call_program S c1 = spl_token_id S" "call_program S c2 = spl_token_id S"
    and w3: "w3 = write_pool ai q (write_pool ai p1 w2)" and ai: "ai_key ai = k"
  shows "acc_data (accts w3 dk) = acc_data (accts w dk) \<and> acc_owner (accts w3 dk) = acc_owner (accts w dk)
    \<and> dk \<notin> set (mut_borrowed w3)"
proof -
  have "cpi_effect_ok pid (w\<lparr>mut_borrowed := [k]\<rparr>) w2"
    using owner_law_invoke [OF runtime_lawsD(2) [OF assms(1)] calls(1)]
      owner_law_invoke_signed [OF runtime_lawsD(2) [OF assms(1)] calls(2)] runtime_lawsD(3) [OF assms(1)] prog
    by (auto intro: cpi_effect_ok_trans)
  then show ?thesis
    using token_frameD(1) [OF assms(2) prog(1) _ calls(1), of dk] token_frameD(2) [OF assms(2) prog(2) _ calls(2), of dk]
      assms(3,4) ai by (simp add: w3 write_pool_def cpi_effect_ok_def)
qed

text \<open>C12. An open pool takes deposits: a request that names the right accounts and meets none of the barriers, with
  totals and record that stay within u64, succeeds as soon as the token program accepts the transfer and the mint, the
  clock can be read and the record exists or can be created.  The high-water mark, the pool's mode and what was
  flushed cannot hold it back.\<close>
theorem deposit_succeeds:
  assumes "runtime_laws S pid" and "creation_law S" and "token_frame_law S" and "deposit_setup S pid accounts w k p"
    and "assets_in p + unat amount < 2 ^ 64" and "solvent p" and "amount \<noteq> 0" and "deposit_barrier p amount = None"
    and "unat lp = issue p amount" and "shares p + issue p amount < 2 ^ 64"
    and "invoke S (w\<lparr>mut_borrowed := [k]\<rparr>)
      (TokenTransfer (spl_token_id S) (ai_key (accounts ! 2)) (vault p) (ai_key (accounts ! 0)) amount)
      [accounts ! 2, accounts ! 3, accounts ! 0, accounts ! 8] = Inr w1"
    and "invoke_signed S w1
      (TokenMintTo (spl_token_id S) (lp_mint p) (ai_key (accounts ! 5)) (fst (derive_vault_authority S pid k)) lp)
      [accounts ! 4, accounts ! 5, accounts ! 6, accounts ! 8]
      [vault_auth_seeds k (snd (derive_vault_authority S pid k))] = Inr w2"
    and "p1 = p\<lparr>total_deposited := total_deposited p + amount, total_lp_supply := total_lp_supply p + lp\<rparr>"
    and "clock_from_account_info S (write_pool (accounts ! 1) p1 w2) (accounts ! 9) = Inr clk"
    and "w3 = write_pool (accounts ! 1) (touch_hwm (clock_epoch clk) p1) (write_pool (accounts ! 1) p1 w2)"
    and "record_opens S pid accounts w w3 (issue p amount)"
  shows "\<exists>w'. process_deposit S pid accounts amount w = Inr w'"
proof (rule deposit_setup_cases [OF assms(4)], goal_cases)
  case (1 user_ai pool_ai user_ata vault_ai lp_mint_ai user_lp_ata vault_auth_ai deposit_ai token_program
    clock_sysvar system_program rest)
  let ?dk = "fst (derive_deposit_pda S pid k (ai_key user_ai))"
  have inside: "assets_in p < 2 ^ 64" "unat (total_deposited p) + unat amount < 2 ^ 64"
    using assms(5) by (simp_all add: assets_in_def)
  note guards = no_barrier [OF assms(8) inside(1) assms(6,9)]
  have sums: "checked_add (total_deposited p) amount = Some (total_deposited p + amount)"
      "checked_add (total_lp_supply p) lp = Some (total_lp_supply p + lp)"
    using inside(2) assms(9,10) by (simp_all add: checked_add_def shares_def)
  note calls = assms(11,12,14,15) [unfolded 1(1), simplified]
  obtain w4 where ready: "acc_data (accts w ?dk) = [] \<and> acc_owner (accts w ?dk) \<noteq> spl_token_id S
        \<and> create_or_adopt_pda S w3 deposit_ai user_ai system_program pid STAKE_DEPOSIT_SIZE
            (deposit_seeds k (ai_key user_ai) (snd (derive_deposit_pda S pid k (ai_key user_ai)))) = Inr w4
      \<or> acc_owner (accts w ?dk) = pid \<and> STAKE_DEPOSIT_SIZE \<le> length (acc_data (accts w ?dk)) \<and> w4 = w3
        \<and> unat (lp_amount (deposit_at w ?dk)) + unat lp < 2 ^ 64"
    using assms(16) 1(3,7) by (auto simp: record_opens_def 1(1) assms(9) Let_def)
  then have "acc_owner (accts w ?dk) \<noteq> spl_token_id S"
    using runtime_lawsD(3) [OF assms(1)] by auto
  then have same: "acc_data (accts w3 ?dk) = acc_data (accts w ?dk)" "acc_owner (accts w3 ?dk) = acc_owner (accts w ?dk)"
      "?dk \<notin> set (mut_borrowed w3)"
    using token_calls_frame [OF assms(1,3) _ 1(10) calls(1,2) _ _ calls(4) 1(3)] by simp_all
  obtain d d' where final: "data_is_empty w3 deposit_ai = Inr (acc_data (accts w ?dk) = [])"
    "acc_data (accts w ?dk) = [] \<Longrightarrow> create_or_adopt_pda S w3 deposit_ai user_ai system_program pid STAKE_DEPOSIT_SIZE
       (deposit_seeds k (ai_key user_ai) (snd (derive_deposit_pda S pid k (ai_key user_ai)))) = Inr w4"
    "acc_data (accts w ?dk) \<noteq> [] \<Longrightarrow> info_owner w3 deposit_ai = pid \<and> w4 = w3"
    "?dk \<notin> set (mut_borrowed w4)" "as_deposit (acc_data (accts w4 ?dk)) = Inr d"
    "deposit_fields (snd (derive_deposit_pda S pid k (ai_key user_ai))) k (ai_key user_ai) lp (clock_slot clk)
       (cooldown_slots p) d = Inr d'"
    using record_ready [OF assms(1,2) 1(7) same(3,1,2)] ready by blast
  show ?case
    unfolding process_deposit_def Let_def run_fold
    using final [unfolded calls(4) assms(13)] calls(1,2,3) [unfolded assms(13)] 1 guards(6)
    by (cases "acc_data (accts w ?dk) = []") (simp_all add: deposit_eval
        iter_lawD [OF runtime_lawsD(1) [OF assms(1)]] guards(1-5) sums assms(7))
qed

theorem deposit_succeeds_witness:
  "\<exists>w'. process_deposit demo_sdk demo_pid demo_deposit_accounts 500
     (demo_world (demo_pool 0 3000 1000) [] demo_system 0) = Inr w'"
proof -
  let ?w = "demo_world (demo_pool 0 3000 1000) [] demo_system 0"
  let ?p1 = "(demo_pool 0 3000 1000)\<lparr>total_deposited := 3000 + 500, total_lp_supply := 1000 + 166\<rparr>"
  let ?w3 = "write_pool (demo_info 20 False) (touch_hwm 2 ?p1)
    (write_pool (demo_info 20 False) ?p1 (?w\<lparr>mut_borrowed := [20]\<rparr>))"
  have "record_opens demo_sdk demo_pid demo_deposit_accounts ?w ?w3 166"
    by (simp add: record_opens_def demo_deposit_accounts_def create_or_adopt_pda_def info_lamports_def info_account_def
        write_pool_def demo_call_def demo_alloc_def demo_system_def demo_token_def)
  moreover have "issue (demo_pool 0 3000 1000) 500 = 166"
    by (simp add: issue_def worth_def assets_in_def assets_out_def shares_def)
  ultimately show ?thesis
    by (intro deposit_succeeds [OF demo_laws demo_creation demo_token_frame demo_setup_pool, where lp = 166
          and clk = "\<lparr>clock_slot = 1000, clock_epoch = 2\<rparr>" and ?p1.0 = ?p1 and ?w3.0 = ?w3])
      (simp_all add: deposit_barrier_def worth_def solvent_def assets_in_def assets_out_def shares_def demo_call_def
        demo_deposit_accounts_def)
qed

end
