(* ===== verification/Admin_Properties.thy ===== *)
theory Admin_Properties
  imports User_Properties
begin

text \<open>
  Who may administer a pool, what the administrative handlers do to it, and which instructions
  are shut.
\<close>

section \<open>Authority\<close>

fun admin_instr :: "stake_instruction \<Rightarrow> bool" where
  "admin_instr (InitPool _ _) = False"
| "admin_instr (InitTradingPool _ _) = False"
| "admin_instr (Deposit _) = False"
| "admin_instr (Withdraw _) = False"
| "admin_instr AccrueFees = False"
| "admin_instr _ = True"

lemma validate_admin_cpi_admin:
  "validate_admin_cpi S pid w pool_ai admin_ai slab_ai percolator_ai = Inr b \<Longrightarrow>
    ai_is_signer admin_ai \<and> is_initialized (pool_at w (ai_key pool_ai)) = 1
    \<and> admin (pool_at w (ai_key pool_ai)) = ai_key admin_ai"
  by (simp add: validate_admin_cpi_Inr)

text \<open>C19. Every administrative instruction is the pool admin's alone: whichever of the ten it is, when it
  succeeds its first account has signed and is the admin recorded in the initialised pool given
  as its second account.\<close>
theorem admin_only:
  assumes "iter_law S" and "admin_instr instr" and "dispatch S pid accounts instr w = Inr w'"
  shows "ai_is_signer (accounts ! 0) \<and> is_initialized (pool_at w (ai_key (accounts ! 1))) = 1
    \<and> admin (pool_at w (ai_key (accounts ! 1))) = ai_key (accounts ! 0)"
proof (cases instr)
  case (FlushToInsurance amount)
  with assms(3) show ?thesis
    by (auto simp: dispatch_def elim!: flush_run [OF assms(1)])
next
  case (UpdateConfig c d)
  with assms(3) show ?thesis
    by (auto simp: dispatch_def elim!: update_config_run [OF assms(1)])
next
  case TransferAdmin
  with assms(3) show ?thesis
    by (auto simp: dispatch_def elim!: transfer_admin_run [OF assms(1)])
next
  case (AdminSetOracleAuthority auth)
  with assms(3) show ?thesis
    by (auto simp: dispatch_def elim!: oracle_run [OF assms(1)] dest: validate_admin_cpi_admin)
next
  case AdminResolveMarket
  with assms(3) show ?thesis
    by (auto simp: dispatch_def elim!: resolve_run [OF assms(1)] dest: validate_admin_cpi_admin)
next
  case (AdminWithdrawInsurance amount)
  with assms(3) show ?thesis
    by (auto simp: dispatch_def elim!: withdraw_insurance_run [OF assms(1)]
        dest: validate_admin_cpi_admin)
next
  case (AdminSetInsurancePolicy auth base bps cooldown)
  with assms(3) show ?thesis
    by (auto simp: dispatch_def elim!: policy_run [OF assms(1)] dest: validate_admin_cpi_admin)
next
  case (AdminSetHwmConfig enabled bps)
  with assms(3) show ?thesis
    by (auto simp: dispatch_def elim!: hwm_config_run [OF assms(1)])
qed (use assms(2,3) in \<open>auto simp: dispatch_def retired_fail\<close>)

definition demo_admin_accounts :: "account_info list" where
  "demo_admin_accounts = [demo_info 11 True, demo_info 20 False]"

lemma demo_config_runs:
  "\<exists>w'. process_update_config demo_sdk demo_pid demo_admin_accounts (Some 5) None
     (demo_world (demo_pool 0 3000 1000) [] demo_system 0) = Inr w'"
  unfolding process_update_config_def demo_admin_accounts_def by (simp add: demo_eval)

theorem admin_only_witness:
  "ai_is_signer (demo_admin_accounts ! 0)
    \<and> admin (pool_at (demo_world (demo_pool 0 3000 1000) [] demo_system 0) 20) = 11"
proof -
  obtain w' where "dispatch demo_sdk demo_pid demo_admin_accounts (UpdateConfig (Some 5) None)
      (demo_world (demo_pool 0 3000 1000) [] demo_system 0) = Inr w'"
    using demo_config_runs by (auto simp: dispatch_def)
  from admin_only [OF runtime_lawsD(1) [OF demo_laws] _ this] show ?thesis
    by (simp add: demo_admin_accounts_def)
qed

text \<open>The two retired instructions are shut: whatever their accounts and arguments, neither
  \<open>AdminSetRiskThreshold\<close> nor \<open>AdminSetMaintenanceFee\<close> ever succeeds.\<close>
lemma retired_instructions_shut:
  "dispatch S pid accounts (AdminSetRiskThreshold t) w \<noteq> Inr w'
   \<and> dispatch S pid accounts (AdminSetMaintenanceFee t) w \<noteq> Inr w'"
  by (simp add: dispatch_def retired_fail)

section \<open>Insurance\<close>

text \<open>C17. Flushing is bounded: it only succeeds for the admin of an insurance pool, moves at most the
  pool's worth into the wrapper's insurance by a top-up of exactly that amount, and records it;
  nothing else of the accounting moves, and a trading pool is never flushed.\<close>
theorem flush_effect:
  assumes "runtime_laws S pid" and "no_self_call pid accounts"
    and "process_flush_to_insurance S pid accounts amount w = Inr w'"
    and "k = ai_key (accounts ! 1)" and "holds_pool pid w k p"
  shows "pool_mode p = 0 \<and> admin p = ai_key (accounts ! 0) \<and> amount \<noteq> 0
    \<and> unat amount \<le> worth p
    \<and> (\<exists>w1. cpi_top_up_insurance S (w\<lparr>mut_borrowed := k # mut_borrowed w\<rparr>) (accounts ! 6)
          (accounts ! 3) (accounts ! 4) (accounts ! 2) (accounts ! 5) (accounts ! 7) amount
          (vault_auth_seeds k (snd (derive_vault_authority S pid k))) = Inr w1)
    \<and> holds_pool pid w' k (p\<lparr>total_flushed := total_flushed p + amount\<rparr>)
    \<and> unat (total_flushed p + amount) = unat (total_flushed p) + unat amount"
  using runtime_lawsD(1) [OF assms(1)] assms(3)
proof (rule flush_run, goal_cases)
  case (1 caller pool_ai vault_ai vault_auth_ai slab_ai wrapper_vault percolator_ai token_program rest
    p0 available new_flushed w1)
  note acc = 1(1) and p0 = 1(2) and guards = 1(3,7,8,13,14,17) and cpi = 1(16) and w' = 1(18)
  have keys: "ai_key pool_ai = k" "p0 = p"
    using acc assms(4) p0 holds_pool_at [OF assms(5)] by simp_all
  have "ai_key percolator_ai \<noteq> pid"
    using assms(2) acc by (simp add: no_self_call_def)
  then have "holds_pool pid w1 k p"
    using wrapper_cpi_effect(1) [OF runtime_lawsD(2) [OF assms(1)] _ cpi] holds_pool_cpi assms(5)
    by simp
  moreover have "wf_pool (p\<lparr>total_flushed := new_flushed\<rparr>)"
    using holds_pool_wf [OF assms(5)] by (simp add: wf_pool_def)
  ultimately have "holds_pool pid w' k (p\<lparr>total_flushed := new_flushed\<rparr>)"
    using holds_pool_write [of pid w1 k p pool_ai] by (simp add: w' keys)
  moreover have "new_flushed = total_flushed p + amount"
    "unat new_flushed = unat (total_flushed p) + unat amount"
    using guards(6) by (auto simp: keys checked_add_def unat_add_exact split: if_splits)
  moreover have "unat amount \<le> worth p"
    using guards(2,4,5) by (simp add: keys worth_def assets_in_def assets_out_def unat_less_iff)
  ultimately show ?thesis
    using guards(1-3) cpi by (simp add: keys acc)
qed

definition demo_flush_accounts :: "account_info list" where
  "demo_flush_accounts = [demo_info 11 True, demo_info 20 False, demo_info 30 False,
     demo_info 21 False, demo_info 12 False, demo_info 42 False, demo_info demo_wrapper False,
     demo_info demo_token False]"

lemma demo_self:
  "no_self_call demo_pid demo_flush_accounts" "no_self_call demo_pid demo_admin_accounts"
  by (simp_all add: no_self_call_def demo_flush_accounts_def demo_admin_accounts_def demo_pid_def
      demo_wrapper_def demo_token_def)

lemma demo_flush_runs:
  "\<exists>w'. process_flush_to_insurance demo_sdk demo_pid demo_flush_accounts 700
     (demo_world (demo_pool 0 3000 1000) [] demo_system 0) = Inr w'"
  unfolding process_flush_to_insurance_def demo_flush_accounts_def
  by (simp add: demo_eval validate_flush_pool_mode_def checked_add_def checked_sub_def cpi_defs)

theorem flush_effect_witness:
  "\<exists>w'. process_flush_to_insurance demo_sdk demo_pid demo_flush_accounts 700
      (demo_world (demo_pool 0 3000 1000) [] demo_system 0) = Inr w'
    \<and> 700 \<le> worth (demo_pool 0 3000 1000)
    \<and> holds_pool demo_pid w' 20 ((demo_pool 0 3000 1000)\<lparr>total_flushed := 700\<rparr>)"
proof -
  obtain w' where run: "process_flush_to_insurance demo_sdk demo_pid demo_flush_accounts 700
      (demo_world (demo_pool 0 3000 1000) [] demo_system 0) = Inr w'"
    using demo_flush_runs by blast
  have k: "20 = ai_key (demo_flush_accounts ! 1)"
    by (simp add: demo_flush_accounts_def)
  show ?thesis
    using run flush_effect [OF demo_laws demo_self(1) run k demo_holds [OF wf_demo_pool]] by simp
qed

text \<open>C26. Returned insurance goes to the pool's own vault: the withdrawal from the wrapper only succeeds
  for an insurance pool whose admin has been handed over and signs, with the vault authority as fourth and the vault
  of the pool record as fifth of at least ten accounts (the documentation of the instruction has these two the other
  way round and no tenth); it withdraws into that vault under the vault authority's seeds and adds exactly
  the amount to the pool's returns.\<close>
theorem return_effect:
  assumes "runtime_laws S pid" and "no_self_call pid accounts"
    and "process_admin_withdraw_insurance S pid accounts amount w = Inr w'"
    and "k = ai_key (accounts ! 1)" and "holds_pool pid w k p"
  shows "pool_mode p = 0 \<and> admin_transferred p = 1 \<and> admin p = ai_key (accounts ! 0)
    \<and> ai_is_signer (accounts ! 0) \<and> 10 \<le> length accounts
    \<and> ai_key (accounts ! 3) = fst (derive_vault_authority S pid k) \<and> ai_key (accounts ! 8) = spl_token_id S
    \<and> ai_key (accounts ! 4) = vault p
    \<and> (\<exists>w1. cpi_withdraw_insurance S w (accounts ! 7) (accounts ! 3) (accounts ! 2) (accounts ! 4)
          (accounts ! 5) (accounts ! 6) (accounts ! 8) amount
          (vault_auth_seeds k (snd (derive_vault_authority S pid k))) = Inr w1)
    \<and> holds_pool pid w' k (p\<lparr>total_returned := total_returned p + amount\<rparr>)
    \<and> unat (total_returned p + amount) = unat (total_returned p) + unat amount"
  using runtime_lawsD(1) [OF assms(1)] assms(3)
proof (rule withdraw_insurance_run, goal_cases)
  case (1 admin_ai pool_ai slab_ai vault_auth_ai stake_vault wrapper_vault wrapper_vault_pda percolator_ai
    token_program clock_ai rest p0 b w1 new_returned)
  note acc = 1(1) and p0 = 1(2,4,5) and val = 1(3) and keys' = 1(6,7) and cpi = 1(8) and add = 1(11) and w' = 1(12)
  have keys: "ai_key pool_ai = k" "p0 = p" "pool_at w k = p"
    using acc assms(4) p0 holds_pool_at [OF assms(5)] by simp_all
  have "ai_key percolator_ai \<noteq> pid"
    using assms(2) acc by (simp add: no_self_call_def)
  then have held: "holds_pool pid w1 k p"
    using wrapper_cpi_effect(5) [OF runtime_lawsD(2) [OF assms(1)] _ cpi] holds_pool_cpi assms(5)
    by simp
  have "wf_pool (p\<lparr>total_returned := new_returned\<rparr>)"
    using holds_pool_wf [OF assms(5)] by (simp add: wf_pool_def)
  then have "holds_pool pid w' k (p\<lparr>total_returned := new_returned\<rparr>)"
    using held holds_pool_write [of pid _ k p pool_ai] holds_pool_at [OF held] by (simp add: w' keys)
  moreover have "new_returned = total_returned p + amount"
    "unat new_returned = unat (total_returned p) + unat amount"
    using add holds_pool_at [OF held]
    by (auto simp: keys checked_add_def unat_add_exact split: if_splits)
  ultimately show ?thesis
    using p0(2,3) val cpi keys' by (simp add: keys acc validate_admin_cpi_Inr)
qed

definition demo_return_accounts :: "account_info list" where
  "demo_return_accounts = [demo_info 11 True, demo_info 20 False, demo_info 12 False,
     demo_info 21 False, demo_info 30 False, demo_info 42 False, demo_info 43 False,
     demo_info demo_wrapper False, demo_info demo_token False, demo_info 50 False]"

lemma demo_return_runs:
  "\<exists>w'. process_admin_withdraw_insurance demo_sdk demo_pid demo_return_accounts 40
     (demo_world (demo_pool 0 3000 1000) [] demo_system 0) = Inr w'"
proof -
  have "demo_address [seed_of ''vault_auth'', key_bytes 20] demo_pid = (21, 255)"
    by (simp add: demo_address_def seed_of_def)
  then show ?thesis
    unfolding process_admin_withdraw_insurance_def demo_return_accounts_def
    by (simp add: demo_eval validate_admin_cpi_def validate_withdraw_insurance_pool_mode_def
        validate_return_vault_def checked_add_def cpi_defs)
qed

theorem return_effect_witness:
  "\<exists>w'. process_admin_withdraw_insurance demo_sdk demo_pid demo_return_accounts 40
      (demo_world (demo_pool 0 3000 1000) [] demo_system 0) = Inr w'
    \<and> holds_pool demo_pid w' 20 ((demo_pool 0 3000 1000)\<lparr>total_returned := 40\<rparr>)"
proof -
  obtain w' where run: "process_admin_withdraw_insurance demo_sdk demo_pid demo_return_accounts 40
      (demo_world (demo_pool 0 3000 1000) [] demo_system 0) = Inr w'"
    using demo_return_runs by blast
  have k: "20 = ai_key (demo_return_accounts ! 1)"
    and self: "no_self_call demo_pid demo_return_accounts"
    by (simp_all add: demo_return_accounts_def no_self_call_def demo_pid_def demo_wrapper_def
        demo_token_def)
  show ?thesis
    using run return_effect [OF demo_laws self run k demo_holds [OF wf_demo_pool]] by simp
qed

text \<open>C27. The wrapper's insurance authority never leaves the vault: \<open>AdminSetInsurancePolicy\<close> succeeds only
  when the authority it sets is the pool's own vault authority address and every legacy policy
  field is zero, and it asks the wrapper for exactly that rotation, signed by the pool and the
  vault authority.\<close>
theorem policy_authority_is_vault:
  assumes "iter_law S"
    and "process_admin_set_insurance_policy S pid accounts authority base bps cooldown w = Inr w'"
  shows "authority = fst (derive_vault_authority S pid (ai_key (accounts ! 1)))
    \<and> base = 0 \<and> bps = 0 \<and> cooldown = 0
    \<and> (\<exists>b vb. cpi_update_asset_authority S w (accounts ! 3) (accounts ! 1) (accounts ! 4)
          (accounts ! 2) 0 ASSET_AUTH_INSURANCE
          [pool_seeds (ai_key (accounts ! 2)) b, vault_auth_seeds (ai_key (accounts ! 1)) vb] = Inr w'
        \<and> ai_key (accounts ! 4) = authority)"
  using assms by (rule policy_run) auto

definition demo_policy_accounts :: "account_info list" where
  "demo_policy_accounts = [demo_info 11 True, demo_info 20 False, demo_info 12 False,
     demo_info demo_wrapper False, demo_info 21 False]"

theorem policy_authority_is_vault_witness:
  "process_admin_set_insurance_policy demo_sdk demo_pid demo_policy_accounts 21 0 0 0
      (demo_world (demo_pool 0 3000 1000) [] demo_system 0)
      = Inr (demo_world (demo_pool 0 3000 1000) [] demo_system 0)
   \<and> (21 :: pubkey) = fst (derive_vault_authority demo_sdk demo_pid 20)"
proof -
  have run: "process_admin_set_insurance_policy demo_sdk demo_pid demo_policy_accounts 21 0 0 0
      (demo_world (demo_pool 0 3000 1000) [] demo_system 0)
      = Inr (demo_world (demo_pool 0 3000 1000) [] demo_system 0)"
    unfolding process_admin_set_insurance_policy_def demo_policy_accounts_def
    by (simp add: demo_eval validate_vault_insurance_authority_def validate_admin_cpi_def cpi_defs)
  have "ai_key (demo_policy_accounts ! 1) = 20"
    by (simp add: demo_policy_accounts_def)
  then show ?thesis
    using run conjunct1 [OF policy_authority_is_vault [OF runtime_lawsD(1) [OF demo_laws] run]]
    by (simp only:)
qed

section \<open>High-water mark configuration\<close>

text \<open>C38. Configuring the high-water mark: enabling demands a floor between 1 and 10000 basis points and
  stores it; disabling keeps the stored floor; either way the flag reads back as set and the
  pool's worth and shares are untouched.\<close>
theorem hwm_config_effect:
  assumes "runtime_laws S pid"
    and "process_admin_set_hwm_config S pid accounts enabled bps w = Inr w'"
    and "k = ai_key (accounts ! 1)" and "holds_pool pid w k p"
  shows "\<exists>q. holds_pool pid w' k q \<and> hwm_enabled q = enabled
    \<and> (if enabled then hwm_floor_bps q = bps \<and> bps \<noteq> 0 \<and> bps \<le> 10000
       else hwm_floor_bps q = hwm_floor_bps p)
    \<and> is_resolved q = is_resolved p \<and> worth q = worth p \<and> shares q = shares p"
  using runtime_lawsD(1) [OF assms(1)] assms(2)
proof (rule hwm_config_run)
  fix admin_ai pool_ai rest p0
  assume acc: "accounts = admin_ai # pool_ai # rest" and p0: "p0 = pool_at w (ai_key pool_ai)"
    and "is_initialized p0 = 1"
    and floor: "enabled \<Longrightarrow> bps \<noteq> 0 \<and> bps \<le> 10000"
    and w': "w' = release pool_ai (write_pool pool_ai
       (if enabled then set_hwm_floor_bps bps (set_hwm_enabled enabled p0)
        else set_hwm_enabled enabled p0) (w\<lparr>mut_borrowed := ai_key pool_ai # mut_borrowed w\<rparr>))"
  let ?q = "if enabled then set_hwm_floor_bps bps (set_hwm_enabled enabled p)
    else set_hwm_enabled enabled p"
  have keys: "ai_key pool_ai = k" "p0 = p"
    using acc assms(3) p0 holds_pool_at [OF assms(4)] by simp_all
  have wf: "wf_pool p"
    using assms(4) by (rule holds_pool_wf)
  have "hwm_floor_bps (set_hwm_enabled enabled p) = hwm_floor_bps p"
    using wf by (simp add: hwm_floor_bps_def set_hwm_enabled_def wf_pool_def)
  then have "hwm_enabled ?q = enabled \<and> (if enabled then hwm_floor_bps ?q = bps
      else hwm_floor_bps ?q = hwm_floor_bps p) \<and> is_resolved ?q = is_resolved p"
    using wf by (cases enabled) (simp_all add: floor_field.put_flags)
  moreover have "worth ?q = worth p \<and> shares ?q = shares p"
    by (simp add: worth_def shares_def)
  moreover have "holds_pool pid w' k ?q"
    using assms(4) wf holds_pool_write [of pid _ k p pool_ai ?q]
    by (cases enabled) (simp_all add: w' keys)
  ultimately show ?thesis
    using floor by (intro exI [of _ ?q]) auto
qed

lemma demo_hwm_config_runs:
  "\<exists>w'. process_admin_set_hwm_config demo_sdk demo_pid demo_admin_accounts True 8000
     (demo_world (demo_pool 0 3000 1000) [] demo_system 0) = Inr w'"
  unfolding process_admin_set_hwm_config_def demo_admin_accounts_def by (simp add: demo_eval)

theorem hwm_config_effect_witness:
  "\<exists>w' q. process_admin_set_hwm_config demo_sdk demo_pid demo_admin_accounts True 8000
      (demo_world (demo_pool 0 3000 1000) [] demo_system 0) = Inr w'
    \<and> holds_pool demo_pid w' 20 q \<and> hwm_enabled q \<and> hwm_floor_bps q = 8000"
proof -
  obtain w' where run: "process_admin_set_hwm_config demo_sdk demo_pid demo_admin_accounts True 8000
      (demo_world (demo_pool 0 3000 1000) [] demo_system 0) = Inr w'"
    using demo_hwm_config_runs by blast
  have k: "20 = ai_key (demo_admin_accounts ! 1)"
    by (simp add: demo_admin_accounts_def)
  show ?thesis
    using run hwm_config_effect [OF demo_laws run k demo_holds [OF wf_demo_pool]] by auto
qed

section \<open>Resolution\<close>

lemma resolve_marks:
  assumes "runtime_laws S pid" and "no_self_call pid accounts"
    and "process_admin_resolve_market S pid accounts w = Inr w'"
    and "k = ai_key (accounts ! 1)" and "holds_pool pid w k p"
  shows "holds_pool pid w' k (set_resolved p) \<and> is_resolved (set_resolved p)"
  using runtime_lawsD(1) [OF assms(1)] assms(3)
proof (rule resolve_run)
  fix admin_ai pool_ai slab_ai percolator_ai rest b w1
  assume acc: "accounts = admin_ai # pool_ai # slab_ai # percolator_ai # rest"
    and cpi: "cpi_resolve_market S w percolator_ai pool_ai slab_ai (pool_seeds (ai_key slab_ai) b)
      = Inr w1"
    and w': "w' = release pool_ai (write_pool pool_ai (set_resolved (pool_at w1 (ai_key pool_ai)))
      (w1\<lparr>mut_borrowed := ai_key pool_ai # mut_borrowed w1\<rparr>))"
  have keys: "ai_key pool_ai = k"
    using acc assms(4) by simp
  have "ai_key percolator_ai \<noteq> pid"
    using assms(2) acc by (simp add: no_self_call_def)
  then have held: "holds_pool pid w1 k p"
    using wrapper_cpi_effect(4) [OF runtime_lawsD(2) [OF assms(1)] _ cpi] holds_pool_cpi assms(5)
    by simp
  then show ?thesis
    using holds_pool_wf [OF held] holds_pool_at [OF held] holds_pool_write [of pid _ k p pool_ai]
    by (simp add: w' keys)
qed

end
