(* ===== verification/Bystanders.thy ===== *)
theory Bystanders
  imports Pool_History Deposit_Outcome Admin_Properties
begin

text \<open>
  Depositors among each other.  What a depositor's record can be redeemed for does not fall through anything others do,
  flushes of the insurance apart; and who deposits and withdraws again takes out at most what was put
  in.  Both compose the books of \<open>Records\<close>, the refinement of the pool machine and the share arithmetic.
\<close>

section \<open>Claims under a rising price\<close>

lemma claim_eq:
  assumes "assets_in p < 2 ^ 64" and "solvent p" and "unat lp \<le> shares p"
  shows "claim p lp = unat lp * worth p div shares p"
proof (cases "lp = 0")
  case True
  then show ?thesis
    using withdraw_collateral(2) [of p lp] by (simp add: claim_def split: option.split)
next
  case False
  obtain c where "pool_calc_collateral_for_withdraw p lp = Some c" "unat c = payout p lp"
    using collateral_payout [OF assms False] by blast
  then show ?thesis
    by (simp add: claim_def payout_def)
qed

lemma claim_bound: "claim p lp \<le> unat lp * worth p div shares p"
  using withdraw_collateral(2) [of p lp] by (simp add: claim_def split: option.split)

lemma claim_rises:
  assumes "worth p * shares q \<le> worth q * shares p" and "assets_in q < 2 ^ 64" and "solvent q"
    and "unat lp \<le> shares p" and "unat lp \<le> shares q"
  shows "claim p lp \<le> claim q lp"
proof (cases "lp = 0")
  case True
  then show ?thesis
    using claim_bound [of p lp] by simp
next
  case False
  then have "0 < unat lp"
    by (simp add: unat_gt_0)
  then have "unat lp * worth p div shares p \<le> unat lp * worth q div shares q"
    using assms(1,4,5) price_share_mono by simp
  then show ?thesis
    using claim_bound [of p lp] claim_eq [OF assms(2,3,5)] by simp
qed

section \<open>Who stays out\<close>

text \<open>Histories in which the user \<open>u\<close> does nothing and the pool's insurance is not flushed: any instructions that
  others lead, and any activity of other programs.\<close>

definition flushes :: "byte list \<Rightarrow> bool" where
  "flushes data \<longleftrightarrow> (case unpack data of Inr (FlushToInsurance _) \<Rightarrow> True | _ \<Rightarrow> False)"

inductive idle_life :: "sdk \<Rightarrow> pubkey \<Rightarrow> pubkey \<Rightarrow> pubkey \<Rightarrow> world \<Rightarrow> world \<Rightarrow> bool"
  for S :: sdk and pid k u :: pubkey where
  here: "idle_life S pid k u w w"
| own: "idle_life S pid k u w w' \<Longrightarrow> process_instruction S pid accounts data w' = Inr w'' \<Longrightarrow>
    no_self_call pid accounts \<Longrightarrow> unsigned_by (vault_authority S pid k) accounts \<Longrightarrow>
    ai_key (accounts ! 0) \<noteq> u \<Longrightarrow> \<not> (flushes data \<and> ai_key (accounts ! 1) = k) \<Longrightarrow> idle_life S pid k u w w''"
| other: "idle_life S pid k u w w' \<Longrightarrow> cpi_effect_ok pid w' w'' \<Longrightarrow> records_same S pid k w' w'' \<Longrightarrow>
    idle_life S pid k u w w''"

text \<open>The address of a user's record is nobody else's.\<close>

definition own_record :: "sdk \<Rightarrow> pubkey \<Rightarrow> pubkey \<Rightarrow> pubkey \<Rightarrow> bool" where
  "own_record S pid k u \<longleftrightarrow> (\<forall>u'. u' \<noteq> u \<longrightarrow>
     fst (derive_deposit_pda S pid k u') \<noteq> fst (derive_deposit_pda S pid k u))"

lemma record_le_shares:
  assumes "books_balance S pid k w" and "dk \<in> record_keys S pid k"
  shows "record_lp pid w dk \<le> shares (pool_at w k)"
  using assms member_le_sum [of dk "record_keys S pid k" "record_lp pid w"]
  by (simp add: books_balance_def recorded_lp_def)

lemma record_claim_lp:
  "acc_owner (accts w dk) = pid \<Longrightarrow> record_claim pid k w dk = claim (pool_at w k) (lp_amount (deposit_at w dk))
    \<and> record_lp pid w dk = unat (lp_amount (deposit_at w dk))"
  by (simp add: record_claim_def record_lp_def)

text \<open>The state of the books that a history keeps.\<close>

definition sound_books :: "sdk \<Rightarrow> pubkey \<Rightarrow> pubkey \<Rightarrow> world \<Rightarrow> bool" where
  "sound_books S pid k w \<longleftrightarrow> books_balance S pid k w \<and> solvent (pool_at w k)"

lemma sound_step:
  assumes "records_env S pid k" and "no_self_call pid accounts" and "unsigned_by (vault_authority S pid k) accounts"
    and "sound_books S pid k w" and "process_instruction S pid accounts data w = Inr w'"
  shows "sound_books S pid k w'" and "assets_in (pool_at w k) \<le> assets_in (pool_at w' k)"
    and "others_same S pid k (fst (derive_deposit_pda S pid k (ai_key (accounts ! 0)))) w w'"
proof -
  have laws: "runtime_laws S pid" "no_deposit_at S pid k"
    using assms(1) by (simp_all add: records_env_def address_law_def)
  have w: "pool_account pid w k" "records_sized S pid k w" "solvent (pool_at w k)"
    using assms(4) by (simp_all add: sound_books_def books_balance_def)
  note books = instruction_books [OF assms(1-3) w(1,2) assms(5)]
  show "assets_in (pool_at w k) \<le> assets_in (pool_at w' k)"
    using process_h.keeps_identity [OF laws assms(2,5) w(1)]
    by (auto simp: identity_def counters_le_def assets_in_def unat_le_iff)
  have "solvent (pool_at w' k)"
    using process_h.keeps_invariant [OF laws assms(2,5) w(1), where I = solvent] w(3) step_ledger by blast
  then show "sound_books S pid k w'"
    using books assms(4) by (simp add: sound_books_def books_balance_def books_step_def)
  show "others_same S pid k (fst (derive_deposit_pda S pid k (ai_key (accounts ! 0)))) w w'"
    using books by (simp add: books_step_def)
qed

lemma sound_other:
  assumes "sound_books S pid k w" and "cpi_effect_ok pid w w'" and "records_same S pid k w w'"
  shows "sound_books S pid k w'" and "pool_at w' k = pool_at w k"
  using assms cpi_effect_pool [of pid w w' k] records_same_sum [of S pid k w w']
  by (simp_all add: sound_books_def books_balance_def)

lemma idle_step:
  assumes env: "records_env S pid k" and self: "no_self_call pid accounts"
    and unsigned: "unsigned_by (vault_authority S pid k) accounts" and sound: "sound_books S pid k w"
    and run: "process_instruction S pid accounts data w = Inr w'"
    and other: "fst (derive_deposit_pda S pid k (ai_key (accounts ! 0))) \<noteq> dk" and dk: "dk \<in> record_keys S pid k"
    and quiet: "\<not> (flushes data \<and> ai_key (accounts ! 1) = k)" and fits: "assets_in (pool_at w' k) < 2 ^ 64"
  shows "record_claim pid k w dk \<le> record_claim pid k w' dk"
proof (cases "acc_owner (accts w dk) = pid \<and> lp_amount (deposit_at w dk) \<noteq> 0")
  case True
  note after = sound_step [OF env self unsigned sound run]
  let ?p = "pool_at w k" and ?q = "pool_at w' k" and ?lp = "lp_amount (deposit_at w dk)"
  have same: "acc_owner (accts w' dk) = pid" "deposit_at w' dk = deposit_at w dk"
    using after(3) other dk True by (auto simp: others_same_def deposit_at_def)
  have lp: "unat ?lp \<le> shares ?p" "unat ?lp \<le> shares ?q"
    using record_le_shares [OF _ dk, of w] record_le_shares [OF _ dk, of w'] sound after(1) True same
    by (simp_all add: sound_books_def record_lp_def)
  then have "shares ?p \<noteq> 0"
    using True by (auto simp: unat_eq_iff)
  moreover have "runtime_laws S pid" "no_deposit_at S pid k" "holds_pool pid w k ?p" "solvent ?p"
    using env sound by (simp_all add: records_env_def address_law_def sound_books_def books_balance_def holds_pool_def)
  ultimately obtain q where "holds_pool pid w' k q" "worth ?p * shares q \<le> worth q * shares ?p
      \<or> (\<exists>a. unpack data = Inr (FlushToInsurance a) \<and> ai_key (accounts ! 1) = k \<and> pool_step ?p (FlushEv a) q)"
    using instruction_price [OF _ _ self run] by blast
  moreover have "\<not> (unpack data = Inr (FlushToInsurance a) \<and> ai_key (accounts ! 1) = k)" for a
    using quiet by (auto simp: flushes_def)
  ultimately have "worth ?p * shares ?q \<le> worth ?q * shares ?p"
    using holds_pool_at by blast
  then have "claim ?p ?lp \<le> claim ?q ?lp"
    using claim_rises [OF _ fits _ lp] after(1) by (simp add: sound_books_def)
  then show ?thesis
    using True same by (simp add: record_claim_def)
next
  case False
  then have "record_claim pid k w dk = 0"
    using claim_bound [of "pool_at w k" 0] by (auto simp: record_claim_def)
  then show ?thesis
    by simp
qed

lemma idle_sound:
  assumes "records_env S pid k" and "idle_life S pid k u w w'" and "sound_books S pid k w"
  shows "sound_books S pid k w'"
  using assms(2,3)
proof (induction rule: idle_life.induct)
  case (own w w' accounts data w'')
  then show ?case
    using sound_step(1) [OF assms(1)] by blast
next
  case (other w w' w'')
  then show ?case
    using sound_other(1) by blast
qed simp

lemma idle_claims:
  assumes env: "records_env S pid k" and apart: "own_record S pid k u" and life: "idle_life S pid k u w w'"
    and sound: "sound_books S pid k w" and dk: "dk = fst (derive_deposit_pda S pid k u)"
    and fits: "assets_in (pool_at w' k) < 2 ^ 64"
  shows "record_claim pid k w dk \<le> record_claim pid k w' dk"
  using life sound fits
proof (induction rule: idle_life.induct)
  case (own w w' accounts data w'')
  note mid = idle_sound [OF env own.hyps(1) own.prems(1)]
  have "assets_in (pool_at w' k) < 2 ^ 64"
    using sound_step(2) [OF env own.hyps(3,4) mid own.hyps(2)] own.prems(2) by simp
  then have "record_claim pid k w dk \<le> record_claim pid k w' dk"
    using own.IH own.prems(1) by blast
  also have "\<dots> \<le> record_claim pid k w'' dk"
    using apart own.hyps(5) record_key by (intro idle_step [OF env own.hyps(3,4) mid own.hyps(2) _ _ own.hyps(6) own.prems(2)])
      (auto simp: own_record_def dk)
  finally show ?case .
next
  case (other w w' w'')
  note mid = sound_other(2) [OF idle_sound [OF env other.hyps(1) other.prems(1)] other.hyps(2,3)]
  have "record_claim pid k w'' dk = record_claim pid k w' dk"
    using other.hyps(3) record_key [of S pid k u]
    by (auto simp: record_claim_def records_same_def deposit_at_def mid dk)
  then show ?case
    using other.IH other.prems by (simp add: mid)
qed simp

lemma idle_record:
  assumes env: "records_env S pid k" and apart: "own_record S pid k u" and life: "idle_life S pid k u w w'"
    and sound: "sound_books S pid k w" and dk: "dk = fst (derive_deposit_pda S pid k u)"
  shows "(acc_owner (accts w' dk) = pid \<longleftrightarrow> acc_owner (accts w dk) = pid)
    \<and> (acc_owner (accts w dk) = pid \<longrightarrow> acc_data (accts w' dk) = acc_data (accts w dk))"
  using life sound
proof (induction rule: idle_life.induct)
  case (own w w' accounts data w'')
  note mid = idle_sound [OF env own.hyps(1) own.prems]
  have "others_same S pid k (fst (derive_deposit_pda S pid k (ai_key (accounts ! 0)))) w' w''"
    by (rule sound_step(3) [OF env own.hyps(3,4) mid own.hyps(2)])
  moreover have "dk \<noteq> fst (derive_deposit_pda S pid k (ai_key (accounts ! 0)))" "dk \<in> record_keys S pid k"
    using apart own.hyps(5) record_key by (auto simp: own_record_def dk)
  ultimately show ?case
    using own.IH own.prems by (auto simp: others_same_def)
next
  case (other w w' w'')
  then show ?case
    using record_key [of S pid k u] by (auto simp: records_same_def dk)
qed simp

lemma creation_sound:
  assumes env: "records_env S pid k" and "no_self_call pid accounts" and k: "k = ai_key (accounts ! 2)"
    and "no_records S pid k w" and "creates_pool S pid accounts w w'"
  shows "sound_books S pid k w'"
proof -
  obtain q where "holds_pool pid w' k q" "new_pool S pid accounts q"
    using creates_pool_new [OF records.env_runtime(5,4) [OF env] assms(2,5)] k by blast
  then have "solvent (pool_at w' k)"
    using solvent_fresh by (simp add: holds_pool_def new_pool_def)
  then show ?thesis
    using creation_balances [OF assms] by (simp add: sound_books_def)
qed

lemma life_sound:
  assumes env: "records_env S pid k" and life: "pool_life S pid k (records_same S pid k) w w'"
    and start: "sound_books S pid k w"
  shows "sound_books S pid k w'"
  using life start by (rule pool_life_invariant) (use sound_step(1) [OF env] sound_other(1) in blast)+

text \<open>C8. A depositor who does nothing loses nothing to others: at any point in the life of a pool, whatever instructions
  other users and the admin then send and whatever other programs do, the depositor's record keeps every byte,
  so its LP, and, as long as the pool's insurance is not flushed and its inflows stay within u64, the amount it can be
  redeemed for does not fall.\<close>
theorem bystander_keeps_claim:
  assumes "records_env S pid k" and "own_record S pid k u" and "no_self_call pid accounts" and "k = ai_key (accounts ! 2)"
    and "no_records S pid k w0" and "creates_pool S pid accounts w0 w"
    and "pool_life S pid k (records_same S pid k) w w1" and "idle_life S pid k u w1 w2"
    and "dk = fst (derive_deposit_pda S pid k u)" and "assets_in (pool_at w2 k) < 2 ^ 64"
  shows "(acc_owner (accts w2 dk) = pid \<longleftrightarrow> acc_owner (accts w1 dk) = pid)
    \<and> (acc_owner (accts w1 dk) = pid \<longrightarrow>
         acc_data (accts w2 dk) = acc_data (accts w1 dk) \<and> deposit_at w2 dk = deposit_at w1 dk)
    \<and> record_lp pid w2 dk = record_lp pid w1 dk
    \<and> record_claim pid k w1 dk \<le> record_claim pid k w2 dk"
proof -
  note sound = life_sound [OF assms(1,7) creation_sound [OF assms(1,3-6)]]
  show ?thesis
    using idle_claims [OF assms(1,2,8) sound assms(9,10)] idle_record [OF assms(1,2,8) sound assms(9)]
    by (auto simp: record_lp_def deposit_at_def)
qed

text \<open>The store after a deposit has no open borrow.\<close>

lemma deposit_releases:
  assumes laws: "runtime_laws S pid" and run: "process_deposit S pid accounts amount w = Inr w'"
    and "mut_borrowed w = []"
  shows "mut_borrowed w' = []"
  using runtime_lawsD(1) [OF laws] run
proof (rule deposit_run, goal_cases)
  case (1 user_ai pool_ai user_ata vault_ai lp_mint_ai user_lp_ata vault_auth_ai deposit_ai token_program
    clock_sysvar system_program rest p dk lp new_deposited new_supply clk p1 w1 w2 w3 w4 d)
  have "cpi_effect_ok pid (w\<lparr>mut_borrowed := ai_key pool_ai # mut_borrowed w\<rparr>) w2"
    using owner_law_invoke [OF runtime_lawsD(2) [OF laws] 1(17)]
      owner_law_invoke_signed [OF runtime_lawsD(2) [OF laws] 1(18)] runtime_lawsD(3) [OF laws]
    by (auto intro: cpi_effect_ok_trans)
  moreover have "cpi_effect_ok pid w3 w4"
    using 1(27) create_or_adopt_pda_effect [OF runtime_lawsD(2,4) [OF laws]] by (auto split: if_splits)
  ultimately show ?case
    using assms(3) 1(24) by (simp add: 1(23,31) cpi_effect_ok_def release_def write_pool_def write_deposit_def)
qed

lemma bank_idle_config:
  assumes "process_deposit bank_sdk demo_pid demo_deposit_accounts 500
     (bank_world (demo_pool 0 0 0) [] demo_system 0 5000) = Inr w'"
  obtains w2 where "process_instruction bank_sdk demo_pid demo_admin_accounts (pack (UpdateConfig (Some 5) None)) w' = Inr w2"
    "idle_life bank_sdk demo_pid 20 10 w' w2" "assets_in (pool_at w2 20) = 500"
proof -
  let ?w = "bank_world (demo_pool 0 0 0) [] demo_system 0 5000"
  have keys: "10 = ai_key (demo_deposit_accounts ! 0)" "20 = ai_key (demo_deposit_accounts ! 1)"
    by (simp_all add: demo_deposit_accounts_def)
  have dk: "22 = fst (derive_deposit_pda bank_sdk demo_pid 20 10)"
    and dep: "acc_owner (accts ?w 22) \<noteq> spl_token_id bank_sdk"
    by simp_all
  obtain q where q: "holds_pool demo_pid w' 20 q" "is_initialized q = 1" "admin q = 11" "assets_in q = 500"
    using deposit_pool_and_record [OF bank_laws bank_creation bank_token_frame assms keys dk
        bank_holds [OF wf_demo_pool] dep bank_clock] by (auto simp: assets_in_def)
  let ?w2 = "release (demo_info 20 False) (write_pool (demo_info 20 False) (q\<lparr>cooldown_slots := 5\<rparr>)
    (w'\<lparr>mut_borrowed := [20]\<rparr>))"
  have "mut_borrowed w' = []"
    using deposit_releases [OF bank_laws assms] by simp
  then have "process_update_config bank_sdk demo_pid demo_admin_accounts (Some 5) None w' = Inr ?w2"
    using q by (auto simp: process_update_config_def demo_admin_accounts_def try_borrow_mut_data_def info_account_def
        holds_pool_def pool_account_def pool_at_def as_pool_def)
  moreover have "assets_in (pool_at ?w2 20) = 500"
    using q(4) pool_at_write_pool [of "q\<lparr>cooldown_slots := 5\<rparr>" "demo_info 20 False"] holds_pool_wf [OF q(1)]
    by (auto simp: wf_pool_def assets_in_def)
  ultimately obtain w2 where config: "process_update_config bank_sdk demo_pid demo_admin_accounts (Some 5) None w' = Inr w2"
      and fits: "assets_in (pool_at w2 20) = 500"
    by blast
  then have run: "process_instruction bank_sdk demo_pid demo_admin_accounts (pack (UpdateConfig (Some 5) None)) w' = Inr w2"
    using unpack_pack [of "UpdateConfig (Some 5) None" "[]"]
    by (simp add: process_instruction_def process_def dispatch_def del: pack.simps)
  have "\<not> flushes (pack (UpdateConfig (Some 5) None))"
    using unpack_pack [of "UpdateConfig (Some 5) None" "[]"] by (simp add: flushes_def del: pack.simps)
  then have "idle_life bank_sdk demo_pid 20 10 w' w2"
    by (intro idle_life.own [OF idle_life.here run demo_self(2)])
      (simp_all add: unsigned_by_def demo_admin_accounts_def del: pack.simps)
  with run show thesis
    using fits by (rule that)
qed

theorem bystander_keeps_claim_witness:
  "\<exists>w1 w2. pool_life bank_sdk demo_pid 20 (records_same bank_sdk demo_pid 20)
        (bank_world (demo_pool 0 0 0) [] demo_system 0 5000) w1 \<and> shares (pool_at w1 20) = 500
    \<and> process_instruction bank_sdk demo_pid demo_admin_accounts (pack (UpdateConfig (Some 5) None)) w1 = Inr w2
    \<and> record_lp demo_pid w2 22 = record_lp demo_pid w1 22
    \<and> record_claim demo_pid 20 w1 22 \<le> record_claim demo_pid 20 w2 22"
proof -
  let ?w = "bank_world (demo_pool 0 0 0) [] demo_system 0 5000"
  obtain w1 where dep: "process_deposit bank_sdk demo_pid demo_deposit_accounts 500 ?w = Inr w1"
    using bank_deposit_run by blast
  have life: "pool_life bank_sdk demo_pid 20 (records_same bank_sdk demo_pid 20) ?w w1"
    by (rule bank_deposit_life(2) [OF dep])
  obtain w2 where run: "process_instruction bank_sdk demo_pid demo_admin_accounts (pack (UpdateConfig (Some 5) None)) w1 = Inr w2"
      and idle: "idle_life bank_sdk demo_pid 20 10 w1 w2" and "assets_in (pool_at w2 20) = 500"
    using bank_idle_config [OF dep] .
  then have fits: "assets_in (pool_at w2 20) < 2 ^ 64"
    by simp
  have new: "creates_pool bank_sdk demo_pid demo_init_accounts bank_empty ?w"
    using bank_init_run by (auto simp: creates_pool_def)
  have own: "own_record bank_sdk demo_pid 20 10" and dk: "22 = fst (derive_deposit_pda bank_sdk demo_pid 20 10)"
    by (simp_all add: own_record_def)
  show ?thesis
    using life bank_deposit_shares [OF dep] run
      bystander_keeps_claim [OF bank_records_env own bank_start(1,2,4) new life idle dk fits] by blast
qed

section \<open>In and out again\<close>

lemma mint_then_redeem:
  assumes "lp = (if n = 0 then a else a * n div v)" and "n = 0 \<longrightarrow> v = 0" and "n \<noteq> 0 \<longrightarrow> v \<noteq> 0" and "lp \<noteq> 0"
  shows "lp * (v + a) div (n + lp) \<le> (a :: nat)"
proof -
  have "lp * v \<le> a * n"
    using assms(1-3) by (cases "n = 0") auto
  then have "lp * (v + a) \<le> a * (n + lp)"
    by (simp add: distrib_left mult.commute)
  then have "lp * (v + a) div (n + lp) \<le> a * (n + lp) div (n + lp)"
    by (rule div_le_mono)
  with assms(4) show ?thesis
    by simp
qed

text \<open>C9. No profit in going in and out: who deposits and later withdraws exactly the LP tokens of that deposit, while the
  pool's worth and shares are otherwise as the deposit left them, moved the amount into the vault, had exactly that LP
  minted, and the payment out of the vault that the withdrawal makes is at most the amount deposited.  It is what the
  pool books, and the pool is left with the shares it had and no less worth.  The two calls may be made at
  different times.\<close>
theorem in_and_out_no_profit:
  assumes "runtime_laws S pid" and "creation_law S" and "token_frame_law S" and "clock_law S clk"
    and "process_deposit S pid accounts amount w = Inr w1" and "u = ai_key (accounts ! 0)" and "k = ai_key (accounts ! 1)"
    and "dk = fst (derive_deposit_pda S pid k u)" and "holds_pool pid w k p"
    and "acc_owner (accts w dk) \<noteq> spl_token_id S" and "solvent p" and "assets_in p < 2 ^ 64"
    and "pool_calc_lp_for_deposit p amount = Some lp"
    and "holds_pool pid w2 k q" and "ledger q = ledger (pool_at w1 k)" and "solvent q"
    and "runtime_laws S' pid" and "clock_law S' clk'" and "k = ai_key (accounts' ! 1)"
    and "process_withdraw S' pid accounts' lp w2 = Inr w3"
  shows "vault p = ai_key (accounts ! 3) \<and> vault q = ai_key (accounts' ! 4)
    \<and> (\<exists>r c wa wb. deposit_calls S pid accounts amount lp w wa
        \<and> withdraw_calls S' pid accounts' lp c (write_pool (accounts' ! 1) (touch_hwm (clock_epoch clk') q)
            (w2\<lparr>mut_borrowed := k # mut_borrowed w2\<rparr>)) wb
        \<and> same_but {k, fst (derive_deposit_pda S' pid k (ai_key (accounts' ! 0)))} wb w3 \<and> unat c \<le> unat amount
        \<and> holds_pool pid w3 k r \<and> shares r = shares p \<and> worth p \<le> worth r
        \<and> unat (total_withdrawn r) = unat (total_withdrawn q) + unat c)"
proof -
  obtain q1 where step1: "pool_step p (DepositEv amount lp (clock_epoch clk)) q1" "holds_pool pid w1 k q1"
    using deposit_pool_and_record [OF assms(1-3,5-10,4)] assms(13) by auto
  have in1: "worth q1 = worth p + unat amount" "shares q1 = shares p + unat lp"
      "unat lp = (if shares p = 0 then unat amount else unat amount * shares p div worth p)"
      "shares p \<noteq> 0 \<longrightarrow> worth p \<noteq> 0"
    using step_ledger [OF step1(1) assms(11)] by (simp_all add: ledger_def)
  have lp: "unat lp \<noteq> 0"
    using step1(1) by (auto elim!: deposit_stepE simp: unat_eq_iff)
  obtain c r where step2: "pool_step q (WithdrawEv lp c (clock_epoch clk')) r" "holds_pool pid w3 k r"
    using withdraw_pool_and_record [OF assms(17,20) refl assms(19) refl assms(14,18)] by blast
  have out: "shares r = shares q - unat lp" "unat c = unat lp * worth q div shares q" "worth r = worth q - unat c"
    using step_ledger [OF step2(1) assms(16)] by (simp_all add: ledger_def)
  have same: "worth q = worth p + unat amount" "shares q = shares p + unat lp"
    using assms(15) in1(1,2) holds_pool_at [OF step1(2)] by (simp_all add: ledger_def)
  have "shares p = 0 \<longrightarrow> worth p = 0"
    using deposit_first(2) [OF assms(13)] assms(12) by blast
  then have "unat c \<le> unat amount"
    using mint_then_redeem [OF in1(3) _ in1(4) lp] by (simp add: out(2) same)
  moreover have "unat (total_withdrawn r) = unat (total_withdrawn q) + unat c"
    using step2(1) by (auto elim!: withdraw_stepE simp: checked_add_Some)
  moreover have "shares r = shares p" "worth p \<le> worth r"
    using out same \<open>unat c \<le> unat amount\<close> by simp_all
  moreover have "pool_calc_collateral_for_withdraw q lp = Some c"
    using step2(1) by (auto elim!: withdraw_stepE)
  ultimately show ?thesis
    using step2(2) assms(13) deposit_calls_made [OF assms(1,3,5-10)]
      withdraw_calls_made [OF assms(17,20) refl assms(19) refl assms(14,18)] by auto
qed

lemma demo_back_out_runs:
  "\<exists>w'. process_withdraw demo_sdk demo_pid demo_withdraw_accounts 166
     (demo_world (demo_pool 0 3500 1166) (encode_deposit (demo_deposit 900 166)) demo_pid 0) = Inr w'"
proof -
  have "pool_calc_collateral_for_withdraw (demo_pool 0 3500 1166) 166 = Some 498"
    by (simp add: pool_calc_collateral_for_withdraw_def total_pool_value_def checked_add_def checked_sub_def share_eval)
  then show ?thesis
    unfolding process_withdraw_def demo_withdraw_accounts_def
    by (simp add: demo_eval checked_add_def checked_sub_def saturating_add_def)
qed

theorem in_and_out_no_profit_witness:
  "\<exists>w1 w3 r c wa wb. process_deposit demo_sdk demo_pid demo_deposit_accounts 500
        (demo_world (demo_pool 0 3000 1000) [] demo_system 0) = Inr w1
    \<and> process_withdraw demo_sdk demo_pid demo_withdraw_accounts 166
        (demo_world (demo_pool 0 3500 1166) (encode_deposit (demo_deposit 900 166)) demo_pid 0) = Inr w3
    \<and> withdraw_calls demo_sdk demo_pid demo_withdraw_accounts 166 c wa wb \<and> unat c \<le> unat (500 :: u64)
    \<and> holds_pool demo_pid w3 20 r \<and> shares r = 1000 \<and> 3000 \<le> worth r"
proof -
  let ?w = "demo_world (demo_pool 0 3000 1000) [] demo_system 0"
  let ?w2 = "demo_world (demo_pool 0 3500 1166) (encode_deposit (demo_deposit 900 166)) demo_pid 0"
  obtain w1 where w1: "process_deposit demo_sdk demo_pid demo_deposit_accounts 500 ?w = Inr w1"
    using demo_deposit_runs by blast
  obtain w3 where w3: "process_withdraw demo_sdk demo_pid demo_withdraw_accounts 166 ?w2 = Inr w3"
    using demo_back_out_runs by blast
  have keys: "10 = ai_key (demo_deposit_accounts ! 0)" "20 = ai_key (demo_deposit_accounts ! 1)"
      "20 = ai_key (demo_withdraw_accounts ! 1)"
    by (simp_all add: demo_deposit_accounts_def demo_withdraw_accounts_def)
  have dk: "22 = fst (derive_deposit_pda demo_sdk demo_pid 20 10)"
    and dep: "acc_owner (accts ?w 22) \<noteq> spl_token_id demo_sdk"
    by (simp_all add: demo_system_def demo_token_def)
  note held = demo_holds [OF wf_demo_pool, of 0 3000 1000 "[]" demo_system 0]
    and held2 = demo_holds [OF wf_demo_pool, of 0 3500 1166 "encode_deposit (demo_deposit 900 166)" demo_pid 0]
  obtain q1 where "pool_step (demo_pool 0 3000 1000) (DepositEv 500 166 2) q1" "holds_pool demo_pid w1 20 q1"
    using deposit_pool_and_record [OF demo_laws demo_creation demo_token_frame w1 keys(1,2) dk held dep demo_clock]
      demo_calc_lp by auto
  then have "ledger (pool_at w1 20) = (3500, 1166)"
    using step_ledger [OF _ demo_pool_worth(4)] holds_pool_at by (force simp: ledger_def demo_pool_worth)
  then have same: "ledger (demo_pool 0 3500 1166) = ledger (pool_at w1 20)"
    by (simp add: ledger_def worth_def assets_in_def assets_out_def shares_def)
  have sol: "solvent (demo_pool 0 3500 1166)"
    by (simp add: solvent_def assets_in_def assets_out_def)
  show ?thesis
    using w1 w3 in_and_out_no_profit [OF demo_laws demo_creation demo_token_frame demo_clock w1 keys(1,2) dk held dep
        demo_pool_worth(4,3) demo_calc_lp held2 same sol demo_laws demo_clock keys(3) w3]
    unfolding demo_pool_worth by blast
qed

end
