(* ===== verification/Admin_Outcome.thy ===== *)
theory Admin_Outcome
  imports Admin_Properties Withdraw_Outcome
begin

text \<open>
  What an administrative request comes to: the reasons each of the ten handlers has to turn it away, in order, and
  that nothing else but the wrapper's answer stands between a request with no such reason and success.
\<close>

section \<open>Reasons in order\<close>

primrec first_fault :: "(bool \<times> fault) list \<Rightarrow> fault option" where
  "first_fault [] = None"
| "first_fault (r # rs) = (if fst r then Some (snd r) else first_fault rs)"

text \<open>The rows that all calls forwarded to the wrapper share; \<open>i\<close> is the position of the wrapper's account.\<close>

definition forward_rows :: "sdk \<Rightarrow> pubkey \<Rightarrow> account_info list \<Rightarrow> nat \<Rightarrow> stake_pool \<Rightarrow> (bool \<times> fault) list" where
  "forward_rows S pid accounts i p =
     [(\<not> ai_is_signer (accounts ! 0), MissingRequiredSignature),
      (is_initialized p \<noteq> 1, stake_err NotInitialized),
      (admin p \<noteq> ai_key (accounts ! 0), stake_err Unauthorized),
      (admin_transferred p \<noteq> 1, stake_err AdminNotTransferred),
      (slab p \<noteq> ai_key (accounts ! 2), stake_err InvalidPda),
      (percolator_program p \<noteq> ai_key (accounts ! i), stake_err InvalidPercolatorProgram),
      (ai_key (accounts ! 1) \<noteq> fst (derive_pool_pda S pid (ai_key (accounts ! 2))), stake_err InvalidPda)]"

fun admin_rows :: "sdk \<Rightarrow> pubkey \<Rightarrow> account_info list \<Rightarrow> stake_pool \<Rightarrow> stake_instruction \<Rightarrow> (bool \<times> fault) list" where
  "admin_rows S pid accounts p (FlushToInsurance amount) =
     [(amount = 0, stake_err ZeroAmount),
      (\<not> ai_is_signer (accounts ! 0), MissingRequiredSignature),
      (is_initialized p \<noteq> 1, stake_err NotInitialized),
      (pool_mode p \<noteq> 0, stake_err InvalidPoolMode),
      (admin p \<noteq> ai_key (accounts ! 0), stake_err Unauthorized),
      (slab p \<noteq> ai_key (accounts ! 4), stake_err InvalidPda),
      (vault p \<noteq> ai_key (accounts ! 2), stake_err InvalidPda),
      (percolator_program p \<noteq> ai_key (accounts ! 6), stake_err InvalidPercolatorProgram),
      (ai_key (accounts ! 7) \<noteq> spl_token_id S, IncorrectProgramId),
      (worth p < unat amount, InsufficientFunds),
      (ai_key (accounts ! 3) \<noteq> fst (derive_vault_authority S pid (ai_key (accounts ! 1))), stake_err InvalidPda)]"
| "admin_rows S pid accounts p (UpdateConfig cooldown cap) =
     [(\<not> ai_is_signer (accounts ! 0), MissingRequiredSignature),
      (is_initialized p \<noteq> 1, stake_err NotInitialized),
      (admin p \<noteq> ai_key (accounts ! 0), stake_err Unauthorized)]"
| "admin_rows S pid accounts p TransferAdmin =
     [(\<not> ai_is_signer (accounts ! 0), MissingRequiredSignature),
      (ai_key (accounts ! 1) \<noteq> fst (derive_pool_pda S pid (ai_key (accounts ! 2))), stake_err InvalidPda),
      (is_initialized p \<noteq> 1, stake_err NotInitialized),
      (admin p \<noteq> ai_key (accounts ! 0), stake_err Unauthorized),
      (admin_transferred p = 1, stake_err AdminAlreadyTransferred),
      (slab p \<noteq> ai_key (accounts ! 2), stake_err InvalidPda),
      (percolator_program p \<noteq> ai_key (accounts ! 3), stake_err InvalidPercolatorProgram)]"
| "admin_rows S pid accounts p (AdminSetOracleAuthority auth) =
     [(ai_key (accounts ! 4) \<noteq> auth, stake_err InvalidAccount),
      (\<not> ai_is_signer (accounts ! 4), MissingRequiredSignature)] @ forward_rows S pid accounts 3 p"
| "admin_rows S pid accounts p (AdminSetRiskThreshold threshold) =
     forward_rows S pid accounts 3 p @ [(True, InvalidInstructionData)]"
| "admin_rows S pid accounts p (AdminSetMaintenanceFee fee) =
     forward_rows S pid accounts 3 p @ [(True, InvalidInstructionData)]"
| "admin_rows S pid accounts p AdminResolveMarket = forward_rows S pid accounts 3 p"
| "admin_rows S pid accounts p (AdminWithdrawInsurance amount) =
     forward_rows S pid accounts 7 p @
     [(pool_mode p \<noteq> 0, stake_err InvalidPoolMode),
      (vault p \<noteq> ai_key (accounts ! 4), stake_err InvalidPda),
      (ai_key (accounts ! 8) \<noteq> spl_token_id S, IncorrectProgramId),
      (ai_key (accounts ! 3) \<noteq> fst (derive_vault_authority S pid (ai_key (accounts ! 1))), InvalidArgument)]"
| "admin_rows S pid accounts p (AdminSetInsurancePolicy auth base bps cooldown) =
     [(ai_key (accounts ! 4) \<noteq> auth, stake_err InvalidAccount),
      (auth \<noteq> fst (derive_vault_authority S pid (ai_key (accounts ! 1))), MissingRequiredSignature),
      (base \<noteq> 0 \<or> bps \<noteq> 0 \<or> cooldown \<noteq> 0, InvalidInstructionData)] @ forward_rows S pid accounts 3 p"
| "admin_rows S pid accounts p (AdminSetHwmConfig enabled bps) =
     [(\<not> ai_is_signer (accounts ! 0), MissingRequiredSignature),
      (is_initialized p \<noteq> 1, stake_err NotInitialized),
      (\<not> validate_discriminator p, stake_err InvalidAccount),
      (admin p \<noteq> ai_key (accounts ! 0), stake_err Unauthorized),
      (enabled \<and> (bps = 0 \<or> 10000 < bps), InvalidInstructionData)]"
| "admin_rows S pid accounts p _ = []"

fun admin_accounts :: "stake_instruction \<Rightarrow> nat" where
  "admin_accounts (FlushToInsurance _) = 8"
| "admin_accounts (UpdateConfig _ _) = 2"
| "admin_accounts (AdminSetHwmConfig _ _) = 2"
| "admin_accounts (AdminSetOracleAuthority _) = 5"
| "admin_accounts (AdminSetInsurancePolicy _ _ _ _) = 5"
| "admin_accounts (AdminWithdrawInsurance _) = 10"
| "admin_accounts _ = 4"

text \<open>The one call an administrative instruction makes to the wrapper, if it makes any.\<close>

fun admin_call :: "sdk \<Rightarrow> pubkey \<Rightarrow> account_info list \<Rightarrow> world \<Rightarrow> stake_instruction \<Rightarrow> fault + world" where
  "admin_call S pid accounts w (FlushToInsurance amount) =
     cpi_top_up_insurance S (w\<lparr>mut_borrowed := [ai_key (accounts ! 1)]\<rparr>) (accounts ! 6) (accounts ! 3) (accounts ! 4)
       (accounts ! 2) (accounts ! 5) (accounts ! 7) amount
       (vault_auth_seeds (ai_key (accounts ! 1)) (snd (derive_vault_authority S pid (ai_key (accounts ! 1)))))"
| "admin_call S pid accounts w TransferAdmin =
     cpi_update_authority S w (accounts ! 3) (accounts ! 0) (accounts ! 1) (accounts ! 2)
       (pool_seeds (ai_key (accounts ! 2)) (snd (derive_pool_pda S pid (ai_key (accounts ! 2)))))"
| "admin_call S pid accounts w (AdminSetOracleAuthority auth) =
     cpi_update_asset_authority S w (accounts ! 3) (accounts ! 1) (accounts ! 4) (accounts ! 2) 0 ASSET_AUTH_ORACLE
       [pool_seeds (ai_key (accounts ! 2)) (snd (derive_pool_pda S pid (ai_key (accounts ! 2))))]"
| "admin_call S pid accounts w AdminResolveMarket =
     cpi_resolve_market S w (accounts ! 3) (accounts ! 1) (accounts ! 2)
       (pool_seeds (ai_key (accounts ! 2)) (snd (derive_pool_pda S pid (ai_key (accounts ! 2)))))"
| "admin_call S pid accounts w (AdminWithdrawInsurance amount) =
     cpi_withdraw_insurance S w (accounts ! 7) (accounts ! 3) (accounts ! 2) (accounts ! 4) (accounts ! 5) (accounts ! 6)
       (accounts ! 8) amount
       (vault_auth_seeds (ai_key (accounts ! 1)) (snd (derive_vault_authority S pid (ai_key (accounts ! 1)))))"
| "admin_call S pid accounts w (AdminSetInsurancePolicy auth base bps cooldown) =
     cpi_update_asset_authority S w (accounts ! 3) (accounts ! 1) (accounts ! 4) (accounts ! 2) 0 ASSET_AUTH_INSURANCE
       [pool_seeds (ai_key (accounts ! 2)) (snd (derive_pool_pda S pid (ai_key (accounts ! 2)))),
        vault_auth_seeds (ai_key (accounts ! 1)) (snd (derive_vault_authority S pid (ai_key (accounts ! 1))))]"
| "admin_call S pid accounts w _ = Inr w"

definition admin_setup :: "pubkey \<Rightarrow> account_info list \<Rightarrow> stake_instruction \<Rightarrow> world \<Rightarrow> stake_pool \<Rightarrow> bool" where
  "admin_setup pid accounts instr w p \<longleftrightarrow> admin_accounts instr \<le> length accounts
     \<and> holds_pool pid w (ai_key (accounts ! 1)) p \<and> mut_borrowed w = []"

text \<open>The result of a request: the first reason against it, or else the wrapper's refusal, or else success.\<close>

fun outcome :: "fault + world \<Rightarrow> fault option \<Rightarrow> fault + world \<Rightarrow> bool" where
  "outcome r (Some e) call \<longleftrightarrow> r = Inl e"
| "outcome r None (Inl f) \<longleftrightarrow> r = Inl f"
| "outcome r None (Inr w1) \<longleftrightarrow> (\<exists>w'. r = Inr w')"

lemma outcome_row [simp]:
  "outcome (if c then Inl e else r) (if c then Some e else b) call \<longleftrightarrow> c \<or> outcome r b call"
  by simp

lemma outcome_then:
  "(\<And>w1. call = Inr w1 \<Longrightarrow> \<exists>w'. g w1 = Inr w') \<Longrightarrow> outcome (bnd call g) None call"
  by (cases call) auto

lemmas admin_eval = Let_def case_prod_unfold try_borrow_data_def try_borrow_mut_data_def info_account_def
  verify_token_program_def

lemma setup_pool:
  assumes "admin_setup pid accounts instr w p"
  shows "as_pool (acc_data (accts w (ai_key (accounts ! 1)))) = Inr p" and "mut_borrowed w = []"
    and "admin_accounts instr \<le> length accounts" and "holds_pool pid w (ai_key (accounts ! 1)) p"
  using assms by (auto simp: admin_setup_def holds_pool_def pool_account_def pool_at_def as_pool_Inr)

lemma list_take_two: "2 \<le> length xs \<Longrightarrow> \<exists>a b rest. xs = a # b # rest"
  and list_take_four: "4 \<le> length xs \<Longrightarrow> \<exists>a b c d rest. xs = a # b # c # d # rest"
  and list_take_five: "5 \<le> length xs \<Longrightarrow> \<exists>a b c d e rest. xs = a # b # c # d # e # rest"
  and list_take_eight: "8 \<le> length xs \<Longrightarrow> \<exists>a b c d e f g h rest. xs = a # b # c # d # e # f # g # h # rest"
  and list_take_ten: "10 \<le> length xs \<Longrightarrow>
    \<exists>a b c d e f g h i j rest. xs = a # b # c # d # e # f # g # h # i # j # rest"
  by (auto simp: numeral_eq_Suc Suc_le_length_iff)

lemma config_outcome:
  assumes "iter_law S" and "admin_setup pid accounts (UpdateConfig c d) w p"
  shows "outcome (process_update_config S pid accounts c d w) (first_fault (admin_rows S pid accounts p (UpdateConfig c d)))
    (Inr w)"
proof -
  obtain a b rest where acc: "accounts = a # b # rest"
    using list_take_two [of accounts] setup_pool(3) [OF assms(2)] by auto
  show ?thesis
    using setup_pool(1,2) [OF assms(2)]
    by (simp add: acc process_update_config_def admin_eval iter_lawD [OF assms(1)])
qed

lemma hwm_outcome:
  assumes "iter_law S" and "admin_setup pid accounts (AdminSetHwmConfig c d) w p"
  shows "outcome (process_admin_set_hwm_config S pid accounts c d w)
    (first_fault (admin_rows S pid accounts p (AdminSetHwmConfig c d))) (Inr w)"
proof -
  obtain a b rest where acc: "accounts = a # b # rest"
    using list_take_two [of accounts] setup_pool(3) [OF assms(2)] by auto
  show ?thesis
    using setup_pool(1,2) [OF assms(2)]
    by (simp add: acc process_admin_set_hwm_config_def admin_eval iter_lawD [OF assms(1)])
qed

text \<open>The pool can still be read and borrowed after the wrapper's call.\<close>

lemma after_call:
  assumes "cpi_effect_ok pid w w1" and "holds_pool pid w k p"
  shows "as_pool (acc_data (accts w1 k)) = Inr p" and "mut_borrowed w1 = mut_borrowed w"
  using holds_pool_cpi [OF assms] assms(1)
  by (auto simp: holds_pool_def pool_account_def pool_at_def as_pool_Inr cpi_effect_ok_def)

lemma transfer_outcome:
  assumes "runtime_laws S pid" and "no_self_call pid accounts" and "admin_setup pid accounts TransferAdmin w p"
  shows "outcome (process_transfer_admin S pid accounts w) (first_fault (admin_rows S pid accounts p TransferAdmin))
    (admin_call S pid accounts w TransferAdmin)"
proof -
  obtain a b c d rest where acc: "accounts = a # b # c # d # rest"
    using list_take_four [of accounts] setup_pool(3) [OF assms(3)] by auto
  have d: "ai_key d \<noteq> pid"
    using assms(2) by (simp add: acc no_self_call_def)
  note effect = wrapper_cpi_effect(2) [OF runtime_lawsD(2) [OF assms(1)] d]
  show ?thesis
    using setup_pool(1,2,4) [OF assms(3)] after_call [OF effect]
    by (auto simp: acc process_transfer_admin_def admin_eval iter_lawD [OF runtime_lawsD(1) [OF assms(1)]]
      intro!: outcome_then)
qed


section \<open>Forwarded calls\<close>

lemma first_fault_append [simp]:
  "first_fault (xs @ ys) = (case first_fault xs of None \<Rightarrow> first_fault ys | Some e \<Rightarrow> Some e)"
  by (induction xs) simp_all

text \<open>The shared check returns the first fault of the shared rows, or the bump of the pool's address.\<close>

lemma validate_rows:
  assumes "admin_setup pid accounts instr w p"
  shows "first_fault (forward_rows S pid accounts i p) = Some e \<Longrightarrow>
      validate_admin_cpi S pid w (accounts ! 1) (accounts ! 0) (accounts ! 2) (accounts ! i) = Inl e"
    and "first_fault (forward_rows S pid accounts i p) = None \<Longrightarrow>
      validate_admin_cpi S pid w (accounts ! 1) (accounts ! 0) (accounts ! 2) (accounts ! i)
      = Inr (snd (derive_pool_pda S pid (ai_key (accounts ! 2))))"
  using setup_pool(1,2) [OF assms]
  by (auto simp: validate_admin_cpi_def forward_rows_def admin_eval split: if_splits)

lemma outcome_same [simp]: "outcome call None call"
  by (cases call) simp_all

lemma resolve_outcome:
  assumes "runtime_laws S pid" and "no_self_call pid accounts" and req: "admin_setup pid accounts AdminResolveMarket w p"
  shows "outcome (process_admin_resolve_market S pid accounts w)
    (first_fault (admin_rows S pid accounts p AdminResolveMarket)) (admin_call S pid accounts w AdminResolveMarket)"
proof -
  obtain a b c d rest where acc: "accounts = a # b # c # d # rest"
    using list_take_four [of accounts] setup_pool(3) [OF req] by auto
  have d: "ai_key d \<noteq> pid"
    using assms(2) by (simp add: acc no_self_call_def)
  note effect = wrapper_cpi_effect(4) [OF runtime_lawsD(2) [OF assms(1)] d]
  show ?thesis
    using validate_rows [OF req, of S 3] setup_pool(2,4) [OF req] after_call [OF effect]
    by (cases "first_fault (forward_rows S pid accounts 3 p)")
      (auto simp: acc process_admin_resolve_market_def iter_lawD [OF runtime_lawsD(1) [OF assms(1)]] admin_eval
        intro!: outcome_then)
qed

lemma return_outcome:
  assumes "runtime_laws S pid" and "no_self_call pid accounts"
    and req: "admin_setup pid accounts (AdminWithdrawInsurance amount) w p"
    and fits: "unat (total_returned p) + unat amount < 2 ^ 64"
  shows "outcome (process_admin_withdraw_insurance S pid accounts amount w)
    (first_fault (admin_rows S pid accounts p (AdminWithdrawInsurance amount)))
    (admin_call S pid accounts w (AdminWithdrawInsurance amount))"
proof -
  obtain a b c d e f g h i j rest where acc: "accounts = a # b # c # d # e # f # g # h # i # j # rest"
    using list_take_ten [of accounts] setup_pool(3) [OF req] by auto
  have h: "ai_key h \<noteq> pid"
    using assms(2) by (simp add: acc no_self_call_def)
  note effect = wrapper_cpi_effect(5) [OF runtime_lawsD(2) [OF assms(1)] h]
  show ?thesis
    using validate_rows [OF req, of S 7] setup_pool(1,2,4) [OF req] after_call [OF effect] fits
    by (cases "first_fault (forward_rows S pid accounts 7 p)")
      (auto simp: acc process_admin_withdraw_insurance_def iter_lawD [OF runtime_lawsD(1) [OF assms(1)]] admin_eval
        derive_vault_authority_def validate_withdraw_insurance_pool_mode_def validate_return_vault_def
        checked_add_def intro!: outcome_then)
qed

lemma oracle_outcome:
  assumes "iter_law S" and req: "admin_setup pid accounts (AdminSetOracleAuthority auth) w p"
  shows "outcome (process_admin_set_oracle_authority S pid accounts auth w)
    (first_fault (admin_rows S pid accounts p (AdminSetOracleAuthority auth)))
    (admin_call S pid accounts w (AdminSetOracleAuthority auth))"
proof -
  obtain a b c d e rest where acc: "accounts = a # b # c # d # e # rest"
    using list_take_five [of accounts] setup_pool(3) [OF req] by auto
  show ?thesis
    using validate_rows [OF req, of S 3]
    by (cases "first_fault (forward_rows S pid accounts 3 p)")
      (simp_all add: acc process_admin_set_oracle_authority_def iter_lawD [OF assms(1)])
qed

lemma policy_outcome:
  assumes "iter_law S" and req: "admin_setup pid accounts (AdminSetInsurancePolicy auth base bps cooldown) w p"
  shows "outcome (process_admin_set_insurance_policy S pid accounts auth base bps cooldown w)
    (first_fault (admin_rows S pid accounts p (AdminSetInsurancePolicy auth base bps cooldown)))
    (admin_call S pid accounts w (AdminSetInsurancePolicy auth base bps cooldown))"
proof -
  obtain a b c d e rest where acc: "accounts = a # b # c # d # e # rest"
    using list_take_five [of accounts] setup_pool(3) [OF req] by auto
  show ?thesis
    using validate_rows [OF req, of S 3]
    by (cases "first_fault (forward_rows S pid accounts 3 p)")
      (auto simp: acc process_admin_set_insurance_policy_def iter_lawD [OF assms(1)] admin_eval
        validate_vault_insurance_authority_def)
qed

lemma retired_outcome:
  assumes "iter_law S" and "instr = AdminSetRiskThreshold t \<or> instr = AdminSetMaintenanceFee t"
    and req: "admin_setup pid accounts instr w p"
  shows "outcome (dispatch S pid accounts instr w) (first_fault (admin_rows S pid accounts p instr))
    (admin_call S pid accounts w instr)"
proof -
  obtain a b c d rest where acc: "accounts = a # b # c # d # rest"
    using list_take_four [of accounts] setup_pool(3) [OF req] assms(2) by auto
  show ?thesis
    using validate_rows [OF req, of S 3] assms(2)
    by (cases "first_fault (forward_rows S pid accounts 3 p)")
      (auto simp: acc dispatch_def process_admin_set_risk_threshold_def process_admin_set_maintenance_fee_def
        cpi_set_risk_threshold_def cpi_set_maintenance_fee_def iter_lawD [OF assms(1)])
qed

lemma available_worth:
  assumes "assets_in p < 2 ^ 64" and "solvent p" and "pool_mode p = 0"
  obtains v where "checked_add (total_deposited p) (total_returned p) = Some v"
    and "checked_sub v (total_withdrawn p) = Some (v - total_withdrawn p)"
    and "checked_sub (v - total_withdrawn p) (total_flushed p) = Some (v - total_withdrawn p - total_flushed p)"
    and "unat (v - total_withdrawn p - total_flushed p) = worth p"
proof -
  let ?v = "total_deposited p + total_returned p"
  have v: "unat ?v = unat (total_deposited p) + unat (total_returned p)"
    using assms(1,3) by (simp add: assets_in_def unat_add_exact)
  have le: "unat (total_withdrawn p) + unat (total_flushed p) \<le> unat ?v"
    using assms(2,3) by (simp add: v solvent_def assets_in_def assets_out_def)
  then have first: "unat (?v - total_withdrawn p) = unat ?v - unat (total_withdrawn p)"
    by (simp add: unat_sub word_le_nat_alt)
  with le have second: "unat (?v - total_withdrawn p - total_flushed p)
      = unat ?v - unat (total_withdrawn p) - unat (total_flushed p)"
    by (simp add: unat_sub word_le_nat_alt)
  show thesis
    using le first second assms(1,3) v
    by (intro that [of ?v])
      (simp_all add: checked_add_def checked_sub_def word_le_nat_alt worth_def assets_in_def assets_out_def)
qed

lemma flush_fits:
  assumes "assets_in p < 2 ^ 64" and "solvent p" and "pool_mode p = 0" and "unat amount \<le> worth p"
  shows "checked_add (total_flushed p) amount = Some (total_flushed p + amount)"
  using assms by (simp add: checked_add_def worth_def solvent_def assets_in_def assets_out_def)

lemma flush_outcome:
  assumes "runtime_laws S pid" and "no_self_call pid accounts"
    and req: "admin_setup pid accounts (FlushToInsurance amount) w p" and "assets_in p < 2 ^ 64" and "solvent p"
  shows "outcome (process_flush_to_insurance S pid accounts amount w)
    (first_fault (admin_rows S pid accounts p (FlushToInsurance amount)))
    (admin_call S pid accounts w (FlushToInsurance amount))"
proof -
  obtain a b c d e f g h rest where acc: "accounts = a # b # c # d # e # f # g # h # rest"
    using list_take_eight [of accounts] setup_pool(3) [OF req] by auto
  note iter = iter_lawD [OF runtime_lawsD(1) [OF assms(1)]]
  show ?thesis
  proof (cases "pool_mode p = 0")
    case False
    then show ?thesis
      using setup_pool(1,2) [OF req]
      by (simp add: acc process_flush_to_insurance_def iter admin_eval validate_flush_pool_mode_def)
  next
    case True
    obtain v where v: "checked_add (total_deposited p) (total_returned p) = Some v"
      "checked_sub v (total_withdrawn p) = Some (v - total_withdrawn p)"
      "checked_sub (v - total_withdrawn p) (total_flushed p) = Some (v - total_withdrawn p - total_flushed p)"
      "unat (v - total_withdrawn p - total_flushed p) = worth p"
      using available_worth [OF assms(4,5) True] by blast
    have short: "v - total_withdrawn p - total_flushed p < amount \<longleftrightarrow> worth p < unat amount"
      by (simp add: word_less_nat_alt v(4))
    show ?thesis
      using setup_pool(1,2) [OF req] True flush_fits [OF assms(4,5) True, of amount]
      by (auto simp: acc process_flush_to_insurance_def iter admin_eval validate_flush_pool_mode_def v(1-3) short
          not_less intro!: outcome_then)
  qed
qed

text \<open>C20. Every administrative request has a definite outcome.  For an account that holds a pool with totals in range and
  enough accounts, each of the ten administrative instructions fails with the first fault of its table
  \<open>admin_rows\<close> that applies (unsigned, uninitialised, not the admin, hand-over missing or done twice, wrong slab, vault or
  wrapper, wrong mode, more than the pool is worth, a policy that is not the vault's, a floor outside 1 to 10000, a
  retired instruction); when none applies it makes the one call \<open>admin_call\<close> to the wrapper, fails with that call's own
  error if the wrapper refuses, and succeeds if it accepts.  The accounts are those the code takes; for
  \<open>AdminWithdrawInsurance\<close> they are ten, with the vault authority before the vault, where its documentation has
  nine and the opposite order.  The two instructions that call nobody, \<open>UpdateConfig\<close> and
  \<open>AdminSetHwmConfig\<close>, then always succeed.\<close>
theorem admin_outcome:
  assumes "runtime_laws S pid" and "no_self_call pid accounts" and "admin_instr instr"
    and "admin_setup pid accounts instr w p" and "assets_in p < 2 ^ 64" and "solvent p"
    and "\<And>amount. instr = AdminWithdrawInsurance amount \<Longrightarrow> unat (total_returned p) + unat amount < 2 ^ 64"
  shows "outcome (dispatch S pid accounts instr w) (first_fault (admin_rows S pid accounts p instr))
    (admin_call S pid accounts w instr)"
proof (cases instr)
  case (FlushToInsurance amount)
  then show ?thesis
    using flush_outcome [OF assms(1,2) _ assms(5,6)] assms(4) by (simp add: dispatch_def del: admin_rows.simps)
next
  case (UpdateConfig c d)
  then show ?thesis
    using config_outcome [OF runtime_lawsD(1) [OF assms(1)]] assms(4) by (simp add: dispatch_def del: admin_rows.simps)
next
  case TransferAdmin
  then show ?thesis
    using transfer_outcome [OF assms(1,2)] assms(4) by (simp add: dispatch_def del: admin_rows.simps)
next
  case (AdminSetOracleAuthority auth)
  then show ?thesis
    using oracle_outcome [OF runtime_lawsD(1) [OF assms(1)]] assms(4) by (simp add: dispatch_def del: admin_rows.simps)
next
  case AdminResolveMarket
  then show ?thesis
    using resolve_outcome [OF assms(1,2)] assms(4) by (simp add: dispatch_def del: admin_rows.simps)
next
  case (AdminWithdrawInsurance amount)
  then show ?thesis
    using return_outcome [OF assms(1,2) _ assms(7)] assms(4) by (simp add: dispatch_def del: admin_rows.simps)
next
  case (AdminSetInsurancePolicy auth base bps cooldown)
  then show ?thesis
    using policy_outcome [OF runtime_lawsD(1) [OF assms(1)]] assms(4) by (simp add: dispatch_def del: admin_rows.simps)
next
  case (AdminSetHwmConfig enabled bps)
  then show ?thesis
    using hwm_outcome [OF runtime_lawsD(1) [OF assms(1)]] assms(4) by (simp add: dispatch_def del: admin_rows.simps)
next
  case (AdminSetRiskThreshold t)
  then show ?thesis
    using retired_outcome [OF runtime_lawsD(1) [OF assms(1)] disjI1 assms(4)] by blast
next
  case (AdminSetMaintenanceFee t)
  then show ?thesis
    using retired_outcome [OF runtime_lawsD(1) [OF assms(1)] disjI2 assms(4)] by blast
qed (use assms(3) in simp_all)

lemma demo_admin_setup:
  "admin_setup demo_pid demo_flush_accounts (FlushToInsurance a)
     (demo_world (demo_pool 0 3000 1000) [] demo_system 0) (demo_pool 0 3000 1000)"
  using demo_holds [OF wf_demo_pool] by (simp add: admin_setup_def demo_flush_accounts_def)

text \<open>A flush of 5000 from a pool worth 3000 is refused for lack of funds; one of 700 goes through.\<close>

theorem admin_outcome_witness:
  "dispatch demo_sdk demo_pid demo_flush_accounts (FlushToInsurance 5000)
     (demo_world (demo_pool 0 3000 1000) [] demo_system 0) = Inl InsufficientFunds
   \<and> (\<exists>w'. dispatch demo_sdk demo_pid demo_flush_accounts (FlushToInsurance 700)
     (demo_world (demo_pool 0 3000 1000) [] demo_system 0) = Inr w')"
proof -
  have worth: "worth (demo_pool 0 3000 1000) = 3000" "assets_in (demo_pool 0 3000 1000) < 2 ^ 64"
    "solvent (demo_pool 0 3000 1000)"
    by (simp_all add: worth_def solvent_def assets_in_def assets_out_def)
  note flush = admin_outcome [OF demo_laws demo_self(1) _ demo_admin_setup worth(2,3)]
  have "outcome (dispatch demo_sdk demo_pid demo_flush_accounts (FlushToInsurance 5000)
     (demo_world (demo_pool 0 3000 1000) [] demo_system 0)) (Some InsufficientFunds)
    (admin_call demo_sdk demo_pid demo_flush_accounts
      (demo_world (demo_pool 0 3000 1000) [] demo_system 0) (FlushToInsurance 5000))"
    using flush [of 5000] by (simp add: worth(1) demo_flush_accounts_def demo_eval del: admin_call.simps)
  moreover have "outcome (dispatch demo_sdk demo_pid demo_flush_accounts (FlushToInsurance 700)
     (demo_world (demo_pool 0 3000 1000) [] demo_system 0)) None
     (Inr ((demo_world (demo_pool 0 3000 1000) [] demo_system 0)\<lparr>mut_borrowed := [20]\<rparr>))"
    using flush [of 700] by (simp add: worth(1) demo_flush_accounts_def demo_eval cpi_defs)
  ultimately show ?thesis
    by simp
qed

end
