(* ===== verification/Accrue_Outcome.thy ===== *)
theory Accrue_Outcome
  imports Admin_Outcome
begin

text \<open>
  What a call of the fee crank comes to.  The source explains at length how an earlier order of the sums made
  \<open>AccrueFees\<close> fail for ever once the withdrawals of a trading pool exceeded its deposits; here the crank of every
  reachable trading pool is shown to go through.
\<close>

section \<open>Why the crank refuses\<close>

definition accrue_rows :: "account_info list \<Rightarrow> stake_pool \<Rightarrow> (bool \<times> fault) list" where
  "accrue_rows accounts p =
     [(\<not> ai_is_signer (accounts ! 0), MissingRequiredSignature),
      (is_initialized p \<noteq> 1, UninitializedAccount),
      (pool_mode p \<noteq> 1, stake_err InvalidPoolMode),
      (ai_key (accounts ! 2) = ai_key (accounts ! 1), AccountBorrowFailed),
      (ai_key (accounts ! 2) \<noteq> vault p, InvalidAccountData)]"

text \<open>The totals stay in range: the pool's worth with the offset, and the fees with the balance of the vault.\<close>

definition accrual_fits :: "stake_pool \<Rightarrow> u64 \<Rightarrow> bool" where
  "accrual_fits p balance \<longleftrightarrow> assets_in p < 2 ^ 64
     \<and> worth p + unat (pre_supply_vault_offset p) < 2 ^ 64 \<and> unat (total_fees_earned p) + unat balance < 2 ^ 64"

text \<open>The baseline of a reachable trading pool is its worth: sums before differences, nothing underflows.\<close>

lemma baseline_worth:
  assumes "solvent p" and "trading_ok p" and "pool_mode p = 1" and "assets_in p < 2 ^ 64"
  obtains v where "accrual_baseline p = Some v" and "unat v = worth p"
proof -
  have trading: "total_flushed p = 0" "total_returned p = 0"
    using assms(2,3) by (simp_all add: trading_ok_def)
  have "worth p < 2 ^ 64"
    using assms(4) by (simp add: worth_def)
  then obtain v :: u64 where v: "unat v = worth p"
    using u64_of_nat by blast
  moreover have "accrual_baseline p = Some v"
    using trading assms(1,3,4) v
    by (simp add: accrual_baseline_Some worth_def solvent_def assets_in_def assets_out_def)
  ultimately show thesis
    by (rule that [rotated])
qed

text \<open>So booking cannot overflow.\<close>

lemma booking_defined:
  assumes "solvent p" and "trading_ok p" and "pool_mode p = 1" and "accrual_fits p balance"
  obtains v where "accrual_baseline p = Some v"
    and "checked_add v (pre_supply_vault_offset p) = Some (v + pre_supply_vault_offset p)"
    and "checked_add (total_fees_earned p) (balance - (v + pre_supply_vault_offset p)) \<noteq> None
      \<or> \<not> v + pre_supply_vault_offset p < balance"
proof -
  obtain v where v: "accrual_baseline p = Some v" "unat v = worth p"
    using baseline_worth assms by (auto simp: accrual_fits_def)
  then have "checked_add v (pre_supply_vault_offset p) = Some (v + pre_supply_vault_offset p)"
    using assms(4) by (simp add: checked_add_def accrual_fits_def)
  moreover have "unat (balance - (v + pre_supply_vault_offset p)) \<le> unat balance"
    if "v + pre_supply_vault_offset p < balance"
    using that by (simp add: unat_sub less_imp_le)
  ultimately show thesis
    using v(1) assms(4) by (intro that [of v]) (auto simp: checked_add_def accrual_fits_def)
qed

text \<open>C21. The fee crank cannot be bricked: for a pool in the state every history leaves it in (\<open>solvent\<close>, \<open>trading_ok\<close>) with totals in range, with a readable vault and clock,
  \<open>AccrueFees\<close> fails only for the reasons of \<open>accrue_rows\<close> (an unsigned call, a pool that is not an initialised trading
  pool, a vault that is not the pool's), with the error given there, and otherwise succeeds, however much has been
  withdrawn, with or without shares, with or without anything to book.\<close>
theorem accrue_outcome:
  assumes "runtime_laws S pid" and "4 \<le> length accounts" and "k = ai_key (accounts ! 1)" and "holds_pool pid w k p"
    and "mut_borrowed w = []" and "solvent p" and "trading_ok p"
    and "token_account_amount S (acc_data (accts w (ai_key (accounts ! 2)))) = Inr balance" and "accrual_fits p balance"
    and "clock_from_account_info S (w\<lparr>mut_borrowed := [k]\<rparr>) (accounts ! 3) = Inr clk"
  shows "outcome (process_accrue_fees S pid accounts w) (first_fault (accrue_rows accounts p)) (Inr w)"
proof -
  obtain a b c d rest where acc: "accounts = a # b # c # d # rest"
    using list_take_four [OF assms(2)] by auto
  have pool: "as_pool (acc_data (accts w (ai_key b))) = Inr p"
    using assms(3,4) acc by (auto simp: holds_pool_def pool_account_def pool_at_def as_pool_Inr)
  note eval = process_accrue_fees_def iter_lawD [OF runtime_lawsD(1) [OF assms(1)]] admin_eval accrue_rows_def
  show ?thesis
  proof (cases "pool_mode p = 1 \<and> total_lp_supply p \<noteq> 0")
    case False
    then show ?thesis
      using pool assms(3,5,8,10) by (auto simp: acc eval)
  next
    case True
    obtain v where "accrual_baseline p = Some v"
      "checked_add v (pre_supply_vault_offset p) = Some (v + pre_supply_vault_offset p)"
      "checked_add (total_fees_earned p) (balance - (v + pre_supply_vault_offset p)) \<noteq> None
        \<or> \<not> v + pre_supply_vault_offset p < balance"
      using booking_defined [OF assms(6,7) _ assms(9)] True by blast
    then show ?thesis
      using pool assms(3,5,8,10) True by (auto simp: acc eval)
  qed
qed

text \<open>A trading pool of which more has been withdrawn than was deposited, fees making up the difference: 40 more tokens
  in its vault are booked.\<close>

definition outgrown_pool :: stake_pool where
  "outgrown_pool = (demo_pool 1 3000 500)\<lparr>total_withdrawn := 4000, total_fees_earned := 2000\<rparr>"

lemma outgrown:
  "wf_pool outgrown_pool" "solvent outgrown_pool" "trading_ok outgrown_pool" "accrual_fits outgrown_pool 1040"
  "is_initialized outgrown_pool = 1" "pool_mode outgrown_pool = 1" "vault outgrown_pool = 30"
  "total_deposited outgrown_pool < total_withdrawn outgrown_pool"
proof -
  show "wf_pool outgrown_pool"
    using wf_demo_pool [of 1 3000 500] by (simp add: outgrown_pool_def wf_pool_def)
  have "subslice 32 8 (reserved (demo_pool 1 3000 500)) = replicate 8 0"
    by (simp add: demo_pool_def init_pool_fields_def set_discriminator_def zeroed_pool_def
        copy_into_def subslice_def STAKE_POOL_DISCRIMINATOR_def)
  then have "pre_supply_vault_offset outgrown_pool = 0"
    by (simp add: outgrown_pool_def pre_supply_vault_offset_def from_le_bytes_zero)
  then show "solvent outgrown_pool" "trading_ok outgrown_pool" "accrual_fits outgrown_pool 1040"
      "is_initialized outgrown_pool = 1" "pool_mode outgrown_pool = 1" "vault outgrown_pool = 30"
      "total_deposited outgrown_pool < total_withdrawn outgrown_pool"
    by (simp_all add: solvent_def trading_ok_def accrual_fits_def worth_def shares_def assets_in_def assets_out_def)
      (simp_all add: outgrown_pool_def)
qed

theorem accrue_outcome_witness:
  "total_deposited outgrown_pool < total_withdrawn outgrown_pool
   \<and> (\<exists>w'. process_accrue_fees demo_sdk demo_pid demo_accrue_accounts (demo_world outgrown_pool [] demo_system 1040)
       = Inr w')
   \<and> process_accrue_fees demo_sdk demo_pid (demo_info 10 False # tl demo_accrue_accounts)
       (demo_world outgrown_pool [] demo_system 1040) = Inl MissingRequiredSignature"
proof -
  have crank: "outcome (process_accrue_fees demo_sdk demo_pid accounts (demo_world outgrown_pool [] demo_system 1040))
      (first_fault (accrue_rows accounts outgrown_pool)) (Inr (demo_world outgrown_pool [] demo_system 1040))"
    if "accounts = demo_info 10 signed # tl demo_accrue_accounts" for accounts signed
    using that demo_holds [OF outgrown(1)] outgrown(2-4)
    by (intro accrue_outcome [OF demo_laws, where k = 20 and balance = 1040])
      (simp_all add: demo_accrue_accounts_def codec64.dec_enc codec64.length_enc)
  show ?thesis
    using crank [of demo_accrue_accounts True] crank [OF refl, of False] outgrown(5-8)
    by (simp add: accrue_rows_def demo_accrue_accounts_def)
qed

end
