(* ===== verification/Adoption.thy ===== *)
theory Adoption
  imports Deposit_Outcome
begin

text \<open>
  Account creation cannot be blocked by sending lamports to the address in advance.  The system program refuses to
  create an account at an address that holds lamports, so \<open>create_or_adopt_pda\<close> falls back to topping up,
  allocating and assigning the account.  Here both paths are shown to succeed from what the system program documents
  it accepts.
\<close>

section \<open>What the system program accepts\<close>

text \<open>Seeds that sign for an address: those it was derived from, with the bump.\<close>

definition signs_for :: "sdk \<Rightarrow> pubkey \<Rightarrow> seeds \<Rightarrow> pubkey \<Rightarrow> bool" where
  "signs_for S pid sd t \<longleftrightarrow> (\<exists>base b. sd = base @ [[b]] \<and> find_program_address S base pid = (t, b))"

text \<open>An account nobody has allocated: without data, owned by the system program, with any number of lamports.\<close>

definition unallocated :: "sdk \<Rightarrow> world \<Rightarrow> pubkey \<Rightarrow> bool" where
  "unallocated S w t \<longleftrightarrow> acc_owner (accts w t) = system_program_id S \<and> acc_data (accts w t) = []"

text \<open>A wallet that has signed and holds the lamports.\<close>

definition can_pay :: "sdk \<Rightarrow> world \<Rightarrow> account_info \<Rightarrow> u64 \<Rightarrow> bool" where
  "can_pay S w payer lam \<longleftrightarrow> unallocated S w (ai_key payer) \<and> ai_is_signer payer \<and> ai_is_writable payer
     \<and> lam \<le> acc_lamports (accts w (ai_key payer))"

definition unborrowed :: "world \<Rightarrow> account_info list \<Rightarrow> bool" where
  "unborrowed w infos \<longleftrightarrow> (\<forall>i \<in> set infos. ai_key i \<notin> set (mut_borrowed w))"

text \<open>The documented success conditions of the four system instructions the program uses.  Accounts grown during an
  instruction are limited to 10240 bytes.\<close>

definition system_service_law :: "sdk \<Rightarrow> pubkey \<Rightarrow> bool" where
  "system_service_law S pid \<longleftrightarrow> (\<forall>w payer target sys sd lam n own. let t = ai_key target in
     t \<noteq> ai_key payer \<longrightarrow> ai_is_writable target \<longrightarrow> ai_key sys = system_program_id S \<longrightarrow>
     unborrowed w [payer, target, sys] \<longrightarrow>
     (can_pay S w payer lam \<longrightarrow> unat (acc_lamports (accts w t)) + unat lam < 2 ^ 64 \<longrightarrow>
       (\<exists>w'. invoke S w (SystemTransfer (ai_key payer) t lam) [payer, target, sys] = Inr w'
          \<and> (unallocated S w t \<longrightarrow> unallocated S w' t) \<and> mut_borrowed w' = mut_borrowed w))
     \<and> (signs_for S pid sd t \<longrightarrow> unallocated S w t \<longrightarrow> unat n \<le> 10240 \<longrightarrow>
         (can_pay S w payer lam \<longrightarrow> acc_lamports (accts w t) = 0 \<longrightarrow>
            (\<exists>w'. invoke_signed S w (SystemCreateAccount (ai_key payer) t lam n own) [payer, target, sys] [sd] = Inr w'))
       \<and> (\<exists>w'. invoke_signed S w (SystemAllocate t n) [target, sys] [sd] = Inr w'
            \<and> acc_owner (accts w' t) = system_program_id S \<and> mut_borrowed w' = mut_borrowed w))
     \<and> (signs_for S pid sd t \<longrightarrow> acc_owner (accts w t) = system_program_id S \<longrightarrow>
         (\<exists>w'. invoke_signed S w (SystemAssign t own) [target, sys] [sd] = Inr w')))"

text \<open>The same conditions, for one account being opened.\<close>

lemma system_service:
  assumes "system_service_law S pid" and "ai_key target \<noteq> ai_key payer" and "ai_is_writable target"
    and "ai_key sys = system_program_id S" and "unborrowed w [payer, target, sys]"
  shows "can_pay S w payer lam \<Longrightarrow> unat (acc_lamports (accts w (ai_key target))) + unat lam < 2 ^ 64 \<Longrightarrow>
      \<exists>w'. invoke S w (SystemTransfer (ai_key payer) (ai_key target) lam) [payer, target, sys] = Inr w'
        \<and> (unallocated S w (ai_key target) \<longrightarrow> unallocated S w' (ai_key target)) \<and> mut_borrowed w' = mut_borrowed w"
    and "signs_for S pid sd (ai_key target) \<Longrightarrow> unallocated S w (ai_key target) \<Longrightarrow> unat n \<le> 10240 \<Longrightarrow>
      can_pay S w payer lam \<Longrightarrow> acc_lamports (accts w (ai_key target)) = 0 \<Longrightarrow>
      \<exists>w'. invoke_signed S w (SystemCreateAccount (ai_key payer) (ai_key target) lam n own) [payer, target, sys] [sd]
        = Inr w'"
    and "signs_for S pid sd (ai_key target) \<Longrightarrow> unallocated S w (ai_key target) \<Longrightarrow> unat n \<le> 10240 \<Longrightarrow>
      \<exists>w'. invoke_signed S w (SystemAllocate (ai_key target) n) [target, sys] [sd] = Inr w'
        \<and> acc_owner (accts w' (ai_key target)) = system_program_id S \<and> mut_borrowed w' = mut_borrowed w"
    and "signs_for S pid sd (ai_key target) \<Longrightarrow> acc_owner (accts w (ai_key target)) = system_program_id S \<Longrightarrow>
      \<exists>w'. invoke_signed S w (SystemAssign (ai_key target) own) [target, sys] [sd] = Inr w'"
  using assms unfolding system_service_law_def Let_def by blast+

section \<open>Creation always succeeds\<close>

lemma adopt:
  assumes law: "system_service_law S pid" and t: "ai_key target \<noteq> ai_key payer" "ai_is_writable target"
      "ai_key sys = system_program_id S" and free: "unborrowed w [payer, target, sys]"
    and sd: "signs_for S pid sd (ai_key target)" and blank: "unallocated S w (ai_key target)" and n: "unat n \<le> 10240"
  obtains w1 w' where "invoke_signed S w (SystemAllocate (ai_key target) n) [target, sys] [sd] = Inr w1"
    and "invoke_signed S w1 (SystemAssign (ai_key target) own) [target, sys] [sd] = Inr w'"
proof -
  obtain w1 where w1: "invoke_signed S w (SystemAllocate (ai_key target) n) [target, sys] [sd] = Inr w1"
    and own: "acc_owner (accts w1 (ai_key target)) = system_program_id S" and same: "mut_borrowed w1 = mut_borrowed w"
    using system_service(3) [OF law t free sd blank n] by blast
  have "unborrowed w1 [payer, target, sys]"
    using free same by (simp add: unborrowed_def)
  then show thesis
    using system_service(4) [OF law t _ sd own] w1 that by blast
qed

lemma adoption_core:
  assumes "system_service_law S pid" and "rent_minimum_balance S n = Inr need" and "n \<le> 10240"
    and "signs_for S pid sd (ai_key target)" and "unallocated S w (ai_key target)" and "can_pay S w payer need"
    and "ai_key target \<noteq> ai_key payer" and "ai_is_writable target" and "ai_key sys = system_program_id S"
    and "unborrowed w [payer, target, sys]"
  shows "\<exists>w'. create_or_adopt_pda S w target payer sys own n sd = Inr w'"
proof -
  note serve = system_service [OF assms(1,7-10)]
  have n: "unat (word_of_nat n :: u64) \<le> 10240"
    using assms(3) by (simp add: unat_of_nat)
  show ?thesis
  proof (cases "acc_lamports (accts w (ai_key target)) = 0")
    case True
    then show ?thesis
      using serve(2) [OF assms(4,5) n assms(6)] assms(2)
      by (simp add: create_or_adopt_pda_def info_lamports_def info_account_def)
  next
    case held: False
    let ?have = "acc_lamports (accts w (ai_key target))"
    have "\<exists>w1. (if ?have < need then invoke S w (SystemTransfer (ai_key payer) (ai_key target) (need - ?have))
        [payer, target, sys] else Inr w) = Inr w1 \<and> unallocated S w1 (ai_key target) \<and> mut_borrowed w1 = mut_borrowed w"
    proof (cases "?have < need")
      case True
      then have gap: "unat ?have + unat (need - ?have) < 2 ^ 64" "need - ?have \<le> need"
        using unat_bound [of need] by (simp_all add: unat_sub word_le_nat_alt word_less_nat_alt)
      then have "can_pay S w payer (need - ?have)"
        using assms(6) by (auto simp: can_pay_def)
      then show ?thesis
        using serve(1) [OF _ gap(1)] True assms(5) by auto
    next
      case False
      then show ?thesis
        using assms(5) by simp
    qed
    then obtain w1 where w1: "(if ?have < need then invoke S w (SystemTransfer (ai_key payer) (ai_key target) (need - ?have))
        [payer, target, sys] else Inr w) = Inr w1" "unallocated S w1 (ai_key target)" "mut_borrowed w1 = mut_borrowed w"
      by blast
    have "unborrowed w1 [payer, target, sys]"
      using assms(10) w1(3) by (simp add: unborrowed_def)
    then obtain w2 w' where
      "invoke_signed S w1 (SystemAllocate (ai_key target) (word_of_nat n)) [target, sys] [sd] = Inr w2"
      "invoke_signed S w2 (SystemAssign (ai_key target) own) [target, sys] [sd] = Inr w'"
      using adopt [OF assms(1,7-9) _ assms(4) w1(2) n] by blast
    then show ?thesis
      using w1(1) held assms(2) by (simp add: create_or_adopt_pda_def info_lamports_def info_account_def Let_def)
  qed
qed

text \<open>C22. Lamports sent in advance cannot block an account: whatever an unallocated address already holds, opening it with
  its own seeds and a payer who can afford the rent succeeds and leaves zeroed data of the wanted size owned by the
  program; the payer is asked for at most the rent.\<close>
theorem adoption_succeeds:
  assumes "system_service_law S pid" and "creation_law S" and "rent_minimum_balance S n = Inr need" and "n \<le> 10240"
    and "signs_for S pid sd (ai_key target)" and "unallocated S w (ai_key target)" and "can_pay S w payer need"
    and "ai_key target \<noteq> ai_key payer" and "ai_is_writable target" and "ai_key sys = system_program_id S"
    and "unborrowed w [payer, target, sys]"
  shows "\<exists>w'. create_or_adopt_pda S w target payer sys own n sd = Inr w'
    \<and> acc_data (accts w' (ai_key target)) = replicate n 0 \<and> acc_owner (accts w' (ai_key target)) = own"
  using adoption_core [OF assms(1,3-11)] create_or_adopt_pda_zeroed [OF assms(2), of n w target payer sys own sd] assms(4)
  by auto

text \<open>So a deposit record can be opened as soon as its address is unallocated, squatted or not.\<close>

lemma deposit_seeds_sign:
  "signs_for S pid (deposit_seeds k u (snd (derive_deposit_pda S pid k u))) (fst (derive_deposit_pda S pid k u))"
  unfolding signs_for_def deposit_seeds_def derive_deposit_pda_def
  by (intro exI [of _ "[seed_of ''stake_deposit'', key_bytes k, key_bytes u]"]) simp

lemma squatted_record_opens:
  assumes "system_service_law S pid" and "creation_law S" and "rent_minimum_balance S STAKE_DEPOSIT_SIZE = Inr need"
    and "system_program_id S \<noteq> spl_token_id S" and "k = ai_key (accounts ! 1)" and "u = ai_key (accounts ! 0)"
    and "ai_key (accounts ! 7) = fst (derive_deposit_pda S pid k u)" and "ai_is_writable (accounts ! 7)"
    and "ai_key (accounts ! 10) = system_program_id S" and "unallocated S w (ai_key (accounts ! 7))"
    and "unallocated S w3 (ai_key (accounts ! 7))" and "can_pay S w3 (accounts ! 0) need" and "ai_key (accounts ! 7) \<noteq> u"
    and "unborrowed w3 [accounts ! 0, accounts ! 7, accounts ! 10]"
  shows "record_opens S pid accounts w w3 n"
proof -
  have small: "STAKE_DEPOSIT_SIZE \<le> 10240"
    by (simp add: STAKE_DEPOSIT_SIZE_def)
  have "\<exists>w4. create_or_adopt_pda S w3 (accounts ! 7) (accounts ! 0) (accounts ! 10) pid STAKE_DEPOSIT_SIZE
      (deposit_seeds k u (snd (derive_deposit_pda S pid k u))) = Inr w4"
    using adoption_core [OF assms(1,3) small _ assms(11,12) _ assms(8,9,14)] deposit_seeds_sign assms(6,7,13) by simp
  then show ?thesis
    using assms(4-6,10) by (simp add: record_opens_def Let_def unallocated_def)
qed

section \<open>Example\<close>

text \<open>Somebody has sent one lamport to the address of the record of user 10.\<close>

definition squatted_world :: world where
  "squatted_world = \<lparr>accts = (\<lambda>k. \<lparr>acc_lamports = (if k = 22 then 1 else 1000), acc_owner = demo_system, acc_data = []\<rparr>),
     mut_borrowed = []\<rparr>"

lemma demo_service: "system_service_law demo_sdk demo_pid"
  by (auto simp: system_service_law_def Let_def demo_call_def demo_alloc_def demo_assign_def unallocated_def)

theorem adoption_succeeds_witness:
  "\<exists>w'. create_or_adopt_pda demo_sdk squatted_world (demo_info 22 False) (demo_info 10 True) (demo_info demo_system False)
      demo_pid 152 (deposit_seeds 20 10 255) = Inr w'
    \<and> acc_data (accts w' 22) = replicate 152 0 \<and> acc_owner (accts w' 22) = demo_pid"
proof -
  have seeds: "signs_for demo_sdk demo_pid (deposit_seeds 20 10 255) (ai_key (demo_info 22 False))"
    using deposit_seeds_sign [of demo_sdk demo_pid 20 10] by simp
  have rent: "rent_minimum_balance demo_sdk 152 = Inr 152"
    by simp
  show ?thesis
    using adoption_succeeds [OF demo_service demo_creation rent _ seeds, of squatted_world "demo_info 10 True"
        "demo_info demo_system False" demo_pid]
    by (simp add: unallocated_def can_pay_def unborrowed_def squatted_world_def demo_info_def)
qed

end
