(* ===== verification/Source_Tests.thy ===== *)
theory Source_Tests
  imports Processor_Admin Demo_Runtime
begin

text \<open>
  The unit tests inside the source files as definitions over the model: \<^verbatim>\<open>mod tests\<close> and
  \<^verbatim>\<open>mod hwm_tests\<close> of \<^verbatim>\<open>src/src/math.rs\<close>, \<^verbatim>\<open>mod tests\<close> of \<^verbatim>\<open>state.rs\<close>,
  \<^verbatim>\<open>instruction.rs\<close> and \<^verbatim>\<open>processor.rs\<close>.  Each is the conjunction of the assertions of one
  \<^verbatim>\<open>#[test]\<close> function; an \<open>unwrap\<close> of \<open>None\<close> makes it false, and keys from \<open>Pubkey::new_unique\<close> are
  arguments.  That they all hold ties the model to the behaviour the authors of the program pinned
  down.  The one call without an assertion, made to see that it does not panic (in
  \<open>math_test_weighted_slot_no_overflow_at_u64_max\<close>), adds nothing to its definition; \<open>Cooldown\<close>
  proves the formula for all arguments.  The tests that two derived addresses differ hold when the hash behind \<open>find_program_address\<close>
  does not collide on the seeds they use (\<open>no_collision\<close>).
\<close>

definition is_err :: "'e + 'a \<Rightarrow> bool" where
  "is_err r \<longleftrightarrow> (case r of Inl _ \<Rightarrow> True | Inr _ \<Rightarrow> False)"

section \<open>Tests of \<^verbatim>\<open>src/src/math.rs\<close>\<close>

definition math_test_first_depositor :: "bool" where
  "math_test_first_depositor \<longleftrightarrow>
     calc_lp_for_deposit 0 0 1000000 = Some 1000000"

definition math_test_pro_rata :: "bool" where
  "math_test_pro_rata \<longleftrightarrow>
     calc_lp_for_deposit 1000000 1000000 500000 = Some 500000"

definition math_test_withdraw_proportional :: "bool" where
  "math_test_withdraw_proportional \<longleftrightarrow>
     calc_collateral_for_withdraw 2000000 2000000 1000000 = Some 1000000"

definition math_test_rounding_down :: "bool" where
  "math_test_rounding_down \<longleftrightarrow>
     calc_lp_for_deposit 999999 1000000 1 = Some 0"

definition math_test_zero_supply_withdraw_none :: "bool" where
  "math_test_zero_supply_withdraw_none \<longleftrightarrow>
     calc_collateral_for_withdraw 0 100 10 = None"

definition math_test_roundtrip_no_profit :: "bool" where
  "math_test_roundtrip_no_profit \<longleftrightarrow>
     (case calc_lp_for_deposit 5000 10000 1000 of None \<Rightarrow> False | Some lp \<Rightarrow>
     lp = 500 \<and> (case calc_collateral_for_withdraw 5500 11000 500 of None \<Rightarrow> False | Some refund \<Rightarrow>
     refund = 1000))"

definition math_test_roundtrip_with_rounding_loss :: "bool" where
  "math_test_roundtrip_with_rounding_loss \<longleftrightarrow>
     (case calc_lp_for_deposit 3 10 7 of None \<Rightarrow> False | Some lp \<Rightarrow>
     lp = 2 \<and> (case calc_collateral_for_withdraw 5 17 2 of None \<Rightarrow> False | Some refund \<Rightarrow>
     refund = 6 \<and> refund \<le> 7))"

definition math_test_two_depositors_conservation :: "bool" where
  "math_test_two_depositors_conservation \<longleftrightarrow>
     (case calc_lp_for_deposit 0 0 100 of None \<Rightarrow> False | Some a_lp \<Rightarrow>
     a_lp = 100 \<and> (case calc_lp_for_deposit 100 100 50 of None \<Rightarrow> False | Some b_lp \<Rightarrow>
     b_lp = 50 \<and> (case calc_collateral_for_withdraw 150 150 100 of None \<Rightarrow> False | Some a_back \<Rightarrow>
     a_back = 100 \<and> (case calc_collateral_for_withdraw 50 50 50 of None \<Rightarrow> False | Some b_back \<Rightarrow>
     b_back = 50 \<and> a_back + b_back \<le> 100 + 50))))"

definition math_test_no_dilution_attack :: "bool" where
  "math_test_no_dilution_attack \<longleftrightarrow>
     (case calc_lp_for_deposit 0 0 1000 of None \<Rightarrow> False | Some a_lp \<Rightarrow>
     (case calc_collateral_for_withdraw a_lp 1000 a_lp of None \<Rightarrow> False | Some a_value_before \<Rightarrow>
     a_value_before = 1000 \<and> (case calc_lp_for_deposit 1000 1000 1 of None \<Rightarrow> False | Some b_lp \<Rightarrow>
     b_lp = 1 \<and> (case calc_collateral_for_withdraw 1001 1001 1000 of None \<Rightarrow> False | Some a_value_after \<Rightarrow>
     a_value_before \<le> a_value_after))))"

definition math_test_zero_deposit_zero_lp :: "bool" where
  "math_test_zero_deposit_zero_lp \<longleftrightarrow>
     calc_lp_for_deposit 100 200 0 = Some 0"

definition math_test_zero_burn_zero_col :: "bool" where
  "math_test_zero_burn_zero_col \<longleftrightarrow>
     calc_collateral_for_withdraw 100 200 0 = Some 0"

definition math_test_deposit_into_zero_value_pool_blocked :: "bool" where
  "math_test_deposit_into_zero_value_pool_blocked \<longleftrightarrow>
     calc_lp_for_deposit 100 0 50 = None"

definition math_test_deposit_orphaned_value_blocked :: "bool" where
  "math_test_deposit_orphaned_value_blocked \<longleftrightarrow>
     calc_lp_for_deposit 0 500 1 = None"

definition math_test_large_values_no_overflow :: "bool" where
  "math_test_large_values_no_overflow \<longleftrightarrow>
     (let m = u64_MAX div 2 in calc_lp_for_deposit m m m \<noteq> None \<and> calc_collateral_for_withdraw m m m \<noteq> None)"

definition math_test_u64_max_deposit :: "bool" where
  "math_test_u64_max_deposit \<longleftrightarrow>
     calc_lp_for_deposit u64_MAX u64_MAX u64_MAX = Some u64_MAX"

definition math_test_pool_value_normal :: "bool" where
  "math_test_pool_value_normal \<longleftrightarrow>
     pool_value 1000 300 = Some 700"

definition math_test_pool_value_overdrawn :: "bool" where
  "math_test_pool_value_overdrawn \<longleftrightarrow>
     pool_value 100 200 = None"

definition math_test_pool_value_exact :: "bool" where
  "math_test_pool_value_exact \<longleftrightarrow>
     pool_value 100 100 = Some 0"

definition math_test_flush_available_normal :: "bool" where
  "math_test_flush_available_normal \<longleftrightarrow>
     flush_available 1000 0 200 300 = 500"

definition math_test_flush_available_overdrawn :: "bool" where
  "math_test_flush_available_overdrawn \<longleftrightarrow>
     flush_available 100 0 200 0 = 0"

definition math_test_flush_available_fully_flushed :: "bool" where
  "math_test_flush_available_fully_flushed \<longleftrightarrow>
     flush_available 1000 0 200 800 = 0"

definition math_test_flush_available_over_flushed :: "bool" where
  "math_test_flush_available_over_flushed \<longleftrightarrow>
     flush_available 1000 0 200 900 = 0"

definition math_test_flush_available_returned_is_reflushable :: "bool" where
  "math_test_flush_available_returned_is_reflushable \<longleftrightarrow>
     flush_available 1000 300 0 500 = 800"

definition math_test_flush_available_full_return_restores_capacity :: "bool" where
  "math_test_flush_available_full_return_restores_capacity \<longleftrightarrow>
     flush_available 500 500 0 500 = 500"

definition math_test_weighted_slot_first_deposit_is_current :: "bool" where
  "math_test_weighted_slot_first_deposit_is_current \<longleftrightarrow>
     weighted_deposit_slot 0 0 1000 5000 0 = 5000"

definition math_test_weighted_slot_zero_lp_both_sides :: "bool" where
  "math_test_weighted_slot_zero_lp_both_sides \<longleftrightarrow>
     weighted_deposit_slot 0 100 0 5000 0 = 5000"

definition math_test_weighted_slot_tiny_topup_barely_moves_large_aged_position :: "bool" where
  "math_test_weighted_slot_tiny_topup_barely_moves_large_aged_position \<longleftrightarrow>
     (let s = weighted_deposit_slot 1000000 0 1 1000000 1000000
      in s = 1 \<and> s + 1000000 \<le> 1000000 + 2)"

definition math_test_weighted_slot_large_fresh_deposit_pulls_toward_now :: "bool" where
  "math_test_weighted_slot_large_fresh_deposit_pulls_toward_now \<longleftrightarrow>
     weighted_deposit_slot 1 0 1000000 1000000 1 = 1000000"

definition math_test_weighted_slot_equal_weights_floor_applied :: "bool" where
  "math_test_weighted_slot_equal_weights_floor_applied \<longleftrightarrow>
     weighted_deposit_slot 500 100 500 300 100 = 250"

definition math_test_weighted_slot_within_bounds_and_never_future :: "bool" where
  "math_test_weighted_slot_within_bounds_and_never_future \<longleftrightarrow>
     weighted_deposit_slot 123 1000 456 4000 0 \<le> 4000"

definition math_test_weighted_slot_no_overflow_at_u64_max :: "bool" where
  "math_test_weighted_slot_no_overflow_at_u64_max \<longleftrightarrow>
     weighted_deposit_slot u64_MAX u64_MAX u64_MAX u64_MAX 0 = u64_MAX"

definition math_test_lp_rounds_down_not_up :: "bool" where
  "math_test_lp_rounds_down_not_up \<longleftrightarrow>
     (case calc_lp_for_deposit 3 10 7 of None \<Rightarrow> False | Some lp \<Rightarrow>
     lp = 2 \<and> (ucast lp :: u128) * 10 \<le> 7 * 3)"

definition math_test_withdrawal_rounds_down_not_up :: "bool" where
  "math_test_withdrawal_rounds_down_not_up \<longleftrightarrow>
     (case calc_collateral_for_withdraw 7 10 3 of None \<Rightarrow> False | Some col \<Rightarrow>
     col = 4 \<and> (ucast col :: u128) * 7 \<le> 3 * 10)"

definition math_test_c9_orphaned_insurance_theft_blocked :: "bool" where
  "math_test_c9_orphaned_insurance_theft_blocked \<longleftrightarrow>
     calc_lp_for_deposit 0 10000000 1 = None"

definition math_test_c9_dilution_attack_blocked :: "bool" where
  "math_test_c9_dilution_attack_blocked \<longleftrightarrow>
     calc_lp_for_deposit 1000 0 500 = None"

definition math_test_c9_true_first_depositor_works :: "bool" where
  "math_test_c9_true_first_depositor_works \<longleftrightarrow>
     calc_lp_for_deposit 0 0 1000 = Some 1000"

definition math_test_c9_normal_pro_rata_unaffected :: "bool" where
  "math_test_c9_normal_pro_rata_unaffected \<longleftrightarrow>
     calc_lp_for_deposit 1000 2000 500 = Some 250"

definition math_test_larger_deposit_more_lp :: "bool" where
  "math_test_larger_deposit_more_lp \<longleftrightarrow>
     (case calc_lp_for_deposit 100 200 10 of None \<Rightarrow> False | Some small \<Rightarrow>
     (case calc_lp_for_deposit 100 200 20 of None \<Rightarrow> False | Some large \<Rightarrow>
     small \<le> large))"

definition math_test_larger_burn_more_collateral :: "bool" where
  "math_test_larger_burn_more_collateral \<longleftrightarrow>
     (case calc_collateral_for_withdraw 100 200 10 of None \<Rightarrow> False | Some small \<Rightarrow>
     (case calc_collateral_for_withdraw 100 200 20 of None \<Rightarrow> False | Some large \<Rightarrow>
     small \<le> large))"

definition math_test_pool_value_with_fees :: "bool" where
  "math_test_pool_value_with_fees \<longleftrightarrow>
     pool_value_with_fees 1000 200 100 = Some 900"

definition math_test_pool_value_with_fees_zero :: "bool" where
  "math_test_pool_value_with_fees_zero \<longleftrightarrow>
     pool_value_with_fees 1000 1000 0 = Some 0"

definition math_test_pool_value_with_fees_overflow :: "bool" where
  "math_test_pool_value_with_fees_overflow \<longleftrightarrow>
     pool_value_with_fees 100 200 50 = None"

definition math_test_fee_appreciation_increases_share_price :: "bool" where
  "math_test_fee_appreciation_increases_share_price \<longleftrightarrow>
     (case calc_collateral_for_withdraw 1000 1000 100 of None \<Rightarrow> False | Some lp_before \<Rightarrow>
     lp_before = 100 \<and> (case calc_collateral_for_withdraw 1000 1200 100 of None \<Rightarrow> False | Some lp_after \<Rightarrow>
     lp_after = 120))"

definition math_test_hwm_floor_basic :: "bool" where
  "math_test_hwm_floor_basic \<longleftrightarrow>
     hwm_floor 1000 5000 = Some 500 \<and> hwm_floor 1000 10000 = Some 1000 \<and> hwm_floor 1000 0 = Some 0"

definition math_test_hwm_withdrawal_allowed_above_floor :: "bool" where
  "math_test_hwm_withdrawal_allowed_above_floor \<longleftrightarrow>
     hwm_withdrawal_allowed 600 1000 5000"

definition math_test_hwm_withdrawal_allowed_at_floor :: "bool" where
  "math_test_hwm_withdrawal_allowed_at_floor \<longleftrightarrow>
     hwm_withdrawal_allowed 500 1000 5000"

definition math_test_hwm_withdrawal_blocked_below_floor :: "bool" where
  "math_test_hwm_withdrawal_blocked_below_floor \<longleftrightarrow>
     \<not> hwm_withdrawal_allowed 499 1000 5000"

definition math_test_hwm_zero_floor_always_allows :: "bool" where
  "math_test_hwm_zero_floor_always_allows \<longleftrightarrow>
     hwm_withdrawal_allowed 0 1000 0"

definition math_test_hwm_full_floor_requires_full :: "bool" where
  "math_test_hwm_full_floor_requires_full \<longleftrightarrow>
     \<not> hwm_withdrawal_allowed 999 1000 10000 \<and> hwm_withdrawal_allowed 1000 1000 10000"

section \<open>Tests of \<^verbatim>\<open>src/src/state.rs\<close>\<close>

definition state_test_stake_pool_size :: "bool" where
  "state_test_stake_pool_size \<longleftrightarrow>
     STAKE_POOL_SIZE = length (encode_pool zeroed_pool) \<and> STAKE_POOL_SIZE = 352"

definition state_test_stake_deposit_size :: "bool" where
  "state_test_stake_deposit_size \<longleftrightarrow>
     STAKE_DEPOSIT_SIZE = length (encode_deposit zeroed_deposit) \<and> STAKE_DEPOSIT_SIZE = 152"

definition state_test_pool_value_normal :: "bool" where
  "state_test_pool_value_normal \<longleftrightarrow>
     total_pool_value (zeroed_pool\<lparr>total_deposited := 1000, total_withdrawn := 300, total_flushed := 0, total_returned := 0\<rparr>) = Some 700"

definition state_test_pool_value_with_flush :: "bool" where
  "state_test_pool_value_with_flush \<longleftrightarrow>
     total_pool_value (zeroed_pool\<lparr>total_deposited := 1000, total_withdrawn := 0, total_flushed := 500, total_returned := 0\<rparr>) = Some 500"

definition state_test_pool_value_with_flush_and_returns :: "bool" where
  "state_test_pool_value_with_flush_and_returns \<longleftrightarrow>
     total_pool_value (zeroed_pool\<lparr>total_deposited := 1000, total_withdrawn := 300, total_flushed := 500, total_returned := 200\<rparr>) = Some 400"

definition state_test_pool_value_full_return_conservation :: "bool" where
  "state_test_pool_value_full_return_conservation \<longleftrightarrow>
     total_pool_value (zeroed_pool\<lparr>total_deposited := 1000, total_withdrawn := 0, total_flushed := 500, total_returned := 500\<rparr>) = Some 1000"

definition state_test_pool_value_overdrawn :: "bool" where
  "state_test_pool_value_overdrawn \<longleftrightarrow>
     total_pool_value (zeroed_pool\<lparr>total_deposited := 100, total_withdrawn := 200\<rparr>) = None"

definition state_test_pool_value_overflushed :: "bool" where
  "state_test_pool_value_overflushed \<longleftrightarrow>
     total_pool_value (zeroed_pool\<lparr>total_deposited := 1000, total_withdrawn := 0, total_flushed := 1001\<rparr>) = None"

definition state_test_calc_lp_first_depositor :: "bool" where
  "state_test_calc_lp_first_depositor \<longleftrightarrow>
     pool_calc_lp_for_deposit (zeroed_pool\<lparr>total_deposited := 0, total_withdrawn := 0, total_lp_supply := 0\<rparr>) 1000 = Some 1000"

definition state_test_calc_lp_pro_rata :: "bool" where
  "state_test_calc_lp_pro_rata \<longleftrightarrow>
     pool_calc_lp_for_deposit (zeroed_pool\<lparr>total_deposited := 2000, total_withdrawn := 0, total_lp_supply := 1000\<rparr>) 500 = Some 250"

definition state_test_calc_collateral_proportional :: "bool" where
  "state_test_calc_collateral_proportional \<longleftrightarrow>
     pool_calc_collateral_for_withdraw (zeroed_pool\<lparr>total_deposited := 2000, total_withdrawn := 0, total_lp_supply := 1000\<rparr>) 250 = Some 500"

definition state_test_pool_value_returns_overflow :: "bool" where
  "state_test_pool_value_returns_overflow \<longleftrightarrow>
     total_pool_value (zeroed_pool\<lparr>total_deposited := u64_MAX, total_withdrawn := 0, total_flushed := 0, total_returned := 1\<rparr>) = None"

definition state_test_pda_derivation_deterministic :: "sdk \<Rightarrow> pubkey \<Rightarrow> pubkey \<Rightarrow> bool" where
  "state_test_pda_derivation_deterministic S program_id slab_key \<longleftrightarrow>
     (let (pda1, bump1) = derive_pool_pda S program_id slab_key;
          (pda2, bump2) = derive_pool_pda S program_id slab_key
      in pda1 = pda2 \<and> bump1 = bump2)"

definition state_test_pda_different_slabs_different_pdas :: "sdk \<Rightarrow> pubkey \<Rightarrow> pubkey \<Rightarrow> pubkey \<Rightarrow> bool" where
  "state_test_pda_different_slabs_different_pdas S program_id slab1 slab2 \<longleftrightarrow>
     (let (pda1, _) = derive_pool_pda S program_id slab1;
          (pda2, _) = derive_pool_pda S program_id slab2
      in pda1 \<noteq> pda2)"

definition state_test_vault_auth_derives_from_pool :: "sdk \<Rightarrow> pubkey \<Rightarrow> pubkey \<Rightarrow> bool" where
  "state_test_vault_auth_derives_from_pool S program_id slab_key \<longleftrightarrow>
     (let (pool_pda, _) = derive_pool_pda S program_id slab_key;
          (vault_auth, _) = derive_vault_authority S program_id pool_pda;
          (vault_auth2, _) = derive_vault_authority S program_id pool_pda
      in vault_auth \<noteq> pool_pda \<and> vault_auth = vault_auth2)"

definition state_test_deposit_pda_per_user :: "sdk \<Rightarrow> pubkey \<Rightarrow> pubkey \<Rightarrow> pubkey \<Rightarrow> pubkey \<Rightarrow> bool" where
  "state_test_deposit_pda_per_user S program_id pool user1 user2 \<longleftrightarrow>
     (let (dep1, _) = derive_deposit_pda S program_id pool user1;
          (dep2, _) = derive_deposit_pda S program_id pool user2
      in dep1 \<noteq> dep2)"

definition state_test_deposit_pda_per_pool :: "sdk \<Rightarrow> pubkey \<Rightarrow> pubkey \<Rightarrow> pubkey \<Rightarrow> pubkey \<Rightarrow> bool" where
  "state_test_deposit_pda_per_pool S program_id pool1 pool2 user \<longleftrightarrow>
     (let (dep1, _) = derive_deposit_pda S program_id pool1 user;
          (dep2, _) = derive_deposit_pda S program_id pool2 user
      in dep1 \<noteq> dep2)"

definition state_test_pubkey_helpers :: "pubkey \<Rightarrow> pubkey \<Rightarrow> bool" where
  "state_test_pubkey_helpers key admin_key \<longleftrightarrow>
     (let p = zeroed_pool\<lparr>slab := key\<rparr>; q = p\<lparr>admin := admin_key\<rparr>
      in slab_pubkey p = key \<and> admin_pubkey q = admin_key)"

section \<open>Tests of \<^verbatim>\<open>src/src/instruction.rs\<close>\<close>

definition instruction_test_unpack_init_pool :: "bool" where
  "instruction_test_unpack_init_pool \<longleftrightarrow>
     unpack (0 # le_u64 100 @ le_u64 5000) = Inr (InitPool 100 5000)"

definition instruction_test_unpack_init_pool_too_short :: "bool" where
  "instruction_test_unpack_init_pool_too_short \<longleftrightarrow>
     is_err (unpack [0, 1, 2, 3])"

definition instruction_test_unpack_deposit :: "bool" where
  "instruction_test_unpack_deposit \<longleftrightarrow>
     unpack (1 # le_u64 42) = Inr (Deposit 42)"

definition instruction_test_unpack_withdraw :: "bool" where
  "instruction_test_unpack_withdraw \<longleftrightarrow>
     unpack (2 # le_u64 999) = Inr (Withdraw 999)"

definition instruction_test_unpack_flush :: "bool" where
  "instruction_test_unpack_flush \<longleftrightarrow>
     unpack (3 # le_u64 500) = Inr (FlushToInsurance 500)"

definition instruction_test_unpack_update_config_both :: "bool" where
  "instruction_test_unpack_update_config_both \<longleftrightarrow>
     unpack (4 # 1 # le_u64 200 @ 1 # le_u64 1000) = Inr (UpdateConfig (Some 200) (Some 1000))"

definition instruction_test_unpack_update_config_none :: "bool" where
  "instruction_test_unpack_update_config_none \<longleftrightarrow>
     unpack (4 # 0 # le_u64 0 @ 0 # le_u64 0) = Inr (UpdateConfig None None)"

definition instruction_test_unpack_transfer_admin :: "bool" where
  "instruction_test_unpack_transfer_admin \<longleftrightarrow>
     unpack [5] = Inr TransferAdmin"

definition instruction_test_unpack_risk_threshold :: "bool" where
  "instruction_test_unpack_risk_threshold \<longleftrightarrow>
     unpack (7 # le_u128 12345) = Inr (AdminSetRiskThreshold 12345)"

definition instruction_test_unpack_maintenance_fee :: "bool" where
  "instruction_test_unpack_maintenance_fee \<longleftrightarrow>
     unpack (8 # le_u128 77) = Inr (AdminSetMaintenanceFee 77)"

definition instruction_test_unpack_resolve_market :: "bool" where
  "instruction_test_unpack_resolve_market \<longleftrightarrow>
     unpack [9] = Inr AdminResolveMarket"

definition instruction_test_unpack_withdraw_insurance :: "bool" where
  "instruction_test_unpack_withdraw_insurance \<longleftrightarrow>
     unpack (10 # le_u64 1234) = Inr (AdminWithdrawInsurance 1234)"

definition instruction_test_unpack_invalid_tag :: "bool" where
  "instruction_test_unpack_invalid_tag \<longleftrightarrow>
     is_err (unpack [255])"

definition instruction_test_unpack_empty :: "bool" where
  "instruction_test_unpack_empty \<longleftrightarrow>
     is_err (unpack [])"

definition instruction_test_unpack_max_values :: "bool" where
  "instruction_test_unpack_max_values \<longleftrightarrow>
     unpack (1 # le_u64 u64_MAX) = Inr (Deposit u64_MAX)"

section \<open>Tests of \<^verbatim>\<open>src/src/processor.rs\<close>\<close>

definition processor_vault_insurance_authority_guard_accepts_vault_auth :: "sdk \<Rightarrow> pubkey \<Rightarrow> pubkey \<Rightarrow> bool" where
  "processor_vault_insurance_authority_guard_accepts_vault_auth S program_id pool_pda \<longleftrightarrow>
     (let (vault_auth, vault_auth_bump) = derive_vault_authority S program_id pool_pda
      in validate_vault_insurance_authority S program_id pool_pda vault_auth vault_auth = Inr vault_auth_bump)"

definition processor_vault_insurance_authority_guard_rejects_external_authority :: "sdk \<Rightarrow> pubkey \<Rightarrow> pubkey \<Rightarrow> pubkey \<Rightarrow> bool" where
  "processor_vault_insurance_authority_guard_rejects_external_authority S program_id pool_pda external_authority \<longleftrightarrow>
     validate_vault_insurance_authority S program_id pool_pda external_authority external_authority
      = Inl MissingRequiredSignature"

definition processor_vault_insurance_authority_guard_rejects_mismatched_requested_authority :: "sdk \<Rightarrow> pubkey \<Rightarrow> pubkey \<Rightarrow> pubkey \<Rightarrow> bool" where
  "processor_vault_insurance_authority_guard_rejects_mismatched_requested_authority S program_id pool_pda external_authority \<longleftrightarrow>
     (let (vault_auth, _) = derive_vault_authority S program_id pool_pda
      in validate_vault_insurance_authority S program_id pool_pda vault_auth external_authority
         = Inl (stake_err InvalidAccount))"

definition processor_return_vault_guard_accepts_pool_vault :: "pubkey \<Rightarrow> bool" where
  "processor_return_vault_guard_accepts_pool_vault v \<longleftrightarrow>
     \<not> is_err (validate_return_vault (zeroed_pool\<lparr>vault := v\<rparr>) v)"

definition processor_return_vault_guard_rejects_non_pool_vault :: "pubkey \<Rightarrow> pubkey \<Rightarrow> bool" where
  "processor_return_vault_guard_rejects_non_pool_vault canonical_vault wrong_vault \<longleftrightarrow>
     validate_return_vault (zeroed_pool\<lparr>vault := canonical_vault\<rparr>) wrong_vault = Inl (stake_err InvalidPda)"

definition processor_test_pre_supply_vault_offset_excludes_zero_lp_dust_from_later_accrual :: "bool" where
  "processor_test_pre_supply_vault_offset_excludes_zero_lp_dust_from_later_accrual \<longleftrightarrow>
     (let p = zeroed_pool\<lparr>is_initialized := 1, pool_mode := 1, total_lp_supply := 0, total_deposited := 0,
            total_withdrawn := 0, total_fees_earned := 0\<rparr>;
          p = (set_pre_supply_vault_offset 1 p)\<lparr>total_lp_supply := 100, total_deposited := 100\<rparr>
      in case Option.bind (accrual_baseline p) (\<lambda>v. checked_add v (pre_supply_vault_offset p)) of
           None \<Rightarrow> False
         | Some baseline \<Rightarrow> baseline = 101 \<and> saturating_sub 101 baseline = 0)"

definition processor_flush_pool_mode_guard_allows_insurance_pools :: "bool" where
  "processor_flush_pool_mode_guard_allows_insurance_pools \<longleftrightarrow>
     \<not> is_err (validate_flush_pool_mode (zeroed_pool\<lparr>pool_mode := 0\<rparr>))"

definition processor_flush_pool_mode_guard_rejects_trading_pools :: "bool" where
  "processor_flush_pool_mode_guard_rejects_trading_pools \<longleftrightarrow>
     validate_flush_pool_mode (zeroed_pool\<lparr>pool_mode := 1\<rparr>) = Inl (stake_err InvalidPoolMode)"

definition math_tests :: "bool list" where
  "math_tests =
     [math_test_first_depositor,
      math_test_pro_rata,
      math_test_withdraw_proportional,
      math_test_rounding_down,
      math_test_zero_supply_withdraw_none,
      math_test_roundtrip_no_profit,
      math_test_roundtrip_with_rounding_loss,
      math_test_two_depositors_conservation,
      math_test_no_dilution_attack,
      math_test_zero_deposit_zero_lp,
      math_test_zero_burn_zero_col,
      math_test_deposit_into_zero_value_pool_blocked,
      math_test_deposit_orphaned_value_blocked,
      math_test_large_values_no_overflow,
      math_test_u64_max_deposit,
      math_test_pool_value_normal,
      math_test_pool_value_overdrawn,
      math_test_pool_value_exact,
      math_test_flush_available_normal,
      math_test_flush_available_overdrawn,
      math_test_flush_available_fully_flushed,
      math_test_flush_available_over_flushed,
      math_test_flush_available_returned_is_reflushable,
      math_test_flush_available_full_return_restores_capacity,
      math_test_weighted_slot_first_deposit_is_current,
      math_test_weighted_slot_zero_lp_both_sides,
      math_test_weighted_slot_tiny_topup_barely_moves_large_aged_position,
      math_test_weighted_slot_large_fresh_deposit_pulls_toward_now,
      math_test_weighted_slot_equal_weights_floor_applied,
      math_test_weighted_slot_within_bounds_and_never_future,
      math_test_weighted_slot_no_overflow_at_u64_max,
      math_test_lp_rounds_down_not_up,
      math_test_withdrawal_rounds_down_not_up,
      math_test_c9_orphaned_insurance_theft_blocked,
      math_test_c9_dilution_attack_blocked,
      math_test_c9_true_first_depositor_works,
      math_test_c9_normal_pro_rata_unaffected,
      math_test_larger_deposit_more_lp,
      math_test_larger_burn_more_collateral,
      math_test_pool_value_with_fees,
      math_test_pool_value_with_fees_zero,
      math_test_pool_value_with_fees_overflow,
      math_test_fee_appreciation_increases_share_price,
      math_test_hwm_floor_basic,
      math_test_hwm_withdrawal_allowed_above_floor,
      math_test_hwm_withdrawal_allowed_at_floor,
      math_test_hwm_withdrawal_blocked_below_floor,
      math_test_hwm_zero_floor_always_allows,
      math_test_hwm_full_floor_requires_full]"

definition state_tests :: "bool list" where
  "state_tests =
     [state_test_stake_pool_size,
      state_test_stake_deposit_size,
      state_test_pool_value_normal,
      state_test_pool_value_with_flush,
      state_test_pool_value_with_flush_and_returns,
      state_test_pool_value_full_return_conservation,
      state_test_pool_value_overdrawn,
      state_test_pool_value_overflushed,
      state_test_calc_lp_first_depositor,
      state_test_calc_lp_pro_rata,
      state_test_calc_collateral_proportional,
      state_test_pool_value_returns_overflow]"

definition instruction_tests :: "bool list" where
  "instruction_tests =
     [instruction_test_unpack_init_pool,
      instruction_test_unpack_init_pool_too_short,
      instruction_test_unpack_deposit,
      instruction_test_unpack_withdraw,
      instruction_test_unpack_flush,
      instruction_test_unpack_update_config_both,
      instruction_test_unpack_update_config_none,
      instruction_test_unpack_transfer_admin,
      instruction_test_unpack_risk_threshold,
      instruction_test_unpack_maintenance_fee,
      instruction_test_unpack_resolve_market,
      instruction_test_unpack_withdraw_insurance,
      instruction_test_unpack_invalid_tag,
      instruction_test_unpack_empty,
      instruction_test_unpack_max_values]"

definition processor_tests :: "bool list" where
  "processor_tests =
     [processor_test_pre_supply_vault_offset_excludes_zero_lp_dust_from_later_accrual,
      processor_flush_pool_mode_guard_allows_insurance_pools,
      processor_flush_pool_mode_guard_rejects_trading_pools]"

section \<open>They pass\<close>

lemmas math_test_defs =
  math_test_first_depositor_def math_test_pro_rata_def math_test_withdraw_proportional_def
  math_test_rounding_down_def math_test_zero_supply_withdraw_none_def
  math_test_roundtrip_no_profit_def math_test_roundtrip_with_rounding_loss_def
  math_test_two_depositors_conservation_def math_test_no_dilution_attack_def
  math_test_zero_deposit_zero_lp_def math_test_zero_burn_zero_col_def
  math_test_deposit_into_zero_value_pool_blocked_def math_test_deposit_orphaned_value_blocked_def
  math_test_large_values_no_overflow_def math_test_u64_max_deposit_def
  math_test_pool_value_normal_def math_test_pool_value_overdrawn_def math_test_pool_value_exact_def
  math_test_flush_available_normal_def math_test_flush_available_overdrawn_def
  math_test_flush_available_fully_flushed_def math_test_flush_available_over_flushed_def
  math_test_flush_available_returned_is_reflushable_def
  math_test_flush_available_full_return_restores_capacity_def
  math_test_weighted_slot_first_deposit_is_current_def
  math_test_weighted_slot_zero_lp_both_sides_def
  math_test_weighted_slot_tiny_topup_barely_moves_large_aged_position_def
  math_test_weighted_slot_large_fresh_deposit_pulls_toward_now_def
  math_test_weighted_slot_equal_weights_floor_applied_def
  math_test_weighted_slot_within_bounds_and_never_future_def
  math_test_weighted_slot_no_overflow_at_u64_max_def math_test_lp_rounds_down_not_up_def
  math_test_withdrawal_rounds_down_not_up_def math_test_c9_orphaned_insurance_theft_blocked_def
  math_test_c9_dilution_attack_blocked_def math_test_c9_true_first_depositor_works_def
  math_test_c9_normal_pro_rata_unaffected_def math_test_larger_deposit_more_lp_def
  math_test_larger_burn_more_collateral_def math_test_pool_value_with_fees_def
  math_test_pool_value_with_fees_zero_def math_test_pool_value_with_fees_overflow_def
  math_test_fee_appreciation_increases_share_price_def math_test_hwm_floor_basic_def
  math_test_hwm_withdrawal_allowed_above_floor_def math_test_hwm_withdrawal_allowed_at_floor_def
  math_test_hwm_withdrawal_blocked_below_floor_def math_test_hwm_zero_floor_always_allows_def
  math_test_hwm_full_floor_requires_full_def

lemmas state_test_defs =
  state_test_stake_pool_size_def state_test_stake_deposit_size_def state_test_pool_value_normal_def
  state_test_pool_value_with_flush_def state_test_pool_value_with_flush_and_returns_def
  state_test_pool_value_full_return_conservation_def state_test_pool_value_overdrawn_def
  state_test_pool_value_overflushed_def state_test_calc_lp_first_depositor_def
  state_test_calc_lp_pro_rata_def state_test_calc_collateral_proportional_def
  state_test_pool_value_returns_overflow_def

lemmas instruction_test_defs =
  instruction_test_unpack_init_pool_def instruction_test_unpack_init_pool_too_short_def
  instruction_test_unpack_deposit_def instruction_test_unpack_withdraw_def
  instruction_test_unpack_flush_def instruction_test_unpack_update_config_both_def
  instruction_test_unpack_update_config_none_def instruction_test_unpack_transfer_admin_def
  instruction_test_unpack_risk_threshold_def instruction_test_unpack_maintenance_fee_def
  instruction_test_unpack_resolve_market_def instruction_test_unpack_withdraw_insurance_def
  instruction_test_unpack_invalid_tag_def instruction_test_unpack_empty_def
  instruction_test_unpack_max_values_def

lemmas processor_test_defs =
  processor_vault_insurance_authority_guard_accepts_vault_auth_def
  processor_vault_insurance_authority_guard_rejects_external_authority_def
  processor_vault_insurance_authority_guard_rejects_mismatched_requested_authority_def
  processor_return_vault_guard_accepts_pool_vault_def
  processor_return_vault_guard_rejects_non_pool_vault_def
  processor_test_pre_supply_vault_offset_excludes_zero_lp_dust_from_later_accrual_def
  processor_flush_pool_mode_guard_allows_insurance_pools_def
  processor_flush_pool_mode_guard_rejects_trading_pools_def

lemma slot_eval:
  "weighted_deposit_slot e s n c cd = x \<longleftrightarrow>
    weighted_slot_spec (unat e) (unat s) (unat n) (unat c) (unat cd) = unat x"
  "weighted_deposit_slot e s n c cd \<le> x \<longleftrightarrow>
    weighted_slot_spec (unat e) (unat s) (unat n) (unat c) (unat cd) \<le> unat x"
  by (simp_all add: unat_eq_iff unat_le_iff weighted_deposit_slot_exact)

lemmas test_eval = share_eval checked_add_def checked_sub_def saturating_add_def saturating_sub_def
  pool_value_def pool_value_with_fees_def flush_available_def hwm_floor_def hwm_withdrawal_allowed_def
  slot_eval weighted_slot_spec_def Let_def

lemma tiny_topup: "weighted_deposit_slot 1000000 0 1 1000000 1000000 = 1"
  by (simp add: test_eval)

lemma unat_u64_MAX: "unat u64_MAX = 18446744073709551615"
  by (simp add: unsigned_minus_1_eq_mask mask_eq_exp_minus_1)

lemma math_tests_pass: "list_all id math_tests"
  unfolding math_tests_def list.pred_inject id_apply
  by (intro conjI TrueI) (simp_all add: math_test_defs tiny_topup, simp_all add: test_eval unat_u64_MAX)

lemma state_tests_pass: "list_all id state_tests"
  unfolding state_tests_def list.pred_inject id_apply
  by (intro conjI TrueI)
    (simp_all add: state_test_defs length_encode_pool length_encode_deposit STAKE_POOL_SIZE_def STAKE_DEPOSIT_SIZE_def
      total_pool_value_def pool_calc_lp_for_deposit_def pool_calc_collateral_for_withdraw_def,
     simp_all add: zeroed_pool_def test_eval unwrap_or_def unat_u64_MAX)

lemma instruction_tests_pass: "list_all id instruction_tests"
proof -
  have accepts: "unpack (pack i) = Inr i" for i
    using unpack_pack [of i "[]"] by simp
  note wire = accepts [of "InitPool 100 5000"] accepts [of "Deposit 42"] accepts [of "Withdraw 999"]
    accepts [of "FlushToInsurance 500"] accepts [of "UpdateConfig (Some 200) (Some 1000)"]
    accepts [of "UpdateConfig None None"] accepts [of TransferAdmin] accepts [of "AdminSetRiskThreshold 12345"]
    accepts [of "AdminSetMaintenanceFee 77"] accepts [of AdminResolveMarket]
    accepts [of "AdminWithdrawInsurance 1234"] accepts [of "Deposit u64_MAX"]
  have bad: "is_err (unpack [0, 1, 2, 3])" "is_err (unpack [255])" "is_err (unpack [])"
    by (simp_all add: is_err_def unpack_def)
  have zero: "le_u64 0 = replicate 8 0"
    using codec64.enc_dec [of "replicate 8 0"] by (simp add: from_le_bytes_zero)
  show ?thesis
    unfolding instruction_tests_def list.pred_inject id_apply instruction_test_defs
    using wire bad zero by (simp add: pack_option_def)
qed

lemma dust_test: "processor_test_pre_supply_vault_offset_excludes_zero_lp_dust_from_later_accrual"
proof -
  let ?p = "zeroed_pool\<lparr>is_initialized := 1, pool_mode := 1, total_lp_supply := 0, total_deposited := 0,
    total_withdrawn := 0, total_fees_earned := 0\<rparr>"
  let ?q = "(set_pre_supply_vault_offset 1 ?p)\<lparr>total_lp_supply := 100, total_deposited := 100\<rparr>"
  have "wf_pool ?p"
    using wf_zeroed(1) by (simp add: wf_pool_def)
  then have "pre_supply_vault_offset (set_pre_supply_vault_offset 1 ?p) = 1"
    by (rule offset_field.get_put)
  then have offset: "pre_supply_vault_offset ?q = 1"
    by (simp add: pre_supply_vault_offset_def)
  have "accrual_baseline ?q = Some 100"
    by (simp add: accrual_baseline_Some zeroed_pool_def)
  with offset show ?thesis
    by (simp add: processor_test_pre_supply_vault_offset_excludes_zero_lp_dust_from_later_accrual_def
        checked_add_def saturating_sub_def)
qed

lemma processor_tests_pass: "list_all id processor_tests"
  unfolding processor_tests_def list.pred_inject id_apply
  by (intro conjI TrueI dust_test) (simp_all add: processor_test_defs is_err_def validate_flush_pool_mode_def)

text \<open>The tests with arbitrary keys, distinct as \<open>new_unique\<close> makes them.\<close>

lemma key_tests_pass:
  "processor_vault_insurance_authority_guard_accepts_vault_auth S program_id pool_pda"
  "fst (derive_vault_authority S program_id pool_pda) \<noteq> external_authority \<Longrightarrow>
    processor_vault_insurance_authority_guard_rejects_external_authority S program_id pool_pda external_authority"
  "fst (derive_vault_authority S program_id pool_pda) \<noteq> external_authority \<Longrightarrow>
    processor_vault_insurance_authority_guard_rejects_mismatched_requested_authority S program_id pool_pda
      external_authority"
  "processor_return_vault_guard_accepts_pool_vault v"
  "canonical_vault \<noteq> wrong_vault \<Longrightarrow> processor_return_vault_guard_rejects_non_pool_vault canonical_vault wrong_vault"
  by (auto simp: processor_test_defs validate_vault_insurance_authority_def validate_return_vault_def is_err_def
      split: prod.splits)

text \<open>No collision between two lists of seeds: different seeds, different addresses.  It cannot be asked of all
  seeds, since there are more of them than addresses.\<close>

definition no_collision :: "sdk \<Rightarrow> pubkey \<Rightarrow> seeds \<Rightarrow> seeds \<Rightarrow> bool" where
  "no_collision S program_id s t \<longleftrightarrow>
     (s \<noteq> t \<longrightarrow> fst (find_program_address S s program_id) \<noteq> fst (find_program_address S t program_id))"

abbreviation slab_seeds :: "pubkey \<Rightarrow> seeds" where
  "slab_seeds k \<equiv> [seed_of ''stake_pool'', key_bytes k]"

abbreviation authority_seeds :: "pubkey \<Rightarrow> seeds" where
  "authority_seeds k \<equiv> [seed_of ''vault_auth'', key_bytes k]"

abbreviation user_seeds :: "pubkey \<Rightarrow> pubkey \<Rightarrow> seeds" where
  "user_seeds k u \<equiv> [seed_of ''stake_deposit'', key_bytes k, key_bytes u]"

lemma address_tests_pass:
  "state_test_pda_derivation_deterministic S program_id s"
  "s \<noteq> t \<Longrightarrow> no_collision S program_id (slab_seeds s) (slab_seeds t) \<Longrightarrow>
    state_test_pda_different_slabs_different_pdas S program_id s t"
  "no_collision S program_id (slab_seeds s) (authority_seeds (fst (derive_pool_pda S program_id s))) \<Longrightarrow>
    state_test_vault_auth_derives_from_pool S program_id s"
  "u \<noteq> v \<Longrightarrow> no_collision S program_id (user_seeds s u) (user_seeds s v) \<Longrightarrow>
    state_test_deposit_pda_per_user S program_id s u v"
  "s \<noteq> t \<Longrightarrow> no_collision S program_id (user_seeds s u) (user_seeds t u) \<Longrightarrow>
    state_test_deposit_pda_per_pool S program_id s t u"
  "state_test_pubkey_helpers s t"
  by (simp_all add: no_collision_def state_test_pda_derivation_deterministic_def
      state_test_pda_different_slabs_different_pdas_def state_test_vault_auth_derives_from_pool_def
      state_test_deposit_pda_per_user_def state_test_deposit_pda_per_pool_def state_test_pubkey_helpers_def
      derive_pool_pda_def derive_vault_authority_def derive_deposit_pda_def codec_key.enc_inject case_prod_unfold Let_def
      slab_pubkey_def admin_pubkey_def seed_of_def eq_commute)

text \<open>The model passes the program's own unit tests: every assertion of the test modules of
  \<^verbatim>\<open>math.rs\<close>, \<^verbatim>\<open>state.rs\<close>, \<^verbatim>\<open>instruction.rs\<close> and \<^verbatim>\<open>processor.rs\<close> holds of the definitions that model these
  files.  The tests on fresh keys hold for all keys that are distinct where the test needs it; those that two derived
  addresses differ hold whenever the address function does not collide on the seeds of the test.\<close>
lemma source_tests_pass:
  "list_all id (math_tests @ state_tests @ instruction_tests @ processor_tests)
   \<and> (\<forall>S program_id pool_pda. processor_vault_insurance_authority_guard_accepts_vault_auth S program_id pool_pda)
   \<and> (\<forall>S program_id pool_pda external. fst (derive_vault_authority S program_id pool_pda) \<noteq> external \<longrightarrow>
       processor_vault_insurance_authority_guard_rejects_external_authority S program_id pool_pda external
       \<and> processor_vault_insurance_authority_guard_rejects_mismatched_requested_authority S program_id pool_pda external)
   \<and> (\<forall>v. processor_return_vault_guard_accepts_pool_vault v)
   \<and> (\<forall>v wrong. v \<noteq> wrong \<longrightarrow> processor_return_vault_guard_rejects_non_pool_vault v wrong)
   \<and> (\<forall>key admin_key. state_test_pubkey_helpers key admin_key)
   \<and> (\<forall>S program_id s. state_test_pda_derivation_deterministic S program_id s)
   \<and> (\<forall>S program_id s t. s \<noteq> t \<longrightarrow> no_collision S program_id (slab_seeds s) (slab_seeds t) \<longrightarrow>
       state_test_pda_different_slabs_different_pdas S program_id s t)
   \<and> (\<forall>S program_id s. no_collision S program_id (slab_seeds s) (authority_seeds (fst (derive_pool_pda S program_id s))) \<longrightarrow>
       state_test_vault_auth_derives_from_pool S program_id s)
   \<and> (\<forall>S program_id s u v. u \<noteq> v \<longrightarrow> no_collision S program_id (user_seeds s u) (user_seeds s v) \<longrightarrow>
       state_test_deposit_pda_per_user S program_id s u v)
   \<and> (\<forall>S program_id s t u. s \<noteq> t \<longrightarrow> no_collision S program_id (user_seeds s u) (user_seeds t u) \<longrightarrow>
       state_test_deposit_pda_per_pool S program_id s t u)"
  using math_tests_pass state_tests_pass instruction_tests_pass processor_tests_pass key_tests_pass address_tests_pass
  by (auto simp: list_all_append)

text \<open>An address function that tells the seeds of the tests apart.\<close>

definition apart_sdk :: sdk where
  "apart_sdk = demo_sdk\<lparr>find_program_address := (\<lambda>sds pid. (case sds of
      [a, b] \<Rightarrow> if a = seed_of ''stake_pool'' then key_of b else key_of b + 1
    | [a, b, c] \<Rightarrow> key_of b * 1000 + key_of c | _ \<Rightarrow> 0, 255))\<rparr>"

lemma source_tests_pass_example:
  "processor_return_vault_guard_rejects_non_pool_vault 30 31
   \<and> processor_vault_insurance_authority_guard_rejects_external_authority apart_sdk demo_pid 20 50
   \<and> state_test_pda_different_slabs_different_pdas apart_sdk demo_pid 12 13
   \<and> state_test_vault_auth_derives_from_pool apart_sdk demo_pid 12
   \<and> state_test_deposit_pda_per_user apart_sdk demo_pid 20 10 11
   \<and> state_test_deposit_pda_per_pool apart_sdk demo_pid 20 21 10"
proof -
  have "no_collision apart_sdk demo_pid (slab_seeds 12) (slab_seeds 13)"
    "no_collision apart_sdk demo_pid (slab_seeds 12) (authority_seeds (fst (derive_pool_pda apart_sdk demo_pid 12)))"
    "no_collision apart_sdk demo_pid (user_seeds 20 10) (user_seeds 20 11)"
    "no_collision apart_sdk demo_pid (user_seeds 20 10) (user_seeds 21 10)"
    "fst (derive_vault_authority apart_sdk demo_pid 20) \<noteq> 50"
    by (simp_all add: no_collision_def apart_sdk_def codec_key.dec_enc derive_pool_pda_def derive_vault_authority_def
        seed_of_def)
  then show ?thesis
    using source_tests_pass by (simp del: id_apply)
qed

end
