(* ===== verification/Spec2Isabelle.thy ===== *)
theory Spec2Isabelle
  imports Kani_Harness Bystanders Accrue_Outcome Adoption Source_Tests
begin

text \<open>
  \<^bold>\<open>Verification of the percolator insurance and trading LP vault\<close>

  The program under \<^verbatim>\<open>src/src\<close> is a Solana on-chain program.  Users deposit collateral into the vault
  of a pool and receive LP tokens in proportion to the pool's value; after a cooldown they burn LP
  tokens for their part of it.  An insurance pool (mode 0) can flush idle collateral into the
  insurance fund of a perpetuals program, the wrapper, and take it back after resolution; a trading
  pool (mode 1) instead accrues the fees that land in its vault.  A high-water mark can forbid
  withdrawals that take a pool below a fraction of the epoch's peak.

  \<^bold>\<open>Theories and the code they model\<close>

  \<^item> \<open>Vault_Prelude\<close>, \<open>Byte_Codec\<close>: Rust's checked and saturating integer operations on words, the
    \<open>?\<close> operator, little-endian encodings.
  \<^item> \<open>Share_Math\<close>, \<open>Lp_Math\<close>, \<open>Cooldown\<close>: \<^verbatim>\<open>src/src/math.rs\<close>.  \<open>Share_Math\<close> is the contract of a
    pair of share functions as a locale; \<open>Lp_Math\<close> interprets it on the production functions.
  \<^item> \<open>Kani_Mirror\<close>, \<open>Kani_Harness\<close>: \<^verbatim>\<open>src/kani-proofs/src/lib.rs\<close>, the u32 mirror (a second
    interpretation of the share contract), in a type where a call can panic, its agreement with production,
    and the 43 proof harnesses that run on it.
  \<^item> \<open>Source_Tests\<close>: the unit tests inside the source files, evaluated on the model.
  \<^item> \<open>Stake_Error\<close>, \<open>Stake_Instruction\<close>: \<^verbatim>\<open>src/src/error.rs\<close> and \<^verbatim>\<open>src/src/instruction.rs\<close>.
  \<^item> \<open>Pool_State\<close>, \<open>Pool_Layout\<close>: \<^verbatim>\<open>src/src/state.rs\<close>: the two account structs as records, the fields
    packed into the reserved bytes, pool value and high-water mark, and the byte layout through
    which the program reads and writes accounts.
  \<^item> \<open>Runtime\<close>: the program's view of Solana (below), and the address derivations of
    \<^verbatim>\<open>src/src/state.rs\<close>.
  \<^item> \<open>Wrapper_Cpi\<close>: \<^verbatim>\<open>src/src/cpi.rs\<close>, the calls into the wrapper.
  \<^item> \<open>Processor_Core\<close>, \<open>Processor_User\<close>, \<open>Processor_Admin\<close>: \<^verbatim>\<open>src/src/processor.rs\<close> and
    \<^verbatim>\<open>src/src/entrypoint.rs\<close>.  Each handler is one definition with the name it has in the source, and
    performs the account fetches, checks, calls and writes of the source in their order.
  \<^item> \<open>Pool_Machine\<close>: the transition system of a pool record (\<open>pool_step\<close>) and the abstract share
    ledger (\<open>ledger_step\<close>), with the invariants of reachable pools.
  \<^item> \<open>Handler_Effects\<close>, \<open>Refinement\<close>: what a successful run of each handler has checked and done, and
    that every handler, the dispatch and the entrypoint satisfy the contract \<open>pool_handler\<close>.
  \<^item> \<open>Vault_System\<close>: account creation and histories of transactions.
  \<^item> \<open>Books_Frame\<close>: the contract \<open>books_frame\<close> of a quantity of the ledger that only instructions for one
    pool move, with the proof that it survives every other instruction.  \<open>Records\<close> interprets it on
    the deposit records of a pool.  \<open>Guarded_Asset\<close> extends the contract to a token account that only the
    pool's own authority can move, and \<open>Asset_Moves\<close> derives what each of the five instructions that do move
    it may do; \<open>Custody\<close> interprets that on the vault and \<open>Lp_Mint\<close> on the LP mint.  \<open>Vault_Funded\<close> compares
    the vault with the records, and \<open>Pool_History\<close> follows records, vault and mint from the creation of a
    pool through any history.
  \<^item> \<open>User_Properties\<close>, \<open>Admin_Properties\<close>: what a successful call has checked and left behind.
    \<open>Deposit_Outcome\<close>, \<open>Withdraw_Outcome\<close>, \<open>Accrue_Outcome\<close>, \<open>Admin_Outcome\<close>: what a request comes to, the
    error of every refusal in the order of the checks, and success otherwise.  \<open>Adoption\<close>: account creation
    on addresses that already hold lamports.  \<open>Bystanders\<close>: what others can and cannot do to a depositor.
  \<^item> \<open>Demo_Runtime\<close> and \<open>Demo_Bank\<close>: two concrete runtimes and concrete accounts on which the properties
    with hypotheses are evaluated, the second with a token program that checks signatures and balances.

  \<^bold>\<open>State, errors and the runtime\<close>

  The state is a store of accounts keyed by address, with the list of accounts whose data is
  mutably borrowed; two account infos with the same key alias the same account, as in Solana.  A
  handler returns the store it leaves or the fault that aborts the transaction, a Rust panic
  included; the runtime rolls an aborted transaction back, so a fault carries no store.  A public
  key is its 256-bit value.  Integers keep the widths of the source.

  The SDK and the programs reached by cross-program invocation are outside the repository.  They
  are the record \<open>sdk\<close>, an argument of every handler, with nothing assumed about them in the
  definitions.  Theorems name what they rely on: \<open>iter_law\<close> (the account iterator), \<open>owner_law\<close> (only
  the owner of an account changes its data), \<open>creation_law\<close> (the system program hands out zeroed
  data), \<open>token_frame_law\<close> (a token instruction changes only token accounts), \<open>clock_law\<close> (one clock
  value per transaction), \<open>no_deposit_at\<close> (address derivation does not give a deposit record the
  address of a pool) and \<open>no_self_call\<close> (the program is not handed its own account, without which it
  cannot invoke itself).  The theorems about records and custody add, as \<open>records_env\<close> and
  \<open>custody_env\<close>: derived addresses do not collide (\<open>address_law\<close>), only calls signed with a record's
  seeds give its address to the program (\<open>record_creation_law\<close>), the system program touches only the
  account it is told to (\<open>system_frame_law\<close>), tokens leave an account only under its authority's
  signature (\<open>signature_law\<close>), transfers move exactly their amount (\<open>token_program_law\<close>), and the
  wrapper takes at most a top-up's amount and pays at least a withdrawal's (\<open>wrapper_token_law\<close>).  For the
  LP mint, \<open>mint_env\<close> asks that tokens are minted only under the mint authority's signature, that minting and
  burning move the supply by exactly their amount, that a new mint is empty, and that the wrapper and the
  other token instructions leave the mint alone.  \<open>own_record\<close> says that no other user derives the address of
  a user's record, and \<open>system_service_law\<close> when the system program accepts its four instructions.  No law is
  asked of all seeds at once where there are more seeds than addresses.

  \<^bold>\<open>What the theorems show\<close>

  Every successful instruction makes the step of the pool machine that belongs to it, on the pool it names,
  and leaves every other pool alone; the machine implements the share ledger (lemma \<open>step_ledger\<close>).  Hence through any history a
  pool never pays out more than it took in, its identity never changes, its counters never fall,
  resolution closes it for good, and worth per share falls only when the admin of an insurance pool
  flushes it.  The deposit records of a pool add up to its LP supply, the LP mint never holds more than that,
  and the vault holds at least what all records could be redeemed for.  A depositor who stays out
  keeps an untouched record, whose claim others can only raise, and going in and out pays at most what was paid in.  Deposits, withdrawals, the
  fee crank and the ten administrative instructions have a definite outcome: each reason to refuse has its
  error, and a request with no such reason succeeds when the programs it calls accept.  Deposit,
  withdrawal, fee accrual, flush, return and configuration are characterised end to end: who may call
  them, what they demand, the calls they make to the token program and the wrapper with their exact arguments,
  and the exact records they leave.  The share arithmetic conserves value; the
  cooldown bookkeeping computes its documented formula; parsing, field offsets and wire formats are exact.  The
  u32 mirror agrees with production and all 43 harnesses hold; as a check of the model, the assertions of the 90 unit
  tests hold of it (lemma \<open>source_tests_pass\<close>).  One theorem records a weakness:
  small top-ups in one slot are not held back by the cooldown.

  The program has no loops and all recursion of the model is structural, so every definition is total and
  no fuel is used.

  \<^bold>\<open>Not modelled\<close>

  Logging (\<open>msg!\<close>) has no effect on accounts.  The behaviour of the token, system and wrapper programs
  is a parameter, known through the laws above; who holds which LP tokens is the token program's affair,
  only the supply of the mint is followed.  The runtime's own checks after an
  instruction (lamport balance, writable flags) are not part of the program.  The tests outside the
  source files, the module declarations of \<^verbatim>\<open>lib.rs\<close>, build files and documentation are not modelled.
\<close>

section \<open>The program refines the pool machine\<close>

text \<open>C6. Every instruction is its own step of the pool machine: when the program succeeds, on any accounts and
  any instruction bytes, then each pool account of the program either is as it was, or is the account the
  instruction names and has made exactly one step of \<open>pool_step\<close>, the one that belongs to the
  instruction the bytes encode.\<close>
theorem instruction_refines_machine:
  assumes "runtime_laws S pid" and "no_deposit_at S pid k" and "no_self_call pid accounts"
    and "process_instruction S pid accounts data w = Inr w'" and "holds_pool pid w k p"
  shows "\<exists>q. holds_pool pid w' k q \<and> (q = p \<or> ai_key (accounts ! 1) = k
    \<and> (\<exists>ev. unpack data = Inr (instruction_of ev) \<and> pool_step p ev q))"
  using process_h.refines [OF assms] by (auto simp: pool_moves_def)

lemma demo_config_process:
  "\<exists>w'. process_instruction demo_sdk demo_pid demo_admin_accounts (pack (UpdateConfig (Some 5) None))
     (demo_world (demo_pool m d s) [] demo_system 0) = Inr w'"
proof -
  have "\<exists>w'. process_update_config demo_sdk demo_pid demo_admin_accounts (Some 5) None
      (demo_world (demo_pool m d s) [] demo_system 0) = Inr w'"
    unfolding process_update_config_def demo_admin_accounts_def by (simp add: demo_eval)
  then show ?thesis
    using unpack_pack [of "UpdateConfig (Some 5) None" "[]"]
    by (simp add: process_instruction_def process_def dispatch_def)
qed

theorem instruction_refines_machine_witness:
  "\<exists>w' q. process_instruction demo_sdk demo_pid demo_admin_accounts (pack (UpdateConfig (Some 5) None))
      (demo_world (demo_pool 0 3000 1000) [] demo_system 0) = Inr w'
    \<and> holds_pool demo_pid w' 20 q
    \<and> (q = demo_pool 0 3000 1000 \<or> (\<exists>ev. UpdateConfig (Some 5) None = instruction_of ev
        \<and> pool_step (demo_pool 0 3000 1000) ev q))"
proof -
  obtain w' where run: "process_instruction demo_sdk demo_pid demo_admin_accounts
      (pack (UpdateConfig (Some 5) None)) (demo_world (demo_pool 0 3000 1000) [] demo_system 0) = Inr w'"
    using demo_config_process by blast
  show ?thesis
    using run instruction_refines_machine [OF demo_laws demo_no_deposit demo_self(2) run
        demo_holds [OF wf_demo_pool]] unpack_pack [of "UpdateConfig (Some 5) None" "[]"] by (auto simp del: pack.simps)
qed

section \<open>The life of a pool\<close>

text \<open>C24. \<open>InitPool\<close> creates a clean pool: it succeeds only for an account without data at the address
  derived from the slab, whose owner is the given wrapper program, and leaves there a fresh
  insurance pool, owned by the program, with zero totals and the admin, slab, mint, vault and
  wrapper it was given.\<close>
theorem init_pool_effect:
  assumes "runtime_laws S pid" and "creation_law S" and "no_self_call pid accounts"
    and "process_init_pool S pid accounts cooldown cap w = Inr w'"
  shows "ai_is_signer (accounts ! 0)
    \<and> ai_key (accounts ! 2) = fst (derive_pool_pda S pid (ai_key (accounts ! 1)))
    \<and> acc_data (accts w (ai_key (accounts ! 2))) = []
    \<and> acc_owner (accts w (ai_key (accounts ! 1))) = ai_key (accounts ! 7)
    \<and> (\<exists>q. holds_pool pid w' (ai_key (accounts ! 2)) q \<and> fresh_pool q \<and> pool_mode q = 0
        \<and> admin q = ai_key (accounts ! 0) \<and> slab q = ai_key (accounts ! 1)
        \<and> lp_mint q = ai_key (accounts ! 3) \<and> vault q = ai_key (accounts ! 4)
        \<and> percolator_program q = ai_key (accounts ! 7)
        \<and> cooldown_slots q = cooldown \<and> deposit_cap q = cap)"
  using assms
proof (rule init_pool_creates)
  fix admin_ai slab_ai pool_ai lp_mint_ai vault_ai vault_auth_ai collateral_mint_ai percolator_ai ::
    account_info and rest
  let ?q = "init_pool_fields (snd (derive_pool_pda S pid (ai_key slab_ai)))
    (snd (derive_vault_authority S pid (ai_key pool_ai))) (ai_key slab_ai) (ai_key admin_ai)
    (ai_key collateral_mint_ai) (ai_key lp_mint_ai) (ai_key vault_ai) (ai_key percolator_ai)
    cooldown cap zeroed_pool"
  assume acc: "accounts = admin_ai # slab_ai # pool_ai # lp_mint_ai # vault_ai # vault_auth_ai
      # collateral_mint_ai # percolator_ai # rest"
    and "ai_is_signer admin_ai" "ai_key pool_ai = fst (derive_pool_pda S pid (ai_key slab_ai))"
      "acc_data (accts w (ai_key pool_ai)) = []"
      "acc_owner (accts w (ai_key slab_ai)) = ai_key percolator_ai"
      "holds_pool pid w' (ai_key pool_ai) ?q"
  moreover have "fresh_pool ?q"
    using init_fields_fresh [OF refl] by blast
  moreover have "pool_mode ?q = 0" "admin ?q = ai_key admin_ai" "slab ?q = ai_key slab_ai"
    "lp_mint ?q = ai_key lp_mint_ai" "vault ?q = ai_key vault_ai"
    "percolator_program ?q = ai_key percolator_ai" "cooldown_slots ?q = cooldown" "deposit_cap ?q = cap"
    by (simp_all add: init_pool_fields_def set_discriminator_def zeroed_pool_def)
  ultimately show ?thesis
    by (simp add: acc) blast
qed

definition demo_empty :: world where
  "demo_empty = \<lparr>accts = (\<lambda>k. demo_account demo_system [])(12 := demo_account demo_wrapper []),
     mut_borrowed = []\<rparr>"

lemma demo_init_runs:
  "\<exists>w'. process_init_pool demo_sdk demo_pid demo_init_accounts 10 0 demo_empty = Inr w'"
  unfolding process_init_pool_def demo_init_accounts_def demo_empty_def
  by (simp add: demo_eval create_or_adopt_pda_def demo_alloc_def cpi_defs as_pool_def
      STAKE_POOL_SIZE_def)

theorem init_pool_effect_witness:
  "\<exists>w' q. process_init_pool demo_sdk demo_pid demo_init_accounts 10 0 demo_empty = Inr w'
    \<and> holds_pool demo_pid w' 20 q \<and> fresh_pool q \<and> admin q = 11 \<and> vault q = 30"
proof -
  obtain w' where run: "process_init_pool demo_sdk demo_pid demo_init_accounts 10 0 demo_empty = Inr w'"
    using demo_init_runs by blast
  have self: "no_self_call demo_pid demo_init_accounts"
    by (simp add: no_self_call_def demo_init_accounts_def demo_pid_def demo_wrapper_def demo_token_def
        demo_system_def)
  have keys: "ai_key (demo_init_accounts ! 2) = 20" "ai_key (demo_init_accounts ! 0) = 11"
    "ai_key (demo_init_accounts ! 4) = 30"
    by (simp_all add: demo_init_accounts_def)
  show ?thesis
    using run init_pool_effect [OF demo_laws demo_creation self run] unfolding keys by blast
qed

text \<open>C7. A pool is solvent all its life: from its initialisation through any sequence of instructions of
  the program and of anything other programs do, its account holds a reachable state of the
  machine, what it has paid out and flushed never exceeds what it has taken in, and a trading
  pool has worth exactly when it has shares.\<close>
theorem pool_life_solvent:
  assumes "runtime_laws S pid" and "no_deposit_at S pid k" and "holds_pool pid w k p"
    and "fresh_pool p" and "chain S pid w w'"
  shows "\<exists>q. holds_pool pid w' k q \<and> reachable q \<and> assets_out q \<le> assets_in q
    \<and> (pool_mode q = 1 \<longrightarrow> total_flushed q = 0 \<and> total_returned q = 0
        \<and> (shares q = 0 \<longleftrightarrow> worth q = 0))"
proof -
  obtain q where "holds_pool pid w' k q" and "reachable q"
    using chain_invariant [OF assms(1,2,5,3), where I = reachable] assms(4)
    by (blast intro: reachable.init reachable.step)
  then show ?thesis
    using reachable_trading_ok [of q] by (auto simp: solvent_def trading_ok_def)
qed

lemma demo_fresh: "m \<le> 1 \<Longrightarrow> fresh_pool (demo_pool m 0 0)"
  by (simp add: fresh_pool_def)

lemma demo_chain:
  "\<exists>w'. chain demo_sdk demo_pid (demo_world (demo_pool m d s) [] demo_system 0) w'
     \<and> process_instruction demo_sdk demo_pid demo_admin_accounts (pack (UpdateConfig (Some 5) None))
         (demo_world (demo_pool m d s) [] demo_system 0) = Inr w'"
  using demo_config_process [of m d s] demo_self(2)
  by (blast intro: chain.here chain.next_step chain_step.own)

theorem pool_life_solvent_witness:
  "\<exists>w' q. chain demo_sdk demo_pid (demo_world (demo_pool 1 0 0) [] demo_system 0) w'
    \<and> holds_pool demo_pid w' 20 q \<and> reachable q \<and> assets_out q \<le> assets_in q"
proof -
  obtain w' where run: "chain demo_sdk demo_pid (demo_world (demo_pool 1 0 0) [] demo_system 0) w'"
    using demo_chain by blast
  have "no_deposit_at demo_sdk demo_pid 20" and "fresh_pool (demo_pool 1 0 0)"
    by (simp_all add: demo_no_deposit demo_fresh)
  then show ?thesis
    using run pool_life_solvent [OF demo_laws _ demo_holds [OF wf_demo_pool] _ run] by blast
qed

text \<open>C18. A pool account keeps its type: from its initialisation through any sequence of instructions of
  the program and of anything other programs do, it belongs to the program, has a full record with
  the pool discriminator, is initialised and handed over, has one of the two modes, and while its
  high-water mark is enabled the floor is between 1 and 10000 basis points.\<close>
theorem pool_account_typed:
  assumes "runtime_laws S pid" and "no_deposit_at S pid k" and "holds_pool pid w k p"
    and "fresh_pool p" and "chain S pid w w'"
  shows "\<exists>q. acc_owner (accts w' k) = pid \<and> as_pool (acc_data (accts w' k)) = Inr q
    \<and> is_initialized q = 1 \<and> validate_discriminator q \<and> admin_transferred q = 1 \<and> pool_mode q \<le> 1
    \<and> (hwm_enabled q \<longrightarrow> hwm_floor_bps q \<noteq> 0 \<and> hwm_floor_bps q \<le> 10000)"
proof -
  obtain q where "holds_pool pid w' k q" and "pool_typed q"
    using chain_invariant [OF assms(1,2,5,3), where I = pool_typed] fresh_typed [OF assms(4)] step_typed by blast
  then show ?thesis
    by (auto simp: holds_pool_def pool_account_def pool_at_def pool_typed_def as_pool_def)
qed

theorem pool_account_typed_witness:
  "\<exists>w' q. chain demo_sdk demo_pid (demo_world (demo_pool 1 0 0) [] demo_system 0) w'
    \<and> as_pool (acc_data (accts w' 20)) = Inr q \<and> validate_discriminator q \<and> pool_mode q \<le> 1"
proof -
  obtain w' where run: "chain demo_sdk demo_pid (demo_world (demo_pool 1 0 0) [] demo_system 0) w'"
    using demo_chain by blast
  have "no_deposit_at demo_sdk demo_pid 20" and "fresh_pool (demo_pool 1 0 0)"
    by (simp_all add: demo_no_deposit demo_fresh)
  then show ?thesis
    using run pool_account_typed [OF demo_laws _ demo_holds [OF wf_demo_pool] _ run] by blast
qed



text \<open>C14. Only the admin's flush lowers the share price: whatever instruction anybody sends, worth per share of a
  pool with shares is afterwards at least what it was before, unless the instruction is a
  \<open>FlushToInsurance\<close> of that insurance pool signed by its admin; then the shares stay and the worth falls by exactly the
  flushed amount.  A trading pool's price never falls.\<close>
theorem price_falls_only_by_flush:
  assumes "runtime_laws S pid" and "no_deposit_at S pid k" and "no_self_call pid accounts"
    and "process_instruction S pid accounts data w = Inr w'" and "holds_pool pid w k p"
    and "solvent p" and "shares p \<noteq> 0"
  shows "\<exists>q. holds_pool pid w' k q \<and> (worth p * shares q \<le> worth q * shares p
    \<or> (\<exists>a. unpack data = Inr (FlushToInsurance a) \<and> ai_key (accounts ! 1) = k \<and> pool_mode p = 0
        \<and> ai_is_signer (accounts ! 0) \<and> ai_key (accounts ! 0) = admin p
        \<and> shares q = shares p \<and> worth p = worth q + unat a))"
proof -
  obtain q where q: "holds_pool pid w' k q" and price: "worth p * shares q \<le> worth q * shares p
      \<or> (\<exists>a. unpack data = Inr (FlushToInsurance a) \<and> ai_key (accounts ! 1) = k \<and> pool_step p (FlushEv a) q)"
    using instruction_price [OF assms] by blast
  have flush: "pool_mode p = 0 \<and> ai_is_signer (accounts ! 0) \<and> ai_key (accounts ! 0) = admin p
      \<and> shares q = shares p \<and> worth p = worth q + unat a"
    if "unpack data = Inr (FlushToInsurance a)" "ai_key (accounts ! 1) = k" "pool_step p (FlushEv a) q" for a
  proof -
    have "process_flush_to_insurance S pid accounts a w = Inr w'"
      using assms(4) that(1) by (simp add: process_instruction_def process_def dispatch_def)
    then have "ai_is_signer (accounts ! 0) \<and> ai_key (accounts ! 0) = admin p"
      by (rule flush_run [OF runtime_lawsD(1) [OF assms(1)]]) (use that(2) holds_pool_at [OF assms(5)] in auto)
    then show ?thesis
      using step_ledger [OF that(3) assms(6)] that(3) by (auto simp: ledger_def elim: flush_stepE)
  qed
  show ?thesis
    using q price flush by blast
qed

theorem price_falls_only_by_flush_witness:
  "\<exists>w' q. process_instruction demo_sdk demo_pid demo_admin_accounts (pack (UpdateConfig (Some 5) None))
      (demo_world (demo_pool 0 3000 1000) [] demo_system 0) = Inr w'
    \<and> holds_pool demo_pid w' 20 q \<and> 3000 * shares q \<le> worth q * 1000"
proof -
  let ?p = "demo_pool 0 3000 1000"
  obtain w' where run: "process_instruction demo_sdk demo_pid demo_admin_accounts
      (pack (UpdateConfig (Some 5) None)) (demo_world ?p [] demo_system 0) = Inr w'"
    using demo_config_process by blast
  have pre: "no_deposit_at demo_sdk demo_pid 20" "shares ?p \<noteq> 0"
    by (simp_all add: demo_no_deposit demo_pool_worth)
  show ?thesis
    using run price_falls_only_by_flush [OF demo_laws pre(1) demo_self(2) run demo_holds [OF wf_demo_pool]
        demo_pool_worth(4) pre(2)] unpack_pack [of "UpdateConfig (Some 5) None" "[]"]
    unfolding demo_pool_worth by (auto simp del: pack.simps)
qed

text \<open>A trading pool can always be started again: whenever no shares are outstanding in a reachable
  trading pool, the next deposit is priced one to one, whatever has landed in its vault.\<close>
lemma trading_pool_restarts:
  assumes "reachable p" and "pool_mode p = 1" and "total_lp_supply p = 0"
  shows "pool_calc_lp_for_deposit p a = Some a"
proof -
  have "worth p = 0"
    using reachable_trading_ok [OF assms(1)] assms(2,3) by (simp add: trading_ok_def shares_def)
  then have "unwrap_or (total_pool_value p) 0 = 0"
    using value_worth [of p] by (cases "total_pool_value p") (auto simp: unwrap_or_def unat_eq_iff)
  with assms(3) show ?thesis
    by (simp add: pool_calc_lp_for_deposit_def lp_math.mint_first)
qed

lemma trading_pool_restarts_example: "pool_calc_lp_for_deposit (demo_pool 1 0 0) 77 = Some 77"
  using trading_pool_restarts [of "demo_pool 1 0 0" 77] demo_fresh [of 1]
  by (simp add: reachable.init)

text \<open>C25. Resolution closes a pool for good: once \<open>AdminResolveMarket\<close> has succeeded on a pool, no deposit
  into it succeeds ever again, whatever happens in between.\<close>
theorem resolved_refuses_deposits:
  assumes "runtime_laws S pid" and "no_deposit_at S pid k" and "no_self_call pid accounts"
    and "process_admin_resolve_market S pid accounts w = Inr w1" and "k = ai_key (accounts ! 1)"
    and "holds_pool pid w k p" and "chain S pid w1 w2" and "ai_key (accounts' ! 1) = k"
  shows "process_deposit S pid accounts' amount w2 \<noteq> Inr w3"
proof
  assume dep: "process_deposit S pid accounts' amount w2 = Inr w3"
  obtain q where q: "holds_pool pid w1 k q" "is_resolved q"
    using resolve_marks [OF assms(1,3-6)] by blast
  then obtain r where r: "holds_pool pid w2 k r" "is_resolved r"
    using chain_invariant [OF assms(1,2,7) q(1), where I = is_resolved] step_counters
    by (auto simp: counters_le_def)
  from runtime_lawsD(1) [OF assms(1)] dep show False
    by (rule deposit_run) (use r assms(8) holds_pool_at in auto)
qed

definition demo_resolve_accounts :: "account_info list" where
  "demo_resolve_accounts = [demo_info 11 True, demo_info 20 False, demo_info 12 False,
     demo_info demo_wrapper False]"

lemma demo_resolve_runs:
  "\<exists>w'. process_admin_resolve_market demo_sdk demo_pid demo_resolve_accounts
     (demo_world (demo_pool 0 3000 1000) [] demo_system 0) = Inr w'"
  unfolding process_admin_resolve_market_def demo_resolve_accounts_def
  by (simp add: demo_eval validate_admin_cpi_def cpi_defs)

theorem resolved_refuses_deposits_witness:
  "\<exists>w1. process_admin_resolve_market demo_sdk demo_pid demo_resolve_accounts
      (demo_world (demo_pool 0 3000 1000) [] demo_system 0) = Inr w1
    \<and> (\<nexists>w3. process_deposit demo_sdk demo_pid demo_deposit_accounts 500 w1 = Inr w3)"
proof -
  obtain w1 where run: "process_admin_resolve_market demo_sdk demo_pid demo_resolve_accounts
      (demo_world (demo_pool 0 3000 1000) [] demo_system 0) = Inr w1"
    using demo_resolve_runs by blast
  have pre: "no_deposit_at demo_sdk demo_pid 20" "no_self_call demo_pid demo_resolve_accounts"
    "20 = ai_key (demo_resolve_accounts ! 1)" "ai_key (demo_deposit_accounts ! 1) = 20"
    by (simp_all add: demo_no_deposit no_self_call_def demo_resolve_accounts_def
        demo_deposit_accounts_def demo_pid_def demo_wrapper_def)
  show ?thesis
    using run resolved_refuses_deposits [OF demo_laws pre(1,2) run pre(3)
        demo_holds [OF wf_demo_pool] chain.here pre(4)] by blast
qed

section \<open>Account creation\<close>

text \<open>Pre-funding an address does not help a squatter: whether or not the address already holds
  lamports, when the creation of a record succeeds the account holds zeroes of the requested
  size and belongs to the program.\<close>
lemma created_account_is_clean:
  assumes "creation_law S" and "n < 2 ^ 64"
    and "create_or_adopt_pda S w target payer sys own n sd = Inr w'"
  shows "acc_data (accts w' (ai_key target)) = replicate n 0
    \<and> acc_owner (accts w' (ai_key target)) = own"
  using assms by (rule create_or_adopt_pda_zeroed)

definition demo_squatted :: world where
  "demo_squatted = \<lparr>accts = (\<lambda>k. \<lparr>acc_lamports = 1, acc_owner = demo_system, acc_data = []\<rparr>),
     mut_borrowed = []\<rparr>"

lemma created_account_is_clean_example:
  "\<exists>w'. create_or_adopt_pda demo_sdk demo_squatted (demo_info 22 False) (demo_info 10 True)
      (demo_info demo_system False) demo_pid 152 [] = Inr w'
    \<and> acc_data (accts w' 22) = replicate 152 0 \<and> acc_owner (accts w' 22) = demo_pid"
proof -
  obtain w' where run: "create_or_adopt_pda demo_sdk demo_squatted (demo_info 22 False)
      (demo_info 10 True) (demo_info demo_system False) demo_pid 152 [] = Inr w'"
    by (simp add: create_or_adopt_pda_def demo_squatted_def info_lamports_def info_account_def
        demo_call_def demo_alloc_def demo_assign_def Let_def)
  show ?thesis
    using run created_account_is_clean [OF demo_creation _ run] by simp
qed

end
